(* ===== verification/Prelude.thy ===== *)
theory Prelude
  imports Main "HOL-Library.Sublist" "HOL-Library.Char_ord" "HOL-Library.List_Lexorder"
begin

text \<open>
  Shared vocabulary of the development: the collections of rewrite rules the component
  proofs use, Go strings (byte sequences) with the functions of package \<open>strings\<close> and
  \<open>strconv\<close> the operator calls, Go maps, Go errors, and the generic lemmas on them.
\<close>

named_theorems go_simps \<open>evaluation rules for the Go library functions\<close>
named_theorems cluster_simps \<open>unfolding rules for the predicates of the cluster type\<close>

section \<open>Go strings\<close>

text \<open>A Go string is a byte sequence; \<^typ>\<open>char\<close> has exactly the 256 byte values.\<close>

definition HasPrefix :: "string \<Rightarrow> string \<Rightarrow> bool" where
  "HasPrefix s p = prefix p s"

definition HasSuffix :: "string \<Rightarrow> string \<Rightarrow> bool" where
  "HasSuffix s p = suffix p s"

fun Contains :: "string \<Rightarrow> string \<Rightarrow> bool" where
  "Contains [] sub = (sub = [])"
| "Contains (c # s) sub = (HasPrefix (c # s) sub \<or> Contains s sub)"

definition TrimSuffix :: "string \<Rightarrow> string \<Rightarrow> string" where
  "TrimSuffix s suf = (if HasSuffix s suf then take (length s - length suf) s else s)"

definition TrimPrefix :: "string \<Rightarrow> string \<Rightarrow> string" where
  "TrimPrefix s p = (if HasPrefix s p then drop (length p) s else s)"

fun Join :: "string list \<Rightarrow> string \<Rightarrow> string" where
  "Join [] sep = []"
| "Join [x] sep = x"
| "Join (x # y # xs) sep = x @ sep @ Join (y # xs) sep"

text \<open>\<open>strings.Split(s, sep)\<close> for a separator of one byte.\<close>

fun Split1 :: "string \<Rightarrow> char \<Rightarrow> string list" where
  "Split1 [] sep = [[]]"
| "Split1 (c # s) sep =
     (if c = sep then [] # Split1 s sep
      else case Split1 s sep of
             [] \<Rightarrow> [[c]]
           | w # ws \<Rightarrow> (c # w) # ws)"

text \<open>
  \<open>strings.TrimSpace\<close> removes the code points with the Unicode property White Space; these
  are their UTF-8 encodings.
\<close>

definition space_encodings :: "string list" where
  "space_encodings =
     [[CHR 0x09], [CHR 0x0A], [CHR 0x0B], [CHR 0x0C], [CHR 0x0D], [CHR 0x20],
      [CHR 0xC2, CHR 0x85], [CHR 0xC2, CHR 0xA0], [CHR 0xE1, CHR 0x9A, CHR 0x80]] @
     map (\<lambda>c. [CHR 0xE2, CHR 0x80, c])
       [CHR 0x80, CHR 0x81, CHR 0x82, CHR 0x83, CHR 0x84, CHR 0x85, CHR 0x86, CHR 0x87,
        CHR 0x88, CHR 0x89, CHR 0x8A, CHR 0xA8, CHR 0xA9, CHR 0xAF] @
     [[CHR 0xE2, CHR 0x81, CHR 0x9F], [CHR 0xE3, CHR 0x80, CHR 0x80]]"

definition leading_space :: "string list \<Rightarrow> string \<Rightarrow> nat option" where
  "leading_space encs s = map_option length (List.find (\<lambda>e. prefix e s) encs)"

fun trim_left :: "string list \<Rightarrow> nat \<Rightarrow> string \<Rightarrow> string" where
  "trim_left encs 0 s = s"
| "trim_left encs (Suc n) s =
     (case leading_space encs s of None \<Rightarrow> s | Some k \<Rightarrow> trim_left encs n (drop k s))"

definition TrimSpace :: "string \<Rightarrow> string" where
  "TrimSpace s =
     (let l = trim_left space_encodings (length s) s
      in rev (trim_left (map rev space_encodings) (length l) (rev l)))"

section \<open>Decimal numbers\<close>

definition digit :: "nat \<Rightarrow> char" where
  "digit d = char_of (48 + d)"

definition digit_val :: "char \<Rightarrow> nat option" where
  "digit_val c = (let n = of_char c :: nat in if 48 \<le> n \<and> n \<le> 57 then Some (n - 48) else None)"

fun show_nat :: "nat \<Rightarrow> string" where
  "show_nat n = (if n < 10 then [digit n] else show_nat (n div 10) @ [digit (n mod 10)])"

declare show_nat.simps [simp del]

text \<open>\<open>strconv.Itoa\<close>, \<open>fmt.Sprint\<close> and the verb \<open>%d\<close>.\<close>

definition Itoa :: "int \<Rightarrow> string" where
  "Itoa i = (if i < 0 then CHR ''-'' # show_nat (nat (- i)) else show_nat (nat i))"

fun read_digits :: "nat \<Rightarrow> string \<Rightarrow> nat option" where
  "read_digits acc [] = Some acc"
| "read_digits acc (c # s) =
     (case digit_val c of None \<Rightarrow> None | Some d \<Rightarrow> read_digits (10 * acc + d) s)"

text \<open>
  \<open>strconv.ParseInt(s, 10, bits)\<close>: an optional sign, at least one decimal digit, and the
  value must fit a signed integer of that many bits; otherwise it returns an error (\<open>None\<close>).
\<close>

definition ParseInt10 :: "nat \<Rightarrow> string \<Rightarrow> int option" where
  "ParseInt10 bits s =
     (let (neg, ds) =
        (case s of
           [] \<Rightarrow> (False, [])
         | c # r \<Rightarrow> if c = CHR ''-'' then (True, r)
                    else if c = CHR ''+'' then (False, r) else (False, s))
      in if ds = [] then None
         else case read_digits 0 ds of
                None \<Rightarrow> None
              | Some n \<Rightarrow>
                  let v = (if neg then - int n else int n)
                  in if - (2 ^ (bits - 1)) \<le> v \<and> v < 2 ^ (bits - 1) then Some v else None)"

section \<open>Go maps\<close>

text \<open>
  A \<open>map[string]string\<close> is nil or a finite function. Reading a nil map is reading an empty
  one; the code tests for nil in some places, so the difference is kept.
\<close>

type_synonym 'v gomap = "(string \<rightharpoonup> 'v) option"

text \<open>The two-value read \<open>v, ok := m[k]\<close> and the one-value read \<open>m[k]\<close> of a string map.\<close>

definition mget :: "'v gomap \<Rightarrow> string \<Rightarrow> 'v option" where
  "mget m k = (case m of None \<Rightarrow> None | Some f \<Rightarrow> f k)"

definition mval :: "string gomap \<Rightarrow> string \<Rightarrow> string" where
  "mval m k = (case mget m k of None \<Rightarrow> [] | Some v \<Rightarrow> v)"

section \<open>Go errors\<close>

text \<open>
  Errors the operator's control flow can tell apart: a status error of the API server with
  its reason, a package-level sentinel, any other error of a library or of \<open>errors.New\<close>,
  an error wrapped with the verb \<open>%w\<close>, and a run-time panic (a nil dereference, an index
  out of range), which no caller of the operator handles.
\<close>

datatype status_reason = NotFound | Conflict | BadRequest | Invalid | OtherReason

datatype goerror =
    StatusError status_reason string
  | Sentinel string
  | PlainError string
  | WrapError string goerror
  | Panic string

fun error_cause :: "goerror \<Rightarrow> goerror" where
  "error_cause (WrapError m e) = error_cause e"
| "error_cause e = e"

definition IsNotFound :: "goerror \<Rightarrow> bool" where
  "IsNotFound e = (case error_cause e of StatusError r m \<Rightarrow> r = NotFound | _ \<Rightarrow> False)"

definition IsConflict :: "goerror \<Rightarrow> bool" where
  "IsConflict e = (case error_cause e of StatusError r m \<Rightarrow> r = Conflict | _ \<Rightarrow> False)"

text \<open>\<open>errors.Is(err, target)\<close> for a package-level sentinel as target.\<close>

definition errors_Is :: "goerror \<Rightarrow> goerror \<Rightarrow> bool" where
  "errors_Is e target = (error_cause e = target)"

text \<open>\<open>client.IgnoreNotFound(err)\<close>, on an error that may be nil.\<close>

definition IgnoreNotFound :: "goerror option \<Rightarrow> goerror option" where
  "IgnoreNotFound e = (case e of None \<Rightarrow> None | Some x \<Rightarrow> if IsNotFound x then None else Some x)"

fun Error :: "goerror \<Rightarrow> string" where
  "Error (StatusError r m) = m"
| "Error (Sentinel m) = m"
| "Error (PlainError m) = m"
| "Error (WrapError m e) = m @ '': '' @ Error e"
| "Error (Panic m) = m"

text \<open>Reading through a pointer that may be nil.\<close>

definition deref :: "'a option \<Rightarrow> goerror + 'a" where
  "deref p = (case p of None \<Rightarrow> Inl (Panic ''nil dereference'') | Some x \<Rightarrow> Inr x)"

text \<open>\<open>ptr.Deref(p, def)\<close>.\<close>

definition ptr_Deref :: "'a option \<Rightarrow> 'a \<Rightarrow> 'a" where
  "ptr_Deref p d = (case p of None \<Rightarrow> d | Some x \<Rightarrow> x)"

text \<open>Sequencing of calls that return a value and an error.\<close>

definition bindE :: "'e + 'a \<Rightarrow> ('a \<Rightarrow> 'e + 'b) \<Rightarrow> 'e + 'b" where
  "bindE m f = (case m of Inl e \<Rightarrow> Inl e | Inr x \<Rightarrow> f x)"

text \<open>A loop over a list whose body may fail, threading a state.\<close>

fun foldE :: "('a \<Rightarrow> 's \<Rightarrow> 'e + 's) \<Rightarrow> 'a list \<Rightarrow> 's \<Rightarrow> 'e + 's" where
  "foldE f [] s = Inr s"
| "foldE f (x # xs) s = bindE (f x s) (foldE f xs)"

text \<open>A loop that computes a list of results, returning the first error.\<close>

fun mapE :: "('a \<Rightarrow> 'e + 'b) \<Rightarrow> 'a list \<Rightarrow> 'e + 'b list" where
  "mapE f [] = Inr []"
| "mapE f (x # xs) = bindE (f x) (\<lambda>y. bindE (mapE f xs) (\<lambda>ys. Inr (y # ys)))"

section \<open>Lemmas\<close>

lemma Contains_iff_sublist: "Contains s sub \<longleftrightarrow> sublist sub s"
proof (induction s)
  case Nil
  show ?case by simp
next
  case (Cons c s)
  then show ?case by (simp add: HasPrefix_def sublist_Cons_right)
qed

lemma TrimSuffix_append [go_simps]: "TrimSuffix (s @ suf) suf = s"
  by (simp add: TrimSuffix_def HasSuffix_def suffix_def)

lemma Split1_ne: "Split1 s sep \<noteq> []"
  by (induction s) (auto split: list.splits)

lemma Split1_no_sep: "w \<in> set (Split1 s sep) \<Longrightarrow> sep \<notin> set w"
  by (induction s arbitrary: w) (auto split: list.splits if_splits)

lemma Join_Split1: "Join (Split1 s sep) [sep] = s"
proof (induction s)
  case Nil
  show ?case by simp
next
  case (Cons c s)
  obtain w ws where w: "Split1 s sep = w # ws"
    using Split1_ne by (cases "Split1 s sep") auto
  with Cons show ?case by (cases ws) auto
qed

lemma digit_val_digit: "d < 10 \<Longrightarrow> digit_val (digit d) = Some d"
  by (simp add: digit_val_def digit_def)

lemma show_nat_nonempty: "show_nat n \<noteq> []"
  by (subst show_nat.simps) simp

lemma digits_show_nat: "c \<in> set (show_nat n) \<Longrightarrow> \<exists>d<10. c = digit d"
proof (induction n rule: show_nat.induct)
  case (1 n)
  show ?case
  proof (cases "n < 10")
    case True
    with "1.prems" show ?thesis by (subst (asm) show_nat.simps) auto
  next
    case False
    with "1.prems" consider "c \<in> set (show_nat (n div 10))" | "c = digit (n mod 10)"
      by (subst (asm) show_nat.simps) auto
    then show ?thesis
      using "1.IH" [OF False] by cases (auto intro: exI [of _ "n mod 10"])
  qed
qed

lemma read_digits_append:
  "read_digits acc (s @ t) = (case read_digits acc s of None \<Rightarrow> None | Some n \<Rightarrow> read_digits n t)"
  by (induction s arbitrary: acc) (auto split: option.splits)

lemma read_digits_show_nat: "read_digits 0 (show_nat n) = Some n"
proof (induction n rule: show_nat.induct)
  case (1 n)
  show ?case
  proof (cases "n < 10")
    case True
    then show ?thesis by (subst show_nat.simps) (simp add: digit_val_digit)
  next
    case False
    with "1.IH" show ?thesis
      by (subst show_nat.simps) (simp add: read_digits_append digit_val_digit)
  qed
qed

lemma digit_no_sign: "d < 10 \<Longrightarrow> digit d \<noteq> CHR ''-'' \<and> digit d \<noteq> CHR ''+''"
  by (auto simp: digit_def dest: arg_cong [where f = "of_char :: char \<Rightarrow> nat"])

lemma show_nat_hd:
  obtains c s where "show_nat n = c # s" "c \<noteq> CHR ''-''" "c \<noteq> CHR ''+''"
proof -
  obtain c s where cs: "show_nat n = c # s"
    using show_nat_nonempty by (cases "show_nat n") auto
  then have "c \<in> set (show_nat n)" by simp
  then obtain d where "d < 10" "c = digit d" using digits_show_nat by blast
  with cs that digit_no_sign show thesis by blast
qed

text \<open>Printing an integer and parsing it again gives it back, if it fits the width.\<close>

lemma ParseInt10_Itoa:
  assumes "- (2 ^ (bits - 1)) \<le> i" and "i < 2 ^ (bits - 1)"
  shows "ParseInt10 bits (Itoa i) = Some i"
proof (cases "i < 0")
  case True
  with assms show ?thesis
    by (simp add: ParseInt10_def Itoa_def show_nat_nonempty read_digits_show_nat)
next
  case False
  obtain c s where cs: "show_nat (nat i) = c # s" "c \<noteq> CHR ''-''" "c \<noteq> CHR ''+''"
    by (rule show_nat_hd)
  then have "read_digits 0 (c # s) = Some (nat i)"
    using read_digits_show_nat [of "nat i"] by simp
  with False assms cs show ?thesis
    by (simp add: ParseInt10_def Itoa_def)
qed

lemma show_nat_inj: "show_nat m = show_nat n \<Longrightarrow> m = n"
  by (metis option.inject read_digits_show_nat)

lemma mget_Some [go_simps]: "mget (Some f) k = f k"
  by (simp add: mget_def)

lemma mget_None [go_simps]: "mget None k = None"
  by (simp add: mget_def)

lemma error_cause_idem: "error_cause (error_cause e) = error_cause e"
  by (induction e) auto

lemma IsNotFound_Wrap [go_simps]: "IsNotFound (WrapError m e) = IsNotFound e"
  by (simp add: IsNotFound_def)

lemma IsConflict_Wrap [go_simps]: "IsConflict (WrapError m e) = IsConflict e"
  by (simp add: IsConflict_def)

lemma NotFound_not_Conflict: "IsNotFound e \<Longrightarrow> \<not> IsConflict e"
  by (auto simp: IsNotFound_def IsConflict_def split: goerror.splits)

lemma IgnoreNotFound_None_iff:
  "IgnoreNotFound e = None \<longleftrightarrow> (\<forall>x. e = Some x \<longrightarrow> IsNotFound x)"
  by (auto simp: IgnoreNotFound_def split: option.splits)

lemma bindE_simps [simp]: "bindE (Inl e) f = Inl e" "bindE (Inr x) f = f x"
  by (simp_all add: bindE_def)

lemma deref_simps [simp]: "deref (Some x) = Inr x" "deref None = Inl (Panic ''nil dereference'')"
  by (simp_all add: deref_def)

lemma deref_Inr_iff: "deref p = Inr x \<longleftrightarrow> p = Some x"
  by (cases p) simp_all

lemma ptr_Deref_simps [simp]: "ptr_Deref (Some x) d = x" "ptr_Deref None d = d"
  by (simp_all add: ptr_Deref_def)

lemma bindE_Inr_iff: "bindE m f = Inr y \<longleftrightarrow> (\<exists>x. m = Inr x \<and> f x = Inr y)"
  by (cases m) auto

lemma foldE_append: "foldE f (xs @ ys) s = bindE (foldE f xs s) (foldE f ys)"
  by (induction xs arbitrary: s) (auto simp: bindE_def split: sum.split)

text \<open>An invariant of the body is an invariant of the loop.\<close>

lemma foldE_inv:
  assumes "foldE f xs s = Inr s'" and "P s"
    and "\<And>x s s'. x \<in> set xs \<Longrightarrow> P s \<Longrightarrow> f x s = Inr s' \<Longrightarrow> P s'"
  shows "P s'"
  using assms by (induction xs arbitrary: s) (auto simp: bindE_Inr_iff)

text \<open>A loop over the indices below \<open>n\<close> that cannot fail while its invariant holds.\<close>

lemma foldE_upt:
  assumes "\<And>i s. i < n \<Longrightarrow> Inv i s \<Longrightarrow> \<exists>s'. f i s = Inr s' \<and> Inv (Suc i) s'" and "Inv 0 s"
  shows "\<exists>s'. foldE f [0..<n] s = Inr s' \<and> Inv n s'"
  using assms(1)
proof (induction n)
  case 0
  with assms(2) show ?case by simp
next
  case (Suc n)
  then obtain s' where s': "foldE f [0..<n] s = Inr s'" "Inv n s'" by (meson less_SucI)
  obtain s'' where "f n s' = Inr s''" "Inv (Suc n) s''"
    using Suc.prems [OF lessI s'(2)] by blast
  with s' show ?case by (simp add: foldE_append)
qed

lemma mapE_Inr_iff:
  "mapE f xs = Inr ys \<longleftrightarrow> length xs = length ys \<and> (\<forall>i < length xs. f (xs ! i) = Inr (ys ! i))"
proof (induction xs arbitrary: ys)
  case (Cons x xs)
  show ?case
  proof (cases ys)
    case Nil
    then show ?thesis by (auto simp: bindE_Inr_iff)
  next
    case (Cons y zs)
    have "mapE f (x # xs) = Inr (y # zs) \<longleftrightarrow> f x = Inr y \<and> mapE f xs = Inr zs"
      by (auto simp: bindE_Inr_iff)
    then show ?thesis
      by (auto simp: Cons Cons.IH less_Suc_eq_0_disj)
  qed
qed auto

end
