(* ===== verification/K8s_Types.thy ===== *)
theory K8s_Types
  imports Prelude
begin

text \<open>
  The Kubernetes objects the operator reads and writes, as records with the fields its code
  touches. The types belong to the Kubernetes API packages; a pointer field is an option, a
  slice is a list (an option of a list where the operator tests it for nil), and everything
  the operator only passes through is kept in a field of type \<open>opaque\<close>.
\<close>

datatype opaque = Opaque string

text \<open>
  A quantity is an exact number of \<open>10\<^sup>-\<^sup>9\<close> units, the finest scale the API has. \<open>Cmp\<close> compares
  values, and \<open>Value\<close> rounds up to the next whole unit.
\<close>

type_synonym quantity = int

definition quantity_Cmp :: "quantity \<Rightarrow> quantity \<Rightarrow> int" where
  "quantity_Cmp a b = (if a < b then - 1 else if a = b then 0 else 1)"

definition quantity_IsZero :: "quantity \<Rightarrow> bool" where
  "quantity_IsZero q = (q = 0)"

definition quantity_Value :: "quantity \<Rightarrow> int" where
  "quantity_Value q = - ((- q) div 1000000000)"

text \<open>Reading a resource list: a missing entry is the zero quantity.\<close>

definition rget :: "quantity gomap \<Rightarrow> string \<Rightarrow> quantity" where
  "rget m k = (case mget m k of None \<Rightarrow> 0 | Some q \<Rightarrow> q)"

record ownerReference =
  or_APIVersion :: string
  or_Kind :: string
  or_Name :: string
  or_Controller :: bool
  or_BlockOwnerDeletion :: "bool option"

record objectMeta =
  Name :: string
  Namespace :: string
  Labels :: "string gomap"
  Annotations :: "string gomap"
  OwnerReferences :: "ownerReference list"
  Finalizers :: "string list"
  DeletionTimestamp :: "int option"
  Generation :: int

definition emptyMeta :: objectMeta where
  "emptyMeta = \<lparr>Name = [], Namespace = [], Labels = None, Annotations = None,
     OwnerReferences = [], Finalizers = [], DeletionTimestamp = None, Generation = 0\<rparr>"

abbreviation namedMeta :: "string \<Rightarrow> string \<Rightarrow> objectMeta" where
  "namedMeta n ns \<equiv> emptyMeta\<lparr>Name := n, Namespace := ns\<rparr>"

record resourceRequirements =
  Limits :: "quantity gomap"
  Requests :: "quantity gomap"

record capabilities =
  cap_Add :: "string list option"
  cap_Drop :: "string list"

record securityContext =
  sc_Privileged :: "bool option"
  sc_AllowPrivilegeEscalation :: "bool option"
  sc_RunAsUser :: "int option"
  sc_RunAsNonRoot :: "bool option"
  sc_ReadOnlyRootFilesystem :: "bool option"
  sc_Capabilities :: "capabilities option"
  sc_SeccompProfile :: "string option"
  sc_Other :: "opaque option"

definition emptySecurityContext :: securityContext where
  "emptySecurityContext = \<lparr>sc_Privileged = None, sc_AllowPrivilegeEscalation = None,
     sc_RunAsUser = None, sc_RunAsNonRoot = None, sc_ReadOnlyRootFilesystem = None,
     sc_Capabilities = None, sc_SeccompProfile = None, sc_Other = None\<rparr>"

record podSecurityContext =
  psc_FSGroup :: "int option"
  psc_RunAsUser :: "int option"
  psc_RunAsNonRoot :: "bool option"
  psc_SeccompProfile :: "string option"
  psc_Other :: "opaque option"

definition emptyPodSecurityContext :: podSecurityContext where
  "emptyPodSecurityContext = \<lparr>psc_FSGroup = None, psc_RunAsUser = None,
     psc_RunAsNonRoot = None, psc_SeccompProfile = None, psc_Other = None\<rparr>"

record envVar =
  env_Name :: string
  env_Value :: string
  env_FieldRef :: "(string \<times> string) option" \<comment> \<open>field path and API version\<close>

record volumeMount =
  vm_Name :: string
  vm_MountPath :: string
  vm_SubPath :: string
  vm_ReadOnly :: bool

record containerPort =
  cp_Name :: string
  cp_ContainerPort :: int

datatype probeHandler =
    ProbeExec "string list"
  | ProbeTCPSocket string
  | ProbeHTTPGet string string string \<comment> \<open>path, port and scheme\<close>
  | ProbeOther opaque

record probe =
  pr_Handler :: probeHandler
  pr_InitialDelaySeconds :: int
  pr_TimeoutSeconds :: int
  pr_PeriodSeconds :: int
  pr_SuccessThreshold :: int
  pr_FailureThreshold :: int

record container =
  ctr_Name :: string
  ctr_Image :: string
  ctr_Command :: "string list"
  ctr_Args :: "string list"
  ctr_Env :: "envVar list option"
  ctr_Ports :: "containerPort list"
  ctr_Resources :: resourceRequirements
  ctr_VolumeMounts :: "volumeMount list option"
  ctr_LivenessProbe :: "probe option"
  ctr_ReadinessProbe :: "probe option"
  ctr_StartupProbe :: "probe option"
  ctr_PreStop :: "string list option"
  ctr_SecurityContext :: "securityContext option"
  ctr_Other :: "opaque option"

definition emptyContainer :: container where
  "emptyContainer = \<lparr>ctr_Name = [], ctr_Image = [], ctr_Command = [], ctr_Args = [],
     ctr_Env = None, ctr_Ports = [], ctr_Resources = \<lparr>Limits = None, Requests = None\<rparr>,
     ctr_VolumeMounts = None, ctr_LivenessProbe = None, ctr_ReadinessProbe = None,
     ctr_StartupProbe = None, ctr_PreStop = None, ctr_SecurityContext = None,
     ctr_Other = None\<rparr>"

datatype volumeProjection =
    ProjConfigMap string "(string \<times> string) list"
  | ProjSecret string "bool option" "(string \<times> string) list"

record projectedVolume =
  pv_Sources :: "volumeProjection list"
  pv_DefaultMode :: "int option"

record emptyDirVolume =
  ed_Medium :: string
  ed_SizeLimit :: "quantity option"

record volume =
  vol_Name :: string
  vol_ConfigMap :: "string option"
  vol_Projected :: "projectedVolume option"
  vol_EmptyDir :: "emptyDirVolume option"
  vol_Secret :: "string option"
  vol_DownwardAPI :: "(string \<times> string) list option"
  vol_HostPath :: "opaque option"
  vol_Other :: "opaque option"

definition emptyVolume :: volume where
  "emptyVolume = \<lparr>vol_Name = [], vol_ConfigMap = None, vol_Projected = None,
     vol_EmptyDir = None, vol_Secret = None, vol_DownwardAPI = None, vol_HostPath = None,
     vol_Other = None\<rparr>"

record labelSelector =
  ls_MatchLabels :: "string gomap"
  ls_MatchExpressions :: "opaque list"

abbreviation matchLabels :: "string gomap \<Rightarrow> labelSelector" where
  "matchLabels m \<equiv> \<lparr>ls_MatchLabels = m, ls_MatchExpressions = []\<rparr>"

record topologySpreadConstraint =
  tsc_MaxSkew :: int
  tsc_TopologyKey :: string
  tsc_WhenUnsatisfiable :: string
  tsc_LabelSelector :: "labelSelector option"

record podSpec =
  ps_HostPID :: bool
  ps_HostNetwork :: bool
  ps_HostIPC :: bool
  ps_ServiceAccountName :: string
  ps_AutomountServiceAccountToken :: "bool option"
  ps_Volumes :: "volume list"
  ps_Containers :: "container list"
  ps_InitContainers :: "container list"
  ps_SecurityContext :: "podSecurityContext option"
  ps_TopologySpreadConstraints :: "topologySpreadConstraint list"
  ps_ImagePullSecrets :: "string list"
  ps_TerminationGracePeriodSeconds :: "int option"
  ps_Affinity :: "opaque option"
  ps_Tolerations :: "opaque list"
  ps_Other :: "opaque option"

definition emptyPodSpec :: podSpec where
  "emptyPodSpec = \<lparr>ps_HostPID = False, ps_HostNetwork = False, ps_HostIPC = False,
     ps_ServiceAccountName = [], ps_AutomountServiceAccountToken = None, ps_Volumes = [],
     ps_Containers = [], ps_InitContainers = [], ps_SecurityContext = None,
     ps_TopologySpreadConstraints = [], ps_ImagePullSecrets = [],
     ps_TerminationGracePeriodSeconds = None, ps_Affinity = None, ps_Tolerations = [],
     ps_Other = None\<rparr>"

record pvcSpec =
  pvc_Requests :: "quantity gomap"
  pvc_AccessModes :: "string list"
  pvc_StorageClassName :: "string option"
  pvc_Other :: "opaque option"

record persistentVolumeClaim =
  pvc_Meta :: objectMeta
  pvc_Spec :: pvcSpec

record updateStrategy =
  us_Type :: string
  us_Partition :: "int option"

record statefulSet =
  sts_Meta :: objectMeta
  sts_Replicas :: "int option"
  sts_ServiceName :: string
  sts_Selector :: "labelSelector option"
  sts_VolumeClaimTemplates :: "persistentVolumeClaim list"
  sts_PodManagementPolicy :: string
  sts_RetentionPolicy :: "(string \<times> string) option" \<comment> \<open>when deleted, when scaled\<close>
  sts_UpdateStrategy :: updateStrategy
  sts_MinReadySeconds :: int
  sts_TemplateMeta :: objectMeta
  sts_TemplateSpec :: podSpec
  sts_ReadyReplicas :: int
  sts_CurrentRevision :: string
  sts_UpdateRevision :: string

definition emptyStatefulSet :: statefulSet where
  "emptyStatefulSet = \<lparr>sts_Meta = emptyMeta, sts_Replicas = None, sts_ServiceName = [],
     sts_Selector = None, sts_VolumeClaimTemplates = [], sts_PodManagementPolicy = [],
     sts_RetentionPolicy = None, sts_UpdateStrategy = \<lparr>us_Type = [], us_Partition = None\<rparr>,
     sts_MinReadySeconds = 0, sts_TemplateMeta = emptyMeta, sts_TemplateSpec = emptyPodSpec,
     sts_ReadyReplicas = 0, sts_CurrentRevision = [], sts_UpdateRevision = []\<rparr>"

datatype intOrString = IntVal int | StrVal string

record servicePort =
  sp_Name :: string
  sp_Protocol :: string
  sp_Port :: int
  sp_TargetPort :: intOrString
  sp_AppProtocol :: "string option"
  sp_NodePort :: int

record serviceSpec =
  svcs_Type :: string
  svcs_Selector :: "string gomap"
  svcs_IPFamilyPolicy :: "string option"
  svcs_Ports :: "servicePort list"
  svcs_ClusterIP :: string
  svcs_SessionAffinity :: string
  svcs_PublishNotReadyAddresses :: bool
  svcs_Other :: "opaque option"

record service =
  svc_Meta :: objectMeta
  svc_Spec :: serviceSpec

definition emptyServiceSpec :: serviceSpec where
  "emptyServiceSpec = \<lparr>svcs_Type = [], svcs_Selector = None, svcs_IPFamilyPolicy = None,
     svcs_Ports = [], svcs_ClusterIP = [], svcs_SessionAffinity = [],
     svcs_PublishNotReadyAddresses = False, svcs_Other = None\<rparr>"

record configMap =
  cm_Meta :: objectMeta
  cm_Data :: "string gomap"

record secret =
  sec_Meta :: objectMeta
  sec_Type :: string
  sec_Data :: "string gomap"

record serviceAccount =
  sa_Meta :: objectMeta

record policyRule =
  rule_APIGroups :: "string list"
  rule_Resources :: "string list"
  rule_Verbs :: "string list"

record role =
  role_Meta :: objectMeta
  role_Rules :: "policyRule list"

record subject =
  subj_Kind :: string
  subj_Name :: string
  subj_Namespace :: string

record roleBinding =
  rb_Meta :: objectMeta
  rb_RoleRef :: "string \<times> string \<times> string" \<comment> \<open>API group, kind and name\<close>
  rb_Subjects :: "subject list"

record endpoint =
  ep_Addresses :: "string list"
  ep_Hostname :: "string option"
  ep_TargetRef :: "string option"

record endpointSlice =
  es_Endpoints :: "endpoint list"

record pod =
  pod_Meta :: objectMeta

text \<open>A runtime object handed to the status functions; a typed pointer may be nil.\<close>

datatype runtimeObject =
    ObjStatefulSet "statefulSet option"
  | ObjEndpointSlice "endpointSlice option"
  | ObjOther opaque

lemma quantity_Cmp_0 [go_simps]: "quantity_Cmp a b = 0 \<longleftrightarrow> a = b"
  by (simp add: quantity_Cmp_def)

lemma quantity_Cmp_1 [go_simps]: "quantity_Cmp a b = 1 \<longleftrightarrow> b < a"
  by (simp add: quantity_Cmp_def)

lemma quantity_Cmp_m1 [go_simps]: "quantity_Cmp a b = - 1 \<longleftrightarrow> a < b"
  by (simp add: quantity_Cmp_def)

lemma rget_Some [go_simps]: "rget (Some f) k = (case f k of None \<Rightarrow> 0 | Some q \<Rightarrow> q)"
  by (simp add: rget_def mget_def)

lemma quantity_Value_whole: "quantity_Value (1000000000 * n) = n"
  using nonzero_mult_div_cancel_left [of "1000000000 :: int" "- n"]
  by (simp add: quantity_Value_def)

end
