(* ===== verification/Status.thy ===== *)
theory Status
  imports K8s_Types
begin

text \<open>
  Package \<open>internal/status\<close>: the condition record, its update functions, and the three
  functions that compute a condition from the child resources. The wall clock is the argument
  \<open>now\<close>; the zero time is \<open>None\<close>.
\<close>

section \<open>Conditions\<close>

datatype conditionStatus = ConditionTrue | ConditionFalse | ConditionUnknown

type_synonym time = "int option"

text \<open>The condition types are strings; a stored status may hold others.\<close>

abbreviation AllReplicasReady :: string where "AllReplicasReady \<equiv> ''AllReplicasReady''"
abbreviation ClusterAvailable :: string where "ClusterAvailable \<equiv> ''ClusterAvailable''"
abbreviation NoWarnings :: string where "NoWarnings \<equiv> ''NoWarnings''"
abbreviation ReconcileSuccess :: string where "ReconcileSuccess \<equiv> ''ReconcileSuccess''"

record RabbitmqClusterCondition =
  c_Type :: string
  c_Status :: conditionStatus
  c_LastTransitionTime :: time
  c_Reason :: string
  c_Message :: string

definition newRabbitmqClusterCondition :: "string \<Rightarrow> RabbitmqClusterCondition" where
  "newRabbitmqClusterCondition t =
     \<lparr>c_Type = t, c_Status = ConditionUnknown, c_LastTransitionTime = None,
      c_Reason = [], c_Message = []\<rparr>"

definition UpdateState ::
  "int \<Rightarrow> conditionStatus \<Rightarrow> RabbitmqClusterCondition \<Rightarrow> RabbitmqClusterCondition" where
  "UpdateState now st c =
     (if c_Status c \<noteq> st then c\<lparr>c_LastTransitionTime := Some now\<rparr> else c)\<lparr>c_Status := st\<rparr>"

definition UpdateReason ::
  "string \<Rightarrow> string list \<Rightarrow> RabbitmqClusterCondition \<Rightarrow> RabbitmqClusterCondition" where
  "UpdateReason reason messages c = c\<lparr>c_Reason := reason, c_Message := Join messages ''. ''\<rparr>"

definition ReconcileSuccessCondition ::
  "int \<Rightarrow> conditionStatus \<Rightarrow> string \<Rightarrow> string \<Rightarrow> RabbitmqClusterCondition" where
  "ReconcileSuccessCondition now st reason message =
     \<lparr>c_Type = ReconcileSuccess, c_Status = st, c_LastTransitionTime = Some now,
      c_Reason = reason, c_Message = message\<rparr>"

text \<open>
  The head and the tail that the three condition functions share: the transition time is taken
  from the old condition, and set to the clock when there was none or the status changed.
\<close>

definition carryTransitionTime ::
  "RabbitmqClusterCondition option \<Rightarrow> RabbitmqClusterCondition \<Rightarrow> RabbitmqClusterCondition" where
  "carryTransitionTime old c =
     (case old of None \<Rightarrow> c | Some o' \<Rightarrow> c\<lparr>c_LastTransitionTime := c_LastTransitionTime o'\<rparr>)"

definition assignLastTransitionTime ::
  "int \<Rightarrow> RabbitmqClusterCondition option \<Rightarrow> RabbitmqClusterCondition \<Rightarrow> RabbitmqClusterCondition" where
  "assignLastTransitionTime now old c =
     (if old = None \<or> map_option c_Status old \<noteq> Some (c_Status c)
      then c\<lparr>c_LastTransitionTime := Some now\<rparr> else c)"

section \<open>The condition functions\<close>

text \<open>
  Each is a loop over the resources that leaves by \<open>goto\<close> on the first conclusive one; the
  branch that ends without \<open>goto\<close> goes on to the next resource.
\<close>

fun allReplicasReadyLoop ::
  "runtimeObject list \<Rightarrow> RabbitmqClusterCondition \<Rightarrow> RabbitmqClusterCondition" where
  "allReplicasReadyLoop [] c = c"
| "allReplicasReadyLoop (ObjStatefulSet None # rs) c =
     c\<lparr>c_Status := ConditionUnknown, c_Reason := ''MissingStatefulSet'',
       c_Message := ''Could not find StatefulSet''\<rparr>"
| "allReplicasReadyLoop (ObjStatefulSet (Some sts) # rs) c =
     (let desired = (case sts_Replicas sts of None \<Rightarrow> 1 | Some n \<Rightarrow> n)
      in if desired = 0
         then c\<lparr>c_Status := ConditionFalse, c_Reason := ''ScaledToZero''\<rparr>
         else if desired = sts_ReadyReplicas sts
         then c\<lparr>c_Status := ConditionTrue, c_Reason := ''AllPodsAreReady''\<rparr>
         else allReplicasReadyLoop rs
           (c\<lparr>c_Status := ConditionFalse, c_Reason := ''NotAllPodsReady'',
              c_Message := Itoa (sts_ReadyReplicas sts) @ ''/'' @ Itoa desired @ '' Pods ready''\<rparr>))"
| "allReplicasReadyLoop (ObjEndpointSlice e # rs) c = allReplicasReadyLoop rs c"
| "allReplicasReadyLoop (ObjOther x # rs) c = allReplicasReadyLoop rs c"

definition AllReplicasReadyCondition ::
  "int \<Rightarrow> runtimeObject list \<Rightarrow> RabbitmqClusterCondition option \<Rightarrow> RabbitmqClusterCondition" where
  "AllReplicasReadyCondition now resources old =
     assignLastTransitionTime now old
       (allReplicasReadyLoop resources
          (carryTransitionTime old (newRabbitmqClusterCondition AllReplicasReady)))"

fun clusterAvailableLoop ::
  "runtimeObject list \<Rightarrow> RabbitmqClusterCondition \<Rightarrow> RabbitmqClusterCondition" where
  "clusterAvailableLoop [] c = c"
| "clusterAvailableLoop (ObjEndpointSlice None # rs) c =
     c\<lparr>c_Status := ConditionUnknown, c_Reason := ''CouldNotRetrieveEndpoints'',
       c_Message := ''Could not verify available service endpoints''\<rparr>"
| "clusterAvailableLoop (ObjEndpointSlice (Some es) # rs) c =
     (if \<exists>e \<in> set (es_Endpoints es). ep_Addresses e \<noteq> []
      then c\<lparr>c_Status := ConditionTrue, c_Reason := ''AtLeastOneEndpointAvailable''\<rparr>
      else clusterAvailableLoop rs
        (c\<lparr>c_Status := ConditionFalse, c_Reason := ''NoEndpointsAvailable'',
           c_Message := ''The service has no endpoints available''\<rparr>))"
| "clusterAvailableLoop (ObjStatefulSet s # rs) c = clusterAvailableLoop rs c"
| "clusterAvailableLoop (ObjOther x # rs) c = clusterAvailableLoop rs c"

definition ClusterAvailableCondition ::
  "int \<Rightarrow> runtimeObject list \<Rightarrow> RabbitmqClusterCondition option \<Rightarrow> RabbitmqClusterCondition" where
  "ClusterAvailableCondition now resources old =
     assignLastTransitionTime now old
       (clusterAvailableLoop resources
          (carryTransitionTime old (newRabbitmqClusterCondition ClusterAvailable)))"

text \<open>
  The no-warnings loop reads \<open>Containers[0]\<close>, which panics on a pod template with no
  container. A true status does not leave the loop: a later StatefulSet may override it.
\<close>

fun noWarningsLoop ::
  "runtimeObject list \<Rightarrow> RabbitmqClusterCondition \<Rightarrow> goerror + RabbitmqClusterCondition" where
  "noWarningsLoop [] c = Inr c"
| "noWarningsLoop (ObjStatefulSet None # rs) c =
     Inr (c\<lparr>c_Status := ConditionUnknown, c_Reason := ''MissingStatefulSet'',
            c_Message := ''Could not find StatefulSet''\<rparr>)"
| "noWarningsLoop (ObjStatefulSet (Some sts) # rs) c =
     (case ps_Containers (sts_TemplateSpec sts) of
        [] \<Rightarrow> Inl (Panic ''index out of range'')
      | ctr # _ \<Rightarrow>
          let limitMemory = rget (Limits (ctr_Resources ctr)) ''memory'';
              requestMemory = rget (Requests (ctr_Resources ctr)) ''memory''
          in if \<not> quantity_IsZero limitMemory \<and> \<not> quantity_IsZero requestMemory \<and>
                quantity_Cmp limitMemory requestMemory \<noteq> 0
             then Inr (c\<lparr>c_Status := ConditionFalse, c_Reason := ''MemoryRequestAndLimitDifferent'',
                c_Message := ''RabbitMQ container memory resource request and limit must be equal''\<rparr>)
             else noWarningsLoop rs
               (c\<lparr>c_Status := ConditionTrue, c_Reason := ''NoWarnings''\<rparr>))"
| "noWarningsLoop (ObjEndpointSlice e # rs) c = noWarningsLoop rs c"
| "noWarningsLoop (ObjOther x # rs) c = noWarningsLoop rs c"

definition NoWarningsCondition ::
  "int \<Rightarrow> runtimeObject list \<Rightarrow> RabbitmqClusterCondition option
     \<Rightarrow> goerror + RabbitmqClusterCondition" where
  "NoWarningsCondition now resources old =
     bindE (noWarningsLoop resources
        (carryTransitionTime old (newRabbitmqClusterCondition NoWarnings)))
       (\<lambda>c. Inr (assignLastTransitionTime now old c))"

section \<open>The contract of a condition function\<close>

text \<open>
  A condition function keeps its type; what it reports depends on the resources only; and
  the transition time moves exactly when there was no old condition or the status changed.
  From this follows that a second evaluation over the same resources reproduces the condition
  whatever the clock says, which is what keeps the operator from writing the status for ever.
\<close>

locale condition_function =
  fixes f :: "int \<Rightarrow> runtimeObject list \<Rightarrow> RabbitmqClusterCondition option
                \<Rightarrow> goerror + RabbitmqClusterCondition"
    and ctype :: string
  assumes type_kept: "f now rs old = Inr c \<Longrightarrow> c_Type c = ctype"
    and reports: "f now rs old = Inr c \<Longrightarrow> f now' rs old' = Inr c' \<Longrightarrow>
        c_Status c' = c_Status c \<and> c_Reason c' = c_Reason c \<and> c_Message c' = c_Message c"
    and total: "f now rs old = Inr c \<Longrightarrow> \<exists>c'. f now' rs old' = Inr c'"
    and transition: "f now rs old = Inr c \<Longrightarrow>
        c_LastTransitionTime c =
          (if old = None \<or> map_option c_Status old \<noteq> Some (c_Status c) then Some now
           else c_LastTransitionTime (the old))"
begin

lemma stable:
  assumes "f now rs old = Inr c"
  shows "f now' rs (Some c) = Inr c"
proof -
  obtain c' where c': "f now' rs (Some c) = Inr c'"
    using total [OF assms] by blast
  have "c' = c"
    using type_kept [OF assms] type_kept [OF c'] reports [OF assms c'] transition [OF c']
    by (cases c, cases c') simp
  with c' show ?thesis by simp
qed

lemma time_kept:
  assumes "f now rs (Some o') = Inr c" and "c_Status o' = c_Status c"
  shows "c_LastTransitionTime c = c_LastTransitionTime o'"
  using transition [OF assms(1)] assms(2) by simp

end

section \<open>The three functions satisfy it\<close>

lemma new_fields:
  "c_Type (newRabbitmqClusterCondition t) = t"
  "c_LastTransitionTime (newRabbitmqClusterCondition t) = None"
  by (simp_all add: newRabbitmqClusterCondition_def)

text \<open>The loops keep the type, and commute with taking over the transition time.\<close>

lemma carry_updates:
  "(carryTransitionTime old c)\<lparr>c_Status := s\<rparr> = carryTransitionTime old (c\<lparr>c_Status := s\<rparr>)"
  "(carryTransitionTime old c)\<lparr>c_Reason := r\<rparr> = carryTransitionTime old (c\<lparr>c_Reason := r\<rparr>)"
  "(carryTransitionTime old c)\<lparr>c_Message := m\<rparr> = carryTransitionTime old (c\<lparr>c_Message := m\<rparr>)"
  by (cases old; simp add: carryTransitionTime_def)+

lemma allReplicasReadyLoop_carry:
  "allReplicasReadyLoop rs (carryTransitionTime old c) =
     carryTransitionTime old (allReplicasReadyLoop rs c)"
  by (induction rs c rule: allReplicasReadyLoop.induct) (simp_all add: Let_def carry_updates)

lemma clusterAvailableLoop_carry:
  "clusterAvailableLoop rs (carryTransitionTime old c) =
     carryTransitionTime old (clusterAvailableLoop rs c)"
  by (induction rs c rule: clusterAvailableLoop.induct) (simp_all add: carry_updates)

lemma noWarningsLoop_carry:
  "noWarningsLoop rs (carryTransitionTime old c) =
     bindE (noWarningsLoop rs c) (\<lambda>d. Inr (carryTransitionTime old d))"
  by (induction rs c rule: noWarningsLoop.induct)
     (auto simp: Let_def carry_updates split: list.split)

lemma allReplicasReadyLoop_type [simp]: "c_Type (allReplicasReadyLoop rs c) = c_Type c"
  by (induction rs c rule: allReplicasReadyLoop.induct) (simp_all add: Let_def)

lemma clusterAvailableLoop_type [simp]: "c_Type (clusterAvailableLoop rs c) = c_Type c"
  by (induction rs c rule: clusterAvailableLoop.induct) simp_all

lemma noWarningsLoop_type: "noWarningsLoop rs c = Inr d \<Longrightarrow> c_Type d = c_Type c"
  by (induction rs c rule: noWarningsLoop.induct)
     (auto simp: Let_def split: list.splits if_splits)

lemma assign_fields [simp]:
  "c_Type (assignLastTransitionTime now old c) = c_Type c"
  "c_Status (assignLastTransitionTime now old c) = c_Status c"
  "c_Reason (assignLastTransitionTime now old c) = c_Reason c"
  "c_Message (assignLastTransitionTime now old c) = c_Message c"
  by (simp_all add: assignLastTransitionTime_def)

lemma carry_fields [simp]:
  "c_Type (carryTransitionTime old c) = c_Type c"
  "c_Status (carryTransitionTime old c) = c_Status c"
  "c_Reason (carryTransitionTime old c) = c_Reason c"
  "c_Message (carryTransitionTime old c) = c_Message c"
  by (cases old; simp add: carryTransitionTime_def)+

lemma assign_carry_time:
  "c_LastTransitionTime (assignLastTransitionTime now old (carryTransitionTime old c)) =
     (if old = None \<or> map_option c_Status old \<noteq> Some (c_Status c) then Some now
      else c_LastTransitionTime (the old))"
  by (cases old) (simp_all add: assignLastTransitionTime_def carryTransitionTime_def)

text \<open>
  Whatever a function reads from the resources first and stamps with the time afterwards
  satisfies the contract.
\<close>

lemma condition_functionI:
  assumes f: "\<And>now rs old. f now rs old =
      bindE (g rs) (\<lambda>d. Inr (assignLastTransitionTime now old (carryTransitionTime old d)))"
    and g: "\<And>rs d. g rs = Inr d \<Longrightarrow> c_Type d = T"
  shows "condition_function f T"
proof (unfold_locales, goal_cases)
  case (1 now rs old c)
  then show ?case by (auto simp: f bindE_Inr_iff dest: g)
next
  case (2 now rs old c now' old' c')
  then show ?case by (auto simp: f bindE_Inr_iff)
next
  case (3 now rs old c now' old')
  then show ?case by (auto simp: f bindE_Inr_iff)
next
  case (4 now rs old c)
  then show ?case by (auto simp: f bindE_Inr_iff assign_carry_time)
qed

interpretation arr: condition_function
  "\<lambda>now rs old. Inr (AllReplicasReadyCondition now rs old)" AllReplicasReady
  by (rule condition_functionI
    [where g = "\<lambda>rs. Inr (allReplicasReadyLoop rs (newRabbitmqClusterCondition AllReplicasReady))"])
    (auto simp: AllReplicasReadyCondition_def allReplicasReadyLoop_carry new_fields)

interpretation cav: condition_function
  "\<lambda>now rs old. Inr (ClusterAvailableCondition now rs old)" ClusterAvailable
  by (rule condition_functionI
    [where g = "\<lambda>rs. Inr (clusterAvailableLoop rs (newRabbitmqClusterCondition ClusterAvailable))"])
    (auto simp: ClusterAvailableCondition_def clusterAvailableLoop_carry new_fields)

interpretation nwa: condition_function NoWarningsCondition NoWarnings
  by (rule condition_functionI
    [where g = "\<lambda>rs. noWarningsLoop rs (newRabbitmqClusterCondition NoWarnings)"])
    (auto simp: NoWarningsCondition_def noWarningsLoop_carry new_fields bindE_def
      dest: noWarningsLoop_type split: sum.split)

lemma condition_types [simp]:
  "c_Type (AllReplicasReadyCondition now rs old) = AllReplicasReady"
  "c_Type (ClusterAvailableCondition now rs old) = ClusterAvailable"
  by (rule arr.type_kept [OF refl], rule cav.type_kept [OF refl])

end
