(* ===== verification/Cluster_Types.thy ===== *)
theory Cluster_Types
  imports Status
begin

text \<open>
  Package \<open>api/v1beta1\<close>: the RabbitmqCluster resource, its spec and status, the predicates and
  names derived from the spec, and the two operations that maintain the status conditions.
\<close>

section \<open>The specification\<close>

definition DisableDefaultTopologySpreadAnnotation :: string where
  "DisableDefaultTopologySpreadAnnotation = ''rabbitmq.com/disable-default-topology-spread-constraints''"

definition RabbitmqVersionAnnotation :: string where
  "RabbitmqVersionAnnotation = ''rabbitmq.com/version''"

definition ErlangVersionAnnotation :: string where
  "ErlangVersionAnnotation = ''rabbitmq.com/erlang-version''"

definition VersionNotAnnotated :: string where
  "VersionNotAnnotated = ''VersionNotAnnotated''"

definition LegacyStartupProbeAnnotation :: string where
  "LegacyStartupProbeAnnotation = ''rabbitmq.com/legacy-startup-probe''"

record VaultTLSSpec =
  PKIIssuerPath :: string
  CommonName :: string
  AltNames :: string
  IpSans :: string
  PKIRootPath :: string

record VaultSpec =
  v_Role :: string
  v_Annotations :: "string gomap"
  v_DefaultUserPath :: string
  v_DefaultUserUpdaterImage :: "string option"
  v_TLS :: VaultTLSSpec

record SecretBackend =
  Vault :: "VaultSpec option"
  ExternalSecret :: string \<comment> \<open>the name of the referenced secret\<close>

record EmbeddedLabelsAnnotations =
  el_Labels :: "string gomap"
  el_Annotations :: "string gomap"

record EmbeddedObjectMeta =
  em_Name :: string
  em_Namespace :: string
  em_Labels :: "string gomap"
  em_Annotations :: "string gomap"

record PodTemplateSpec =
  pt_Meta :: "EmbeddedObjectMeta option"
  pt_Spec :: "podSpec option"

record PersistentVolumeClaimOverride =
  opvc_Meta :: EmbeddedObjectMeta
  opvc_Spec :: pvcSpec

record StatefulSetSpec =
  os_Replicas :: "int option"
  os_Selector :: "labelSelector option"
  os_Template :: "PodTemplateSpec option"
  os_VolumeClaimTemplates :: "PersistentVolumeClaimOverride list"
  os_ServiceName :: string
  os_PodManagementPolicy :: string
  os_UpdateStrategy :: "updateStrategy option"
  os_MinReadySeconds :: int
  os_RetentionPolicy :: "(string \<times> string) option"

record StatefulSetOverride =
  ost_Meta :: "EmbeddedLabelsAnnotations option"
  ost_Spec :: "StatefulSetSpec option"

record ServiceOverride =
  osv_Meta :: "EmbeddedLabelsAnnotations option"
  osv_Spec :: "serviceSpec option"

record RabbitmqClusterOverrideSpec =
  ov_StatefulSet :: "StatefulSetOverride option"
  ov_Service :: "ServiceOverride option"

record TLSSpec =
  SecretName :: string
  CaSecretName :: string
  DisableNonTLS :: bool

text \<open>\<open>Plugin\<close> is an alias of the string type.\<close>

type_synonym Plugin = string

record RabbitmqClusterConfigurationSpec =
  AdditionalPlugins :: "Plugin list"
  AdditionalConfig :: string
  AdvancedConfig :: string
  EnvConfig :: string
  ErlangInetConfig :: string

record RabbitmqClusterEmptyDirSpec =
  Medium :: string
  SizeLimit :: "quantity option"

record RabbitmqClusterPersistenceSpec =
  StorageClassName :: "string option"
  Storage :: "quantity option"
  EmptyDir :: "RabbitmqClusterEmptyDirSpec option"

record RabbitmqClusterServiceSpec =
  ss_Type :: string
  ss_Annotations :: "string gomap"
  ss_IPFamilyPolicy :: "string option"
  ss_Labels :: "string gomap"

record RabbitmqClusterSpec =
  Replicas :: "int option"
  Image :: string
  ImagePullSecrets :: "string list option"
  ServiceSpec :: RabbitmqClusterServiceSpec
  Persistence :: RabbitmqClusterPersistenceSpec
  Resources :: "resourceRequirements option"
  Affinity :: "opaque option"
  Tolerations :: "opaque list"
  Rabbitmq :: RabbitmqClusterConfigurationSpec
  TLS :: TLSSpec
  Override :: RabbitmqClusterOverrideSpec
  SkipPostDeploySteps :: bool
  AutoEnableAllFeatureFlags :: bool
  TerminationGracePeriodSeconds :: "int option"
  DelayStartSeconds :: "int option"
  spec_SecretBackend :: SecretBackend

section \<open>The status\<close>

record RabbitmqClusterSecretReference =
  sr_Name :: string
  sr_Namespace :: string
  sr_Keys :: "string gomap"

record RabbitmqClusterServiceReference =
  svr_Name :: string
  svr_Namespace :: string

record RabbitmqClusterDefaultUser =
  SecretReference :: "RabbitmqClusterSecretReference option"
  ServiceReference :: "RabbitmqClusterServiceReference option"

record RabbitmqClusterStatus =
  Conditions :: "RabbitmqClusterCondition list"
  DefaultUser :: "RabbitmqClusterDefaultUser option"
  Binding :: "string option"
  ObservedGeneration :: int
  QuorumStatus :: string
  DeprecatedFeaturesUsed :: "string list"

record RabbitmqCluster =
  Meta :: objectMeta
  Spec :: RabbitmqClusterSpec
  ClusterStatus :: RabbitmqClusterStatus

abbreviation cluster_Name :: "RabbitmqCluster \<Rightarrow> string" where
  "cluster_Name r \<equiv> Name (Meta r)"

abbreviation cluster_Namespace :: "RabbitmqCluster \<Rightarrow> string" where
  "cluster_Namespace r \<equiv> Namespace (Meta r)"

text \<open>The zero value of the Go type, the starting point of the examples.\<close>

definition emptyClusterSpec :: RabbitmqClusterSpec where
  "emptyClusterSpec = \<lparr>Replicas = None, Image = [], ImagePullSecrets = None,
     ServiceSpec = \<lparr>ss_Type = [], ss_Annotations = None, ss_IPFamilyPolicy = None, ss_Labels = None\<rparr>,
     Persistence = \<lparr>StorageClassName = None, Storage = None, EmptyDir = None\<rparr>,
     Resources = None, Affinity = None, Tolerations = [],
     Rabbitmq = \<lparr>AdditionalPlugins = [], AdditionalConfig = [], AdvancedConfig = [],
       EnvConfig = [], ErlangInetConfig = []\<rparr>,
     TLS = \<lparr>SecretName = [], CaSecretName = [], DisableNonTLS = False\<rparr>,
     Override = \<lparr>ov_StatefulSet = None, ov_Service = None\<rparr>,
     SkipPostDeploySteps = False, AutoEnableAllFeatureFlags = False,
     TerminationGracePeriodSeconds = None, DelayStartSeconds = None,
     spec_SecretBackend = \<lparr>Vault = None, ExternalSecret = []\<rparr>\<rparr>"

definition emptyCluster :: RabbitmqCluster where
  "emptyCluster = \<lparr>Meta = emptyMeta, Spec = emptyClusterSpec,
     ClusterStatus = \<lparr>Conditions = [], DefaultUser = None, Binding = None,
       ObservedGeneration = 0, QuorumStatus = [], DeprecatedFeaturesUsed = []\<rparr>\<rparr>"

section \<open>Predicates and names\<close>

definition Vault_TLSEnabled :: "VaultSpec \<Rightarrow> bool" where
  "Vault_TLSEnabled spec = (PKIIssuerPath (v_TLS spec) \<noteq> [])"

definition RootCAEnabled :: "VaultSpec \<Rightarrow> bool" where
  "RootCAEnabled spec = (PKIRootPath (v_TLS spec) \<noteq> [])"

definition DefaultUserSecretEnabled :: "VaultSpec \<Rightarrow> bool" where
  "DefaultUserSecretEnabled spec = (v_DefaultUserPath spec \<noteq> [])"

definition VaultEnabled :: "RabbitmqCluster \<Rightarrow> bool" where
  "VaultEnabled r = (Vault (spec_SecretBackend (Spec r)) \<noteq> None)"

definition ExternalSecretEnabled :: "RabbitmqCluster \<Rightarrow> bool" where
  "ExternalSecretEnabled r = (ExternalSecret (spec_SecretBackend (Spec r)) \<noteq> [])"

definition UsesDefaultUserUpdaterImage :: "RabbitmqCluster \<Rightarrow> bool \<Rightarrow> bool" where
  "UsesDefaultUserUpdaterImage r controlRabbitmqImage =
     (case Vault (spec_SecretBackend (Spec r)) of
        None \<Rightarrow> False
      | Some v \<Rightarrow> v_DefaultUserUpdaterImage v = None \<or> controlRabbitmqImage)"

definition VaultDefaultUserSecretEnabled :: "RabbitmqCluster \<Rightarrow> bool" where
  "VaultDefaultUserSecretEnabled r =
     (case Vault (spec_SecretBackend (Spec r)) of None \<Rightarrow> False | Some v \<Rightarrow> DefaultUserSecretEnabled v)"

definition VaultTLSEnabled :: "RabbitmqCluster \<Rightarrow> bool" where
  "VaultTLSEnabled r =
     (case Vault (spec_SecretBackend (Spec r)) of None \<Rightarrow> False | Some v \<Rightarrow> Vault_TLSEnabled v)"

definition SecretTLSEnabled :: "RabbitmqCluster \<Rightarrow> bool" where
  "SecretTLSEnabled r = (SecretName (TLS (Spec r)) \<noteq> [])"

definition TLSEnabled :: "RabbitmqCluster \<Rightarrow> bool" where
  "TLSEnabled r = (SecretTLSEnabled r \<or> VaultTLSEnabled r)"

definition MutualTLSEnabled :: "RabbitmqCluster \<Rightarrow> bool" where
  "MutualTLSEnabled r =
     ((SecretTLSEnabled r \<and> CaSecretName (TLS (Spec r)) \<noteq> []) \<or> VaultTLSEnabled r)"

definition MemoryLimited :: "RabbitmqCluster \<Rightarrow> bool" where
  "MemoryLimited r =
     (case Resources (Spec r) of
        None \<Rightarrow> False
      | Some res \<Rightarrow> Limits res \<noteq> None \<and> \<not> quantity_IsZero (rget (Limits res) ''memory''))"

definition SingleTLSSecret :: "RabbitmqCluster \<Rightarrow> bool" where
  "SingleTLSSecret r =
     (MutualTLSEnabled r \<and> CaSecretName (TLS (Spec r)) = SecretName (TLS (Spec r)))"

definition DisableNonTLSListeners :: "RabbitmqCluster \<Rightarrow> bool" where
  "DisableNonTLSListeners r = DisableNonTLS (TLS (Spec r))"

definition AdditionalPluginEnabled :: "RabbitmqCluster \<Rightarrow> Plugin \<Rightarrow> bool" where
  "AdditionalPluginEnabled r plugin = (plugin \<in> set (AdditionalPlugins (Rabbitmq (Spec r))))"

definition StreamNeeded :: "RabbitmqCluster \<Rightarrow> bool" where
  "StreamNeeded r =
     (AdditionalPluginEnabled r ''rabbitmq_stream'' \<or>
      AdditionalPluginEnabled r ''rabbitmq_stream_management'' \<or>
      AdditionalPluginEnabled r ''rabbitmq_multi_dc_replication'')"

definition ServiceSubDomain :: "RabbitmqCluster \<Rightarrow> string" where
  "ServiceSubDomain r = cluster_Name r @ ''.'' @ cluster_Namespace r @ ''.svc''"

definition ChildResourceName :: "RabbitmqCluster \<Rightarrow> string \<Rightarrow> string" where
  "ChildResourceName r name = TrimSuffix (Join [cluster_Name r, name] ''-'') ''-''"

definition PVCName :: "RabbitmqCluster \<Rightarrow> int \<Rightarrow> string" where
  "PVCName r i = Join [''persistence'', cluster_Name r, ''server'', Itoa i] ''-''"

definition DisableDefaultTopologySpreadConstraints :: "RabbitmqCluster \<Rightarrow> bool" where
  "DisableDefaultTopologySpreadConstraints r =
     (case mget (Annotations (Meta r)) DisableDefaultTopologySpreadAnnotation of
        None \<Rightarrow> False
      | Some value \<Rightarrow> TrimSpace value = ''true'')"

definition GetRabbitMQVersion :: "RabbitmqCluster \<Rightarrow> string" where
  "GetRabbitMQVersion r =
     (case Annotations (Meta r) of
        None \<Rightarrow> VersionNotAnnotated
      | Some m \<Rightarrow> (case m RabbitmqVersionAnnotation of
                    Some value \<Rightarrow> value | None \<Rightarrow> VersionNotAnnotated))"

definition GetErlangVersion :: "RabbitmqCluster \<Rightarrow> string" where
  "GetErlangVersion r =
     (case Annotations (Meta r) of
        None \<Rightarrow> VersionNotAnnotated
      | Some m \<Rightarrow> (case m ErlangVersionAnnotation of
                    Some value \<Rightarrow> value | None \<Rightarrow> VersionNotAnnotated))"

section \<open>Maintaining the conditions\<close>

text \<open>
  The loop over the old conditions, for one of its four variables: the case of the
  condition type assigns the variable, so of several conditions of a type the last one counts.
  Each condition function reads the clock when it runs, so the clock is a function of the
  condition type.
\<close>

definition oldCondition ::
  "string \<Rightarrow> RabbitmqClusterCondition list \<Rightarrow> RabbitmqClusterCondition option" where
  "oldCondition t cs = foldl (\<lambda>old c. if c_Type c = t then Some c else old) None cs"

definition SetConditions ::
  "(string \<Rightarrow> int) \<Rightarrow> runtimeObject list \<Rightarrow> RabbitmqClusterStatus
     \<Rightarrow> goerror + RabbitmqClusterStatus" where
  "SetConditions clock resources st =
     (let oldAllPodsReadyCondition = oldCondition AllReplicasReady (Conditions st);
          oldClusterAvailableCondition = oldCondition ClusterAvailable (Conditions st);
          oldNoWarningsCondition = oldCondition NoWarnings (Conditions st);
          oldReconcileCondition = oldCondition ReconcileSuccess (Conditions st);
          allReplicasReadyCond =
            AllReplicasReadyCondition (clock AllReplicasReady) resources oldAllPodsReadyCondition;
          clusterAvailableCond =
            ClusterAvailableCondition (clock ClusterAvailable) resources oldClusterAvailableCondition
      in bindE (NoWarningsCondition (clock NoWarnings) resources oldNoWarningsCondition)
        (\<lambda>noWarningsCond.
          let reconciledCondition =
                (case oldReconcileCondition of
                   Some c \<Rightarrow> c
                 | None \<Rightarrow> ReconcileSuccessCondition (clock ReconcileSuccess)
                             ConditionUnknown ''Initialising'' [])
          in Inr (st\<lparr>Conditions := [allReplicasReadyCond, clusterAvailableCond,
                                     noWarningsCond, reconciledCondition]\<rparr>)))"

fun setConditionIn ::
  "int \<Rightarrow> string \<Rightarrow> conditionStatus \<Rightarrow> string \<Rightarrow> string list
     \<Rightarrow> RabbitmqClusterCondition list \<Rightarrow> RabbitmqClusterCondition list" where
  "setConditionIn now condType condStatus reason messages [] = []"
| "setConditionIn now condType condStatus reason messages (c # cs) =
     (if c_Type c = condType
      then UpdateReason reason messages (UpdateState now condStatus c) # cs
      else c # setConditionIn now condType condStatus reason messages cs)"

definition SetCondition ::
  "int \<Rightarrow> string \<Rightarrow> conditionStatus \<Rightarrow> string \<Rightarrow> string list
     \<Rightarrow> RabbitmqClusterStatus \<Rightarrow> RabbitmqClusterStatus" where
  "SetCondition now condType condStatus reason messages st =
     st\<lparr>Conditions := setConditionIn now condType condStatus reason messages (Conditions st)\<rparr>"

section \<open>Lemmas\<close>

text \<open>Looking a condition up by its type, the first match as a reader of the status does.\<close>

definition conditionOf ::
  "string \<Rightarrow> RabbitmqClusterStatus \<Rightarrow> RabbitmqClusterCondition option" where
  "conditionOf t st = List.find (\<lambda>c. c_Type c = t) (Conditions st)"

lemma oldCondition_snoc:
  "oldCondition t (cs @ [c]) = (if c_Type c = t then Some c else oldCondition t cs)"
  by (simp add: oldCondition_def)

lemma oldCondition_type: "oldCondition t cs = Some c \<Longrightarrow> c_Type c = t"
  by (induction cs rule: rev_induct) (auto simp: oldCondition_snoc oldCondition_def split: if_splits)

lemma oldCondition_distinct:
  "distinct (map c_Type cs) \<Longrightarrow> c \<in> set cs \<Longrightarrow> oldCondition (c_Type c) cs = Some c"
  by (induction cs rule: rev_induct) (auto simp: oldCondition_snoc)

lemma SetConditions_Inr_iff:
  "SetConditions clock rs st = Inr st' \<longleftrightarrow>
     (\<exists>c. NoWarningsCondition (clock NoWarnings) rs (oldCondition NoWarnings (Conditions st)) = Inr c \<and>
        st' = st\<lparr>Conditions :=
          [AllReplicasReadyCondition (clock AllReplicasReady) rs (oldCondition AllReplicasReady (Conditions st)),
           ClusterAvailableCondition (clock ClusterAvailable) rs (oldCondition ClusterAvailable (Conditions st)),
           c,
           case oldCondition ReconcileSuccess (Conditions st) of Some d \<Rightarrow> d
           | None \<Rightarrow> ReconcileSuccessCondition (clock ReconcileSuccess) ConditionUnknown ''Initialising'' []]\<rparr>)"
  unfolding SetConditions_def Let_def bindE_Inr_iff by (simp add: eq_commute)

lemma SetConditions_shape:
  assumes "SetConditions clock rs st = Inr st'"
  shows "map c_Type (Conditions st') = [AllReplicasReady, ClusterAvailable, NoWarnings, ReconcileSuccess]"
  using assms unfolding SetConditions_Inr_iff
  by (auto simp: ReconcileSuccessCondition_def nwa.type_kept dest: oldCondition_type split: option.split)

lemma SetConditions_cond:
  assumes "map c_Type (Conditions st) = [AllReplicasReady, ClusterAvailable, NoWarnings, ReconcileSuccess]"
    and "Conditions st = [a, b, c, d]"
  shows "oldCondition AllReplicasReady (Conditions st) = Some a"
    and "oldCondition ClusterAvailable (Conditions st) = Some b"
    and "oldCondition NoWarnings (Conditions st) = Some c"
    and "oldCondition ReconcileSuccess (Conditions st) = Some d"
  using assms by (simp_all add: oldCondition_def)

lemma setConditionIn_types:
  "map c_Type (setConditionIn now t s r ms cs) = map c_Type cs"
  by (induction cs) (simp_all add: UpdateReason_def UpdateState_def)

lemma setConditionIn_absent:
  "t \<notin> c_Type ` set cs \<Longrightarrow> setConditionIn now t s r ms cs = cs"
  by (induction cs) auto

lemma setConditionIn_find:
  "List.find (\<lambda>c. c_Type c = t') (setConditionIn now t s r ms cs) =
     (if t' = t
      then map_option (\<lambda>c. UpdateReason r ms (UpdateState now s c)) (List.find (\<lambda>c. c_Type c = t) cs)
      else List.find (\<lambda>c. c_Type c = t') cs)"
  by (induction cs) (auto simp: UpdateReason_def UpdateState_def)

section \<open>Properties\<close>

text \<open>
  C36. The conditions settle: once the conditions have been computed from some child resources,
  computing them again from the same resources leaves the whole status as it is, whatever the
  clock says in between. An operator that compares the status before and after to decide
  whether to write it therefore stops writing when the resources stop changing.
\<close>

theorem SetConditions_stable:
  assumes "SetConditions clock resources st = Inr st'"
  shows "SetConditions clock' resources st' = Inr st'"
proof -
  obtain c where c: "NoWarningsCondition (clock NoWarnings) resources
        (oldCondition NoWarnings (Conditions st)) = Inr c"
    and st': "st' = st\<lparr>Conditions :=
          [AllReplicasReadyCondition (clock AllReplicasReady) resources
             (oldCondition AllReplicasReady (Conditions st)),
           ClusterAvailableCondition (clock ClusterAvailable) resources
             (oldCondition ClusterAvailable (Conditions st)),
           c,
           case oldCondition ReconcileSuccess (Conditions st) of Some d \<Rightarrow> d
           | None \<Rightarrow> ReconcileSuccessCondition (clock ReconcileSuccess) ConditionUnknown ''Initialising'' []]\<rparr>"
    using assms unfolding SetConditions_Inr_iff by blast
  then have cs: "Conditions st' = [AllReplicasReadyCondition (clock AllReplicasReady) resources
             (oldCondition AllReplicasReady (Conditions st)),
           ClusterAvailableCondition (clock ClusterAvailable) resources
             (oldCondition ClusterAvailable (Conditions st)),
           c, Conditions st' ! 3]" by simp
  show ?thesis
    unfolding SetConditions_Inr_iff
      SetConditions_cond [OF SetConditions_shape [OF assms] cs] option.case
      arr.stable [OF refl, unfolded sum.inject] cav.stable [OF refl, unfolded sum.inject]
    by (simp add: nwa.stable [OF c] cs [symmetric])
qed

definition exampleStatefulSet :: "int \<Rightarrow> int \<Rightarrow> statefulSet" where
  "exampleStatefulSet desired ready = emptyStatefulSet\<lparr>sts_Replicas := Some desired,
     sts_ReadyReplicas := ready,
     sts_TemplateSpec := emptyPodSpec\<lparr>ps_Containers := [emptyContainer]\<rparr>\<rparr>"

lemmas condition_evals = SetConditions_def Let_def oldCondition_def exampleStatefulSet_def
  emptyCluster_def AllReplicasReadyCondition_def ClusterAvailableCondition_def NoWarningsCondition_def
  carryTransitionTime_def assignLastTransitionTime_def newRabbitmqClusterCondition_def
  emptyStatefulSet_def emptyPodSpec_def emptyContainer_def rget_def mget_def quantity_IsZero_def

theorem SetConditions_stable_witness:
  "\<exists>st'. SetConditions (\<lambda>_. 7) [ObjStatefulSet (Some (exampleStatefulSet 3 1)), ObjEndpointSlice None]
            (ClusterStatus emptyCluster) = Inr st' \<and>
         SetConditions (\<lambda>_. 9) [ObjStatefulSet (Some (exampleStatefulSet 3 1)), ObjEndpointSlice None]
            st' = Inr st'"
proof -
  obtain st' where "SetConditions (\<lambda>_. 7)
      [ObjStatefulSet (Some (exampleStatefulSet 3 1)), ObjEndpointSlice None]
      (ClusterStatus emptyCluster) = Inr st'"
    by (simp add: condition_evals)
  then show ?thesis using SetConditions_stable by blast
qed

text \<open>What the three functions report for the resources the controller passes.\<close>

abbreviation readyStatus :: "statefulSet option \<Rightarrow> conditionStatus" where
  "readyStatus sts \<equiv> (case sts of None \<Rightarrow> ConditionUnknown
     | Some s \<Rightarrow> if ptr_Deref (sts_Replicas s) 1 = sts_ReadyReplicas s \<and> sts_ReadyReplicas s \<noteq> 0
                 then ConditionTrue else ConditionFalse)"

abbreviation availableStatus :: "endpointSlice option \<Rightarrow> conditionStatus" where
  "availableStatus eps \<equiv> (case eps of None \<Rightarrow> ConditionUnknown
     | Some e \<Rightarrow> if \<exists>ep \<in> set (es_Endpoints e). ep_Addresses ep \<noteq> []
                 then ConditionTrue else ConditionFalse)"

definition memoryMismatch :: "container \<Rightarrow> bool" where
  "memoryMismatch ctr =
     (let l = rget (Limits (ctr_Resources ctr)) ''memory'';
          q = rget (Requests (ctr_Resources ctr)) ''memory''
      in l \<noteq> 0 \<and> q \<noteq> 0 \<and> l \<noteq> q)"

abbreviation warningStatus :: "statefulSet option \<Rightarrow> conditionStatus" where
  "warningStatus sts \<equiv> (case sts of None \<Rightarrow> ConditionUnknown
     | Some s \<Rightarrow> if memoryMismatch (hd (ps_Containers (sts_TemplateSpec s)))
                 then ConditionFalse else ConditionTrue)"

lemma AllReplicasReady_status:
  "c_Status (AllReplicasReadyCondition now [ObjStatefulSet sts, ObjEndpointSlice eps] old) = readyStatus sts"
  by (auto simp: AllReplicasReadyCondition_def ptr_Deref_def Let_def split: option.split)

lemma ClusterAvailable_status:
  "c_Status (ClusterAvailableCondition now [ObjStatefulSet sts, ObjEndpointSlice eps] old) = availableStatus eps"
  by (auto simp: ClusterAvailableCondition_def split: option.split)

lemma NoWarnings_status:
  assumes "\<forall>s. sts = Some s \<longrightarrow> ps_Containers (sts_TemplateSpec s) \<noteq> []"
  shows "\<exists>c. NoWarningsCondition now [ObjStatefulSet sts, ObjEndpointSlice eps] old = Inr c \<and>
      c_Status c = warningStatus sts"
proof (cases sts)
  case None
  then show ?thesis by (simp add: NoWarningsCondition_def)
next
  case (Some s)
  with assms obtain ctr rest where "ps_Containers (sts_TemplateSpec s) = ctr # rest"
    by (auto simp: neq_Nil_conv)
  with Some show ?thesis
    by (simp add: NoWarningsCondition_def memoryMismatch_def Let_def quantity_IsZero_def
        quantity_Cmp_0)
qed



text \<open>
  The transition time of a computed condition moves exactly when its status changes: it is the
  time of the old condition when there was one with the same status, and the clock otherwise.
\<close>

theorem SetConditions_transition:
  assumes "SetConditions clock resources st = Inr st'"
    and "t \<in> {AllReplicasReady, ClusterAvailable, NoWarnings}"
    and "oldCondition t (Conditions st') = Some c"
  shows "c_LastTransitionTime c =
           (case oldCondition t (Conditions st) of
              None \<Rightarrow> Some (clock t)
            | Some o' \<Rightarrow> if c_Status o' = c_Status c then c_LastTransitionTime o' else Some (clock t))"
proof -
  obtain w d where w: "NoWarningsCondition (clock NoWarnings) resources
        (oldCondition NoWarnings (Conditions st)) = Inr w"
    and cs: "Conditions st' = [AllReplicasReadyCondition (clock AllReplicasReady) resources
             (oldCondition AllReplicasReady (Conditions st)),
           ClusterAvailableCondition (clock ClusterAvailable) resources
             (oldCondition ClusterAvailable (Conditions st)), w, d]"
    using assms(1) unfolding SetConditions_Inr_iff by auto
  note old = SetConditions_cond [OF SetConditions_shape [OF assms(1)] cs]
  consider "t = AllReplicasReady" | "t = ClusterAvailable" | "t = NoWarnings"
    using assms(2) by blast
  then show ?thesis
  proof cases
    case 1
    with old(1) assms(3) show ?thesis
      using arr.transition [OF refl] by (auto split: option.split)
  next
    case 2
    with old(2) assms(3) show ?thesis
      using cav.transition [OF refl] by (auto split: option.split)
  next
    case 3
    with old(3) assms(3) show ?thesis
      using nwa.transition [OF w] by (auto split: option.split)
  qed
qed

theorem SetConditions_transition_witness:
  "\<exists>st' c. SetConditions (\<lambda>_. 7) [] (ClusterStatus emptyCluster) = Inr st' \<and>
     oldCondition NoWarnings (Conditions st') = Some c \<and> c_LastTransitionTime c = Some 7"
proof -
  obtain st' where st': "SetConditions (\<lambda>_. 7) [] (ClusterStatus emptyCluster) = Inr st'"
    by (simp add: condition_evals)
  moreover from st' obtain c where c: "oldCondition NoWarnings (Conditions st') = Some c"
    by (auto simp: condition_evals ReconcileSuccessCondition_def)
  moreover from st' c have "c_LastTransitionTime c = Some 7"
    using SetConditions_transition [of "\<lambda>_. 7" "[]" "ClusterStatus emptyCluster" st' NoWarnings c]
    by (simp add: emptyCluster_def oldCondition_def)
  ultimately show ?thesis by blast
qed

text \<open>
  Setting one condition changes that condition only: its status, reason and message become the
  given ones, its transition time moves exactly when the status differs from the old one, every
  other condition is found as before, the types keep their order, and nothing happens when
  the status has no condition of that type.
\<close>

theorem SetCondition_effect:
  "conditionOf t' (SetCondition now t st reason messages cst) =
     (if t' = t
      then map_option (\<lambda>c. c\<lparr>c_Status := st, c_Reason := reason, c_Message := Join messages ''. '',
             c_LastTransitionTime := if c_Status c = st then c_LastTransitionTime c else Some now\<rparr>)
           (conditionOf t cst)
      else conditionOf t' cst) \<and>
   map c_Type (Conditions (SetCondition now t st reason messages cst)) = map c_Type (Conditions cst) \<and>
   (if conditionOf t cst = None then SetCondition now t st reason messages cst = cst
    else c_Status (the (conditionOf t (SetCondition now t st reason messages cst))) = st)"
proof -
  have upd: "UpdateReason reason messages (UpdateState now st c) =
      c\<lparr>c_Status := st, c_Reason := reason, c_Message := Join messages ''. '',
        c_LastTransitionTime := if c_Status c = st then c_LastTransitionTime c else Some now\<rparr>" for c
    by (cases c) (simp add: UpdateReason_def UpdateState_def)
  have "setConditionIn now t st reason messages (Conditions cst) = Conditions cst"
    if "conditionOf t cst = None"
    using that by (intro setConditionIn_absent) (auto simp: conditionOf_def find_None_iff)
  then show ?thesis
    by (auto simp: SetCondition_def conditionOf_def setConditionIn_find setConditionIn_types upd)
qed

section \<open>Names of the child resources\<close>

lemma ChildResourceName_eq [cluster_simps]:
  assumes "name \<noteq> []" "last name \<noteq> CHR ''-''"
  shows "ChildResourceName r name = cluster_Name r @ ''-'' @ name"
  using assms by (auto simp: ChildResourceName_def TrimSuffix_def HasSuffix_def suffix_def
      dest: arg_cong [where f = last])

lemma ChildResourceName_Nil [cluster_simps]: "ChildResourceName r [] = cluster_Name r"
  by (simp add: ChildResourceName_def TrimSuffix_append)

lemma PVCName_inj: "0 \<le> i \<Longrightarrow> 0 \<le> j \<Longrightarrow> PVCName r i = PVCName r j \<Longrightarrow> i = j"
  by (auto simp: PVCName_def Itoa_def dest!: show_nat_inj)

end
