(* ===== verification/Metadata.thy ===== *)
theory Metadata
  imports Cluster_Types
begin

text \<open>
  Package \<open>internal/metadata\<close>: labels and annotations of the child resources; and the list of
  plugins of \<open>internal/resource/rabbitmq_plugins.go\<close>.
\<close>

section \<open>Labels and annotations\<close>

definition isKubernetesAnnotation :: "string \<Rightarrow> bool" where
  "isKubernetesAnnotation k = (Contains k ''kubernetes.io'' \<or> Contains k ''k8s.io'')"

definition isNotKubernetesAnnotation :: "string \<Rightarrow> bool" where
  "isNotKubernetesAnnotation k = (\<not> isKubernetesAnnotation k)"

text \<open>
  The inner loop assigns \<open>result[k] = v\<close> for every entry that passes the filter; the keys of a
  map are distinct, so the order in which Go visits them does not matter.
\<close>

definition mergeOne ::
  "(string \<Rightarrow> bool) \<Rightarrow> (string \<rightharpoonup> string) \<Rightarrow> string gomap \<Rightarrow> (string \<rightharpoonup> string)" where
  "mergeOne filterFn result m =
     (\<lambda>k. case mget m k of
            Some v \<Rightarrow> if filterFn k then Some v else result k
          | None \<Rightarrow> result k)"

definition mergeWithFilter ::
  "(string \<Rightarrow> bool) \<Rightarrow> string gomap \<Rightarrow> string gomap list \<Rightarrow> string gomap" where
  "mergeWithFilter filterFn base maps =
     Some (foldl (mergeOne filterFn) (case base of None \<Rightarrow> Map.empty | Some m \<Rightarrow> m) maps)"

definition ReconcileAnnotations :: "string gomap \<Rightarrow> string gomap list \<Rightarrow> string gomap" where
  "ReconcileAnnotations existing defaults = mergeWithFilter (\<lambda>k. True) existing defaults"

definition ReconcileAndFilterAnnotations :: "string gomap \<Rightarrow> string gomap list \<Rightarrow> string gomap" where
  "ReconcileAndFilterAnnotations existing defaults =
     mergeWithFilter isNotKubernetesAnnotation existing defaults"

definition Label :: "string \<Rightarrow> (string \<rightharpoonup> string)" where
  "Label instanceName =
     [''app.kubernetes.io/name'' \<mapsto> instanceName,
      ''app.kubernetes.io/component'' \<mapsto> ''rabbitmq'',
      ''app.kubernetes.io/part-of'' \<mapsto> ''rabbitmq'']"

definition GetLabels :: "string \<Rightarrow> string gomap \<Rightarrow> string gomap" where
  "GetLabels instanceName instanceLabels =
     Some (mergeOne (\<lambda>label. \<not> HasPrefix label ''app.kubernetes.io'') (Label instanceName) instanceLabels)"

definition LabelSelector :: "string \<Rightarrow> string gomap" where
  "LabelSelector instanceName = Some [''app.kubernetes.io/name'' \<mapsto> instanceName]"

text \<open>A label selector that lists labels selects the objects that carry all of them.\<close>

definition selects :: "string gomap \<Rightarrow> string gomap \<Rightarrow> bool" where
  "selects sel labels =
     (case sel of None \<Rightarrow> True
      | Some s \<Rightarrow> s \<subseteq>\<^sub>m (case labels of None \<Rightarrow> Map.empty | Some l \<Rightarrow> l))"

section \<open>Lemmas\<close>

lemma mergeOne_idem [simp]: "mergeOne f (mergeOne f r m) m = mergeOne f r m"
  by (auto simp: mergeOne_def split: option.splits)

lemma mergeOne_filtered: "\<not> f k \<Longrightarrow> mergeOne f r m k = r k"
  by (simp add: mergeOne_def split: option.splits)

lemma foldl_mergeOne_filtered: "\<not> f k \<Longrightarrow> foldl (mergeOne f) r ms k = r k"
  by (induction ms arbitrary: r) (simp_all add: mergeOne_filtered)

lemma filter_annotations_idem [simp]:
  "ReconcileAndFilterAnnotations (ReconcileAndFilterAnnotations base [m]) [m] =
   ReconcileAndFilterAnnotations base [m]"
  by (simp add: ReconcileAndFilterAnnotations_def mergeWithFilter_def)

lemma filter_annotations_kubernetes:
  "isKubernetesAnnotation k \<Longrightarrow> mget (ReconcileAndFilterAnnotations base ms) k = mget base k"
  by (simp add: ReconcileAndFilterAnnotations_def mergeWithFilter_def mget_def
      foldl_mergeOne_filtered isNotKubernetesAnnotation_def split: option.split)

lemma Label_keys: "k \<in> dom (Label n) \<Longrightarrow> HasPrefix k ''app.kubernetes.io''"
  by (auto simp: Label_def HasPrefix_def split: if_splits)

lemma GetLabels_operator:
  "HasPrefix k ''app.kubernetes.io'' \<Longrightarrow> mget (GetLabels n ls) k = Label n k"
  by (simp add: GetLabels_def mget_def mergeOne_filtered)

lemma LabelSelector_selects: "selects (LabelSelector n) (GetLabels n ls)"
proof -
  have "mget (GetLabels n ls) ''app.kubernetes.io/name'' = Some n"
    by (subst GetLabels_operator) (simp_all add: HasPrefix_def Label_def)
  then show ?thesis
    by (simp add: selects_def LabelSelector_def map_le_def GetLabels_def mget_def)
qed

section \<open>Properties of the metadata\<close>

text \<open>
  The labels of a child resource: a label of the cluster is copied unless it begins with
  \<open>app.kubernetes.io\<close>, in which case the operator's own label, or none, stands; so a user cannot
  override the three labels of the operator, and the selector of the operator's services
  always selects the labelled objects.
\<close>

theorem GetLabels_meaning:
  "mget (GetLabels n ls) k =
     (if HasPrefix k ''app.kubernetes.io'' then Label n k else mget ls k) \<and>
   selects (LabelSelector n) (GetLabels n ls)"
proof -
  have "Label n k = None" if "\<not> HasPrefix k ''app.kubernetes.io''"
    using that Label_keys by blast
  then show ?thesis
    using LabelSelector_selects [of n ls] GetLabels_operator [of k n ls]
    by (simp add: GetLabels_def mget_def mergeOne_def split: option.split)
qed

text \<open>
  Merging the annotations of the cluster into those of a child never touches an annotation of
  Kubernetes itself, carries every other annotation of the cluster over, keeps what the child
  had under all other keys, and a second merge changes nothing.
\<close>

theorem ReconcileAndFilterAnnotations_meaning:
  "mget (ReconcileAndFilterAnnotations base [m]) k =
     (if isKubernetesAnnotation k \<or> mget m k = None then mget base k else mget m k) \<and>
   ReconcileAndFilterAnnotations (ReconcileAndFilterAnnotations base [m]) [m] =
     ReconcileAndFilterAnnotations base [m]"
  using filter_annotations_kubernetes [of k base "[m]"]
  by (auto simp: ReconcileAndFilterAnnotations_def mergeWithFilter_def mergeOne_def mget_def
      isNotKubernetesAnnotation_def split: option.splits)

section \<open>Plugins\<close>

definition requiredPlugins :: "string list" where
  "requiredPlugins = [''rabbitmq_peer_discovery_k8s'', ''rabbitmq_prometheus'', ''rabbitmq_management'']"

record RabbitmqPlugins =
  rp_requiredPlugins :: "string list"
  rp_additionalPlugins :: "string list"

definition NewRabbitmqPlugins :: "Plugin list \<Rightarrow> RabbitmqPlugins" where
  "NewRabbitmqPlugins plugins =
     \<lparr>rp_requiredPlugins = requiredPlugins, rp_additionalPlugins = plugins\<rparr>"

text \<open>The loop over all plugins, with the map \<open>check\<close> of those seen and the result so far.\<close>

fun desiredPluginsLoop ::
  "string list \<Rightarrow> (string \<rightharpoonup> bool) \<Rightarrow> string list \<Rightarrow> string list" where
  "desiredPluginsLoop [] check enabledPlugins = enabledPlugins"
| "desiredPluginsLoop (p # ps) check enabledPlugins =
     (if check p = None
      then desiredPluginsLoop ps (check(p \<mapsto> True)) (enabledPlugins @ [p])
      else desiredPluginsLoop ps check enabledPlugins)"

definition DesiredPlugins :: "RabbitmqPlugins \<Rightarrow> string list" where
  "DesiredPlugins r =
     desiredPluginsLoop (rp_requiredPlugins r @ rp_additionalPlugins r) Map.empty []"

definition AsString :: "RabbitmqPlugins \<Rightarrow> string \<Rightarrow> string" where
  "AsString r sep = Join (DesiredPlugins r) sep"

definition desiredPluginsAsString :: "Plugin list \<Rightarrow> string" where
  "desiredPluginsAsString additionalPlugins =
     ''['' @ AsString (NewRabbitmqPlugins additionalPlugins) '','' @ ''].''"

text \<open>The loop only appends: the plugins not seen before, once each, in the order of the list.\<close>

lemma desiredPluginsLoop_appends:
  "dom check = set acc \<Longrightarrow> distinct acc \<Longrightarrow>
     \<exists>new. desiredPluginsLoop ps check acc = acc @ new \<and> subseq new ps \<and>
           distinct (acc @ new) \<and> set new = set ps - set acc"
proof (induction ps check acc rule: desiredPluginsLoop.induct)
  case (2 p ps check acc)
  show ?case
  proof (cases "check p = None")
    case True
    with "2.prems" have "p \<notin> set acc" by auto
    with "2.prems" have "dom (check(p \<mapsto> True)) = set (acc @ [p])" "distinct (acc @ [p])" by auto
    then obtain new where "desiredPluginsLoop ps (check(p \<mapsto> True)) (acc @ [p]) = (acc @ [p]) @ new"
      "subseq new ps" "distinct ((acc @ [p]) @ new)" "set new = set ps - set (acc @ [p])"
      using "2.IH"(1) [OF True] by blast
    with True \<open>p \<notin> set acc\<close> show ?thesis by (intro exI [of _ "p # new"]) auto
  next
    case False
    with "2.prems" have "p \<in> set acc" by auto
    then obtain new where "desiredPluginsLoop ps check acc = acc @ new"
      "subseq new ps" "distinct (acc @ new)" "set new = set ps - set acc"
      using "2.IH"(2) [OF False "2.prems"] by blast
    with False \<open>p \<in> set acc\<close> show ?thesis
      by (intro exI [of _ new]) (simp add: list_emb_Cons insert_Diff_if del: not_None_eq)
  qed
qed simp

lemma desiredPluginsLoop_required:
  "desiredPluginsLoop (requiredPlugins @ ps) Map.empty [] =
     desiredPluginsLoop ps (Map.empty (''rabbitmq_peer_discovery_k8s'' \<mapsto> True,
       ''rabbitmq_prometheus'' \<mapsto> True, ''rabbitmq_management'' \<mapsto> True)) requiredPlugins"
  by (simp add: requiredPlugins_def)

text \<open>
  The plugins of a node: the three required ones first, whatever the user lists, then every
  other plugin the user lists, once each and in the order of the list.
\<close>

theorem DesiredPlugins_meaning:
  "\<exists>new. DesiredPlugins (NewRabbitmqPlugins plugins) = requiredPlugins @ new \<and>
     distinct (requiredPlugins @ new) \<and> subseq new plugins \<and>
     set new = set plugins - set requiredPlugins"
proof -
  have "distinct requiredPlugins" by (simp add: requiredPlugins_def)
  moreover have "dom [''rabbitmq_peer_discovery_k8s'' \<mapsto> True, ''rabbitmq_prometheus'' \<mapsto> True,
      ''rabbitmq_management'' \<mapsto> True] = set requiredPlugins"
    by (simp add: requiredPlugins_def insert_commute)
  ultimately show ?thesis
    unfolding DesiredPlugins_def NewRabbitmqPlugins_def
    unfolding RabbitmqPlugins.select_convs desiredPluginsLoop_required
    using desiredPluginsLoop_appends by blast
qed

end
