(* ===== verification/Resource_Builder.thy ===== *)
theory Resource_Builder
  imports Metadata
begin

text \<open>
  Package \<open>internal/resource\<close>: the builder shared by all resources, the contract of the interface
  \<open>ResourceBuilder\<close>, and the builders of the headless service, the plugins config map, the
  service account, the role and the role binding.
\<close>

section \<open>The builder\<close>

text \<open>
  The builder holds the cluster and the type registry. The registry is only used to call
  \<open>controllerutil.SetControllerReference\<close> of the controller-runtime package, so the field
  \<open>Scheme\<close> is that function: it takes the owner and the metadata of the owned object.
\<close>

record RabbitmqResourceBuilder =
  Instance :: RabbitmqCluster
  Scheme :: "RabbitmqCluster \<Rightarrow> objectMeta \<Rightarrow> goerror + objectMeta"

definition SetControllerReference ::
  "RabbitmqResourceBuilder \<Rightarrow> objectMeta \<Rightarrow> goerror + objectMeta" where
  "SetControllerReference b m =
     (case Scheme b (Instance b) m of
        Inl e \<Rightarrow> Inl (WrapError ''failed setting controller reference'' e)
      | Inr m' \<Rightarrow> Inr m')"

text \<open>
  What the operator relies on: a successful call changes nothing but the owner references, and
  calling it again on its own result changes nothing.
\<close>

definition reference_only :: "RabbitmqResourceBuilder \<Rightarrow> bool" where
  "reference_only b \<longleftrightarrow>
     (\<forall>m m'. Scheme b (Instance b) m = Inr m' \<longrightarrow> m' = m\<lparr>OwnerReferences := OwnerReferences m'\<rparr>)"

definition reference_idem :: "RabbitmqResourceBuilder \<Rightarrow> bool" where
  "reference_idem b \<longleftrightarrow>
     (\<forall>m m'. Scheme b (Instance b) m = Inr m' \<longrightarrow> Scheme b (Instance b) m' = Inr m')"

text \<open>The labels and annotations most builders give their object.\<close>

definition clusterLabels :: "RabbitmqResourceBuilder \<Rightarrow> string gomap" where
  "clusterLabels b = GetLabels (cluster_Name (Instance b)) (Labels (Meta (Instance b)))"

definition childMeta :: "RabbitmqResourceBuilder \<Rightarrow> objectMeta \<Rightarrow> objectMeta" where
  "childMeta b m = m\<lparr>Labels := clusterLabels b,
     Annotations := ReconcileAndFilterAnnotations (Annotations m) [Annotations (Meta (Instance b))]\<rparr>"

section \<open>Merging user overrides into metadata\<close>

definition mergeMap :: "string gomap \<Rightarrow> string gomap \<Rightarrow> string gomap" where
  "mergeMap base override =
     Some ((case base of None \<Rightarrow> Map.empty | Some m \<Rightarrow> m) ++
           (case override of None \<Rightarrow> Map.empty | Some m \<Rightarrow> m))"

definition copyLabelsAnnotations :: "objectMeta \<Rightarrow> EmbeddedLabelsAnnotations \<Rightarrow> objectMeta" where
  "copyLabelsAnnotations base override =
     (let m = (if el_Labels override \<noteq> None
               then base\<lparr>Labels := mergeMap (Labels base) (el_Labels override)\<rparr> else base)
      in if el_Annotations override \<noteq> None
         then m\<lparr>Annotations := mergeMap (Annotations m) (el_Annotations override)\<rparr> else m)"

definition copyObjectMeta :: "objectMeta \<Rightarrow> EmbeddedObjectMeta \<Rightarrow> objectMeta" where
  "copyObjectMeta base override =
     (let m0 = (if em_Name override \<noteq> [] then base\<lparr>Name := em_Name override\<rparr> else base);
          m = (if em_Labels override \<noteq> None
               then m0\<lparr>Labels := mergeMap (Labels m0) (em_Labels override)\<rparr> else m0)
      in if em_Annotations override \<noteq> None
         then m\<lparr>Annotations := mergeMap (Annotations m) (em_Annotations override)\<rparr> else m)"

section \<open>The headless service\<close>

definition headlessServiceSuffix :: string where "headlessServiceSuffix = ''nodes''"

definition HeadlessService_Build :: "RabbitmqResourceBuilder \<Rightarrow> service" where
  "HeadlessService_Build b =
     \<lparr>svc_Meta = namedMeta (ChildResourceName (Instance b) headlessServiceSuffix)
        (cluster_Namespace (Instance b)),
      svc_Spec = emptyServiceSpec\<rparr>"

definition tcpPort :: "string \<Rightarrow> int \<Rightarrow> string option \<Rightarrow> servicePort" where
  "tcpPort name n app = \<lparr>sp_Name = name, sp_Protocol = ''TCP'', sp_Port = n,
     sp_TargetPort = IntVal n, sp_AppProtocol = app, sp_NodePort = 0\<rparr>"

definition headlessServiceSpec :: "RabbitmqResourceBuilder \<Rightarrow> serviceSpec" where
  "headlessServiceSpec b = emptyServiceSpec\<lparr>
     svcs_Type := ''ClusterIP'',
     svcs_ClusterIP := ''None'',
     svcs_SessionAffinity := ''None'',
     svcs_Selector := LabelSelector (cluster_Name (Instance b)),
     svcs_Ports := [tcpPort ''epmd'' 4369 None, tcpPort ''cluster-rpc'' 25672 None],
     svcs_PublishNotReadyAddresses := True,
     svcs_IPFamilyPolicy := ss_IPFamilyPolicy (ServiceSpec (Spec (Instance b)))\<rparr>"

definition HeadlessService_Update :: "RabbitmqResourceBuilder \<Rightarrow> service \<Rightarrow> goerror + service" where
  "HeadlessService_Update b svc =
     bindE (SetControllerReference b (childMeta b (svc_Meta svc))) (\<lambda>m.
       Inr (svc\<lparr>svc_Meta := m, svc_Spec := headlessServiceSpec b\<rparr>))"

section \<open>The plugins config map\<close>

definition PluginsConfigName :: string where "PluginsConfigName = ''plugins-conf''"

definition PluginsConfigMap_Build :: "RabbitmqResourceBuilder \<Rightarrow> configMap" where
  "PluginsConfigMap_Build b =
     \<lparr>cm_Meta = (namedMeta (ChildResourceName (Instance b) PluginsConfigName)
          (cluster_Namespace (Instance b)))\<lparr>Labels := clusterLabels b,
          Annotations := ReconcileAndFilterAnnotations None [Annotations (Meta (Instance b))]\<rparr>,
      cm_Data = Some [''enabled_plugins'' \<mapsto> desiredPluginsAsString []]\<rparr>"

definition PluginsConfigMap_Update :: "RabbitmqResourceBuilder \<Rightarrow> configMap \<Rightarrow> goerror + configMap" where
  "PluginsConfigMap_Update b cm =
     (let data = (case cm_Data cm of None \<Rightarrow> Map.empty | Some d \<Rightarrow> d);
          data' = data(''enabled_plugins'' \<mapsto>
            desiredPluginsAsString (AdditionalPlugins (Rabbitmq (Spec (Instance b)))))
      in bindE (SetControllerReference b (cm_Meta cm)) (\<lambda>m.
           Inr (cm\<lparr>cm_Meta := m, cm_Data := Some data'\<rparr>)))"

section \<open>Service account, role and role binding\<close>

definition serviceAccountName :: string where "serviceAccountName = ''server''"
definition roleName :: string where "roleName = ''peer-discovery''"
definition roleBindingName :: string where "roleBindingName = ''server''"

definition ServiceAccount_Build :: "RabbitmqResourceBuilder \<Rightarrow> serviceAccount" where
  "ServiceAccount_Build b =
     \<lparr>sa_Meta = namedMeta (ChildResourceName (Instance b) serviceAccountName)
        (cluster_Namespace (Instance b))\<rparr>"

definition ServiceAccount_Update ::
  "RabbitmqResourceBuilder \<Rightarrow> serviceAccount \<Rightarrow> goerror + serviceAccount" where
  "ServiceAccount_Update b sa =
     bindE (SetControllerReference b (childMeta b (sa_Meta sa))) (\<lambda>m. Inr (sa\<lparr>sa_Meta := m\<rparr>))"

definition Role_Build :: "RabbitmqResourceBuilder \<Rightarrow> role" where
  "Role_Build b =
     \<lparr>role_Meta = namedMeta (ChildResourceName (Instance b) roleName) (cluster_Namespace (Instance b)),
      role_Rules = []\<rparr>"

definition peerDiscoveryRules :: "policyRule list" where
  "peerDiscoveryRules =
     [\<lparr>rule_APIGroups = [''''], rule_Resources = [''endpoints''], rule_Verbs = [''get'']\<rparr>,
      \<lparr>rule_APIGroups = [''''], rule_Resources = [''events''], rule_Verbs = [''create'']\<rparr>]"

definition Role_Update :: "RabbitmqResourceBuilder \<Rightarrow> role \<Rightarrow> goerror + role" where
  "Role_Update b r =
     bindE (SetControllerReference b (childMeta b (role_Meta r))) (\<lambda>m.
       Inr (r\<lparr>role_Meta := m, role_Rules := peerDiscoveryRules\<rparr>))"

definition RoleBinding_Build :: "RabbitmqResourceBuilder \<Rightarrow> roleBinding" where
  "RoleBinding_Build b =
     \<lparr>rb_Meta = namedMeta (ChildResourceName (Instance b) roleBindingName)
        (cluster_Namespace (Instance b)),
      rb_RoleRef = ([], [], []), rb_Subjects = []\<rparr>"

definition RoleBinding_Update :: "RabbitmqResourceBuilder \<Rightarrow> roleBinding \<Rightarrow> goerror + roleBinding" where
  "RoleBinding_Update b rb =
     bindE (SetControllerReference b (childMeta b (rb_Meta rb))) (\<lambda>m.
       Inr (rb\<lparr>rb_Meta := m,
         rb_RoleRef := (''rbac.authorization.k8s.io'', ''Role'', ChildResourceName (Instance b) roleName),
         rb_Subjects := [\<lparr>subj_Kind = ''ServiceAccount'',
            subj_Name = ChildResourceName (Instance b) serviceAccountName,
            subj_Namespace = cluster_Namespace (Instance b)\<rparr>]\<rparr>))"

section \<open>The contract of a resource builder\<close>

text \<open>
  \<open>built b x\<close>: the builder's \<open>Build\<close> can return \<open>x\<close>; \<open>updated b x y\<close>: its \<open>Update\<close> can turn \<open>x\<close>
  into \<open>y\<close> without error. The built object carries the child's name in the cluster's namespace, and
  an update keeps both, so whatever sequence of updates follows, the object stays the same
  object for the API server.
\<close>

locale resource_builder =
  fixes meta :: "'o \<Rightarrow> objectMeta"
    and suffix :: string
    and built :: "RabbitmqResourceBuilder \<Rightarrow> 'o \<Rightarrow> bool"
    and updated :: "RabbitmqResourceBuilder \<Rightarrow> 'o \<Rightarrow> 'o \<Rightarrow> bool"
  assumes built_identity: "built b x \<Longrightarrow>
      Name (meta x) = ChildResourceName (Instance b) suffix \<and>
      Namespace (meta x) = cluster_Namespace (Instance b)"
    and updated_identity: "reference_only b \<Longrightarrow> updated b x y \<Longrightarrow>
      Name (meta y) = Name (meta x) \<and> Namespace (meta y) = Namespace (meta x)"
begin

lemma updates_identity:
  assumes "reference_only b" and "(updated b)\<^sup>*\<^sup>* x y"
  shows "Name (meta y) = Name (meta x) \<and> Namespace (meta y) = Namespace (meta x)"
  using assms(2) by induction (simp_all add: updated_identity [OF assms(1)])

lemma child_identity:
  assumes "reference_only b" "built b x" "(updated b)\<^sup>*\<^sup>* x y"
  shows "Name (meta y) = ChildResourceName (Instance b) suffix \<and>
         Namespace (meta y) = cluster_Namespace (Instance b)"
  using updates_identity [OF assms(1,3)] built_identity [OF assms(2)] by simp

end

text \<open>
  A stable builder reaches a fixed point with its first update: the comparison of the object
  before and after, which decides whether the API server is called, then finds no difference.
\<close>

locale stable_builder = resource_builder +
  assumes updated_again: "reference_only b \<Longrightarrow> reference_idem b \<Longrightarrow> updated b x y \<Longrightarrow> updated b y z \<Longrightarrow> z = y"
    and updated_defined: "reference_only b \<Longrightarrow> reference_idem b \<Longrightarrow> updated b x y \<Longrightarrow> \<exists>z. updated b y z"
begin

lemma updates_settle:
  assumes "reference_only b" "reference_idem b" "(updated b)\<^sup>+\<^sup>+ x y"
  shows "updated b x y"
  using assms(3) by induction (auto dest: updated_again [OF assms(1,2)])

lemma settled: "reference_only b \<Longrightarrow> reference_idem b \<Longrightarrow> updated b x y \<Longrightarrow> updated b y y"
  using updated_again updated_defined by metis

end

section \<open>The builders satisfy it\<close>

lemma reference_names:
  assumes "reference_only b" "SetControllerReference b m = Inr m'"
  shows "Name m' = Name m" "Namespace m' = Namespace m" "Labels m' = Labels m"
    "Annotations m' = Annotations m"
proof -
  have "Scheme b (Instance b) m = Inr m'"
    using assms(2) by (simp add: SetControllerReference_def split: sum.splits)
  with assms(1) have "m' = m\<lparr>OwnerReferences := OwnerReferences m'\<rparr>"
    unfolding reference_only_def by blast
  then show "Name m' = Name m" "Namespace m' = Namespace m" "Labels m' = Labels m"
    "Annotations m' = Annotations m"
    by (metis objectMeta.select_convs objectMeta.surjective objectMeta.update_convs(5))+
qed

lemma reference_again:
  assumes "reference_idem b" "SetControllerReference b m = Inr m'"
  shows "SetControllerReference b m' = Inr m'"
  using assms by (auto simp: SetControllerReference_def reference_idem_def split: sum.splits)

lemma childMeta_names [simp]:
  "Name (childMeta b m) = Name m" "Namespace (childMeta b m) = Namespace m"
  by (simp_all add: childMeta_def)

lemma childMeta_settled:
  assumes "reference_only b" "SetControllerReference b (childMeta b m) = Inr m'"
  shows "childMeta b m' = m'"
proof -
  have "Labels m' = clusterLabels b"
    "Annotations m' = ReconcileAndFilterAnnotations (Annotations m) [Annotations (Meta (Instance b))]"
    using reference_names [OF assms] by (simp_all add: childMeta_def)
  then show ?thesis by (cases m') (simp add: childMeta_def)
qed

text \<open>
  The shape of the stable builders: prepare the metadata, set the owner, then write the rest of
  the object, which reads nothing the builder itself has written.
\<close>

lemma stable_builderI:
  assumes built: "\<And>b x. built b x \<Longrightarrow> Name (meta x) = ChildResourceName (Instance b) sfx \<and>
      Namespace (meta x) = cluster_Namespace (Instance b)"
    and upd: "\<And>b x y. updated b x y \<longleftrightarrow>
      ok x \<and> (\<exists>m. SetControllerReference b (prep b (meta x)) = Inr m \<and> y = fin b m x)"
    and names: "\<And>b m. Name (prep b m) = Name m \<and> Namespace (prep b m) = Namespace m"
    and settle: "\<And>b m m'. reference_only b \<Longrightarrow> SetControllerReference b (prep b m) = Inr m' \<Longrightarrow> prep b m' = m'"
    and meta: "\<And>b m x. meta (fin b m x) = m"
    and ok: "\<And>b m x. ok x \<Longrightarrow> ok (fin b m x)"
    and fin: "\<And>b m x. ok x \<Longrightarrow> fin b m (fin b m x) = fin b m x"
  shows "stable_builder meta sfx built updated"
proof unfold_locales
  fix b x y assume "updated b x y" and r: "reference_only b"
  then obtain m where "SetControllerReference b (prep b (meta x)) = Inr m" "y = fin b m x"
    by (auto simp: upd)
  then show "Name (meta y) = Name (meta x) \<and> Namespace (meta y) = Namespace (meta x)"
    using reference_names [OF r] names by (simp add: meta)
next
  fix b x y assume r: "reference_only b" "reference_idem b" and "updated b x y"
  then obtain m where x: "ok x" and m: "SetControllerReference b (prep b (meta x)) = Inr m"
    and y: "y = fin b m x" by (auto simp: upd)
  have again: "SetControllerReference b (prep b (meta y)) = Inr m"
    using settle [OF r(1) m] reference_again [OF r(2) m] by (simp add: y meta)
  show "\<exists>z. updated b y z"
    using again x ok by (auto simp: upd y)
  show "z = y" if "updated b y z" for z
    using that again x by (auto simp: upd y fin)
qed (rule built)

interpretation headless: stable_builder svc_Meta headlessServiceSuffix
  "\<lambda>b x. x = HeadlessService_Build b" "\<lambda>b x y. HeadlessService_Update b x = Inr y"
  by (rule stable_builderI [where ok = "\<lambda>_. True" and prep = childMeta
        and fin = "\<lambda>b m svc. svc\<lparr>svc_Meta := m, svc_Spec := headlessServiceSpec b\<rparr>"])
    (auto simp: HeadlessService_Build_def HeadlessService_Update_def bindE_Inr_iff
      intro: childMeta_settled)

interpretation plugins: stable_builder cm_Meta PluginsConfigName
  "\<lambda>b x. x = PluginsConfigMap_Build b" "\<lambda>b x y. PluginsConfigMap_Update b x = Inr y"
  by (rule stable_builderI [where ok = "\<lambda>_. True" and prep = "\<lambda>b m. m"
        and fin = "\<lambda>b m cm. cm\<lparr>cm_Meta := m, cm_Data := Some
          ((case cm_Data cm of None \<Rightarrow> Map.empty | Some d \<Rightarrow> d)(''enabled_plugins'' \<mapsto>
            desiredPluginsAsString (AdditionalPlugins (Rabbitmq (Spec (Instance b))))))\<rparr>"])
    (auto simp: PluginsConfigMap_Build_def PluginsConfigMap_Update_def bindE_Inr_iff Let_def)

interpretation sa: stable_builder sa_Meta serviceAccountName
  "\<lambda>b x. x = ServiceAccount_Build b" "\<lambda>b x y. ServiceAccount_Update b x = Inr y"
  by (rule stable_builderI [where ok = "\<lambda>_. True" and prep = childMeta
        and fin = "\<lambda>b m x. x\<lparr>sa_Meta := m\<rparr>"])
    (auto simp: ServiceAccount_Build_def ServiceAccount_Update_def bindE_Inr_iff
      intro: childMeta_settled)

interpretation role: stable_builder role_Meta roleName
  "\<lambda>b x. x = Role_Build b" "\<lambda>b x y. Role_Update b x = Inr y"
  by (rule stable_builderI [where ok = "\<lambda>_. True" and prep = childMeta
        and fin = "\<lambda>b m x. x\<lparr>role_Meta := m, role_Rules := peerDiscoveryRules\<rparr>"])
    (auto simp: Role_Build_def Role_Update_def bindE_Inr_iff intro: childMeta_settled)

definition boundRoleBinding :: "RabbitmqResourceBuilder \<Rightarrow> objectMeta \<Rightarrow> roleBinding" where
  "boundRoleBinding b m = \<lparr>rb_Meta = m,
     rb_RoleRef = (''rbac.authorization.k8s.io'', ''Role'', ChildResourceName (Instance b) roleName),
     rb_Subjects = [\<lparr>subj_Kind = ''ServiceAccount'',
        subj_Name = ChildResourceName (Instance b) serviceAccountName,
        subj_Namespace = cluster_Namespace (Instance b)\<rparr>]\<rparr>"

interpretation rb: stable_builder rb_Meta roleBindingName
  "\<lambda>b x. x = RoleBinding_Build b" "\<lambda>b x y. RoleBinding_Update b x = Inr y"
  by (rule stable_builderI [where ok = "\<lambda>_. True" and prep = childMeta
        and fin = "\<lambda>b m x. boundRoleBinding b m"])
    (auto simp: RoleBinding_Build_def RoleBinding_Update_def boundRoleBinding_def bindE_Inr_iff
      intro: childMeta_settled)

end
