(* ===== verification/Service_Builder.thy ===== *)
theory Service_Builder
  imports Resource_Builder
begin

text \<open>
  \<open>internal/resource/service.go\<close>: the client service of a cluster and its ports. A Go map is
  iterated in an unspecified order; the argument \<open>order\<close> lists the keys of a map in the order the
  run happens to visit them.
\<close>

type_synonym port_order = "(string \<rightharpoonup> servicePort) \<Rightarrow> string list"

definition iterates :: "port_order \<Rightarrow> bool" where
  "iterates order \<longleftrightarrow> (\<forall>m. finite (dom m) \<longrightarrow> distinct (order m) \<and> set (order m) = dom m)"

section \<open>Ports\<close>

text \<open>
  The assignments \<open>servicePortsMap[name] = ServicePort{Name: name, ...}\<close> in the order of the
  code; the key is always the name of the port.
\<close>

definition portsWhen :: "(bool \<times> servicePort) list \<Rightarrow> servicePort list" where
  "portsWhen cs = map snd (filter fst cs)"

definition plainPortTable :: "RabbitmqCluster \<Rightarrow> (bool \<times> servicePort) list" where
  "plainPortTable r =
     [(True, tcpPort ''amqp'' 5672 (Some ''amqp'')),
      (True, tcpPort ''management'' 15672 (Some ''http'')),
      (AdditionalPluginEnabled r ''rabbitmq_mqtt'', tcpPort ''mqtt'' 1883 (Some ''mqtt'')),
      (AdditionalPluginEnabled r ''rabbitmq_web_mqtt'', tcpPort ''web-mqtt'' 15675 (Some ''http'')),
      (AdditionalPluginEnabled r ''rabbitmq_stomp'',
         tcpPort ''stomp'' 61613 (Some ''stomp.github.io/stomp'')),
      (AdditionalPluginEnabled r ''rabbitmq_web_stomp'', tcpPort ''web-stomp'' 15674 (Some ''http'')),
      (AdditionalPluginEnabled r ''rabbitmq_web_amqp'', tcpPort ''web-amqp'' 15678 (Some ''http'')),
      (StreamNeeded r, tcpPort ''stream'' 5552 (Some ''rabbitmq.com/stream''))]"

definition tlsPortTable :: "RabbitmqCluster \<Rightarrow> (bool \<times> servicePort) list" where
  "tlsPortTable r =
     [(True, tcpPort ''amqps'' 5671 (Some ''amqps'')),
      (True, tcpPort ''management-tls'' 15671 (Some ''https'')),
      (AdditionalPluginEnabled r ''rabbitmq_stomp'',
         tcpPort ''stomps'' 61614 (Some ''stomp.github.io/stomp-tls'')),
      (AdditionalPluginEnabled r ''rabbitmq_mqtt'', tcpPort ''mqtts'' 8883 (Some ''mqtts'')),
      (AdditionalPluginEnabled r ''rabbitmq_web_stomp'',
         tcpPort ''web-stomp-tls'' 15673 (Some ''https'')),
      (AdditionalPluginEnabled r ''rabbitmq_web_mqtt'',
         tcpPort ''web-mqtt-tls'' 15676 (Some ''https'')),
      (AdditionalPluginEnabled r ''rabbitmq_web_amqp'',
         tcpPort ''web-amqp-tls'' 15677 (Some ''https'')),
      (StreamNeeded r, tcpPort ''streams'' 5551 (Some ''rabbitmq.com/stream-tls'')),
      (True, tcpPort ''prometheus-tls'' 15691 (Some ''prometheus.io/metric-tls''))]"

definition generatedPorts :: "RabbitmqCluster \<Rightarrow> servicePort list" where
  "generatedPorts r =
     (if \<not> DisableNonTLSListeners r then portsWhen (plainPortTable r) else []) @
     (if TLSEnabled r then portsWhen (tlsPortTable r)
      else [tcpPort ''prometheus'' 15692 (Some ''prometheus.io/metrics'')])"

definition generateServicePortsMap :: "RabbitmqCluster \<Rightarrow> (string \<rightharpoonup> servicePort)" where
  "generateServicePortsMap r =
     foldl (\<lambda>m p. m(sp_Name p \<mapsto> p)) Map.empty (generatedPorts r)"

text \<open>
  The first loop of \<open>updatePorts\<close> keeps the ports of the existing service that are still wanted,
  with their node ports, and takes them out of the map; the second appends what is left.
\<close>

fun keepPorts ::
  "servicePort list \<Rightarrow> (string \<rightharpoonup> servicePort) \<Rightarrow> servicePort list
     \<Rightarrow> (string \<rightharpoonup> servicePort) \<times> servicePort list" where
  "keepPorts [] m updated = (m, updated)"
| "keepPorts (p # ps) m updated =
     (case m (sp_Name p) of
        None \<Rightarrow> keepPorts ps m updated
      | Some value \<Rightarrow>
          keepPorts ps (m(sp_Name p := None)) (updated @ [value\<lparr>sp_NodePort := sp_NodePort p\<rparr>]))"

definition updatePorts ::
  "port_order \<Rightarrow> RabbitmqCluster \<Rightarrow> servicePort list \<Rightarrow> servicePort list" where
  "updatePorts order r servicePorts =
     (case keepPorts servicePorts (generateServicePortsMap r) [] of
        (m, updated) \<Rightarrow> updated @ map (\<lambda>k. the (m k)) (order m))"

section \<open>The service\<close>

definition ServiceSuffix :: string where "ServiceSuffix = ''''"

definition Service_Build :: "RabbitmqResourceBuilder \<Rightarrow> service" where
  "Service_Build b =
     \<lparr>svc_Meta = namedMeta (ChildResourceName (Instance b) ServiceSuffix) (cluster_Namespace (Instance b)),
      svc_Spec = emptyServiceSpec\<rparr>"

definition setAnnotations :: "RabbitmqResourceBuilder \<Rightarrow> string gomap \<Rightarrow> string gomap" where
  "setAnnotations b existing =
     (let own = ss_Annotations (ServiceSpec (Spec (Instance b)));
          filtered = ReconcileAndFilterAnnotations existing [Annotations (Meta (Instance b))]
      in if own \<noteq> None then ReconcileAnnotations filtered [own] else filtered)"

definition serviceLabels :: "RabbitmqResourceBuilder \<Rightarrow> string gomap" where
  "serviceLabels b =
     (let labels = clusterLabels b
      in case ss_Labels (ServiceSpec (Spec (Instance b))) of
           None \<Rightarrow> labels
         | Some extra \<Rightarrow>
             Some (\<lambda>k. case mget labels k of Some v \<Rightarrow> Some v | None \<Rightarrow> extra k))"

text \<open>
  Applying an override marshals both specs, computes a strategic merge patch and unmarshals the
  result; this is the function \<open>patch\<close> of the Kubernetes libraries, whose error the code wraps.
\<close>

definition applySvcOverride ::
  "(serviceSpec \<Rightarrow> serviceSpec \<Rightarrow> goerror + serviceSpec) \<Rightarrow> service \<Rightarrow> ServiceOverride
     \<Rightarrow> goerror + service" where
  "applySvcOverride patch svc override =
     (let svc1 = (case osv_Meta override of
                    None \<Rightarrow> svc
                  | Some e \<Rightarrow> svc\<lparr>svc_Meta := copyLabelsAnnotations (svc_Meta svc) e\<rparr>)
      in case osv_Spec override of
           None \<Rightarrow> Inr svc1
         | Some spec \<Rightarrow>
             (case patch (svc_Spec svc1) spec of
                Inl e \<Rightarrow> Inl (WrapError ''error patching Service Spec'' e)
              | Inr patched \<Rightarrow> Inr (svc1\<lparr>svc_Spec := patched\<rparr>)))"

definition generatedServiceSpec :: "port_order \<Rightarrow> RabbitmqResourceBuilder \<Rightarrow> serviceSpec \<Rightarrow> serviceSpec" where
  "generatedServiceSpec order b spec =
     (let r = Instance b; t = ss_Type (ServiceSpec (Spec r));
          ports = updatePorts order r (svcs_Ports spec);
          ports' = (if t = ''ClusterIP'' \<or> t = '''' then map (\<lambda>p. p\<lparr>sp_NodePort := 0\<rparr>) ports else ports)
      in spec\<lparr>svcs_Type := t, svcs_Selector := LabelSelector (cluster_Name r),
           svcs_IPFamilyPolicy := ss_IPFamilyPolicy (ServiceSpec (Spec r)), svcs_Ports := ports'\<rparr>)"

definition Service_Update ::
  "port_order \<Rightarrow> (serviceSpec \<Rightarrow> serviceSpec \<Rightarrow> goerror + serviceSpec)
     \<Rightarrow> RabbitmqResourceBuilder \<Rightarrow> service \<Rightarrow> goerror + service" where
  "Service_Update order patch b svc =
     (let m = (svc_Meta svc)\<lparr>Annotations := setAnnotations b (Annotations (svc_Meta svc)),
                             Labels := serviceLabels b\<rparr>;
          svc1 = svc\<lparr>svc_Meta := m, svc_Spec := generatedServiceSpec order b (svc_Spec svc)\<rparr>
      in bindE (case ov_Service (Override (Spec (Instance b))) of
                  None \<Rightarrow> Inr svc1
                | Some override \<Rightarrow>
                    (case applySvcOverride patch svc1 override of
                       Inl e \<Rightarrow> Inl (WrapError ''failed applying Service override'' e)
                     | Inr s \<Rightarrow> Inr s))
           (\<lambda>svc2. bindE (SetControllerReference b (svc_Meta svc2))
              (\<lambda>m'. Inr (svc2\<lparr>svc_Meta := m'\<rparr>))))"

section \<open>Lemmas\<close>

lemma portsWhen_distinct:
  "distinct (map (\<lambda>c. f (snd c)) cs) \<Longrightarrow> distinct (map f (portsWhen cs))"
  unfolding portsWhen_def map_map comp_def by (rule distinct_map_filter)

lemma portsWhen_subset: "set (portsWhen cs) \<subseteq> snd ` set cs"
  by (auto simp: portsWhen_def)

lemma portsWhen_iff: "p \<in> set (portsWhen cs) \<longleftrightarrow> (True, p) \<in> set cs"
  by (auto simp: portsWhen_def image_iff)

lemma portsWhen_filter: "filter P (portsWhen cs) = portsWhen (filter (\<lambda>c. P (snd c)) cs)"
  by (simp add: portsWhen_def filter_map comp_def conj_commute)

lemma plainPorts_names:
  "sp_Name ` snd ` set (plainPortTable r) =
     {''amqp'', ''management'', ''mqtt'', ''web-mqtt'', ''stomp'', ''web-stomp'', ''web-amqp'', ''stream''}"
  by (simp add: plainPortTable_def tcpPort_def)

lemma tlsPorts_names:
  "sp_Name ` snd ` set (tlsPortTable r) =
     {''amqps'', ''management-tls'', ''stomps'', ''mqtts'', ''web-stomp-tls'', ''web-mqtt-tls'',
      ''web-amqp-tls'', ''streams'', ''prometheus-tls''}"
  by (simp add: tlsPortTable_def tcpPort_def)

lemma generatedPorts_names: "distinct (map sp_Name (generatedPorts r))"
proof -
  have "distinct (map sp_Name (portsWhen (plainPortTable r)))"
    by (rule portsWhen_distinct) (simp add: plainPortTable_def tcpPort_def)
  moreover have "distinct (map sp_Name (portsWhen (tlsPortTable r)))"
    by (rule portsWhen_distinct) (simp add: tlsPortTable_def tcpPort_def)
  moreover have "sp_Name ` set (portsWhen (plainPortTable r)) \<inter>
      (sp_Name ` set (portsWhen (tlsPortTable r)) \<union> {''prometheus''}) = {}"
  proof -
    have "sp_Name ` set (portsWhen (plainPortTable r)) \<inter>
        (sp_Name ` set (portsWhen (tlsPortTable r)) \<union> {''prometheus''}) \<subseteq>
        sp_Name ` snd ` set (plainPortTable r) \<inter>
          (sp_Name ` snd ` set (tlsPortTable r) \<union> {''prometheus''})"
      using portsWhen_subset by blast
    also have "\<dots> = {}" unfolding plainPorts_names tlsPorts_names by simp
    finally show ?thesis by blast
  qed
  ultimately show ?thesis
    by (auto simp: generatedPorts_def tcpPort_def)
qed

lemma foldl_ports:
  "distinct (map sp_Name ps) \<Longrightarrow>
     foldl (\<lambda>m p. m(sp_Name p \<mapsto> p)) m0 ps k =
       (case List.find (\<lambda>p. sp_Name p = k) ps of Some p \<Rightarrow> Some p | None \<Rightarrow> m0 k)"
proof (induction ps arbitrary: m0)
  case (Cons p ps)
  have "List.find (\<lambda>q. sp_Name q = k) ps = None" if "sp_Name p = k"
    using Cons.prems that by (simp add: find_None_iff image_iff) metis
  with Cons show ?case by (cases "sp_Name p = k") simp_all
qed simp

lemma find_named:
  "distinct (map sp_Name ps) \<Longrightarrow>
     List.find (\<lambda>p. sp_Name p = k) ps = Some q \<longleftrightarrow> q \<in> set ps \<and> sp_Name q = k"
  by (induction ps) auto

lemma generateServicePortsMap_iff:
  "generateServicePortsMap r k = Some p \<longleftrightarrow> p \<in> set (generatedPorts r) \<and> sp_Name p = k"
proof -
  have "generateServicePortsMap r k = List.find (\<lambda>p. sp_Name p = k) (generatedPorts r)"
    unfolding generateServicePortsMap_def foldl_ports [OF generatedPorts_names]
    by (simp split: option.split)
  then show ?thesis by (simp only: find_named [OF generatedPorts_names])
qed

lemma generateServicePortsMap_dom:
  "dom (generateServicePortsMap r) = sp_Name ` set (generatedPorts r)"
  by (auto simp: dom_def generateServicePortsMap_iff)

text \<open>The loop over the existing ports, as a function of what it keeps.\<close>

fun keptOf :: "(string \<rightharpoonup> servicePort) \<Rightarrow> servicePort list \<Rightarrow> servicePort list" where
  "keptOf m [] = []"
| "keptOf m (p # ps) =
     (case m (sp_Name p) of
        None \<Rightarrow> keptOf m ps
      | Some value \<Rightarrow> value\<lparr>sp_NodePort := sp_NodePort p\<rparr> # keptOf (m(sp_Name p := None)) ps)"

lemma keepPorts_eq: "keepPorts ps m acc = (m |` (- (sp_Name ` set ps)), acc @ keptOf m ps)"
proof (induction ps m acc rule: keepPorts.induct)
  case (2 p ps m acc)
  show ?case
  proof (cases "m (sp_Name p)")
    case None
    then have "m |` (- (sp_Name ` set (p # ps))) = m |` (- (sp_Name ` set ps))"
      by (auto simp: restrict_map_def)
    then show ?thesis
      unfolding keepPorts.simps keptOf.simps None option.case "2.IH"(1) [OF None] by simp
  next
    case (Some v)
    have "m |` (- (sp_Name ` set (p # ps))) = (m(sp_Name p := None)) |` (- (sp_Name ` set ps))"
      by (auto simp: restrict_map_def)
    then show ?thesis
      unfolding keepPorts.simps keptOf.simps Some option.case "2.IH"(2) [OF Some] by simp
  qed
qed simp

definition well_named :: "(string \<rightharpoonup> servicePort) \<Rightarrow> bool" where
  "well_named m \<longleftrightarrow> (\<forall>k v. m k = Some v \<longrightarrow> sp_Name v = k)"

lemma well_named_generated: "well_named (generateServicePortsMap r)"
  by (simp add: well_named_def generateServicePortsMap_iff)

lemma well_named_upd: "well_named m \<Longrightarrow> well_named (m(k := None))"
  by (simp add: well_named_def)

lemma keptOf_member:
  "well_named m \<Longrightarrow> q \<in> set (keptOf m ps) \<Longrightarrow>
     \<exists>v p. m (sp_Name q) = Some v \<and> p \<in> set ps \<and> sp_Name p = sp_Name q \<and>
           q = v\<lparr>sp_NodePort := sp_NodePort p\<rparr>"
proof (induction m ps rule: keptOf.induct)
  case (2 m p ps)
  show ?case
  proof (cases "m (sp_Name p)")
    case None
    with 2 show ?thesis by auto
  next
    case (Some v)
    then have v: "sp_Name v = sp_Name p" using "2.prems"(1) by (simp add: well_named_def)
    consider (here) "q = v\<lparr>sp_NodePort := sp_NodePort p\<rparr>"
      | (later) "q \<in> set (keptOf (m(sp_Name p := None)) ps)"
      using "2.prems"(2) Some by auto
    then show ?thesis
    proof cases
      case here
      with Some v show ?thesis by auto
    next
      case later
      obtain w p' where "(m(sp_Name p := None)) (sp_Name q) = Some w" "p' \<in> set ps"
        "sp_Name p' = sp_Name q" "q = w\<lparr>sp_NodePort := sp_NodePort p'\<rparr>"
        using "2.IH"(2) [OF Some well_named_upd [OF "2.prems"(1)] later] by blast
      then show ?thesis by (intro exI [of _ w] exI [of _ p']) (simp split: if_splits)
    qed
  qed
qed simp

lemma keptOf_names:
  "well_named m \<Longrightarrow> sp_Name ` set (keptOf m ps) = dom m \<inter> sp_Name ` set ps \<and>
     distinct (map sp_Name (keptOf m ps))"
proof (induction m ps rule: keptOf.induct)
  case (2 m p ps)
  show ?case
  proof (cases "m (sp_Name p)")
    case None
    with 2 show ?thesis by auto
  next
    case (Some v)
    then have "sp_Name v = sp_Name p" using "2.prems" by (simp add: well_named_def)
    moreover define K where "K = keptOf (m(sp_Name p := None)) ps"
    moreover have "sp_Name ` set K = (dom m - {sp_Name p}) \<inter> sp_Name ` set ps" "distinct (map sp_Name K)"
      unfolding K_def using "2.IH"(2) [OF Some well_named_upd [OF "2.prems"]]
      by (simp_all only: dom_fun_upd if_True simp_thms)
    moreover have "sp_Name p \<in> dom m" using Some by auto
    ultimately show ?thesis
      unfolding keptOf.simps Some option.case K_def [symmetric] by (auto simp: domIff)
  qed
qed simp

lemma keptOf_first:
  "well_named m \<Longrightarrow> distinct (map sp_Name ps) \<Longrightarrow> p \<in> set ps \<Longrightarrow> m (sp_Name p) = Some v \<Longrightarrow>
     v\<lparr>sp_NodePort := sp_NodePort p\<rparr> \<in> set (keptOf m ps)"
proof (induction m ps rule: keptOf.induct)
  case (2 m p0 ps)
  show ?case
  proof (cases "p = p0")
    case True
    with 2 show ?thesis by simp
  next
    case False
    then have p: "p \<in> set ps" using "2.prems"(3) by simp
    then have "sp_Name p \<in> sp_Name ` set ps" by (rule imageI)
    then have ne: "sp_Name p \<noteq> sp_Name p0" using "2.prems"(2) by auto
    show ?thesis
    proof (cases "m (sp_Name p0)")
      case None
      with p "2.prems" "2.IH"(1) [OF None "2.prems"(1)] show ?thesis by simp
    next
      case (Some w)
      have "v\<lparr>sp_NodePort := sp_NodePort p\<rparr> \<in> set (keptOf (m(sp_Name p0 := None)) ps)"
        by (rule "2.IH"(2) [OF Some well_named_upd [OF "2.prems"(1)]]) (use p ne "2.prems" in simp_all)
      then show ?thesis unfolding keptOf.simps Some option.case by simp
    qed
  qed
qed simp

lemma keptOf_fixed:
  "well_named m \<Longrightarrow> distinct (map sp_Name ps) \<Longrightarrow>
     (\<And>q. q \<in> set ps \<Longrightarrow> \<exists>v. m (sp_Name q) = Some v \<and> q = v\<lparr>sp_NodePort := sp_NodePort q\<rparr>) \<Longrightarrow>
     keptOf m ps = ps"
proof (induction m ps rule: keptOf.induct)
  case (2 m p ps)
  obtain v where v: "m (sp_Name p) = Some v" "p = v\<lparr>sp_NodePort := sp_NodePort p\<rparr>"
    using "2.prems"(3) [of p] by auto
  have "keptOf (m(sp_Name p := None)) ps = ps"
  proof (rule "2.IH"(2) [OF v(1) well_named_upd [OF "2.prems"(1)]])
    show "distinct (map sp_Name ps)" using "2.prems"(2) by simp
    fix q assume q: "q \<in> set ps"
    then have "sp_Name q \<in> sp_Name ` set ps" by (rule imageI)
    then have "sp_Name q \<noteq> sp_Name p" using "2.prems"(2) by auto
    with "2.prems"(3) [of q] q
    show "\<exists>v. (m(sp_Name p := None)) (sp_Name q) = Some v \<and> q = v\<lparr>sp_NodePort := sp_NodePort q\<rparr>"
      by simp
  qed
  with v show ?case by simp
qed simp

abbreviation freshPorts :: "RabbitmqCluster \<Rightarrow> servicePort list \<Rightarrow> (string \<rightharpoonup> servicePort)" where
  "freshPorts r ps \<equiv> generateServicePortsMap r |` (- (sp_Name ` set ps))"

lemma updatePorts_eq:
  "updatePorts order r ps =
     keptOf (generateServicePortsMap r) ps @ map (\<lambda>k. the (freshPorts r ps k)) (order (freshPorts r ps))"
  by (simp add: updatePorts_def keepPorts_eq)

lemma freshPorts_order:
  assumes "iterates order"
  shows "distinct (order (freshPorts r ps))"
    and "set (order (freshPorts r ps)) = dom (generateServicePortsMap r) - sp_Name ` set ps"
proof -
  have "finite (dom (freshPorts r ps))"
    by (rule finite_subset [of _ "dom (generateServicePortsMap r)"])
      (auto simp: generateServicePortsMap_dom)
  with assms show "distinct (order (freshPorts r ps))"
    "set (order (freshPorts r ps)) = dom (generateServicePortsMap r) - sp_Name ` set ps"
    unfolding iterates_def by (auto simp: dom_restrict)
qed

lemma freshPorts_member:
  assumes "k \<in> set (order (freshPorts r ps))" and "iterates order"
  shows "generateServicePortsMap r k = Some (the (freshPorts r ps k))"
    and "sp_Name (the (freshPorts r ps k)) = k"
proof -
  show *: "generateServicePortsMap r k = Some (the (freshPorts r ps k))"
    using assms freshPorts_order(2) [OF assms(2), of r ps] by (auto simp: restrict_map_def)
  then show "sp_Name (the (freshPorts r ps k)) = k"
    using well_named_generated [of r] unfolding well_named_def by metis
qed

lemma updatePorts_names:
  assumes "iterates order"
  shows "distinct (map sp_Name (updatePorts order r ps))"
    and "sp_Name ` set (updatePorts order r ps) = sp_Name ` set (generatedPorts r)"
proof -
  let ?M = "generateServicePortsMap r" and ?F = "freshPorts r ps"
  have names: "map (\<lambda>k. sp_Name (the (?F k))) (order ?F) = order ?F"
    using freshPorts_member(2) [OF _ assms] by (simp add: map_idI)
  note kept = keptOf_names [OF well_named_generated [of r], of ps]
  note fresh = freshPorts_order [OF assms, of r ps]
  show "distinct (map sp_Name (updatePorts order r ps))"
    using kept fresh names by (auto simp: updatePorts_eq comp_def)
  have "sp_Name ` set (map (\<lambda>k. the (?F k)) (order ?F)) = set (order ?F)"
    using arg_cong [OF names, of set] by (simp only: set_map image_image)
  then have "sp_Name ` set (updatePorts order r ps) = dom ?M"
    using kept fresh by (simp only: updatePorts_eq set_append image_Un) blast
  then show "sp_Name ` set (updatePorts order r ps) = sp_Name ` set (generatedPorts r)"
    by (simp only: generateServicePortsMap_dom)
qed

lemma updatePorts_member:
  assumes "iterates order" and q: "q \<in> set (updatePorts order r ps)"
  shows "\<exists>v. generateServicePortsMap r (sp_Name q) = Some v \<and> q = v\<lparr>sp_NodePort := sp_NodePort q\<rparr>"
proof -
  consider "q \<in> set (keptOf (generateServicePortsMap r) ps)"
    | k where "k \<in> set (order (freshPorts r ps))" "q = the (freshPorts r ps k)"
    using q by (auto simp: updatePorts_eq)
  then show ?thesis
  proof cases
    case 1
    then show ?thesis
      using keptOf_member [OF well_named_generated] by fastforce
  next
    case 2
    then show ?thesis
      using freshPorts_member [OF 2(1) assms(1)] by simp
  qed
qed

text \<open>Ports that are as they should be stay as they are, in their order.\<close>

lemma updatePorts_fixed:
  assumes "iterates order" and "distinct (map sp_Name ps)"
    and "sp_Name ` set ps = sp_Name ` set (generatedPorts r)"
    and "\<And>q. q \<in> set ps \<Longrightarrow>
      \<exists>v. generateServicePortsMap r (sp_Name q) = Some v \<and> q = v\<lparr>sp_NodePort := sp_NodePort q\<rparr>"
  shows "updatePorts order r ps = ps"
proof -
  have "set (order (freshPorts r ps)) = {}"
    using freshPorts_order(2) [OF assms(1)] assms(3) by (simp add: generateServicePortsMap_dom)
  then have "updatePorts order r ps = keptOf (generateServicePortsMap r) ps"
    by (simp add: updatePorts_eq)
  also have "\<dots> = ps"
    using assms(2,4) by (intro keptOf_fixed well_named_generated)
  finally show ?thesis .
qed

lemma updatePorts_idem:
  assumes "iterates order" "iterates order'"
  shows "updatePorts order' r (updatePorts order r ps) = updatePorts order r ps"
  by (rule updatePorts_fixed [OF assms(2) updatePorts_names [OF assms(1)] updatePorts_member [OF assms(1)]])

section \<open>The service builder satisfies the contracts\<close>

definition serviceMeta :: "RabbitmqResourceBuilder \<Rightarrow> objectMeta \<Rightarrow> objectMeta" where
  "serviceMeta b m = m\<lparr>Annotations := setAnnotations b (Annotations m), Labels := serviceLabels b\<rparr>"

lemma setAnnotations_idem: "setAnnotations b (setAnnotations b a) = setAnnotations b a"
  by (auto simp: setAnnotations_def ReconcileAnnotations_def ReconcileAndFilterAnnotations_def
      mergeWithFilter_def mergeOne_def Let_def split: option.splits)

lemma serviceMeta_settled:
  assumes "reference_only b" "SetControllerReference b (serviceMeta b m) = Inr m'"
  shows "serviceMeta b m' = m'"
proof -
  have "Labels m' = serviceLabels b" "Annotations m' = setAnnotations b (Annotations m)"
    using reference_names [OF assms] by (simp_all add: serviceMeta_def)
  then show ?thesis by (cases m') (simp add: serviceMeta_def setAnnotations_idem)
qed

lemma copyLabelsAnnotations_names [simp]:
  "Name (copyLabelsAnnotations m e) = Name m" "Namespace (copyLabelsAnnotations m e) = Namespace m"
  by (simp_all add: copyLabelsAnnotations_def Let_def)

lemma applySvcOverride_names:
  assumes "applySvcOverride patch svc ov = Inr svc'"
  shows "Name (svc_Meta svc') = Name (svc_Meta svc) \<and> Namespace (svc_Meta svc') = Namespace (svc_Meta svc)"
  using assms by (auto simp: applySvcOverride_def Let_def split: option.splits sum.splits)

lemma Service_Update_names:
  assumes "reference_only b" "Service_Update order patch b svc = Inr svc'"
  shows "Name (svc_Meta svc') = Name (svc_Meta svc) \<and> Namespace (svc_Meta svc') = Namespace (svc_Meta svc)"
proof -
  let ?s = "svc\<lparr>svc_Meta := serviceMeta b (svc_Meta svc),
    svc_Spec := generatedServiceSpec order b (svc_Spec svc)\<rparr>"
  obtain s2 m where s2: "(case ov_Service (Override (Spec (Instance b))) of
        None \<Rightarrow> Inr ?s
      | Some override \<Rightarrow>
          (case applySvcOverride patch ?s override of
             Inl e \<Rightarrow> Inl (WrapError ''failed applying Service override'' e)
           | Inr s \<Rightarrow> Inr s)) = Inr s2"
    and m: "SetControllerReference b (svc_Meta s2) = Inr m" "svc' = s2\<lparr>svc_Meta := m\<rparr>"
    using assms(2) unfolding Service_Update_def Let_def bindE_Inr_iff serviceMeta_def sum.inject by blast
  from s2 have "Name (svc_Meta s2) = Name (svc_Meta svc) \<and> Namespace (svc_Meta s2) = Namespace (svc_Meta svc)"
    using applySvcOverride_names [of patch ?s] by (auto simp: serviceMeta_def split: option.splits sum.splits)
  with m reference_names [OF assms(1) m(1)] show ?thesis by simp
qed

lemma Service_Update_plain:
  assumes "ov_Service (Override (Spec (Instance b))) = None"
  shows "Service_Update order patch b svc = Inr svc' \<longleftrightarrow>
    (\<exists>m. SetControllerReference b (serviceMeta b (svc_Meta svc)) = Inr m \<and>
       svc' = svc\<lparr>svc_Meta := m, svc_Spec := generatedServiceSpec order b (svc_Spec svc)\<rparr>)"
  using assms by (auto simp: Service_Update_def Let_def bindE_Inr_iff serviceMeta_def)

lemma updatePorts_zeroed:
  assumes "iterates order" "iterates order'"
  shows "updatePorts order' r (map (\<lambda>p. p\<lparr>sp_NodePort := 0\<rparr>) (updatePorts order r ps)) =
    map (\<lambda>p. p\<lparr>sp_NodePort := 0\<rparr>) (updatePorts order r ps)"
proof (rule updatePorts_fixed [OF assms(2)])
  note names = updatePorts_names [OF assms(1), of r ps]
  show "distinct (map sp_Name (map (\<lambda>p. p\<lparr>sp_NodePort := 0\<rparr>) (updatePorts order r ps)))"
    using names(1) by (simp add: comp_def)
  show "sp_Name ` set (map (\<lambda>p. p\<lparr>sp_NodePort := 0\<rparr>) (updatePorts order r ps)) =
      sp_Name ` set (generatedPorts r)"
    using names(2) by (simp add: image_image)
  fix q assume "q \<in> set (map (\<lambda>p. p\<lparr>sp_NodePort := 0\<rparr>) (updatePorts order r ps))"
  then obtain p where p: "p \<in> set (updatePorts order r ps)" "q = p\<lparr>sp_NodePort := 0\<rparr>" by auto
  obtain v where "generateServicePortsMap r (sp_Name p) = Some v" "p = v\<lparr>sp_NodePort := sp_NodePort p\<rparr>"
    using updatePorts_member [OF assms(1) p(1)] by blast
  with p(2) show "\<exists>v. generateServicePortsMap r (sp_Name q) = Some v \<and> q = v\<lparr>sp_NodePort := sp_NodePort q\<rparr>"
    by (metis servicePort.select_convs(1) servicePort.surjective servicePort.update_convs(6))
qed

lemma generatedServiceSpec_idem:
  assumes "iterates order" "iterates order'"
  shows "generatedServiceSpec order' b (generatedServiceSpec order b spec) = generatedServiceSpec order b spec"
  using updatePorts_idem [OF assms] updatePorts_zeroed [OF assms]
  by (simp add: generatedServiceSpec_def Let_def)

interpretation svc: resource_builder svc_Meta ServiceSuffix
  "\<lambda>b x. x = Service_Build b" "\<lambda>b x y. \<exists>order patch. Service_Update order patch b x = Inr y"
  by unfold_locales (auto simp: Service_Build_def dest: Service_Update_names)

interpretation svcs: stable_builder svc_Meta ServiceSuffix
  "\<lambda>b x. x = Service_Build b"
  "\<lambda>b x y. ov_Service (Override (Spec (Instance b))) = None \<and>
     (\<exists>order patch. iterates order \<and> Service_Update order patch b x = Inr y)"
proof (unfold_locales, goal_cases)
  case (3 b x y z)
  then obtain order order' m m' where o: "iterates order" "iterates order'"
    and m: "SetControllerReference b (serviceMeta b (svc_Meta x)) = Inr m"
    and y: "y = x\<lparr>svc_Meta := m, svc_Spec := generatedServiceSpec order b (svc_Spec x)\<rparr>"
    and m': "SetControllerReference b (serviceMeta b (svc_Meta y)) = Inr m'"
    and z: "z = y\<lparr>svc_Meta := m', svc_Spec := generatedServiceSpec order' b (svc_Spec y)\<rparr>"
    by (auto simp: Service_Update_plain)
  have "m' = m"
    using m' serviceMeta_settled [OF 3(1) m] reference_again [OF 3(2) m] by (simp add: y)
  then show ?case by (simp add: z y generatedServiceSpec_idem [OF o])
next
  case (4 b x y)
  then obtain order m where o: "iterates order"
    and m: "SetControllerReference b (serviceMeta b (svc_Meta x)) = Inr m"
    and y: "y = x\<lparr>svc_Meta := m, svc_Spec := generatedServiceSpec order b (svc_Spec x)\<rparr>"
    by (auto simp: Service_Update_plain)
  then have "SetControllerReference b (serviceMeta b (svc_Meta y)) = Inr m"
    using serviceMeta_settled [OF 4(1) m] reference_again [OF 4(2) m] by simp
  with 4(3) o show ?case by (auto simp: Service_Update_plain)
qed (auto simp: Service_Build_def dest: Service_Update_names)

section \<open>Properties\<close>

abbreviation unallocated :: "servicePort \<Rightarrow> servicePort" where
  "unallocated p \<equiv> p\<lparr>sp_NodePort := 0\<rparr>"

lemma generatedPorts_unallocated:
  assumes "v \<in> set (generatedPorts r)"
  shows "unallocated v = v"
proof -
  have "v \<in> snd ` set (plainPortTable r) \<union> snd ` set (tlsPortTable r) \<union>
      {tcpPort ''prometheus'' 15692 (Some ''prometheus.io/metrics'')}"
    using assms portsWhen_subset by (auto simp: generatedPorts_def split: if_splits)
  then have "\<exists>n k a. v = tcpPort n k a"
    unfolding plainPortTable_def tlsPortTable_def by auto
  then show ?thesis by (auto simp: tcpPort_def)
qed

lemma updatePorts_generated:
  assumes "iterates order" and "q \<in> set (updatePorts order r ps)"
  shows "unallocated q \<in> set (generatedPorts r)"
proof -
  obtain v where v: "v \<in> set (generatedPorts r)" "q = v\<lparr>sp_NodePort := sp_NodePort q\<rparr>"
    using updatePorts_member [OF assms] by (auto simp: generateServicePortsMap_iff)
  have "unallocated q = unallocated (v\<lparr>sp_NodePort := sp_NodePort q\<rparr>)"
    by (rule arg_cong [OF v(2)])
  then have "unallocated q = unallocated v" by simp
  with v(1) generatedPorts_unallocated show ?thesis by simp
qed

lemma updatePorts_covers:
  assumes "iterates order" and v: "v \<in> set (generatedPorts r)"
  shows "v \<in> unallocated ` set (updatePorts order r ps)"
proof -
  obtain q where q: "q \<in> set (updatePorts order r ps)" "sp_Name q = sp_Name v"
    using updatePorts_names(2) [OF assms(1), of r ps] v by (metis imageE imageI)
  have "sp_Name (unallocated q) = sp_Name v" using q(2) by simp
  then have "unallocated q = v"
    using updatePorts_generated [OF assms(1) q(1)] v generatedPorts_names [of r]
    unfolding distinct_map by (blast dest: inj_onD)
  with q(1) show ?thesis by blast
qed

lemma updatePorts_nodePort:
  assumes "iterates order" and "distinct (map sp_Name ps)" and q: "q \<in> set (updatePorts order r ps)"
  shows "sp_NodePort q = (case List.find (\<lambda>p. sp_Name p = sp_Name q) ps of
           Some p \<Rightarrow> sp_NodePort p | None \<Rightarrow> 0)"
proof -
  consider (kept) "q \<in> set (keptOf (generateServicePortsMap r) ps)"
    | (fresh) k where "k \<in> set (order (freshPorts r ps))" "q = the (freshPorts r ps k)"
    using q by (auto simp: updatePorts_eq)
  then show ?thesis
  proof cases
    case kept
    obtain v p where "p \<in> set ps" "sp_Name p = sp_Name q" "q = v\<lparr>sp_NodePort := sp_NodePort p\<rparr>"
      using keptOf_member [OF well_named_generated kept] by blast
    moreover from this have "List.find (\<lambda>p. sp_Name p = sp_Name q) ps = Some p"
      using find_named [OF assms(2)] by blast
    ultimately show ?thesis
      by (metis option.simps(5) servicePort.select_convs(6) servicePort.surjective servicePort.update_convs(6))
  next
    case fresh
    note k = freshPorts_member [OF fresh(1) assms(1)]
    have "sp_Name q \<notin> sp_Name ` set ps"
      using fresh k(2) freshPorts_order(2) [OF assms(1), of r ps] by auto
    then have "List.find (\<lambda>p. sp_Name p = sp_Name q) ps = None"
      by (simp add: find_None_iff image_iff) metis
    moreover have "unallocated q = q"
      using k(1) fresh(2) generatedPorts_unallocated [of q r]
      by (simp add: generateServicePortsMap_iff)
    then have "sp_NodePort q = 0"
      by (metis servicePort.select_convs(6) servicePort.surjective servicePort.update_convs(6))
    ultimately show ?thesis by simp
  qed
qed

text \<open>
  C21. The ports of the service, in whatever order Go visits its map: apart from the node ports they
  are exactly the generated ones, each name once; a port the service already had keeps its node
  port, a new one has none; and a further update leaves the list, order included, as it is.
\<close>

theorem updatePorts_meaning:
  assumes "iterates order" and "iterates order'" and "distinct (map sp_Name ps)"
  shows "unallocated ` set (updatePorts order r ps) = set (generatedPorts r) \<and>
    distinct (map sp_Name (updatePorts order r ps)) \<and>
    (\<forall>q \<in> set (updatePorts order r ps).
       sp_NodePort q = (case List.find (\<lambda>p. sp_Name p = sp_Name q) ps of
                          Some p \<Rightarrow> sp_NodePort p | None \<Rightarrow> 0)) \<and>
    updatePorts order' r (updatePorts order r ps) = updatePorts order r ps"
  using updatePorts_names(1) [OF assms(1)] updatePorts_idem [OF assms(1,2)]
    updatePorts_generated [OF assms(1)] updatePorts_covers [OF assms(1)]
    updatePorts_nodePort [OF assms(1,3)]
  by blast

definition exampleOrder :: port_order where
  "exampleOrder m = sorted_list_of_set (dom m)"

lemma exampleOrder_iterates: "iterates exampleOrder"
  by (simp add: iterates_def exampleOrder_def)

theorem updatePorts_meaning_witness:
  "unallocated ` set (updatePorts exampleOrder emptyCluster
       [(tcpPort ''amqp'' 5672 None)\<lparr>sp_NodePort := 30001\<rparr>, tcpPort ''mqtt'' 1883 None]) =
     set (generatedPorts emptyCluster) \<and>
   updatePorts exampleOrder emptyCluster (updatePorts exampleOrder emptyCluster
       [(tcpPort ''amqp'' 5672 None)\<lparr>sp_NodePort := 30001\<rparr>, tcpPort ''mqtt'' 1883 None]) =
     updatePorts exampleOrder emptyCluster
       [(tcpPort ''amqp'' 5672 None)\<lparr>sp_NodePort := 30001\<rparr>, tcpPort ''mqtt'' 1883 None]"
  using updatePorts_meaning [OF exampleOrder_iterates exampleOrder_iterates,
      of "[(tcpPort ''amqp'' 5672 None)\<lparr>sp_NodePort := 30001\<rparr>, tcpPort ''mqtt'' 1883 None]" emptyCluster]
  by (simp add: tcpPort_def)

text \<open>
  With the plain listeners disabled and TLS enabled, the service of a cluster, whatever plugins
  it enables, exposes TLS ports only; and in every configuration exactly one of the two ports
  for metrics, the TLS one exactly when TLS is enabled, as the comment in the code asks.
\<close>

theorem service_exposes_tls_only:
  "(DisableNonTLSListeners r \<and> TLSEnabled r \<longrightarrow>
      sp_Port ` set (generatedPorts r) \<subseteq> {5671, 15671, 61614, 8883, 15673, 15676, 15677, 5551, 15691}) \<and>
   filter (\<lambda>p. sp_Port p \<in> {15691, 15692}) (generatedPorts r) =
     [if TLSEnabled r then tcpPort ''prometheus-tls'' 15691 (Some ''prometheus.io/metric-tls'')
      else tcpPort ''prometheus'' 15692 (Some ''prometheus.io/metrics'')]"
proof -
  have "sp_Port ` set (portsWhen (tlsPortTable r)) \<subseteq>
      {5671, 15671, 61614, 8883, 15673, 15676, 15677, 5551, 15691}"
    using portsWhen_subset [of "tlsPortTable r"] by (auto simp: tlsPortTable_def tcpPort_def)
  moreover have "filter (\<lambda>p. sp_Port p \<in> {15691, 15692}) (portsWhen (plainPortTable r)) = []"
    using portsWhen_subset [of "plainPortTable r"]
    by (auto simp: filter_empty_conv plainPortTable_def tcpPort_def)
  moreover have "filter (\<lambda>p. sp_Port p \<in> {15691, 15692}) (portsWhen (tlsPortTable r)) =
      [tcpPort ''prometheus-tls'' 15691 (Some ''prometheus.io/metric-tls'')]"
    unfolding portsWhen_filter tlsPortTable_def tcpPort_def
    by (simp add: portsWhen_def)
  ultimately show ?thesis by (simp add: generatedPorts_def tcpPort_def)
qed

definition exampleTLSOnly :: RabbitmqCluster where
  "exampleTLSOnly = emptyCluster\<lparr>Spec := emptyClusterSpec\<lparr>
     TLS := \<lparr>SecretName = ''tls'', CaSecretName = [], DisableNonTLS = True\<rparr>,
     Rabbitmq := (Rabbitmq emptyClusterSpec)\<lparr>AdditionalPlugins := [''rabbitmq_web_mqtt'']\<rparr>\<rparr>\<rparr>"

theorem service_exposes_tls_only_witness:
  "sp_Port ` set (generatedPorts exampleTLSOnly) \<subseteq>
     {5671, 15671, 61614, 8883, 15673, 15676, 15677, 5551, 15691}"
  using service_exposes_tls_only [of exampleTLSOnly]
  by (simp add: exampleTLSOnly_def DisableNonTLSListeners_def TLSEnabled_def SecretTLSEnabled_def)

end
