(* ===== verification/Base64.thy ===== *)
theory Base64
  imports Prelude
begin

text \<open>
  The URL-safe base64 encoding of Go's \<open>encoding/base64\<close> (\<open>URLEncoding\<close>, with padding), which the
  operator uses to turn random bytes into cookies, user names and passwords.
\<close>

definition b64char :: "nat \<Rightarrow> char" where
  "b64char n = (if n < 26 then char_of (65 + n)
                else if n < 52 then char_of (71 + n)
                else if n < 62 then char_of (n - 4)
                else if n = 62 then CHR ''-'' else CHR ''_'')"

definition b64val :: "char \<Rightarrow> nat option" where
  "b64val c = (let n = of_char c :: nat in
     if 65 \<le> n \<and> n \<le> 90 then Some (n - 65)
     else if 97 \<le> n \<and> n \<le> 122 then Some (n - 71)
     else if 48 \<le> n \<and> n \<le> 57 then Some (n + 4)
     else if c = CHR ''-'' then Some 62
     else if c = CHR ''_'' then Some 63 else None)"

abbreviation byte :: "char \<Rightarrow> nat" where
  "byte c \<equiv> of_char c"

fun EncodeToString :: "string \<Rightarrow> string" where
  "EncodeToString [] = []"
| "EncodeToString [a] =
     [b64char (byte a div 4), b64char (byte a mod 4 * 16), CHR ''='', CHR ''='']"
| "EncodeToString [a, b] =
     [b64char (byte a div 4), b64char (byte a mod 4 * 16 + byte b div 16),
      b64char (byte b mod 16 * 4), CHR ''='']"
| "EncodeToString (a # b # c # s) =
     b64char (byte a div 4) # b64char (byte a mod 4 * 16 + byte b div 16) #
     b64char (byte b mod 16 * 4 + byte c div 64) # b64char (byte c mod 64) # EncodeToString s"

text \<open>Decoding, of which the operator's comments speak; the padding ends the input.\<close>

fun DecodeString :: "string \<Rightarrow> string option" where
  "DecodeString [] = Some []"
| "DecodeString (p # q # r # s # rest) =
     (case (b64val p, b64val q) of
        (Some i, Some j) \<Rightarrow>
          (case (b64val r, b64val s) of
             (Some k, Some l) \<Rightarrow>
               map_option (\<lambda>t. char_of (i * 4 + j div 16) # char_of (j mod 16 * 16 + k div 4) #
                              char_of (k mod 4 * 64 + l) # t) (DecodeString rest)
           | (Some k, None) \<Rightarrow> if s = CHR ''='' \<and> rest = []
               then Some [char_of (i * 4 + j div 16), char_of (j mod 16 * 16 + k div 4)] else None
           | (None, _) \<Rightarrow> if r = CHR ''='' \<and> s = CHR ''='' \<and> rest = []
               then Some [char_of (i * 4 + j div 16)] else None)
      | _ \<Rightarrow> None)"
| "DecodeString _ = None"

lemma b64val_b64char: "n < 64 \<Longrightarrow> b64val (b64char n) = Some n"
  by (auto simp: b64val_def b64char_def Let_def)

lemma b64val_pad [simp]: "b64val CHR ''='' = None"
  by (simp add: b64val_def)

lemma byte_less: "byte c < 256"
  by (metis mod_less_divisor of_char_mod_256 zero_less_numeral)

lemma byte_bounds: "byte a div 4 < 64" "byte a mod 4 * 16 + byte b div 16 < 64"
  "byte a mod 4 * 16 < 64" "byte b mod 16 * 4 + byte c div 64 < 64" "byte b mod 16 * 4 < 64"
  "byte c mod 64 < 64"
  using byte_less [of a] byte_less [of b] byte_less [of c] by linarith+

lemma b64_first: "char_of ((byte a div 4) * 4 + (byte a mod 4 * 16 + n) div 16) = a" if "n < 16"
proof -
  have "(byte a mod 4 * 16 + n) div 16 = byte a mod 4" using that by simp
  then have "(byte a div 4) * 4 + (byte a mod 4 * 16 + n) div 16 = byte a" by simp
  then show ?thesis by (simp only: char_of_char)
qed

lemma b64_second:
  "char_of ((m * 16 + byte b div 16) mod 16 * 16 + (byte b mod 16 * 4 + n) div 4) = b" if "n < 4"
proof -
  have "byte b div 16 < 16" using byte_less [of b] by linarith
  then have "(m * 16 + byte b div 16) mod 16 = byte b div 16" by simp
  moreover have "(byte b mod 16 * 4 + n) div 4 = byte b mod 16" using that by simp
  ultimately have "(m * 16 + byte b div 16) mod 16 * 16 + (byte b mod 16 * 4 + n) div 4 = byte b" by simp
  then show ?thesis by (simp only: char_of_char)
qed

lemma b64_third: "char_of ((m * 4 + byte c div 64) mod 4 * 64 + byte c mod 64) = c"
proof -
  have "byte c div 64 < 4" using byte_less [of c] by linarith
  then have "(m * 4 + byte c div 64) mod 4 = byte c div 64" by simp
  then have "(m * 4 + byte c div 64) mod 4 * 64 + byte c mod 64 = byte c" by simp
  then show ?thesis by (simp only: char_of_char)
qed

lemma byte_div16: "byte b div 16 < 16"
  using byte_less [of b] by linarith

lemma byte_div64: "byte c div 64 < 4"
  using byte_less [of c] by linarith

lemma DecodeString_EncodeToString: "DecodeString (EncodeToString s) = Some s"
proof (induction s rule: EncodeToString.induct)
  case (2 a)
  show ?case using b64_first [of 0 a] by (simp add: b64val_b64char byte_bounds)
next
  case (3 a b)
  show ?case using b64_first [of "byte b div 16" a] b64_second [of 0 "byte a mod 4" b] byte_div16 [of b]
    by (simp add: b64val_b64char byte_bounds)
next
  case (4 a b c s)
  then show ?case
    using b64_first [of "byte b div 16" a] byte_div16 [of b] byte_div64 [of c]
      b64_second [of "byte c div 64" "byte a mod 4" b] b64_third [of "byte b mod 16" c]
    by (simp add: b64val_b64char byte_bounds)
qed simp

lemma length_EncodeToString: "length (EncodeToString s) = (length s + 2) div 3 * 4"
proof (induction s rule: EncodeToString.induct)
  case (4 a b c s)
  have "(length s + 5) div 3 = (length s + 2) div 3 + 1" by presburger
  with 4 show ?case by (simp add: algebra_simps)
qed auto

lemma EncodeToString_alphabet:
  "3 dvd length s \<Longrightarrow> c \<in> set (EncodeToString s) \<Longrightarrow> b64val c \<noteq> None"
proof (induction s rule: EncodeToString.induct)
  case (4 a b c' s)
  have "length (a # b # c' # s) = length s + 3" by simp
  with "4.prems"(1) have "3 dvd length s" by (simp only: dvd_add_triv_right_iff)
  with 4 show ?case by (auto simp: b64val_b64char byte_bounds)
next
  case (3 a b)
  have "\<not> (3 :: nat) dvd 2" by presburger
  with 3 show ?case by (simp add: numeral_2_eq_2)
qed auto

text \<open>Four characters of the alphabet stand for three bytes.\<close>

lemma DecodeString_alphabet:
  "length t = 4 * k \<Longrightarrow> \<forall>c \<in> set t. b64val c \<noteq> None \<Longrightarrow>
     \<exists>d. DecodeString t = Some d \<and> length d = 3 * k"
proof (induction t arbitrary: k rule: DecodeString.induct)
  case (2 p q r s rest)
  obtain j where j: "k = Suc j" "length rest = 4 * j"
    using "2.prems"(1) by (cases k) auto
  obtain i1 i2 i3 i4 where v: "b64val p = Some i1" "b64val q = Some i2" "b64val r = Some i3"
      "b64val s = Some i4"
    using "2.prems"(2) by auto
  have "\<exists>d. DecodeString rest = Some d \<and> length d = 3 * j"
    by (rule "2.IH" [OF _ refl refl _ refl refl])  (use "2.prems"(2) j(2) v in auto)
  with v j(1) show ?case by auto
qed (auto, presburger+)

end
