(* ===== verification/Ini_File.thy ===== *)
theory Ini_File
  imports Prelude
begin

text \<open>
  The interface of the package \<open>gopkg.in/ini.v1\<close> as far as the operator uses it: files with one
  default section. The package is not part of the repository, so its functions are the fields
  of a record that the definitions take as an argument; \<open>'f\<close> is its type of parsed files.
\<close>

record 'f ini =
  ini_Load :: "string \<Rightarrow> goerror + 'f"
  ini_Empty :: 'f
  ini_NewKey :: "string \<Rightarrow> string \<Rightarrow> 'f \<Rightarrow> goerror + 'f"
  ini_HasKey :: "string \<Rightarrow> 'f \<Rightarrow> bool"
  ini_Key :: "string \<Rightarrow> 'f \<Rightarrow> string"
  ini_KeyStrings :: "'f \<Rightarrow> string list"
  ini_DeleteKey :: "string \<Rightarrow> 'f \<Rightarrow> 'f"
  ini_Append :: "string \<Rightarrow> 'f \<Rightarrow> goerror + 'f"
  ini_WriteTo :: "'f \<Rightarrow> goerror + string"

text \<open>
  What the package documents of these functions: \<open>NewKey\<close> adds the key with its value or sets the
  value of an existing one, and changes no other key; \<open>Append\<close> reads more data into the file, and
  a key of the new data wins.
\<close>

definition ini_newkey_law :: "'f ini \<Rightarrow> bool" where
  "ini_newkey_law I \<longleftrightarrow>
     (\<forall>k v f f'. ini_NewKey I k v f = Inr f' \<longrightarrow>
        ini_HasKey I k f' \<and> ini_Key I k f' = v \<and>
        (\<forall>j. j \<noteq> k \<longrightarrow> ini_HasKey I j f' = ini_HasKey I j f \<and> ini_Key I j f' = ini_Key I j f))"

definition ini_append_law :: "'f ini \<Rightarrow> bool" where
  "ini_append_law I \<longleftrightarrow>
     (\<forall>s f f' g. ini_Append I s f = Inr f' \<longrightarrow> ini_Load I s = Inr g \<longrightarrow>
        (\<forall>j. if ini_HasKey I j g
             then ini_HasKey I j f' \<and> ini_Key I j f' = ini_Key I j g
             else ini_HasKey I j f' = ini_HasKey I j f \<and> ini_Key I j f' = ini_Key I j f))"

text \<open>
  On the level of texts: what is written is read back, two files with the same keys in the same
  order and the same values are written alike, a file with a key is not written as the empty
  text, a new key goes last, and \<open>DeleteKey\<close> removes its key and nothing else.
\<close>

definition sameKeys :: "'f ini \<Rightarrow> 'f \<Rightarrow> 'f \<Rightarrow> bool" where
  "sameKeys I f g \<longleftrightarrow> ini_KeyStrings I f = ini_KeyStrings I g \<and>
     (\<forall>k \<in> set (ini_KeyStrings I f). ini_Key I k f = ini_Key I k g)"

definition ini_text_law :: "'f ini \<Rightarrow> bool" where
  "ini_text_law I \<longleftrightarrow>
     (\<forall>f s. ini_WriteTo I f = Inr s \<longrightarrow> (\<exists>g. ini_Load I s = Inr g \<and> sameKeys I f g)) \<and>
     (\<forall>f g. sameKeys I f g \<longrightarrow> ini_WriteTo I f = ini_WriteTo I g) \<and>
     (\<forall>f. ini_WriteTo I f = Inr [] \<longrightarrow> ini_KeyStrings I f = [])"

definition ini_order_law :: "'f ini \<Rightarrow> bool" where
  "ini_order_law I \<longleftrightarrow>
     (\<forall>k v f f'. ini_NewKey I k v f = Inr f' \<longrightarrow>
        ini_KeyStrings I f' =
          (if k \<in> set (ini_KeyStrings I f) then ini_KeyStrings I f else ini_KeyStrings I f @ [k]) \<and>
        ini_Key I k f' = v \<and> (\<forall>j. j \<noteq> k \<longrightarrow> ini_Key I j f' = ini_Key I j f)) \<and>
     (\<forall>k f. ini_KeyStrings I (ini_DeleteKey I k f) = filter (\<lambda>j. j \<noteq> k) (ini_KeyStrings I f) \<and>
        (\<forall>j. j \<noteq> k \<longrightarrow> ini_Key I j (ini_DeleteKey I k f) = ini_Key I j f))"

text \<open>A sequence of \<open>NewKey\<close> calls, each of which returns on an error.\<close>

fun newKeys :: "'f ini \<Rightarrow> (string \<times> string) list \<Rightarrow> 'f \<Rightarrow> goerror + 'f" where
  "newKeys I [] f = Inr f"
| "newKeys I ((k, v) # kvs) f = bindE (ini_NewKey I k v f) (newKeys I kvs)"

lemma newKeys_append:
  "newKeys I (xs @ ys) f = bindE (newKeys I xs f) (newKeys I ys)"
  by (induction I xs f rule: newKeys.induct) (auto simp: bindE_def split: sum.split)

text \<open>Of several values given to a key, the last one stays.\<close>

lemma newKeys_lookup:
  assumes law: "ini_newkey_law I"
  shows "newKeys I kvs f = Inr f' \<Longrightarrow>
    (case map_of (rev kvs) j of
       Some v \<Rightarrow> ini_HasKey I j f' \<and> ini_Key I j f' = v
     | None \<Rightarrow> ini_HasKey I j f' = ini_HasKey I j f \<and> ini_Key I j f' = ini_Key I j f)"
proof (induction kvs arbitrary: f' rule: rev_induct)
  case (snoc kv kvs)
  obtain k v where kv: "kv = (k, v)" by (cases kv)
  with snoc.prems obtain g where g: "newKeys I kvs f = Inr g" "ini_NewKey I k v g = Inr f'"
    by (auto simp: newKeys_append bindE_Inr_iff)
  have "ini_HasKey I k f' \<and> ini_Key I k f' = v"
    and "j \<noteq> k \<longrightarrow> ini_HasKey I j f' = ini_HasKey I j g \<and> ini_Key I j f' = ini_Key I j g"
    using law g(2) unfolding ini_newkey_law_def by blast+
  with snoc.IH [OF g(1)] show ?case
    by (auto simp: kv split: option.splits)
qed simp

section \<open>An example of the interface\<close>

text \<open>
  Files of lines \<open>key = value\<close> as association lists; a file that such lines cannot express is not
  written. It is a concrete value of the parameter that satisfies the laws, used where a
  statement about all such packages is applied.
\<close>

fun kvset :: "string \<Rightarrow> string \<Rightarrow> (string \<times> string) list \<Rightarrow> (string \<times> string) list" where
  "kvset k v [] = [(k, v)]"
| "kvset k v ((j, w) # f) = (if j = k then (k, v) # f else (j, w) # kvset k v f)"

definition kvline :: "(string \<times> string) list \<Rightarrow> string \<Rightarrow> (string \<times> string) list" where
  "kvline f l =
     (if CHR ''='' \<in> set l
      then kvset (TrimSpace (takeWhile (\<lambda>c. c \<noteq> CHR ''='') l))
             (TrimSpace (tl (dropWhile (\<lambda>c. c \<noteq> CHR ''='') l))) f
      else f)"

definition kvload :: "string \<Rightarrow> (string \<times> string) list" where
  "kvload s = foldl kvline [] (Split1 s (CHR 0x0A))"

definition kvtext :: "(string \<times> string) list \<Rightarrow> string" where
  "kvtext f = concat (map (\<lambda>(k, v). k @ '' = '' @ v @ [CHR 0x0A]) f)"

definition exampleIni :: "(string \<times> string) list ini" where
  "exampleIni = \<lparr>
     ini_Load = \<lambda>s. Inr (kvload s),
     ini_Empty = [],
     ini_NewKey = \<lambda>k v f. Inr (kvset k v f),
     ini_HasKey = \<lambda>k f. k \<in> fst ` set f,
     ini_Key = \<lambda>k f. (case map_of f k of None \<Rightarrow> [] | Some v \<Rightarrow> v),
     ini_KeyStrings = map fst,
     ini_DeleteKey = \<lambda>k f. filter (\<lambda>e. fst e \<noteq> k) f,
     ini_Append = \<lambda>s f. Inr (foldl kvline f (Split1 s (CHR 0x0A))),
     ini_WriteTo = \<lambda>f. if kvload (kvtext f) = f then Inr (kvtext f)
                        else Inl (PlainError ''not a plain file'')\<rparr>"

lemma map_of_kvset: "map_of (kvset k v f) = (map_of f)(k \<mapsto> v)"
  by (induction k v f rule: kvset.induct) auto

lemma map_of_kvline: "map_of (kvline f l) = map_of f ++ map_of (kvline [] l)"
  by (simp add: kvline_def map_of_kvset map_add_upd)

lemma map_of_kvlines: "map_of (foldl kvline f ls) = map_of f ++ map_of (foldl kvline [] ls)"
proof (induction ls rule: rev_induct)
  case (snoc l ls)
  then show ?case
    by (simp add: map_of_kvline [of "foldl kvline f ls"] map_of_kvline [of "foldl kvline [] ls"])
qed simp

lemma haskey_iff: "k \<in> fst ` set f \<longleftrightarrow> map_of f k \<noteq> None"
  by (metis map_of_eq_None_iff)

lemma exampleIni_newkey: "ini_newkey_law exampleIni"
  by (simp add: ini_newkey_law_def exampleIni_def haskey_iff map_of_kvset)

lemma exampleIni_append: "ini_append_law exampleIni"
  unfolding ini_append_law_def
proof (intro allI impI)
  fix s f f' g j
  assume "ini_Append exampleIni s f = Inr f'" and "ini_Load exampleIni s = Inr g"
  then have "map_of f' j = (case map_of g j of Some v \<Rightarrow> Some v | None \<Rightarrow> map_of f j)"
    using map_of_kvlines [of f "Split1 s (CHR 0x0A)"]
    by (auto simp: exampleIni_def kvload_def map_add_def split: option.split)
  then show "if ini_HasKey exampleIni j g
      then ini_HasKey exampleIni j f' \<and> ini_Key exampleIni j f' = ini_Key exampleIni j g
      else ini_HasKey exampleIni j f' = ini_HasKey exampleIni j f \<and>
           ini_Key exampleIni j f' = ini_Key exampleIni j f"
    by (auto simp: exampleIni_def haskey_iff)
qed

lemma map_fst_kvset:
  "map fst (kvset k v f) = (if k \<in> set (map fst f) then map fst f else map fst f @ [k])"
  by (induction k v f rule: kvset.induct) auto

lemma kvline_distinct: "distinct (map fst f) \<Longrightarrow> distinct (map fst (kvline f l))"
  by (simp add: kvline_def map_fst_kvset)

lemma kvload_distinct: "distinct (map fst (kvload s))"
proof -
  have "distinct (map fst (foldl kvline [] ls))" for ls
    by (induction ls rule: rev_induct) (simp_all add: kvline_distinct)
  then show ?thesis by (simp add: kvload_def)
qed

lemma same_entries:
  "map fst f = map fst g \<Longrightarrow> distinct (map fst f) \<Longrightarrow>
     (\<And>k. k \<in> set (map fst f) \<Longrightarrow> map_of f k = map_of g k) \<Longrightarrow> f = g"
proof (induction f arbitrary: g)
  case (Cons e f)
  obtain k v where e: "e = (k, v)" by (cases e)
  obtain w g' where g: "g = (k, w) # g'" "map fst f = map fst g'"
    using Cons.prems(1) e by (cases g) auto
  have "v = w" using Cons.prems(3) [of k] by (simp add: e g)
  moreover have "f = g'"
  proof (rule Cons.IH [OF g(2)])
    show "distinct (map fst f)" using Cons.prems(2) by simp
    fix j assume j: "j \<in> set (map fst f)"
    then have "j \<noteq> k" using Cons.prems(2) e by auto
    with Cons.prems(3) [of j] j show "map_of f j = map_of g' j" by (simp add: e g)
  qed
  ultimately show ?case by (simp add: e g)
qed simp

lemma sameKeys_example:
  assumes "sameKeys exampleIni f g" and "distinct (map fst f)"
  shows "f = g"
proof (rule same_entries [OF _ assms(2)])
  show keys: "map fst f = map fst g"
    using assms(1) by (simp add: sameKeys_def exampleIni_def)
  fix k assume k: "k \<in> set (map fst f)"
  then have "k \<in> set (map fst g)" using keys by simp
  with k have "map_of f k \<noteq> None" "map_of g k \<noteq> None" by (simp_all add: haskey_iff)
  moreover have "\<forall>k \<in> set (map fst f). (case map_of f k of None \<Rightarrow> [] | Some v \<Rightarrow> v) =
      (case map_of g k of None \<Rightarrow> [] | Some v \<Rightarrow> v)"
    using assms(1) unfolding sameKeys_def exampleIni_def ini.select_convs by blast
  ultimately show "map_of f k = map_of g k" using k by fastforce
qed

lemma kvtext_Nil: "kvtext f = [] \<longleftrightarrow> f = []"
  by (cases f) (auto simp: kvtext_def)

lemma exampleIni_text: "ini_text_law exampleIni"
proof -
  have refl: "sameKeys exampleIni f f" for f by (simp add: sameKeys_def)
  have "ini_WriteTo exampleIni f = ini_WriteTo exampleIni g" if fg: "sameKeys exampleIni f g" for f g
  proof (cases "distinct (map fst f)")
    case True
    with fg show ?thesis using sameKeys_example by blast
  next
    case False
    moreover have "map fst f = map fst g" using fg by (simp add: sameKeys_def exampleIni_def)
    ultimately have "kvload (kvtext f) \<noteq> f" "kvload (kvtext g) \<noteq> g"
      using kvload_distinct by metis+
    then show ?thesis by (simp add: exampleIni_def)
  qed
  then show ?thesis
    unfolding ini_text_law_def using refl
    by (auto simp: exampleIni_def kvtext_Nil split: if_splits)
qed

lemma map_of_filter_key: "j \<noteq> k \<Longrightarrow> map_of (filter (\<lambda>e. fst e \<noteq> k) f) j = map_of f j"
  by (induction f) auto

lemma exampleIni_order: "ini_order_law exampleIni"
  by (simp add: ini_order_law_def exampleIni_def map_fst_kvset map_of_kvset map_of_filter_key filter_map comp_def)

end
