(* ===== verification/Secrets.thy ===== *)
theory Secrets
  imports Resource_Builder Base64 Ini_File
begin

text \<open>
  The two secrets of \<open>internal/resource\<close>: the Erlang cookie and the default user. The source of
  random bytes is the argument \<open>rand\<close>, which returns as many bytes as asked for, or an error.
\<close>

type_synonym random = "nat \<Rightarrow> goerror + string"

definition random_law :: "random \<Rightarrow> bool" where
  "random_law rand \<longleftrightarrow> (\<forall>n bs. rand n = Inr bs \<longrightarrow> length bs = n)"

definition randomEncodedString :: "random \<Rightarrow> nat \<Rightarrow> goerror + string" where
  "randomEncodedString rand dataLen =
     bindE (rand dataLen) (\<lambda>randomBytes. Inr (EncodeToString randomBytes))"

section \<open>The Erlang cookie\<close>

definition erlangCookieName :: string where "erlangCookieName = ''erlang-cookie''"

definition ErlangCookie_Build :: "random \<Rightarrow> RabbitmqResourceBuilder \<Rightarrow> goerror + secret" where
  "ErlangCookie_Build rand b =
     bindE (randomEncodedString rand 24) (\<lambda>cookie.
       Inr \<lparr>sec_Meta = namedMeta (ChildResourceName (Instance b) erlangCookieName)
              (cluster_Namespace (Instance b)),
            sec_Type = ''Opaque'',
            sec_Data = Some [''.erlang.cookie'' \<mapsto> cookie]\<rparr>)"

definition ErlangCookie_Update :: "RabbitmqResourceBuilder \<Rightarrow> secret \<Rightarrow> goerror + secret" where
  "ErlangCookie_Update b s =
     bindE (SetControllerReference b (childMeta b (sec_Meta s))) (\<lambda>m. Inr (s\<lparr>sec_Meta := m\<rparr>))"

section \<open>The default user\<close>

definition DefaultUserSecretName :: string where "DefaultUserSecretName = ''default-user''"
definition usernamePrefix :: string where "usernamePrefix = ''default_user_''"

definition pluginEnabled :: "RabbitmqResourceBuilder \<Rightarrow> Plugin \<Rightarrow> bool" where
  "pluginEnabled b plugin = (plugin \<in> set (AdditionalPlugins (Rabbitmq (Spec (Instance b)))))"

text \<open>Slicing beyond the length of the encoded string panics.\<close>

definition generateUsername :: "random \<Rightarrow> nat \<Rightarrow> goerror + string" where
  "generateUsername rand l =
     bindE (randomEncodedString rand l) (\<lambda>encoded.
       if length encoded < length usernamePrefix then Inl (Panic ''slice bounds out of range'')
       else Inr (usernamePrefix @ take (length encoded - length usernamePrefix) encoded))"

definition generateDefaultUserConf :: "'f ini \<Rightarrow> string \<Rightarrow> string \<Rightarrow> goerror + string" where
  "generateDefaultUserConf I username password =
     bindE (ini_Load I []) (\<lambda>cfg.
     bindE (newKeys I [(''default_user'', username), (''default_pass'', password)] cfg) (\<lambda>cfg'.
       ini_WriteTo I cfg'))"

text \<open>Plugin, name of the entry, its TLS port and its plain port.\<close>

definition secretPorts :: "(Plugin \<times> string \<times> string \<times> string) list" where
  "secretPorts =
     [(''rabbitmq_mqtt'', ''mqtt-port'', ''8883'', ''1883''),
      (''rabbitmq_stomp'', ''stomp-port'', ''61614'', ''61613''),
      (''rabbitmq_stream'', ''stream-port'', ''5551'', ''5552''),
      (''rabbitmq_web_mqtt'', ''web-mqtt-port'', ''15676'', ''15675''),
      (''rabbitmq_web_stomp'', ''web-stomp-port'', ''15673'', ''15674''),
      (''rabbitmq_web_amqp'', ''web-amqp-port'', ''15677'', ''15678'')]"

definition secretPort ::
  "RabbitmqResourceBuilder \<Rightarrow> (string \<rightharpoonup> string) \<Rightarrow> Plugin \<times> string \<times> string \<times> string
     \<Rightarrow> (string \<rightharpoonup> string)" where
  "secretPort b data entry =
     (case entry of (plugin, portName, tls, plain) \<Rightarrow>
        if pluginEnabled b plugin
        then data(portName \<mapsto> if SecretName (TLS (Spec (Instance b))) \<noteq> [] then tls else plain)
        else data(portName := None))"

definition DefaultUserSecret_updatePorts ::
  "RabbitmqResourceBuilder \<Rightarrow> (string \<rightharpoonup> string) \<Rightarrow> (string \<rightharpoonup> string)" where
  "DefaultUserSecret_updatePorts b data =
     foldl (secretPort b)
       (data(''port'' \<mapsto> if SecretName (TLS (Spec (Instance b))) \<noteq> [] then ''5671'' else ''5672''))
       secretPorts"

definition updateConnectionString ::
  "RabbitmqResourceBuilder \<Rightarrow> (string \<rightharpoonup> string) \<Rightarrow> (string \<rightharpoonup> string)" where
  "updateConnectionString b data =
     (let at = mval (Some data)
      in data(''connection_string'' \<mapsto>
          (if SecretName (TLS (Spec (Instance b))) \<noteq> [] then ''amqps://'' else ''amqp://'') @
          at ''username'' @ '':'' @ at ''password'' @ ''@'' @ at ''host'' @ '':'' @ at ''port'' @ ''/''))"

definition DefaultUserSecret_Build ::
  "'f ini \<Rightarrow> random \<Rightarrow> random \<Rightarrow> RabbitmqResourceBuilder \<Rightarrow> goerror + secret" where
  "DefaultUserSecret_Build I rand1 rand2 b =
     (let additionalConfig = AdditionalConfig (Rabbitmq (Spec (Instance b)))
      in bindE
        (if additionalConfig = [] then Inr ([], [])
         else case ini_Load I additionalConfig of
            Inl e \<Rightarrow> Inl (WrapError ''failed to parse additionalConfig'' e)
          | Inr cfg \<Rightarrow>
              Inr (if ini_HasKey I ''default_user'' cfg then ini_Key I ''default_user'' cfg else [],
                   if ini_HasKey I ''default_pass'' cfg then ini_Key I ''default_pass'' cfg else []))
        (\<lambda>(username0, password0).
       bindE (if username0 = [] then generateUsername rand1 24 else Inr username0) (\<lambda>username.
       bindE (if password0 = [] then randomEncodedString rand2 24 else Inr password0) (\<lambda>password.
       bindE (generateDefaultUserConf I username password) (\<lambda>defaultUserConf.
         Inr \<lparr>sec_Meta = namedMeta (ChildResourceName (Instance b) DefaultUserSecretName)
                (cluster_Namespace (Instance b)),
              sec_Type = ''Opaque'',
              sec_Data = Some (updateConnectionString b (DefaultUserSecret_updatePorts b
                [''username'' \<mapsto> username, ''password'' \<mapsto> password,
                 ''default_user.conf'' \<mapsto> defaultUserConf, ''provider'' \<mapsto> ''rabbitmq'',
                 ''type'' \<mapsto> ''rabbitmq'', ''host'' \<mapsto> ServiceSubDomain (Instance b)]))\<rparr>)))))"

text \<open>An update of a secret without data assigns to a nil map, which panics.\<close>

definition DefaultUserSecret_Update ::
  "RabbitmqResourceBuilder \<Rightarrow> secret \<Rightarrow> goerror + secret" where
  "DefaultUserSecret_Update b s =
     (case sec_Data s of
        None \<Rightarrow> Inl (Panic ''assignment to entry in nil map'')
      | Some data \<Rightarrow>
          bindE (SetControllerReference b (childMeta b (sec_Meta s))) (\<lambda>m.
            Inr (s\<lparr>sec_Meta := m,
              sec_Data := Some (updateConnectionString b (DefaultUserSecret_updatePorts b data))\<rparr>)))"

section \<open>Lemmas\<close>

text \<open>Which entries a port update touches, and what it leaves there.\<close>

definition portEntries :: "RabbitmqResourceBuilder \<Rightarrow> string \<Rightarrow> string option option" where
  "portEntries b k =
     (if k = ''port''
      then Some (Some (if SecretName (TLS (Spec (Instance b))) \<noteq> [] then ''5671'' else ''5672''))
      else case List.find (\<lambda>x. fst (snd x) = k) secretPorts of
        None \<Rightarrow> None
      | Some (plugin, name, tls, plain) \<Rightarrow>
          Some (if pluginEnabled b plugin
                then Some (if SecretName (TLS (Spec (Instance b))) \<noteq> [] then tls else plain)
                else None))"

lemma foldl_secretPort:
  assumes "distinct (map (fst \<circ> snd) entries)"
  shows "foldl (secretPort b) data entries k =
    (case List.find (\<lambda>x. fst (snd x) = k) entries of
       None \<Rightarrow> data k
     | Some (plugin, name, tls, plain) \<Rightarrow>
         if pluginEnabled b plugin
         then Some (if SecretName (TLS (Spec (Instance b))) \<noteq> [] then tls else plain) else None)"
  using assms
proof (induction entries arbitrary: data)
  case (Cons e es)
  obtain plugin name tls plain where e: "e = (plugin, name, tls, plain)" by (cases e)
  have "List.find (\<lambda>x. fst (snd x) = k) es = None" if "name = k"
    using Cons.prems that by (auto simp: e find_None_iff image_iff)
  moreover have "secretPort b data e k = data k" if "name \<noteq> k"
    using that by (simp add: e secretPort_def)
  moreover have "secretPort b data e k = (if pluginEnabled b plugin
      then Some (if SecretName (TLS (Spec (Instance b))) \<noteq> [] then tls else plain) else None)" if "name = k"
    using that by (simp add: e secretPort_def)
  moreover have "foldl (secretPort b) (secretPort b data e) es k =
    (case List.find (\<lambda>x. fst (snd x) = k) es of
       None \<Rightarrow> secretPort b data e k
     | Some (plugin, name, tls, plain) \<Rightarrow>
         if pluginEnabled b plugin
         then Some (if SecretName (TLS (Spec (Instance b))) \<noteq> [] then tls else plain) else None)"
    using Cons.prems by (intro Cons.IH) (simp add: comp_def)
  ultimately show ?case
    by (cases "name = k"; cases "List.find (\<lambda>x. fst (snd x) = k) es")
       (simp_all add: e)
qed simp

lemma updatePorts_lookup:
  "DefaultUserSecret_updatePorts b data k =
     (case portEntries b k of None \<Rightarrow> data k | Some v \<Rightarrow> v)"
proof -
  have "List.find (\<lambda>x. fst (snd x) = ''port'') secretPorts = None"
    by (simp add: secretPorts_def)
  moreover have "distinct (map (fst \<circ> snd) secretPorts)"
    by (simp add: secretPorts_def)
  ultimately show ?thesis
    by (cases "k = ''port''")
       (simp_all add: DefaultUserSecret_updatePorts_def foldl_secretPort portEntries_def
          split: option.split)
qed

lemma portEntries_other:
  "portEntries b ''username'' = None" "portEntries b ''password'' = None"
  "portEntries b ''host'' = None" "portEntries b ''connection_string'' = None"
  by (simp_all add: portEntries_def secretPorts_def)

lemma secretPorts_idem:
  "DefaultUserSecret_updatePorts b (DefaultUserSecret_updatePorts b data) =
   DefaultUserSecret_updatePorts b data"
  by (rule ext) (simp add: updatePorts_lookup split: option.split)

text \<open>The two updates of an entry, as they follow one another in \<open>Build\<close> and \<open>Update\<close>.\<close>

definition secretData :: "RabbitmqResourceBuilder \<Rightarrow> (string \<rightharpoonup> string) \<Rightarrow> (string \<rightharpoonup> string)" where
  "secretData b data = updateConnectionString b (DefaultUserSecret_updatePorts b data)"

lemma secretData_lookup:
  "secretData b data k =
     (if k = ''connection_string'' then
        Some ((if SecretName (TLS (Spec (Instance b))) \<noteq> [] then ''amqps://'' else ''amqp://'') @
          mval (Some data) ''username'' @ '':'' @ mval (Some data) ''password'' @ ''@'' @
          mval (Some data) ''host'' @ '':'' @
          (if SecretName (TLS (Spec (Instance b))) \<noteq> [] then ''5671'' else ''5672'') @ ''/'')
      else case portEntries b k of None \<Rightarrow> data k | Some v \<Rightarrow> v)"
  by (simp add: secretData_def updateConnectionString_def Let_def mval_def mget_def updatePorts_lookup
      portEntries_other) (simp add: portEntries_def)

lemma secretData_idem: "secretData b (secretData b data) = secretData b data"
  by (rule ext) (simp add: secretData_lookup mval_def mget_def portEntries_other split: option.split)

lemma DefaultUserSecret_Update_alt:
  "DefaultUserSecret_Update b s = Inr s' \<longleftrightarrow>
     sec_Data s \<noteq> None \<and>
     (\<exists>m. SetControllerReference b (childMeta b (sec_Meta s)) = Inr m \<and>
        s' = s\<lparr>sec_Meta := m, sec_Data := Some (secretData b (the (sec_Data s)))\<rparr>)"
  by (auto simp: DefaultUserSecret_Update_def secretData_def bindE_Inr_iff split: option.split)

lemma DefaultUserSecret_Build_data:
  assumes "DefaultUserSecret_Build I rand1 rand2 b = Inr s"
  shows "\<exists>data. sec_Data s = Some (secretData b data) \<and> data ''host'' = Some (ServiceSubDomain (Instance b))"
    and "Name (sec_Meta s) = ChildResourceName (Instance b) DefaultUserSecretName"
    and "Namespace (sec_Meta s) = cluster_Namespace (Instance b)"
  using assms
  by (auto simp: DefaultUserSecret_Build_def Let_def bindE_Inr_iff secretData_def split: prod.splits)

interpretation cookie: stable_builder sec_Meta erlangCookieName
  "\<lambda>b x. \<exists>rand. ErlangCookie_Build rand b = Inr x" "\<lambda>b x y. ErlangCookie_Update b x = Inr y"
  by (rule stable_builderI [where ok = "\<lambda>_. True" and prep = childMeta
        and fin = "\<lambda>b m x. x\<lparr>sec_Meta := m\<rparr>"])
    (auto simp: ErlangCookie_Build_def ErlangCookie_Update_def bindE_Inr_iff intro: childMeta_settled)

interpretation user: stable_builder sec_Meta DefaultUserSecretName
  "\<lambda>b x. \<exists>I rand1 rand2. DefaultUserSecret_Build (I :: 'f ini) rand1 rand2 b = Inr x"
  "\<lambda>b x y. DefaultUserSecret_Update b x = Inr y"
  by (rule stable_builderI [where ok = "\<lambda>s. sec_Data s \<noteq> None" and prep = childMeta
        and fin = "\<lambda>b m s. s\<lparr>sec_Meta := m, sec_Data := Some (secretData b (the (sec_Data s)))\<rparr>"])
    (auto simp: DefaultUserSecret_Build_data DefaultUserSecret_Update_alt secretData_idem
      intro: childMeta_settled)

section \<open>Properties\<close>

text \<open>
  Generated credentials: if the source of random bytes delivers, a user name is generated, of
  32 characters that begin with \<open>default_user_\<close> and stand for 24 bytes in base64, as the comment of
  the function says; and the cookie of a cluster decodes to the 24 random bytes it was made of.
\<close>

theorem generateUsername_meaning:
  assumes "random_law rand" and "rand 24 = Inr bytes"
  shows "(\<exists>u d. generateUsername rand 24 = Inr u \<and> length u = 32 \<and> prefix usernamePrefix u \<and>
           DecodeString u = Some d \<and> length d = 24) \<and>
         (\<exists>s c. ErlangCookie_Build rand b = Inr s \<and> mget (sec_Data s) ''.erlang.cookie'' = Some c \<and>
           length c = 32 \<and> DecodeString c = Some bytes)"
proof -
  have len: "length bytes = 24" using assms unfolding random_law_def by blast
  then have len32: "length (EncodeToString bytes) = 32" by (simp add: length_EncodeToString)
  let ?u = "usernamePrefix @ take (32 - length usernamePrefix) (EncodeToString bytes)"
  have pre: "length usernamePrefix = 13" "\<forall>c \<in> set usernamePrefix. b64val c \<noteq> None"
    by (simp_all add: usernamePrefix_def b64val_def)
  have "\<exists>d. DecodeString ?u = Some d \<and> length d = 3 * 8"
    using pre len32 EncodeToString_alphabet [of bytes] len
    by (intro DecodeString_alphabet) (auto dest: in_set_takeD)
  moreover have "generateUsername rand 24 = Inr ?u"
    by (simp add: generateUsername_def randomEncodedString_def assms len32 pre)
  moreover have "length ?u = 32" using len32 pre by simp
  moreover have "\<exists>s c. ErlangCookie_Build rand b = Inr s \<and>
      mget (sec_Data s) ''.erlang.cookie'' = Some c \<and> length c = 32 \<and> DecodeString c = Some bytes"
    by (simp add: ErlangCookie_Build_def randomEncodedString_def assms len32
        DecodeString_EncodeToString mget_def)
  ultimately show ?thesis by auto
qed

lemma built_credentials:
  assumes "DefaultUserSecret_Build I rand1 rand2 b = Inr sec"
  shows "\<exists>u p. mget (sec_Data sec) ''username'' = Some u \<and> mget (sec_Data sec) ''password'' = Some p"
  using assms
  by (auto simp: DefaultUserSecret_Build_def Let_def bindE_Inr_iff secretData_def [symmetric] mget_def
      secretData_lookup portEntries_other split: prod.splits)

definition exampleBuilder :: "RabbitmqCluster \<Rightarrow> RabbitmqResourceBuilder" where
  "exampleBuilder r = \<lparr>Instance = r, Scheme = \<lambda>o' m. Inr (m\<lparr>OwnerReferences :=
     [\<lparr>or_APIVersion = ''rabbitmq.com/v1beta1'', or_Kind = ''RabbitmqCluster'',
       or_Name = cluster_Name o', or_Controller = True, or_BlockOwnerDeletion = Some True\<rparr>]\<rparr>)\<rparr>"

theorem generateUsername_meaning_witness:
  "(\<exists>u d. generateUsername (\<lambda>n. Inr (replicate n CHR ''x'')) 24 = Inr u \<and> length u = 32 \<and>
      prefix usernamePrefix u \<and> DecodeString u = Some d \<and> length d = 24)"
  using generateUsername_meaning [of "\<lambda>n. Inr (replicate n CHR ''x'')" "replicate 24 CHR ''x''"]
  by (simp add: random_law_def)

text \<open>
  C38. An update of the default-user secret keeps its credentials and host, sets the port of the
  client protocol by whether a TLS secret is given, has an entry for each listed plugin exactly
  when it is enabled, with its TLS or plain port, builds the connection string from exactly
  these parts, and leaves the other entries; a second update changes nothing more.
\<close>

theorem DefaultUserSecret_Update_meaning:
  assumes "DefaultUserSecret_Update b s = Inr s'" and "reference_only b" and "reference_idem b"
  shows "\<exists>data data'. sec_Data s = Some data \<and> sec_Data s' = Some data' \<and>
      data' ''port'' = Some (if SecretName (TLS (Spec (Instance b))) \<noteq> [] then ''5671'' else ''5672'') \<and>
      data' ''connection_string'' = Some
        ((if SecretName (TLS (Spec (Instance b))) \<noteq> [] then ''amqps://'' else ''amqp://'') @
         mval (Some data) ''username'' @ '':'' @ mval (Some data) ''password'' @ ''@'' @
         mval (Some data) ''host'' @ '':'' @ mval (Some data') ''port'' @ ''/'') \<and>
      (\<forall>(plugin, name, tls, plain) \<in> set secretPorts. data' name =
         (if AdditionalPluginEnabled (Instance b) plugin
          then Some (if SecretName (TLS (Spec (Instance b))) \<noteq> [] then tls else plain) else None)) \<and>
      (\<forall>k. k \<notin> {''port'', ''connection_string''} \<union> (fst \<circ> snd) ` set secretPorts \<longrightarrow> data' k = data k) \<and>
      DefaultUserSecret_Update b s' = Inr s'"
proof -
  obtain data where data: "sec_Data s = Some data" "sec_Data s' = Some (secretData b data)"
    using assms(1) by (auto simp: DefaultUserSecret_Update_alt)
  have "\<forall>(plugin, name, tls, plain) \<in> set secretPorts. secretData b data name =
      (if AdditionalPluginEnabled (Instance b) plugin
       then Some (if SecretName (TLS (Spec (Instance b))) \<noteq> [] then tls else plain) else None)"
    by (simp add: secretPorts_def secretData_lookup portEntries_def pluginEnabled_def
        AdditionalPluginEnabled_def)
  moreover have "secretData b data k = data k"
    if "k \<notin> {''port'', ''connection_string''} \<union> (fst \<circ> snd) ` set secretPorts" for k
  proof -
    have "fst (snd x) \<noteq> k" if "x \<in> set secretPorts" for x
      using that \<open>k \<notin> _\<close> image_eqI [of k "fst \<circ> snd" x] by auto
    then have "List.find (\<lambda>x. fst (snd x) = k) secretPorts = None"
      unfolding find_None_iff by blast
    with that show ?thesis by (simp add: secretData_lookup portEntries_def)
  qed
  moreover have "secretData b data ''port'' =
      Some (if SecretName (TLS (Spec (Instance b))) \<noteq> [] then ''5671'' else ''5672'')"
    by (simp add: secretData_lookup portEntries_def)
  ultimately show ?thesis
    using data user.settled [OF assms(2,3,1)]
    by (intro exI [of _ data] exI [of _ "secretData b data"] conjI)
       (simp_all add: secretData_lookup [of b data "''connection_string''"] mval_def mget_def)
qed

definition exampleSecret :: secret where
  "exampleSecret = \<lparr>sec_Meta = emptyMeta, sec_Type = ''Opaque'',
     sec_Data = Some [''username'' \<mapsto> ''u'', ''password'' \<mapsto> ''p'', ''host'' \<mapsto> ''h'']\<rparr>"

lemma exampleBuilder_laws: "reference_only (exampleBuilder r)" "reference_idem (exampleBuilder r)"
  by (auto simp: reference_only_def reference_idem_def exampleBuilder_def)

theorem DefaultUserSecret_Update_meaning_witness:
  "\<exists>s'. DefaultUserSecret_Update (exampleBuilder emptyCluster) exampleSecret = Inr s' \<and>
     DefaultUserSecret_Update (exampleBuilder emptyCluster) s' = Inr s'"
proof -
  obtain s' where "DefaultUserSecret_Update (exampleBuilder emptyCluster) exampleSecret = Inr s'"
    by (simp add: DefaultUserSecret_Update_def exampleSecret_def exampleBuilder_def
        SetControllerReference_def)
  then show ?thesis
    using DefaultUserSecret_Update_meaning [OF _ exampleBuilder_laws] by blast
qed

text \<open>
  A new default-user secret uses the user name and the password of the additional
  configuration where it gives them, and in every case its configuration file is the one
  generated from exactly the user name and password it stores.
\<close>

theorem DefaultUserSecret_Build_credentials:
  assumes "DefaultUserSecret_Build I rand1 rand2 b = Inr s"
    and "AdditionalConfig (Rabbitmq (Spec (Instance b))) \<noteq> []"
    and "ini_Load I (AdditionalConfig (Rabbitmq (Spec (Instance b)))) = Inr cfg"
  shows "\<exists>u p conf. mget (sec_Data s) ''username'' = Some u \<and> mget (sec_Data s) ''password'' = Some p \<and>
      mget (sec_Data s) ''default_user.conf'' = Some conf \<and>
      generateDefaultUserConf I u p = Inr conf \<and>
      (if ini_HasKey I ''default_user'' cfg \<and> ini_Key I ''default_user'' cfg \<noteq> []
       then u = ini_Key I ''default_user'' cfg else generateUsername rand1 24 = Inr u) \<and>
      (if ini_HasKey I ''default_pass'' cfg \<and> ini_Key I ''default_pass'' cfg \<noteq> []
       then p = ini_Key I ''default_pass'' cfg else randomEncodedString rand2 24 = Inr p)"
proof -
  obtain u p conf where
      u: "(if ini_HasKey I ''default_user'' cfg \<and> ini_Key I ''default_user'' cfg \<noteq> []
       then u = ini_Key I ''default_user'' cfg else generateUsername rand1 24 = Inr u)"
    and p: "(if ini_HasKey I ''default_pass'' cfg \<and> ini_Key I ''default_pass'' cfg \<noteq> []
       then p = ini_Key I ''default_pass'' cfg else randomEncodedString rand2 24 = Inr p)"
    and conf: "generateDefaultUserConf I u p = Inr conf"
    and s: "sec_Data s = Some (secretData b
       [''username'' \<mapsto> u, ''password'' \<mapsto> p, ''default_user.conf'' \<mapsto> conf, ''provider'' \<mapsto> ''rabbitmq'',
        ''type'' \<mapsto> ''rabbitmq'', ''host'' \<mapsto> ServiceSubDomain (Instance b)])"
    using assms
    by (auto simp: DefaultUserSecret_Build_def Let_def bindE_Inr_iff secretData_def split: if_splits)
  then show ?thesis
    by (intro exI [of _ u] exI [of _ p] exI [of _ conf])
       (simp add: mget_def secretData_lookup portEntries_other, simp add: portEntries_def secretPorts_def)
qed

definition exampleConfigured :: RabbitmqCluster where
  "exampleConfigured = emptyCluster\<lparr>Spec := emptyClusterSpec\<lparr>Rabbitmq :=
     (Rabbitmq emptyClusterSpec)\<lparr>AdditionalConfig := ''default_user = admin''\<rparr>\<rparr>\<rparr>"

lemma exampleConfigured_load:
  "ini_Load exampleIni ''default_user = admin'' = Inr [(''default_user'', ''admin'')]"
  by code_simp

theorem DefaultUserSecret_Build_credentials_witness:
  "\<exists>s. DefaultUserSecret_Build exampleIni (\<lambda>n. Inr (replicate n CHR ''x''))
          (\<lambda>n. Inr (replicate n CHR ''y'')) (exampleBuilder exampleConfigured) = Inr s \<and>
        mget (sec_Data s) ''username'' = Some ''admin''"
proof -
  have cfg: "AdditionalConfig (Rabbitmq (Spec (Instance (exampleBuilder exampleConfigured)))) =
      ''default_user = admin''"
    by (simp add: exampleBuilder_def exampleConfigured_def)
  have keys: "ini_HasKey exampleIni ''default_user'' [(''default_user'', ''admin'')]"
    "ini_Key exampleIni ''default_user'' [(''default_user'', ''admin'')] = ''admin''"
    "\<not> ini_HasKey exampleIni ''default_pass'' [(''default_user'', ''admin'')]"
    by (simp_all add: exampleIni_def)
  have "isl (generateDefaultUserConf exampleIni ''admin'' (EncodeToString (replicate 24 CHR ''y''))) = False"
    by code_simp
  then have conf: "\<exists>c. generateDefaultUserConf exampleIni ''admin''
      (EncodeToString (replicate 24 CHR ''y'')) = Inr c"
    by (cases "generateDefaultUserConf exampleIni ''admin'' (EncodeToString (replicate 24 CHR ''y''))") auto
  obtain s where s: "DefaultUserSecret_Build exampleIni (\<lambda>n. Inr (replicate n CHR ''x''))
          (\<lambda>n. Inr (replicate n CHR ''y'')) (exampleBuilder exampleConfigured) = Inr s"
    using conf
    by (auto simp: DefaultUserSecret_Build_def Let_def cfg exampleConfigured_load keys
        randomEncodedString_def)
  then show ?thesis
    using DefaultUserSecret_Build_credentials [OF s _ exampleConfigured_load [folded cfg]]
    by (auto simp: cfg keys)
qed

end
