(* ===== verification/Server_Config.thy ===== *)
theory Server_Config
  imports Resource_Builder Ini_File "HOL-Library.Word" "HOL-Library.Signed_Division"
begin

text \<open>
  \<open>internal/resource/configmap.go\<close>: the server configuration of a cluster. Files in the ini format
  are handled by the package parameter \<open>I\<close>; memory sizes are signed 64-bit words.
\<close>

section \<open>Constants\<close>

definition ServerConfigMapName :: string where "ServerConfigMapName = ''server-conf''"

definition confText :: "string list \<Rightarrow> string" where
  "confText ls = concat (map (\<lambda>l. CHR 0x0A # l) ls)"

definition defaultRabbitmqConf :: string where
  "defaultRabbitmqConf = confText
     [''log.console = true'',
      ''queue_master_locator = min-masters'',
      ''disk_free_limit.absolute = 2GB'',
      ''cluster_partition_handling = pause_minority'',
      ''cluster_formation.peer_discovery_backend = rabbit_peer_discovery_k8s'',
      ''cluster_formation.k8s.host = kubernetes.default'',
      ''cluster_formation.k8s.address_type = hostname'']"

definition defaultTLSConf :: string where
  "defaultTLSConf = confText
     [''ssl_options.certfile = /etc/rabbitmq-tls/tls.crt'',
      ''ssl_options.keyfile = /etc/rabbitmq-tls/tls.key'',
      ''listeners.ssl.default = 5671'',
      '''',
      ''management.ssl.certfile   = /etc/rabbitmq-tls/tls.crt'',
      ''management.ssl.keyfile    = /etc/rabbitmq-tls/tls.key'',
      ''management.ssl.port       = 15671'',
      '''',
      ''prometheus.ssl.certfile  = /etc/rabbitmq-tls/tls.crt'',
      ''prometheus.ssl.keyfile   = /etc/rabbitmq-tls/tls.key'',
      ''prometheus.ssl.port      = 15691'',
      '''']"

definition caCertPath :: string where "caCertPath = ''/etc/rabbitmq-tls/ca.crt''"
definition tlsCertPath :: string where "tlsCertPath = ''/etc/rabbitmq-tls/tls.crt''"
definition tlsKeyPath :: string where "tlsKeyPath = ''/etc/rabbitmq-tls/tls.key''"

definition sizeHintKey :: string where
  "sizeHintKey = ''cluster_formation.target_cluster_size_hint''"

section \<open>Helpers\<close>

definition GiB :: "64 word" where "GiB = 1073741824"

text \<open>Go's division of integers truncates towards zero.\<close>

definition divide5 :: "64 word \<Rightarrow> 64 word" where
  "divide5 m = word_of_int (sint m sdiv 5)"

definition removeHeadroom :: "64 word \<Rightarrow> 64 word" where
  "removeHeadroom memLimit =
     (if sint (2 * GiB) < sint (divide5 memLimit) then memLimit - 2 * GiB
      else memLimit - divide5 memLimit)"

definition updateProperty ::
  "(string \<rightharpoonup> string) \<Rightarrow> string \<Rightarrow> string \<Rightarrow> (string \<rightharpoonup> string)" where
  "updateProperty configMapData key value =
     (if value = [] then configMapData(key := None) else configMapData(key \<mapsto> value))"

definition areAuthMechanismsConfigued :: "'f ini \<Rightarrow> string \<Rightarrow> goerror + bool" where
  "areAuthMechanismsConfigued I additionalConfig =
     (case ini_Load I additionalConfig of
        Inl e \<Rightarrow> Inl (WrapError ''failed to load spec.rabbitmq.additionalConfig'' e)
      | Inr f \<Rightarrow> Inr (\<exists>key \<in> set (ini_KeyStrings I f). HasPrefix key ''auth_mechanisms''))"

definition ErrInvalidEnvConfig :: goerror where
  "ErrInvalidEnvConfig = Sentinel
     (''spec.rabbitmq.envConfig must not contain shell command substitution ('' @
      [CHR 0x27] @ ''$(...)'' @ [CHR 0x27] @ '' or backticks)'')"

definition validateEnvConfig :: "string \<Rightarrow> goerror option" where
  "validateEnvConfig envConfig =
     (if Contains envConfig ''$('' \<or> Contains envConfig ''`'' then Some ErrInvalidEnvConfig else None)"

text \<open>The loop over the keys of the default section that deletes the size hint.\<close>

fun deleteSizeHint :: "'f ini \<Rightarrow> string list \<Rightarrow> 'f \<Rightarrow> 'f" where
  "deleteSizeHint I [] f = f"
| "deleteSizeHint I (key # keys) f =
     deleteSizeHint I keys (if HasPrefix key sizeHintKey then ini_DeleteKey I key f else f)"

definition removeConfigNotRequiringNodeRestart :: "'f ini \<Rightarrow> configMap \<Rightarrow> goerror + configMap" where
  "removeConfigNotRequiringNodeRestart I cm =
     (let operatorConf = mval (cm_Data cm) ''operatorDefaults.conf''
      in if operatorConf = [] then Inr cm
         else case ini_Load I operatorConf of
            Inl e \<Rightarrow> Inl (WrapError
              ''failed to load operatorDefaults.conf when deciding whether to restart STS'' e)
          | Inr conf \<Rightarrow>
             (case ini_WriteTo I (deleteSizeHint I (ini_KeyStrings I conf) conf) of
                Inl e \<Rightarrow> Inl (WrapError
                  ''failed to write operatorDefaults.conf when deciding whether to restart STS'' e)
              | Inr b \<Rightarrow> Inr (cm\<lparr>cm_Data :=
                  map_option (\<lambda>d. d(''operatorDefaults.conf'' \<mapsto> b)) (cm_Data cm)\<rparr>)))"

text \<open>Semantic equality of two config maps: a nil map and an empty one are equal.\<close>

definition contents :: "'v gomap \<Rightarrow> (string \<rightharpoonup> 'v)" where
  "contents m = (case m of None \<Rightarrow> Map.empty | Some f \<Rightarrow> f)"

definition DeepEqual :: "configMap \<Rightarrow> configMap \<Rightarrow> bool" where
  "DeepEqual a b \<longleftrightarrow>
     contents (cm_Data a) = contents (cm_Data b) \<and>
     contents (Labels (cm_Meta a)) = contents (Labels (cm_Meta b)) \<and>
     contents (Annotations (cm_Meta a)) = contents (Annotations (cm_Meta b)) \<and>
     (cm_Meta a)\<lparr>Labels := None, Annotations := None\<rparr> =
     (cm_Meta b)\<lparr>Labels := None, Annotations := None\<rparr>"

section \<open>The configuration files\<close>

text \<open>The keys the operator sets, in the order of the calls of \<open>NewKey\<close>.\<close>

definition tlsListenerKeys :: "RabbitmqCluster \<Rightarrow> (string \<times> string) list" where
  "tlsListenerKeys r =
     (if DisableNonTLSListeners r then [(''listeners.tcp'', ''none'')]
      else [(''management.tcp.port'', ''15672''), (''prometheus.tcp.port'', ''15692'')]) @
     (if AdditionalPluginEnabled r ''rabbitmq_mqtt''
      then (''mqtt.listeners.ssl.default'', ''8883'') #
           (if DisableNonTLSListeners r then [(''mqtt.listeners.tcp'', ''none'')] else [])
      else []) @
     (if AdditionalPluginEnabled r ''rabbitmq_stomp''
      then (''stomp.listeners.ssl.1'', ''61614'') #
           (if DisableNonTLSListeners r then [(''stomp.listeners.tcp'', ''none'')] else [])
      else []) @
     (if AdditionalPluginEnabled r ''rabbitmq_web_mqtt''
      then [(''web_mqtt.ssl.port'', ''15676''), (''web_mqtt.ssl.certfile'', tlsCertPath),
            (''web_mqtt.ssl.keyfile'', tlsKeyPath)] @
           (if DisableNonTLSListeners r then [(''web_mqtt.tcp.listener'', ''none'')] else [])
      else []) @
     (if AdditionalPluginEnabled r ''rabbitmq_web_stomp''
      then [(''web_stomp.ssl.port'', ''15673''), (''web_stomp.ssl.certfile'', tlsCertPath),
            (''web_stomp.ssl.keyfile'', tlsKeyPath)] @
           (if DisableNonTLSListeners r then [(''web_stomp.tcp.listener'', ''none'')] else [])
      else []) @
     (if AdditionalPluginEnabled r ''rabbitmq_web_amqp''
      then (if DisableNonTLSListeners r then [] else [(''web_amqp.tcp.port'', ''15678'')]) @
           [(''web_amqp.tls.port'', ''15677''), (''web_amqp.tls.certfile'', tlsCertPath),
            (''web_amqp.tls.keyfile'', tlsKeyPath)]
      else []) @
     (if AdditionalPluginEnabled r ''rabbitmq_stream''
      then (''stream.listeners.ssl.default'', ''5551'') #
           (if DisableNonTLSListeners r then [(''stream.listeners.tcp'', ''none'')] else [])
      else [])"

definition mutualTLSKeys :: "RabbitmqCluster \<Rightarrow> (string \<times> string) list" where
  "mutualTLSKeys r =
     [(''ssl_options.cacertfile'', caCertPath), (''ssl_options.verify'', ''verify_peer''),
      (''management.ssl.cacertfile'', caCertPath), (''prometheus.ssl.cacertfile'', caCertPath)] @
     (if AdditionalPluginEnabled r ''rabbitmq_web_mqtt''
      then [(''web_mqtt.ssl.cacertfile'', caCertPath)] else []) @
     (if AdditionalPluginEnabled r ''rabbitmq_web_stomp''
      then [(''web_stomp.ssl.cacertfile'', caCertPath)] else []) @
     (if AdditionalPluginEnabled r ''rabbitmq_web_amqp''
      then [(''web_amqp.tls.cacertfile'', caCertPath)] else [])"

definition memoryKeys :: "RabbitmqCluster \<Rightarrow> (string \<times> string) list" where
  "memoryKeys r =
     (if MemoryLimited r
      then [(''total_memory_available_override_value'',
         Itoa (sint (removeHeadroom (word_of_int
           (quantity_Value (rget (Limits (the (Resources (Spec r)))) ''memory''))))))]
      else [])"

definition operatorConfiguration :: "'f ini \<Rightarrow> RabbitmqCluster \<Rightarrow> goerror + 'f" where
  "operatorConfiguration I r =
     bindE (ini_Load I defaultRabbitmqConf) (\<lambda>f0.
     bindE (deref (Replicas (Spec r))) (\<lambda>replicas.
     bindE (newKeys I [(sizeHintKey, Itoa replicas), (''cluster_name'', cluster_Name r)] f0) (\<lambda>f1.
     bindE (areAuthMechanismsConfigued I (AdditionalConfig (Rabbitmq (Spec r)))) (\<lambda>authMechsConfigured.
       newKeys I (if authMechsConfigured then []
                  else [(''auth_mechanisms.1'', ''PLAIN''), (''auth_mechanisms.2'', ''AMQPLAIN'')]) f1))))"

definition userConfiguration0 :: "'f ini \<Rightarrow> RabbitmqCluster \<Rightarrow> goerror + 'f" where
  "userConfiguration0 I r =
     bindE (if TLSEnabled r
            then bindE (ini_Append I defaultTLSConf (ini_Empty I)) (newKeys I (tlsListenerKeys r))
            else Inr (ini_Empty I)) (\<lambda>f1.
     bindE (newKeys I (if MutualTLSEnabled r then mutualTLSKeys r else []) f1)
       (newKeys I (memoryKeys r)))"

definition userConfiguration :: "'f ini \<Rightarrow> RabbitmqCluster \<Rightarrow> 'f \<Rightarrow> goerror + 'f" where
  "userConfiguration I r f =
     (case ini_Append I (AdditionalConfig (Rabbitmq (Spec r))) f of
        Inl e \<Rightarrow> Inl (WrapError ''failed to append spec.rabbitmq.additionalConfig'' e)
      | Inr f' \<Rightarrow> Inr f')"

section \<open>The builder\<close>

definition ServerConfigMap_Build :: "RabbitmqResourceBuilder \<Rightarrow> configMap" where
  "ServerConfigMap_Build b =
     \<lparr>cm_Meta = (namedMeta (ChildResourceName (Instance b) ServerConfigMapName)
          (cluster_Namespace (Instance b)))\<lparr>Labels := clusterLabels b,
          Annotations := ReconcileAndFilterAnnotations None [Annotations (Meta (Instance b))]\<rparr>,
      cm_Data = None\<rparr>"

text \<open>
  The update returns the new config map and the new value of the builder's field
  \<open>UpdateRequiresStsRestart\<close>, which it only ever sets to false.
\<close>

definition serverConfData ::
  "RabbitmqCluster \<Rightarrow> string \<Rightarrow> string \<Rightarrow> string gomap \<Rightarrow> (string \<rightharpoonup> string)" where
  "serverConfData r operatorText userText data =
     (let p = Rabbitmq (Spec r)
      in updateProperty (updateProperty (updateProperty
           ((contents data)(''operatorDefaults.conf'' \<mapsto> operatorText,
                            ''userDefinedConfiguration.conf'' \<mapsto> userText))
           ''advanced.config'' (AdvancedConfig p))
           ''rabbitmq-env.conf'' (EnvConfig p))
           ''erl_inetrc'' (ErlangInetConfig p))"

definition ServerConfigMap_Update ::
  "'f ini \<Rightarrow> RabbitmqResourceBuilder \<Rightarrow> bool \<Rightarrow> configMap \<Rightarrow> goerror + configMap \<times> bool" where
  "ServerConfigMap_Update I b restart cm =
     (let r = Instance b
      in bindE (operatorConfiguration I r) (\<lambda>operatorConf.
         bindE (userConfiguration0 I r) (\<lambda>userConf0.
         bindE (ini_WriteTo I operatorConf) (\<lambda>operatorText.
         bindE (userConfiguration I r userConf0) (\<lambda>userConf.
         bindE (ini_WriteTo I userConf) (\<lambda>userText.
         case validateEnvConfig (EnvConfig (Rabbitmq (Spec r))) of
           Some e \<Rightarrow> Inl e
         | None \<Rightarrow>
           bindE (SetControllerReference b (cm_Meta cm)) (\<lambda>m.
             let cm' = cm\<lparr>cm_Meta := m,
                   cm_Data := Some (serverConfData r operatorText userText (cm_Data cm))\<rparr>
             in bindE (removeConfigNotRequiringNodeRestart I cm) (\<lambda>previous.
                bindE (removeConfigNotRequiringNodeRestart I cm') (\<lambda>updated.
                  Inr (cm', if DeepEqual previous updated then False else restart))))))))))"

section \<open>Memory\<close>

lemma sint_bounds64: "- (2 ^ 63) \<le> sint (m :: 64 word)" "sint (m :: 64 word) < 2 ^ 63"
  using sint_range_size [of m] by (simp_all add: word_size)

lemma sint_of_int64:
  "- (2 ^ 63) \<le> i \<Longrightarrow> i < 2 ^ 63 \<Longrightarrow> sint (word_of_int i :: 64 word) = i"
  unfolding sint_sbintrunc' by (rule signed_take_bit_int_eq_self) simp_all

lemma sint_minus64:
  assumes "- (2 ^ 63) \<le> sint a - sint b" "sint a - sint b < 2 ^ 63"
  shows "sint (a - b :: 64 word) = sint a - sint b"
  using sint_of_int64 [OF assms] by simp

lemma sdiv5: "(x :: int) sdiv 5 = (if 0 \<le> x then x div 5 else - (- x div 5))"
  by (auto simp: signed_divide_int_def sgn_if)

lemma sint_divide5: "sint (divide5 m) = sint m sdiv 5"
proof -
  have "- (2 ^ 63) \<le> sint m sdiv 5" "sint m sdiv 5 < 2 ^ 63"
    using sint_bounds64 [of m] unfolding sdiv5 by (auto split: if_split)
  then show ?thesis unfolding divide5_def by (rule sint_of_int64)
qed

lemma sint_2GiB: "sint (2 * GiB) = 2 * 1073741824"
  by (simp add: GiB_def)

text \<open>
  The memory RabbitMQ is told it has: the container's limit less a headroom of a fifth of the
  limit, capped at 2 GiB, computed without overflow for every 64-bit limit; for a limit that is not
  negative, at least four fifths of the limit remain.
\<close>

theorem removeHeadroom_meaning:
  "sint (removeHeadroom m) = sint m - min (sint m sdiv 5) (2 * 1073741824) \<and>
   (0 \<le> sint m \<longrightarrow> 4 * sint m \<le> 5 * sint (removeHeadroom m) \<and> sint (removeHeadroom m) \<le> sint m)"
proof -
  note b = sint_bounds64 [of m]
  have d: "0 \<le> sint m \<Longrightarrow> 0 \<le> sint m sdiv 5 \<and> 5 * (sint m sdiv 5) \<le> sint m"
    "sint m < 0 \<Longrightarrow> sint m \<le> sint m sdiv 5 \<and> sint m sdiv 5 \<le> 0"
    unfolding sdiv5 by auto
  have "sint (m - 2 * GiB) = sint m - sint (2 * GiB)" if "2 * 1073741824 < sint m sdiv 5"
  proof -
    have "0 \<le> sint m" using d(2) that by (cases "0 \<le> sint m") auto
    with b show ?thesis by (intro sint_minus64) (simp_all add: sint_2GiB)
  qed
  moreover have "sint (m - divide5 m) = sint m - sint (divide5 m)"
    using b d by (cases "0 \<le> sint m"; intro sint_minus64) (simp_all add: sint_divide5)
  ultimately have "sint (removeHeadroom m) = sint m - min (sint m sdiv 5) (2 * 1073741824)"
    by (auto simp: removeHeadroom_def sint_2GiB sint_divide5 min_def)
  then show ?thesis using d(1) by auto
qed

theorem removeHeadroom_meaning_witness:
  "sint (removeHeadroom (word_of_int 1000)) = 800 \<and>
   4 * sint (word_of_int 1000 :: 64 word) \<le> 5 * sint (removeHeadroom (word_of_int 1000))"
  using removeHeadroom_meaning [of "word_of_int 1000"] by (simp add: sdiv5)

section \<open>Environment configuration\<close>

lemma ServerConfigMap_Update_cases:
  assumes "ServerConfigMap_Update I b restart cm = Inr (cm', restart')"
  obtains f u0 u T U m p p' where
    "operatorConfiguration I (Instance b) = Inr f" "userConfiguration0 I (Instance b) = Inr u0"
    "ini_WriteTo I f = Inr T" "userConfiguration I (Instance b) u0 = Inr u" "ini_WriteTo I u = Inr U"
    "validateEnvConfig (EnvConfig (Rabbitmq (Spec (Instance b)))) = None"
    "SetControllerReference b (cm_Meta cm) = Inr m"
    "cm' = cm\<lparr>cm_Meta := m, cm_Data := Some (serverConfData (Instance b) T U (cm_Data cm))\<rparr>"
    "removeConfigNotRequiringNodeRestart I cm = Inr p" "removeConfigNotRequiringNodeRestart I cm' = Inr p'"
    "restart' = (if DeepEqual p p' then False else restart)"
  using assms unfolding ServerConfigMap_Update_def Let_def bindE_Inr_iff
  by (auto simp: bindE_Inr_iff split: option.splits)

lemma serverConfData_lookup:
  "serverConfData r T U d k =
     (let p = Rabbitmq (Spec r); prop = (\<lambda>v. if v = [] then None else Some v)
      in if k = ''erl_inetrc'' then prop (ErlangInetConfig p)
         else if k = ''rabbitmq-env.conf'' then prop (EnvConfig p)
         else if k = ''advanced.config'' then prop (AdvancedConfig p)
         else if k = ''userDefinedConfiguration.conf'' then Some U
         else if k = ''operatorDefaults.conf'' then Some T
         else contents d k)"
  by (simp add: serverConfData_def updateProperty_def Let_def)

text \<open>
  The server config map never carries shell command substitution: an update with a dollar sign
  followed by an opening parenthesis, or with a backquote, in the environment configuration is
  refused; an update that succeeds stores the environment configuration unchanged, or no such
  file when it is empty.
\<close>

theorem ServerConfigMap_Update_env:
  assumes "ServerConfigMap_Update I b restart cm = Inr (cm', restart')"
  shows "\<not> sublist ''$('' (EnvConfig (Rabbitmq (Spec (Instance b)))) \<and>
    \<not> sublist ''`'' (EnvConfig (Rabbitmq (Spec (Instance b)))) \<and>
    mget (cm_Data cm') ''rabbitmq-env.conf'' =
      (let env = EnvConfig (Rabbitmq (Spec (Instance b))) in if env = [] then None else Some env)"
  using assms
  by (rule ServerConfigMap_Update_cases)
     (simp add: validateEnvConfig_def Contains_iff_sublist mget_def serverConfData_lookup Let_def
       split: if_splits)

definition operatorKeys :: "RabbitmqCluster \<Rightarrow> (string \<times> string) list" where
  "operatorKeys r = (if TLSEnabled r then tlsListenerKeys r else []) @
     (if MutualTLSEnabled r then mutualTLSKeys r else []) @ memoryKeys r"

lemma userConfiguration0_keys:
  assumes "userConfiguration0 I r = Inr f"
  obtains f0 where "newKeys I (operatorKeys r) f0 = Inr f"
  using assms
  by (cases "TLSEnabled r")
     (auto simp: userConfiguration0_def operatorKeys_def bindE_Inr_iff newKeys_append)


section \<open>When a restart is required\<close>

text \<open>Two files alike but for the values of the size hint.\<close>

definition simKeys :: "'f ini \<Rightarrow> 'f \<Rightarrow> 'f \<Rightarrow> bool" where
  "simKeys I f g \<longleftrightarrow> ini_KeyStrings I f = ini_KeyStrings I g \<and>
     (\<forall>k. k \<in> set (ini_KeyStrings I f) \<and> \<not> HasPrefix k sizeHintKey \<longrightarrow> ini_Key I k f = ini_Key I k g)"

lemma deleteSizeHint_keys:
  assumes "ini_order_law I"
  shows "ini_KeyStrings I (deleteSizeHint I ks f) =
      filter (\<lambda>k. \<not> (k \<in> set ks \<and> HasPrefix k sizeHintKey)) (ini_KeyStrings I f)"
    and "\<not> HasPrefix j sizeHintKey \<Longrightarrow> ini_Key I j (deleteSizeHint I ks f) = ini_Key I j f"
proof -
  have del: "ini_KeyStrings I (ini_DeleteKey I k f) = filter (\<lambda>j. j \<noteq> k) (ini_KeyStrings I f)"
    "j \<noteq> k \<Longrightarrow> ini_Key I j (ini_DeleteKey I k f) = ini_Key I j f" for k f j
    using assms unfolding ini_order_law_def by blast+
  show "ini_KeyStrings I (deleteSizeHint I ks f) =
      filter (\<lambda>k. \<not> (k \<in> set ks \<and> HasPrefix k sizeHintKey)) (ini_KeyStrings I f)"
  proof (induction ks arbitrary: f)
    case (Cons k ks)
    then show ?case by (auto simp: del intro!: filter_cong)
  qed simp
  show "\<not> HasPrefix j sizeHintKey \<Longrightarrow> ini_Key I j (deleteSizeHint I ks f) = ini_Key I j f"
  proof (induction ks arbitrary: f)
    case (Cons k ks)
    then show ?case by (cases "j = k") (auto simp: del)
  qed simp
qed

lemma simKeys_deleted:
  assumes "ini_order_law I" and "simKeys I f g"
  shows "sameKeys I (deleteSizeHint I (ini_KeyStrings I f) f) (deleteSizeHint I (ini_KeyStrings I g) g)"
  using assms(2) unfolding sameKeys_def simKeys_def
  by (auto simp: deleteSizeHint_keys [OF assms(1)])

lemma simKeys_newKeys:
  assumes "ini_order_law I"
  shows "simKeys I f g \<Longrightarrow> newKeys I kvs f = Inr f' \<Longrightarrow> newKeys I kvs g = Inr g' \<Longrightarrow> simKeys I f' g'"
proof (induction kvs arbitrary: f g)
  case (Cons kv kvs)
  obtain k v where kv: "kv = (k, v)" by (cases kv)
  obtain f1 g1 where n: "ini_NewKey I k v f = Inr f1" "ini_NewKey I k v g = Inr g1"
    and rest: "newKeys I kvs f1 = Inr f'" "newKeys I kvs g1 = Inr g'"
    using Cons.prems(2,3) by (auto simp: kv bindE_Inr_iff)
  have new: "ini_KeyStrings I h' = (if k \<in> set (ini_KeyStrings I h) then ini_KeyStrings I h
      else ini_KeyStrings I h @ [k]) \<and> ini_Key I k h' = v \<and> (\<forall>j. j \<noteq> k \<longrightarrow> ini_Key I j h' = ini_Key I j h)"
    if "ini_NewKey I k v h = Inr h'" for h h'
    using assms that unfolding ini_order_law_def by blast
  have keys: "ini_KeyStrings I f1 = ini_KeyStrings I g1"
    using Cons.prems(1) new [OF n(1)] new [OF n(2)] by (simp add: simKeys_def)
  have "ini_Key I j f1 = ini_Key I j g1"
    if j: "j \<in> set (ini_KeyStrings I f1)" "\<not> HasPrefix j sizeHintKey" for j
  proof (cases "j = k")
    case True
    then show ?thesis using new [OF n(1)] new [OF n(2)] by simp
  next
    case False
    then have "j \<in> set (ini_KeyStrings I f)" using j(1) new [OF n(1)] by (auto split: if_splits)
    then show ?thesis
      using Cons.prems(1) j(2) False new [OF n(1)] new [OF n(2)] unfolding simKeys_def by metis
  qed
  with keys have "simKeys I f1 g1" by (simp add: simKeys_def)
  with rest show ?case by (intro Cons.IH)
qed simp

lemma simKeys_hint:
  assumes "ini_order_law I"
    and "ini_NewKey I sizeHintKey v f = Inr f1" and "ini_NewKey I sizeHintKey w f = Inr g1"
  shows "simKeys I f1 g1"
proof -
  have new: "ini_KeyStrings I h' = (if sizeHintKey \<in> set (ini_KeyStrings I f) then ini_KeyStrings I f
      else ini_KeyStrings I f @ [sizeHintKey]) \<and>
      (\<forall>j. j \<noteq> sizeHintKey \<longrightarrow> ini_Key I j h' = ini_Key I j f)"
    if "ini_NewKey I sizeHintKey x f = Inr h'" for h' x
    using assms(1) that unfolding ini_order_law_def by blast
  have "HasPrefix sizeHintKey sizeHintKey" by (simp add: HasPrefix_def)
  then have "k \<noteq> sizeHintKey" if "\<not> HasPrefix k sizeHintKey" for k using that by blast
  then show ?thesis
    using new [OF assms(2)] new [OF assms(3)] unfolding simKeys_def by presburger
qed

lemma sameKeys_simKeys: "sameKeys I f g \<Longrightarrow> simKeys I f g"
  by (simp add: sameKeys_def simKeys_def)

lemma simKeys_trans: "simKeys I f g \<Longrightarrow> simKeys I g h \<Longrightarrow> simKeys I f h"
  by (auto simp: simKeys_def)

lemma simKeys_sym: "simKeys I f g \<Longrightarrow> simKeys I g f"
  by (auto simp: simKeys_def)

text \<open>The same cluster with another number of replicas.\<close>

definition withReplicas :: "int option \<Rightarrow> RabbitmqCluster \<Rightarrow> RabbitmqCluster" where
  "withReplicas n r = r\<lparr>Spec := (Spec r)\<lparr>Replicas := n\<rparr>\<rparr>"

lemma withReplicas_same [simp]:
  "Meta (withReplicas n r) = Meta r"
  "Rabbitmq (Spec (withReplicas n r)) = Rabbitmq (Spec r)"
  "Replicas (Spec (withReplicas n r)) = n"
  "TLSEnabled (withReplicas n r) = TLSEnabled r"
  "MutualTLSEnabled (withReplicas n r) = MutualTLSEnabled r"
  "DisableNonTLSListeners (withReplicas n r) = DisableNonTLSListeners r"
  "AdditionalPluginEnabled (withReplicas n r) = AdditionalPluginEnabled r"
  "MemoryLimited (withReplicas n r) = MemoryLimited r"
  "Resources (Spec (withReplicas n r)) = Resources (Spec r)"
  by (auto simp: withReplicas_def TLSEnabled_def SecretTLSEnabled_def VaultTLSEnabled_def
      MutualTLSEnabled_def DisableNonTLSListeners_def AdditionalPluginEnabled_def MemoryLimited_def)

lemma newKeys_nonempty:
  assumes "ini_order_law I"
  shows "newKeys I kvs f = Inr f' \<Longrightarrow> ini_KeyStrings I f \<noteq> [] \<or> kvs \<noteq> [] \<Longrightarrow> ini_KeyStrings I f' \<noteq> []"
proof (induction kvs arbitrary: f)
  case (Cons kv kvs)
  obtain k v where kv: "kv = (k, v)" by (cases kv)
  obtain f1 where f1: "ini_NewKey I k v f = Inr f1" "newKeys I kvs f1 = Inr f'"
    using Cons.prems(1) by (auto simp: kv bindE_Inr_iff)
  have "ini_KeyStrings I f1 = (if k \<in> set (ini_KeyStrings I f) then ini_KeyStrings I f
      else ini_KeyStrings I f @ [k])"
    using assms f1(1) unfolding ini_order_law_def by blast
  then have "ini_KeyStrings I f1 \<noteq> []" by auto
  with f1(2) show ?case by (intro Cons.IH) auto
qed simp

definition operatorRest :: "RabbitmqCluster \<Rightarrow> bool \<Rightarrow> (string \<times> string) list" where
  "operatorRest r auth = (''cluster_name'', cluster_Name r) #
     (if auth then [] else [(''auth_mechanisms.1'', ''PLAIN''), (''auth_mechanisms.2'', ''AMQPLAIN'')])"

lemma operatorConfiguration_cases:
  assumes "operatorConfiguration I r = Inr f"
  obtains f0 n auth where "ini_Load I defaultRabbitmqConf = Inr f0" "Replicas (Spec r) = Some n"
    "areAuthMechanismsConfigued I (AdditionalConfig (Rabbitmq (Spec r))) = Inr auth"
    "newKeys I ((sizeHintKey, Itoa n) # operatorRest r auth) f0 = Inr f"
proof -
  obtain f0 n f1 auth where f0: "ini_Load I defaultRabbitmqConf = Inr f0"
    and n: "Replicas (Spec r) = Some n"
    and auth: "areAuthMechanismsConfigued I (AdditionalConfig (Rabbitmq (Spec r))) = Inr auth"
    and "newKeys I [(sizeHintKey, Itoa n), (''cluster_name'', cluster_Name r)] f0 = Inr f1"
    and "newKeys I (if auth then []
      else [(''auth_mechanisms.1'', ''PLAIN''), (''auth_mechanisms.2'', ''AMQPLAIN'')]) f1 = Inr f"
    using assms unfolding operatorConfiguration_def bindE_Inr_iff deref_Inr_iff by blast
  moreover have "(sizeHintKey, Itoa n) # operatorRest r auth =
      [(sizeHintKey, Itoa n), (''cluster_name'', cluster_Name r)] @ (if auth then []
       else [(''auth_mechanisms.1'', ''PLAIN''), (''auth_mechanisms.2'', ''AMQPLAIN'')])"
    by (simp add: operatorRest_def)
  ultimately have "newKeys I ((sizeHintKey, Itoa n) # operatorRest r auth) f0 = Inr f"
    by (simp only: newKeys_append bindE_simps)
  with f0 n auth show thesis by (rule that)
qed

lemma operatorConfiguration_sim:
  assumes "ini_order_law I" "operatorConfiguration I r = Inr f"
    and "operatorConfiguration I (withReplicas n r) = Inr g"
  shows "simKeys I f g" and "ini_KeyStrings I f \<noteq> []" and "ini_KeyStrings I g \<noteq> []"
proof -
  obtain f0 i auth where f: "ini_Load I defaultRabbitmqConf = Inr f0"
    "areAuthMechanismsConfigued I (AdditionalConfig (Rabbitmq (Spec r))) = Inr auth"
    "newKeys I ((sizeHintKey, Itoa i) # operatorRest r auth) f0 = Inr f"
    using operatorConfiguration_cases [OF assms(2)] .
  obtain g0 j auth' where "ini_Load I defaultRabbitmqConf = Inr g0"
    "areAuthMechanismsConfigued I (AdditionalConfig (Rabbitmq (Spec (withReplicas n r)))) = Inr auth'"
    and g0: "newKeys I ((sizeHintKey, Itoa j) # operatorRest (withReplicas n r) auth') g0 = Inr g"
    using operatorConfiguration_cases [OF assms(3)] .
  with f(1,2) have g: "newKeys I ((sizeHintKey, Itoa j) # operatorRest r auth) f0 = Inr g"
    by (simp add: operatorRest_def)
  obtain f1 g1 where "ini_NewKey I sizeHintKey (Itoa i) f0 = Inr f1" "newKeys I (operatorRest r auth) f1 = Inr f"
    "ini_NewKey I sizeHintKey (Itoa j) f0 = Inr g1" "newKeys I (operatorRest r auth) g1 = Inr g"
    using f(3) g by (auto simp: bindE_Inr_iff)
  then show "simKeys I f g"
    using simKeys_hint [OF assms(1)] simKeys_newKeys [OF assms(1)] by blast
  show "ini_KeyStrings I f \<noteq> []" "ini_KeyStrings I g \<noteq> []"
    using newKeys_nonempty [OF assms(1)] f(3) g by blast+
qed

lemma keys_replicas:
  "tlsListenerKeys (withReplicas n r) = tlsListenerKeys r"
  "mutualTLSKeys (withReplicas n r) = mutualTLSKeys r"
  "memoryKeys (withReplicas n r) = memoryKeys r"
  unfolding tlsListenerKeys_def mutualTLSKeys_def memoryKeys_def withReplicas_same by (rule refl)+

lemma userConfiguration_replicas:
  "userConfiguration0 I (withReplicas n r) = userConfiguration0 I r"
  "userConfiguration I (withReplicas n r) = userConfiguration I r"
  unfolding userConfiguration0_def userConfiguration_def fun_eq_iff keys_replicas withReplicas_same
  by (rule refl, simp)

lemma serverConfData_again:
  "serverConfData (withReplicas n r) T' U (Some (serverConfData r T U d)) =
     (serverConfData r T U d)(''operatorDefaults.conf'' \<mapsto> T')"
  by (rule ext) (simp add: serverConfData_lookup contents_def Let_def)

text \<open>What is compared of the operator's file: the text with the size hint taken out.\<close>

lemma removed_text:
  assumes "ini_text_law I" "ini_order_law I" and "ini_WriteTo I f = Inr T" and "ini_KeyStrings I f \<noteq> []"
    and "removeConfigNotRequiringNodeRestart I cm = Inr p" and "cm_Data cm = Some d"
    and "d ''operatorDefaults.conf'' = Some T"
  obtains W where "ini_WriteTo I (deleteSizeHint I (ini_KeyStrings I f) f) = Inr W"
    and "p = cm\<lparr>cm_Data := Some (d(''operatorDefaults.conf'' \<mapsto> W))\<rparr>"
proof -
  have "T \<noteq> []" using assms(1,3,4) unfolding ini_text_law_def by blast
  obtain g where g: "ini_Load I T = Inr g" "sameKeys I f g"
    using assms(1,3) unfolding ini_text_law_def by blast
  have mval: "mval (cm_Data cm) ''operatorDefaults.conf'' = T"
    using assms(6,7) by (simp add: mval_def mget_def)
  obtain W where W: "ini_WriteTo I (deleteSizeHint I (ini_KeyStrings I g) g) = Inr W"
    and p: "p = cm\<lparr>cm_Data := Some (d(''operatorDefaults.conf'' \<mapsto> W))\<rparr>"
    using assms(5) \<open>T \<noteq> []\<close> g(1)
    unfolding removeConfigNotRequiringNodeRestart_def Let_def mval
    by (auto simp: assms(6) split: sum.splits)
  have "ini_WriteTo I (deleteSizeHint I (ini_KeyStrings I f) f) =
      ini_WriteTo I (deleteSizeHint I (ini_KeyStrings I g) g)"
    using simKeys_deleted [OF assms(2) sameKeys_simKeys [OF g(2)]] assms(1)
    unfolding ini_text_law_def by blast
  with W p show thesis by (intro that) simp_all
qed


lemma mget_contents: "mget m k = contents m k"
  by (cases m) (simp_all add: mget_def contents_def)

lemma removed_other:
  assumes "removeConfigNotRequiringNodeRestart I cm = Inr p" and "k \<noteq> ''operatorDefaults.conf''"
  shows "contents (cm_Data p) k = contents (cm_Data cm) k"
  using assms
  by (auto simp: removeConfigNotRequiringNodeRestart_def Let_def contents_def
      split: if_splits sum.splits option.splits)

text \<open>
  Any other change of the stored configuration does ask for a restart: if an update changes an
  entry other than the operator's defaults, the builder's request for a restart stands.
\<close>

theorem changed_configuration_requires_restart:
  assumes "ServerConfigMap_Update I b restart cm = Inr (cm', restart')"
    and "k \<noteq> ''operatorDefaults.conf''" and "mget (cm_Data cm') k \<noteq> mget (cm_Data cm) k"
  shows "restart' = restart"
  using assms(1)
proof (rule ServerConfigMap_Update_cases)
  fix p p'
  assume p: "removeConfigNotRequiringNodeRestart I cm = Inr p"
    and p': "removeConfigNotRequiringNodeRestart I cm' = Inr p'"
    and r: "restart' = (if DeepEqual p p' then False else restart)"
  have "contents (cm_Data p) k \<noteq> contents (cm_Data p') k"
    using removed_other [OF p assms(2)] removed_other [OF p' assms(2)] assms(3)
    by (simp add: mget_contents)
  then have "\<not> DeepEqual p p'" by (auto simp: DeepEqual_def)
  with r show ?thesis by simp
qed

section \<open>The builder and examples\<close>

lemma ServerConfigMap_Update_defined:
  assumes "operatorConfiguration I (Instance b) = Inr f" "userConfiguration0 I (Instance b) = Inr u0"
    "ini_WriteTo I f = Inr T" "userConfiguration I (Instance b) u0 = Inr u" "ini_WriteTo I u = Inr U"
    "validateEnvConfig (EnvConfig (Rabbitmq (Spec (Instance b)))) = None"
    "SetControllerReference b (cm_Meta cm) = Inr m"
    "cm' = cm\<lparr>cm_Meta := m, cm_Data := Some (serverConfData (Instance b) T U (cm_Data cm))\<rparr>"
    "removeConfigNotRequiringNodeRestart I cm = Inr p" "removeConfigNotRequiringNodeRestart I cm' = Inr p'"
  shows "ServerConfigMap_Update I b restart cm = Inr (cm', if DeepEqual p p' then False else restart)"
  using assms by (simp add: ServerConfigMap_Update_def Let_def)

lemma serverConfData_idem:
  "serverConfData r T U (Some (serverConfData r T U d)) = serverConfData r T U d"
  by (rule ext) (simp add: serverConfData_lookup contents_def Let_def)

lemma DeepEqual_refl: "DeepEqual cm cm"
  by (simp add: DeepEqual_def)

text \<open>Writing the configuration a second time changes nothing and asks for no restart.\<close>

lemma ServerConfigMap_Update_again:
  assumes "reference_idem b" and "ServerConfigMap_Update I b restart cm = Inr (cm', restart')"
  shows "ServerConfigMap_Update I b restart2 cm' = Inr (cm', False)"
  using assms(2)
proof (rule ServerConfigMap_Update_cases)
  fix f u0 u T U m p p'
  assume a: "operatorConfiguration I (Instance b) = Inr f" "userConfiguration0 I (Instance b) = Inr u0"
    "ini_WriteTo I f = Inr T" "userConfiguration I (Instance b) u0 = Inr u" "ini_WriteTo I u = Inr U"
    "validateEnvConfig (EnvConfig (Rabbitmq (Spec (Instance b)))) = None"
    and m: "SetControllerReference b (cm_Meta cm) = Inr m"
    and cm': "cm' = cm\<lparr>cm_Meta := m, cm_Data := Some (serverConfData (Instance b) T U (cm_Data cm))\<rparr>"
    and p': "removeConfigNotRequiringNodeRestart I cm' = Inr p'"
  have "SetControllerReference b (cm_Meta cm') = Inr m"
    using reference_again [OF assms(1) m] by (simp add: cm')
  moreover have "cm' = cm'\<lparr>cm_Meta := m, cm_Data := Some (serverConfData (Instance b) T U (cm_Data cm'))\<rparr>"
    by (simp add: cm' serverConfData_idem)
  ultimately show ?thesis
    using ServerConfigMap_Update_defined [OF a _ _ p' p', of m restart2] by (simp add: DeepEqual_refl)
qed

interpretation scm: stable_builder cm_Meta ServerConfigMapName
  "\<lambda>b x. x = ServerConfigMap_Build b"
  "\<lambda>b x y. \<exists>restart restart'. ServerConfigMap_Update I b restart x = Inr (y, restart')"
proof (unfold_locales, goal_cases)
  case (2 b x y)
  then show ?case
    by (elim exE) (erule ServerConfigMap_Update_cases, simp add: reference_names)
next
  case (3 b x y z)
  then show ?case using ServerConfigMap_Update_again by (elim exE) fastforce
next
  case (4 b x y)
  then show ?case using ServerConfigMap_Update_again by blast
qed (simp add: ServerConfigMap_Build_def)

definition exampleServer :: "int \<Rightarrow> RabbitmqCluster" where
  "exampleServer n = emptyCluster\<lparr>Meta := namedMeta ''rmq'' ''ns'',
     Spec := emptyClusterSpec\<lparr>Replicas := Some n,
       Persistence := \<lparr>StorageClassName = None, Storage = Some 1, EmptyDir = None\<rparr>,
       Resources := Some \<lparr>Limits = None, Requests = None\<rparr>, TerminationGracePeriodSeconds := Some 60\<rparr>\<rparr>"

definition exampleReference :: "RabbitmqCluster \<Rightarrow> objectMeta \<Rightarrow> goerror + objectMeta" where
  "exampleReference r m = Inr (m\<lparr>OwnerReferences :=
     [\<lparr>or_APIVersion = ''rabbitmq.com/v1beta1'', or_Kind = ''RabbitmqCluster'',
       or_Name = cluster_Name r, or_Controller = True, or_BlockOwnerDeletion = Some True\<rparr>]\<rparr>)"

definition writable :: "(string \<times> string) list \<Rightarrow> bool" where
  "writable f = (\<not> isl (ini_WriteTo exampleIni f) \<and>
     \<not> isl (ini_WriteTo exampleIni (deleteSizeHint exampleIni (map fst f) f)))"

lemma exampleServer_writable:
  "(case operatorConfiguration exampleIni (exampleServer 3) of Inl _ \<Rightarrow> False | Inr f \<Rightarrow> writable f)"
  "(case operatorConfiguration exampleIni (exampleServer 5) of Inl _ \<Rightarrow> False | Inr f \<Rightarrow> writable f)"
  by code_simp+

lemma exampleServer_conf:
  assumes "n = 3 \<or> n = 5"
  obtains f T W where "operatorConfiguration exampleIni (exampleServer n) = Inr f"
    "ini_WriteTo exampleIni f = Inr T" "T \<noteq> []" "ini_Load exampleIni T = Inr f"
    "ini_WriteTo exampleIni (deleteSizeHint exampleIni (ini_KeyStrings exampleIni f) f) = Inr W"
proof -
  obtain f where f: "operatorConfiguration exampleIni (exampleServer n) = Inr f" and w: "writable f"
    using assms exampleServer_writable by (auto split: sum.splits)
  obtain T where T: "ini_WriteTo exampleIni f = Inr T"
    using w by (cases "ini_WriteTo exampleIni f") (auto simp: writable_def)
  have "ini_WriteTo exampleIni (deleteSizeHint exampleIni (map fst f) f) \<noteq> Inl e" for e
    using w by (auto simp: writable_def)
  then obtain W where W: "ini_WriteTo exampleIni (deleteSizeHint exampleIni (map fst f) f) = Inr W"
    by (cases "ini_WriteTo exampleIni (deleteSizeHint exampleIni (map fst f) f)") auto
  have "ini_KeyStrings exampleIni f \<noteq> []"
    using f by (rule operatorConfiguration_cases) (erule newKeys_nonempty [OF exampleIni_order], simp)
  then have "T \<noteq> []" using T exampleIni_text unfolding ini_text_law_def by blast
  moreover have "ini_Load exampleIni T = Inr f" using T by (auto simp: exampleIni_def split: if_splits)
  moreover have "ini_KeyStrings exampleIni f = map fst f" by (simp add: exampleIni_def)
  ultimately show thesis using that [OF f T] W by simp
qed

lemma exampleServer_user:
  "userConfiguration0 exampleIni (exampleServer n) = Inr []"
  "userConfiguration exampleIni (exampleServer n) [] = Inr []"
  "ini_WriteTo exampleIni [] = Inr []"
  "validateEnvConfig (EnvConfig (Rabbitmq (Spec (exampleServer n)))) = None"
proof -
  have "\<not> TLSEnabled (exampleServer n)" "\<not> MutualTLSEnabled (exampleServer n)"
    "\<not> MemoryLimited (exampleServer n)"
    by (simp_all add: exampleServer_def emptyClusterSpec_def TLSEnabled_def SecretTLSEnabled_def
        VaultTLSEnabled_def MutualTLSEnabled_def MemoryLimited_def)
  then show "userConfiguration0 exampleIni (exampleServer n) = Inr []"
    by (simp add: userConfiguration0_def memoryKeys_def) (simp add: exampleIni_def)
  show "userConfiguration exampleIni (exampleServer n) [] = Inr []"
    by (simp add: userConfiguration_def exampleServer_def emptyClusterSpec_def exampleIni_def kvline_def)
  show "ini_WriteTo exampleIni [] = Inr []"
    by (simp add: exampleIni_def kvload_def kvtext_def kvline_def)
  show "validateEnvConfig (EnvConfig (Rabbitmq (Spec (exampleServer n)))) = None"
    by (simp add: validateEnvConfig_def exampleServer_def emptyClusterSpec_def)
qed

abbreviation exampleServerBuilder :: "int \<Rightarrow> RabbitmqResourceBuilder" where
  "exampleServerBuilder n \<equiv> \<lparr>Instance = exampleServer n, Scheme = exampleReference\<rparr>"

lemma exampleServer_update:
  assumes "n = 3 \<or> n = 5" and "\<exists>p. removeConfigNotRequiringNodeRestart exampleIni cm = Inr p"
  shows "\<exists>cm' x p. ServerConfigMap_Update exampleIni (exampleServerBuilder n) True cm = Inr (cm', x) \<and>
    removeConfigNotRequiringNodeRestart exampleIni cm' = Inr p"
proof -
  obtain f T W where f: "operatorConfiguration exampleIni (exampleServer n) = Inr f"
    "ini_WriteTo exampleIni f = Inr T" "T \<noteq> []" "ini_Load exampleIni T = Inr f"
    "ini_WriteTo exampleIni (deleteSizeHint exampleIni (ini_KeyStrings exampleIni f) f) = Inr W"
    by (rule exampleServer_conf [OF assms(1)])
  obtain m where m: "SetControllerReference (exampleServerBuilder n) (cm_Meta cm) = Inr m"
    by (simp add: SetControllerReference_def exampleReference_def)
  obtain p where p: "removeConfigNotRequiringNodeRestart exampleIni cm = Inr p" using assms(2) by blast
  define cm' where "cm' = cm\<lparr>cm_Meta := m, cm_Data := Some (serverConfData (exampleServer n) T [] (cm_Data cm))\<rparr>"
  have "mval (cm_Data cm') ''operatorDefaults.conf'' = T"
    by (simp add: cm'_def mval_def mget_def serverConfData_lookup)
  then obtain p' where "removeConfigNotRequiringNodeRestart exampleIni cm' = Inr p'"
    using f by (simp add: removeConfigNotRequiringNodeRestart_def)
  then show ?thesis
    using ServerConfigMap_Update_defined [of exampleIni "exampleServerBuilder n" f "[]" T "[]" "[]" cm m cm' p p' True]
      f m p exampleServer_user by (auto simp: cm'_def)
qed

lemma exampleServer_first:
  assumes "n = 3 \<or> n = 5"
  shows "\<exists>cm' x p. ServerConfigMap_Update exampleIni (exampleServerBuilder n) True
      (ServerConfigMap_Build (exampleServerBuilder n)) = Inr (cm', x) \<and>
    removeConfigNotRequiringNodeRestart exampleIni cm' = Inr p"
proof (rule exampleServer_update [OF assms])
  show "\<exists>p. removeConfigNotRequiringNodeRestart exampleIni
      (ServerConfigMap_Build (exampleServerBuilder n)) = Inr p"
    by (simp add: removeConfigNotRequiringNodeRestart_def ServerConfigMap_Build_def mval_def mget_def)
qed

theorem ServerConfigMap_Update_env_witness:
  "\<exists>cm' x. ServerConfigMap_Update exampleIni (exampleServerBuilder 3) True
      (ServerConfigMap_Build (exampleServerBuilder 3)) = Inr (cm', x) \<and>
    mget (cm_Data cm') ''rabbitmq-env.conf'' = None"
proof -
  obtain cm' x where "ServerConfigMap_Update exampleIni (exampleServerBuilder 3) True
      (ServerConfigMap_Build (exampleServerBuilder 3)) = Inr (cm', x)"
    using exampleServer_first [of 3] by auto
  moreover from ServerConfigMap_Update_env [OF this]
  have "mget (cm_Data cm') ''rabbitmq-env.conf'' = None"
    by (simp add: exampleServer_def emptyClusterSpec_def)
  ultimately show ?thesis by blast
qed



theorem changed_configuration_requires_restart_witness:
  "\<exists>cm'. ServerConfigMap_Update exampleIni (exampleServerBuilder 3) True
      (ServerConfigMap_Build (exampleServerBuilder 3)) = Inr (cm', True)"
proof -
  obtain cm' x where u: "ServerConfigMap_Update exampleIni (exampleServerBuilder 3) True
      (ServerConfigMap_Build (exampleServerBuilder 3)) = Inr (cm', x)"
    using exampleServer_first [of 3] by auto
  have "mget (cm_Data cm') ''userDefinedConfiguration.conf'' \<noteq> None"
    using u by (rule ServerConfigMap_Update_cases) (simp add: mget_def serverConfData_lookup)
  then have "x = True"
    using changed_configuration_requires_restart [OF u, of "''userDefinedConfiguration.conf''"]
    by (simp add: ServerConfigMap_Build_def mget_def)
  with u show ?thesis by blast
qed

end
