(* ===== verification/Pod_Template.thy ===== *)
theory Pod_Template
  imports Service_Builder Secrets Server_Config
begin

text \<open>
  \<open>internal/resource/statefulset.go\<close>, first part: the pod template of a cluster, that is its
  volumes, containers, ports, probes, environment and the annotations for the Vault agent.
\<close>

section \<open>Constants and small helpers\<close>

definition stsSuffix :: string where "stsSuffix = ''server''"
definition defaultPVCName :: string where "defaultPVCName = ''persistence''"
definition DeletionMarker :: string where "DeletionMarker = ''skipPreStopChecks''"

abbreviation dquote :: string where "dquote \<equiv> [CHR 0x22]"
abbreviation squote :: string where "squote \<equiv> [CHR 0x27]"
abbreviation newline :: string where "newline \<equiv> [CHR 0x0A]"

text \<open>Quantities as the suffixes m, Ki and Mi of \<open>MustParse\<close> write them.\<close>

definition milli :: "int \<Rightarrow> quantity" where "milli n = n * 1000000"
definition Ki :: "int \<Rightarrow> quantity" where "Ki n = n * 1024 * 1000000000"
definition Mi :: "int \<Rightarrow> quantity" where "Mi n = n * 1048576 * 1000000000"

definition plainEnv :: "string \<Rightarrow> string \<Rightarrow> envVar" where
  "plainEnv n v = \<lparr>env_Name = n, env_Value = v, env_FieldRef = None\<rparr>"

definition fieldEnv :: "string \<Rightarrow> string \<Rightarrow> envVar" where
  "fieldEnv n path = \<lparr>env_Name = n, env_Value = [], env_FieldRef = Some (path, ''v1'')\<rparr>"

definition mount :: "string \<Rightarrow> string \<Rightarrow> string \<Rightarrow> volumeMount" where
  "mount n path sub = \<lparr>vm_Name = n, vm_MountPath = path, vm_SubPath = sub, vm_ReadOnly = False\<rparr>"

definition tlsMount :: volumeMount where
  "tlsMount = \<lparr>vm_Name = ''rabbitmq-tls'', vm_MountPath = ''/etc/rabbitmq-tls/'', vm_SubPath = [],
     vm_ReadOnly = True\<rparr>"

definition emptyDirOf :: "string \<Rightarrow> quantity option \<Rightarrow> emptyDirVolume" where
  "emptyDirOf medium limit = \<lparr>ed_Medium = medium, ed_SizeLimit = limit\<rparr>"

text \<open>The security context of the containers the operator generates for RabbitMQ.\<close>

definition restrictedContext :: securityContext where
  "restrictedContext = emptySecurityContext\<lparr>
     sc_AllowPrivilegeEscalation := Some False,
     sc_Capabilities := Some \<lparr>cap_Add = None, cap_Drop = [''ALL'']\<rparr>,
     sc_ReadOnlyRootFilesystem := Some True,
     sc_RunAsNonRoot := Some True,
     sc_Privileged := Some False,
     sc_SeccompProfile := Some ''RuntimeDefault''\<rparr>"

section \<open>Environment, ports and probes\<close>

definition envVarsK8sObjects :: "RabbitmqCluster \<Rightarrow> envVar list" where
  "envVarsK8sObjects r =
     [fieldEnv ''MY_POD_NAME'' ''metadata.name'',
      fieldEnv ''MY_POD_NAMESPACE'' ''metadata.namespace'',
      plainEnv ''K8S_SERVICE_NAME'' (ChildResourceName r headlessServiceSuffix)]"

definition containerPortsWhen :: "(bool \<times> string \<times> int) list \<Rightarrow> containerPort list" where
  "containerPortsWhen cs =
     map (\<lambda>(c, n, p). \<lparr>cp_Name = n, cp_ContainerPort = p\<rparr>) (filter fst cs)"

definition updateContainerPortsOnlyTLSListeners :: "RabbitmqCluster \<Rightarrow> containerPort list" where
  "updateContainerPortsOnlyTLSListeners r = containerPortsWhen
     [(True, ''epmd'', 4369), (True, ''amqps'', 5671), (True, ''management-tls'', 15671),
      (True, ''prometheus-tls'', 15691),
      (AdditionalPluginEnabled r ''rabbitmq_mqtt'', ''mqtts'', 8883),
      (AdditionalPluginEnabled r ''rabbitmq_stomp'', ''stomps'', 61614),
      (StreamNeeded r, ''streams'', 5551)]"

definition updateContainerPorts :: "RabbitmqCluster \<Rightarrow> containerPort list" where
  "updateContainerPorts r =
     (if DisableNonTLSListeners r then updateContainerPortsOnlyTLSListeners r
      else containerPortsWhen
        [(True, ''epmd'', 4369), (True, ''amqp'', 5672), (True, ''management'', 15672),
         (True, ''prometheus'', 15692),
         (AdditionalPluginEnabled r ''rabbitmq_mqtt'', ''mqtt'', 1883),
         (AdditionalPluginEnabled r ''rabbitmq_web_mqtt'', ''web-mqtt'', 15675),
         (AdditionalPluginEnabled r ''rabbitmq_stomp'', ''stomp'', 61613),
         (AdditionalPluginEnabled r ''rabbitmq_web_stomp'', ''web-stomp'', 15674),
         (AdditionalPluginEnabled r ''rabbitmq_web_amqp'', ''web-amqp'', 15678),
         (StreamNeeded r, ''stream'', 5552),
         (TLSEnabled r, ''amqps'', 5671), (TLSEnabled r, ''management-tls'', 15671),
         (TLSEnabled r, ''prometheus-tls'', 15691),
         (TLSEnabled r \<and> AdditionalPluginEnabled r ''rabbitmq_mqtt'', ''mqtts'', 8883),
         (TLSEnabled r \<and> AdditionalPluginEnabled r ''rabbitmq_stomp'', ''stomps'', 61614),
         (TLSEnabled r \<and> StreamNeeded r, ''streams'', 5551),
         (TLSEnabled r \<and> AdditionalPluginEnabled r ''rabbitmq_web_mqtt'', ''web-mqtt-tls'', 15676),
         (TLSEnabled r \<and> AdditionalPluginEnabled r ''rabbitmq_web_stomp'', ''web-stomp-tls'', 15673),
         (TLSEnabled r \<and> AdditionalPluginEnabled r ''rabbitmq_web_amqp'', ''web-amqp-tls'', 15677)])"

definition startupProbe :: "RabbitmqCluster \<Rightarrow> probe" where
  "startupProbe r =
     \<lparr>pr_Handler =
        (if mget (Annotations (Meta r)) LegacyStartupProbeAnnotation \<noteq> None
         then ProbeExec [''/bin/bash'', ''-c'',
           ''[[ '' @ dquote @ ''true'' @ dquote @ '' == '' @ dquote @ ''$(rabbitmqctl eval '' @ squote @
           ''rabbit_nodes:reached_target_cluster_size().'' @ squote @ '')'' @ dquote @ '' ]]'']
         else ProbeHTTPGet ''/api/health/checks/reached-target-cluster-size''
           (if DisableNonTLSListeners r then ''management-tls'' else ''management'')
           (if DisableNonTLSListeners r then ''HTTPS'' else ''HTTP'')),
      pr_InitialDelaySeconds = 10, pr_TimeoutSeconds = 5, pr_PeriodSeconds = 10,
      pr_SuccessThreshold = 0, pr_FailureThreshold = 30\<rparr>"

definition readinessProbe :: "RabbitmqCluster \<Rightarrow> probe" where
  "readinessProbe r =
     \<lparr>pr_Handler = ProbeTCPSocket (if DisableNonTLSListeners r then ''amqps'' else ''amqp''),
      pr_InitialDelaySeconds = 10, pr_TimeoutSeconds = 5, pr_PeriodSeconds = 10,
      pr_SuccessThreshold = 1, pr_FailureThreshold = 3\<rparr>"

definition defaultTopologySpreadConstraints :: "RabbitmqCluster \<Rightarrow> topologySpreadConstraint list" where
  "defaultTopologySpreadConstraints r =
     (if DisableDefaultTopologySpreadConstraints r then []
      else [\<lparr>tsc_MaxSkew = 1, tsc_TopologyKey = ''topology.kubernetes.io/zone'',
             tsc_WhenUnsatisfiable = ''ScheduleAnyway'',
             tsc_LabelSelector = Some (matchLabels (LabelSelector (cluster_Name r)))\<rparr>])"

section \<open>The Vault annotations\<close>

definition podHostNames :: "RabbitmqCluster \<Rightarrow> string" where
  "podHostNames r =
     TrimPrefix (concat (map (\<lambda>i.
         '','' @ ChildResourceName r stsSuffix @ ''-'' @ Itoa (int i) @ ''.'' @
         ChildResourceName r headlessServiceSuffix @ ''.'' @ cluster_Namespace r)
       [0..<nat (ptr_Deref (Replicas (Spec r)) 1)])) '',''"

definition withSecret :: "string \<Rightarrow> string" where
  "withSecret path = newline @ ''{{- with secret '' @ dquote @ path @ dquote"

definition certificateArguments :: "string \<Rightarrow> string \<Rightarrow> string \<Rightarrow> string" where
  "certificateArguments commonName altNames ipSans =
     '' '' @ dquote @ ''common_name='' @ commonName @ dquote @
     '' '' @ dquote @ ''alt_names='' @ altNames @ dquote @
     '' '' @ dquote @ ''ip_sans='' @ ipSans @ dquote @ '' -}}'' @ newline"

definition generateVaultTLSTemplate :: "string \<Rightarrow> string \<Rightarrow> string \<Rightarrow> string \<Rightarrow> string \<Rightarrow> string" where
  "generateVaultTLSTemplate commonName altNames vaultPath ipSans tlsAttribute =
     withSecret vaultPath @ certificateArguments commonName altNames ipSans @
     ''{{ .Data.'' @ tlsAttribute @ '' }}'' @ newline @ ''{{- end }}''"

definition generateVaultCATemplate :: "string \<Rightarrow> string \<Rightarrow> VaultSpec \<Rightarrow> string" where
  "generateVaultCATemplate commonName altNames vault =
     (if PKIRootPath (v_TLS vault) = []
      then generateVaultTLSTemplate commonName altNames (PKIIssuerPath (v_TLS vault))
             (IpSans (v_TLS vault)) ''issuing_ca''
      else withSecret (PKIRootPath (v_TLS vault)) @ '' -}}'' @ newline @
           ''{{ .Data.certificate }}'' @ newline @ ''{{- end }}'')"

definition generateVaultTLSCertificateTemplate :: "string \<Rightarrow> string \<Rightarrow> VaultSpec \<Rightarrow> string" where
  "generateVaultTLSCertificateTemplate commonName altNames vault =
     withSecret (PKIIssuerPath (v_TLS vault)) @
     certificateArguments commonName altNames (IpSans (v_TLS vault)) @
     ''{{ .Data.certificate }}'' @ newline @
     ''{{- if .Data.ca_chain -}}'' @ newline @
     ''{{- $lastintermediatecertindex := len .Data.ca_chain | subtract 1 -}}'' @ newline @
     ''{{ range $index, $cacert := .Data.ca_chain }}'' @ newline @
     ''{{ if (lt $index $lastintermediatecertindex) }}'' @ newline @
     ''{{ $cacert }}'' @ newline @ ''{{ end }}'' @ newline @ ''{{ end }}'' @ newline @
     ''{{- end -}}'' @ newline @ ''{{- end -}}''"

text \<open>Three annotations for each file that the Vault agent is to write.\<close>

definition vaultFile :: "string \<Rightarrow> string \<Rightarrow> string \<Rightarrow> string \<Rightarrow> (string \<times> string) list" where
  "vaultFile file dir path template =
     [(''vault.hashicorp.com/secret-volume-path-'' @ file, dir),
      (''vault.hashicorp.com/agent-inject-secret-'' @ file, path),
      (''vault.hashicorp.com/agent-inject-template-'' @ file, template)]"

definition vaultUserAnnotations :: "VaultSpec \<Rightarrow> (string \<times> string) list" where
  "vaultUserAnnotations vault =
     (if DefaultUserSecretEnabled vault
      then vaultFile ''11-default_user.conf'' ''/etc/rabbitmq/conf.d'' (v_DefaultUserPath vault)
             (withSecret (v_DefaultUserPath vault) @ '' -}}'' @ newline @
              ''default_user = {{ .Data.data.username }}'' @ newline @
              ''default_pass = {{ .Data.data.password }}'' @ newline @ ''{{- end }}'') @
           [(''vault.hashicorp.com/agent-inject-perms-11-default_user.conf'', ''0640'')]
      else [])"

definition vaultTLSAnnotations :: "RabbitmqCluster \<Rightarrow> VaultSpec \<Rightarrow> (string \<times> string) list" where
  "vaultTLSAnnotations r vault =
     (if Vault_TLSEnabled vault
      then let pathCert = PKIIssuerPath (v_TLS vault);
               commonName = (if CommonName (v_TLS vault) \<noteq> [] then CommonName (v_TLS vault)
                             else ServiceSubDomain r);
               altNames = (if AltNames (v_TLS vault) \<noteq> []
                           then podHostNames r @ '','' @ AltNames (v_TLS vault) else podHostNames r);
               certDir = TrimSuffix ''/etc/rabbitmq-tls/'' ''/''
           in vaultFile ''tls.crt'' certDir pathCert
                (generateVaultTLSCertificateTemplate commonName altNames vault) @
              vaultFile ''tls.key'' certDir pathCert
                (generateVaultTLSTemplate commonName altNames (PKIIssuerPath (v_TLS vault))
                   (IpSans (v_TLS vault)) ''private_key'') @
              vaultFile ''ca.crt'' certDir pathCert (generateVaultCATemplate commonName altNames vault)
      else [])"

definition appendVaultAnnotations :: "string gomap \<Rightarrow> RabbitmqCluster \<Rightarrow> VaultSpec \<Rightarrow> string gomap" where
  "appendVaultAnnotations currentAnnotations r vault =
     ReconcileAnnotations currentAnnotations
       [Some (map_of
          ([(''vault.hashicorp.com/agent-inject'', ''true''),
            (''vault.hashicorp.com/agent-init-first'', ''true''),
            (''vault.hashicorp.com/role'', v_Role vault)] @
           vaultUserAnnotations vault @ vaultTLSAnnotations r vault)),
        v_Annotations vault]"

section \<open>Containers\<close>

definition setupCommand :: "RabbitmqCluster \<Rightarrow> string \<Rightarrow> string" where
  "setupCommand r defaultUserConf =
     ''cp /tmp/erlang-cookie-secret/.erlang.cookie /var/lib/rabbitmq/.erlang.cookie '' @
     ''&& chmod 600 /var/lib/rabbitmq/.erlang.cookie ; '' @
     ''cp /tmp/rabbitmq-plugins/enabled_plugins /operator/enabled_plugins ; '' @
     ''echo '' @ squote @ ''[default]'' @ squote @ '' > /var/lib/rabbitmq/.rabbitmqadmin.conf '' @
     ''&& sed -e '' @ squote @ ''s/default_user/username/'' @ squote @ '' -e '' @ squote @
     ''s/default_pass/password/'' @ squote @ '' '' @ defaultUserConf @
     '' >> /var/lib/rabbitmq/.rabbitmqadmin.conf '' @
     ''&& chmod 600 /var/lib/rabbitmq/.rabbitmqadmin.conf ; '' @
     ''sleep '' @ Itoa (ptr_Deref (DelayStartSeconds (Spec r)) 30)"

definition setupMounts :: "RabbitmqCluster \<Rightarrow> volumeMount list" where
  "setupMounts r =
     [mount ''plugins-conf'' ''/tmp/rabbitmq-plugins/'' [],
      mount ''rabbitmq-erlang-cookie'' ''/var/lib/rabbitmq/'' [],
      mount ''erlang-cookie-secret'' ''/tmp/erlang-cookie-secret/'' [],
      mount ''rabbitmq-plugins'' ''/operator'' [],
      mount ''persistence'' ''/var/lib/rabbitmq/mnesia/'' []] @
     (if VaultDefaultUserSecretEnabled r then []
      else [mount ''rabbitmq-confd'' ''/tmp/default_user.conf'' ''default_user.conf''])"

definition setupContainer :: "RabbitmqCluster \<Rightarrow> container" where
  "setupContainer r =
     (let resources = Some [''cpu'' \<mapsto> milli 20, ''memory'' \<mapsto> Mi 64]
      in emptyContainer\<lparr>
        ctr_Name := ''setup-container'',
        ctr_Image := Image (Spec r),
        ctr_Command := [''sh'', ''-c'', setupCommand r
          (if VaultDefaultUserSecretEnabled r then ''/etc/rabbitmq/conf.d/11-default_user.conf''
           else ''/tmp/default_user.conf'')],
        ctr_Resources := \<lparr>Limits = resources, Requests = resources\<rparr>,
        ctr_VolumeMounts := Some (setupMounts r),
        ctr_SecurityContext := Some restrictedContext\<rparr>)"

definition defaultUserCredentialUpdater :: "RabbitmqCluster \<Rightarrow> string \<Rightarrow> container" where
  "defaultUserCredentialUpdater r updaterImage = emptyContainer\<lparr>
     ctr_Name := ''default-user-credential-updater'',
     ctr_Resources := \<lparr>Limits = Some [''cpu'' \<mapsto> milli 500, ''memory'' \<mapsto> Mi 128],
                       Requests = Some [''cpu'' \<mapsto> milli 10, ''memory'' \<mapsto> Ki 512]\<rparr>,
     ctr_Image := updaterImage,
     ctr_Args := [''--management-uri'',
       if TLSEnabled r then ''https://$(HOSTNAME_DOMAIN):15671'' else ''http://127.0.0.1:15672'',
       ''-v'', ''4''],
     ctr_VolumeMounts := Some
       ([mount ''rabbitmq-erlang-cookie'' ''/var/lib/rabbitmq/'' []] @
        (if SecretTLSEnabled r then [tlsMount] else [])),
     ctr_Env := Some (envVarsK8sObjects r @
       [plainEnv ''HOSTNAME_DOMAIN'' ''$(MY_POD_NAME).$(K8S_SERVICE_NAME).$(MY_POD_NAMESPACE)''])\<rparr>"

definition rabbitmqMounts :: "RabbitmqCluster \<Rightarrow> volumeMount list" where
  "rabbitmqMounts r =
     [mount ''rabbitmq-erlang-cookie'' ''/var/lib/rabbitmq/'' [],
      mount ''persistence'' ''/var/lib/rabbitmq/mnesia/'' [],
      mount ''rabbitmq-plugins'' ''/operator'' [],
      mount ''rabbitmq-confd'' ''/etc/rabbitmq/conf.d/10-operatorDefaults.conf'' ''operatorDefaults.conf'',
      mount ''rabbitmq-confd'' ''/etc/rabbitmq/conf.d/90-userDefinedConfiguration.conf''
        ''userDefinedConfiguration.conf'',
      mount ''pod-info'' ''/etc/pod-info/'' []] @
     (if VaultDefaultUserSecretEnabled r then []
      else [mount ''rabbitmq-confd'' ''/etc/rabbitmq/conf.d/11-default_user.conf'' ''default_user.conf'']) @
     (if EnvConfig (Rabbitmq (Spec r)) \<noteq> []
      then [mount ''server-conf'' ''/etc/rabbitmq/rabbitmq-env.conf'' ''rabbitmq-env.conf''] else []) @
     (if AdvancedConfig (Rabbitmq (Spec r)) \<noteq> []
      then [mount ''server-conf'' ''/etc/rabbitmq/advanced.config'' ''advanced.config''] else []) @
     (if ErlangInetConfig (Rabbitmq (Spec r)) \<noteq> []
      then [mount ''server-conf'' ''/etc/rabbitmq/erl_inetrc'' ''erl_inetrc''] else []) @
     (if SecretTLSEnabled r then [tlsMount] else [])"

definition preStopCommand :: "int \<Rightarrow> string list" where
  "preStopCommand grace =
     [''/bin/bash'', ''-c'',
      ''if [ ! -z '' @ dquote @ ''$(cat /etc/pod-info/'' @ DeletionMarker @ '')'' @ dquote @
      '' ]; then exit 0; fi;'' @
      '' rabbitmq-upgrade await_online_quorum_plus_one -t '' @ Itoa grace @ '' &&'' @
      '' rabbitmq-upgrade await_online_synchronized_mirror -t '' @ Itoa grace @ '' || true &&'' @
      '' rabbitmq-upgrade drain -t '' @ Itoa grace]"

definition rabbitmqContainer :: "RabbitmqCluster \<Rightarrow> resourceRequirements \<Rightarrow> int \<Rightarrow> container" where
  "rabbitmqContainer r resources grace = emptyContainer\<lparr>
     ctr_Name := ''rabbitmq'',
     ctr_Resources := resources,
     ctr_Image := Image (Spec r),
     ctr_Env := Some (envVarsK8sObjects r @
       [plainEnv ''RABBITMQ_ENABLED_PLUGINS_FILE'' ''/operator/enabled_plugins'',
        plainEnv ''RABBITMQ_USE_LONGNAME'' ''true'',
        plainEnv ''RABBITMQ_NODENAME'' ''rabbit@$(MY_POD_NAME).$(K8S_SERVICE_NAME).$(MY_POD_NAMESPACE)'',
        plainEnv ''K8S_HOSTNAME_SUFFIX'' ''.$(K8S_SERVICE_NAME).$(MY_POD_NAMESPACE)'']),
     ctr_Ports := updateContainerPorts r,
     ctr_VolumeMounts := Some (rabbitmqMounts r),
     ctr_ReadinessProbe := Some (readinessProbe r),
     ctr_StartupProbe := Some (startupProbe r),
     ctr_PreStop := Some (preStopCommand grace),
     ctr_SecurityContext := Some restrictedContext\<rparr>"

section \<open>Volumes\<close>

definition rabbitmqConfigurationIsSet :: "RabbitmqCluster \<Rightarrow> bool" where
  "rabbitmqConfigurationIsSet r =
     (AdvancedConfig (Rabbitmq (Spec r)) \<noteq> [] \<or> EnvConfig (Rabbitmq (Spec r)) \<noteq> [] \<or>
      ErlangInetConfig (Rabbitmq (Spec r)) \<noteq> [])"

definition baseVolumes :: "RabbitmqCluster \<Rightarrow> volume list" where
  "baseVolumes r =
     [emptyVolume\<lparr>vol_Name := ''plugins-conf'',
        vol_ConfigMap := Some (ChildResourceName r PluginsConfigName)\<rparr>,
      emptyVolume\<lparr>vol_Name := ''rabbitmq-confd'',
        vol_Projected := Some \<lparr>pv_Sources = [ProjConfigMap (ChildResourceName r ServerConfigMapName)
            [(''operatorDefaults.conf'', ''operatorDefaults.conf''),
             (''userDefinedConfiguration.conf'', ''userDefinedConfiguration.conf'')]],
          pv_DefaultMode = None\<rparr>\<rparr>,
      emptyVolume\<lparr>vol_Name := ''rabbitmq-erlang-cookie'', vol_EmptyDir := Some (emptyDirOf [] None)\<rparr>,
      emptyVolume\<lparr>vol_Name := ''erlang-cookie-secret'',
        vol_Secret := Some (ChildResourceName r erlangCookieName)\<rparr>,
      emptyVolume\<lparr>vol_Name := ''rabbitmq-plugins'', vol_EmptyDir := Some (emptyDirOf [] None)\<rparr>,
      emptyVolume\<lparr>vol_Name := ''pod-info'', vol_DownwardAPI := Some
        [(DeletionMarker, ''metadata.labels['' @ squote @ DeletionMarker @ squote @ '']'')]\<rparr>]"

text \<open>
  The loop over the volumes appends to the sources of the projected volume, which the slice
  shares through a pointer.
\<close>

definition appendDefaultUserSecretVolumeProjection ::
  "volume list \<Rightarrow> RabbitmqCluster \<Rightarrow> string \<Rightarrow> volume list" where
  "appendDefaultUserSecretVolumeProjection volumes r secretName0 =
     (let secretName = (if secretName0 = [] then ChildResourceName r DefaultUserSecretName else secretName0)
      in map (\<lambda>v. if vol_Name v = ''rabbitmq-confd''
                then v\<lparr>vol_Projected := map_option (\<lambda>p. p\<lparr>pv_Sources := pv_Sources p @
                       [ProjSecret secretName None [(''default_user.conf'', ''default_user.conf'')]]\<rparr>)
                       (vol_Projected v)\<rparr>
                else v) volumes)"

definition persistenceVolume :: "RabbitmqCluster \<Rightarrow> volume" where
  "persistenceVolume r = emptyVolume\<lparr>vol_Name := ''persistence'',
     vol_EmptyDir := Some (case EmptyDir (Persistence (Spec r)) of
       None \<Rightarrow> emptyDirOf [] None
     | Some e \<Rightarrow> emptyDirOf (Medium e) (SizeLimit e))\<rparr>"

definition tlsVolume :: "RabbitmqCluster \<Rightarrow> volume" where
  "tlsVolume r = emptyVolume\<lparr>vol_Name := ''rabbitmq-tls'',
     vol_Projected := Some \<lparr>pv_Sources =
         [ProjSecret (SecretName (TLS (Spec r))) (Some True)
            [(''tls.crt'', ''tls.crt''), (''tls.key'', ''tls.key'')]] @
         (if MutualTLSEnabled r
          then [ProjSecret (CaSecretName (TLS (Spec r))) (Some True) [(''ca.crt'', ''ca.crt'')]]
          else []),
       pv_DefaultMode = Some 400\<rparr>\<rparr>"

definition podVolumes :: "RabbitmqCluster \<Rightarrow> quantity \<Rightarrow> volume list" where
  "podVolumes r storage =
     (if \<not> VaultDefaultUserSecretEnabled r \<and> \<not> ExternalSecretEnabled r
      then appendDefaultUserSecretVolumeProjection (baseVolumes r) r []
      else if ExternalSecretEnabled r
      then appendDefaultUserSecretVolumeProjection (baseVolumes r) r
             (ExternalSecret (spec_SecretBackend (Spec r)))
      else baseVolumes r) @
     (if rabbitmqConfigurationIsSet r
      then [emptyVolume\<lparr>vol_Name := ''server-conf'',
              vol_ConfigMap := Some (ChildResourceName r ServerConfigMapName)\<rparr>] else []) @
     (if quantity_Cmp storage 0 = 0 then [persistenceVolume r] else []) @
     (if SecretTLSEnabled r then [tlsVolume r] else [])"

section \<open>The template\<close>

definition podSpecOf ::
  "RabbitmqCluster \<Rightarrow> quantity \<Rightarrow> resourceRequirements \<Rightarrow> int \<Rightarrow> podSpec" where
  "podSpecOf r storage resources grace = emptyPodSpec\<lparr>
     ps_TopologySpreadConstraints := defaultTopologySpreadConstraints r,
     ps_SecurityContext := Some (emptyPodSecurityContext\<lparr>psc_FSGroup := Some 0,
       psc_RunAsUser := Some 999, psc_RunAsNonRoot := Some True,
       psc_SeccompProfile := Some ''RuntimeDefault''\<rparr>),
     ps_ImagePullSecrets := (case ImagePullSecrets (Spec r) of None \<Rightarrow> [] | Some l \<Rightarrow> l),
     ps_TerminationGracePeriodSeconds := Some grace,
     ps_Affinity := Affinity (Spec r),
     ps_Tolerations := Tolerations (Spec r),
     ps_InitContainers := [setupContainer r],
     ps_Volumes := podVolumes r storage,
     ps_Containers := rabbitmqContainer r resources grace #
       (case Vault (spec_SecretBackend (Spec r)) of
          None \<Rightarrow> []
        | Some v \<Rightarrow>
            (case v_DefaultUserUpdaterImage v of
               None \<Rightarrow> []
             | Some updaterImage \<Rightarrow> if VaultDefaultUserSecretEnabled r \<and> updaterImage \<noteq> []
                             then [defaultUserCredentialUpdater r updaterImage] else [])),
     ps_ServiceAccountName := ChildResourceName r serviceAccountName,
     ps_AutomountServiceAccountToken := Some True\<rparr>"

text \<open>
  The template needs the storage, the resources and the grace period of the spec, which the API
  server defaults; a nil pointer in one of them panics.
\<close>

definition podTemplateSpec :: "RabbitmqCluster \<Rightarrow> string gomap \<Rightarrow> goerror + objectMeta \<times> podSpec" where
  "podTemplateSpec r previousPodAnnotations =
     (let defaultPodAnnotations =
        (case Vault (spec_SecretBackend (Spec r)) of
           None \<Rightarrow> Some Map.empty
         | Some vault \<Rightarrow> appendVaultAnnotations (Some Map.empty) r vault)
      in bindE (deref (Storage (Persistence (Spec r)))) (\<lambda>storage.
         bindE (deref (Resources (Spec r))) (\<lambda>resources.
         bindE (deref (TerminationGracePeriodSeconds (Spec r))) (\<lambda>grace.
           Inr (emptyMeta\<lparr>
                  Annotations := ReconcileAnnotations previousPodAnnotations [defaultPodAnnotations],
                  Labels := Some (Label (cluster_Name r))\<rparr>,
                podSpecOf r storage resources grace)))))"

end
