(* ===== verification/StatefulSet_Builder.thy ===== *)
theory StatefulSet_Builder
  imports Pod_Template "HOL-Library.Multiset"
begin

text \<open>
  \<open>internal/resource/statefulset.go\<close>, second part: building and updating the StatefulSet, and the
  user's override of it with what the operator does not let the user override.
\<close>

section \<open>Sorting environment variables and mounts\<close>

text \<open>
  Both loops run over the indices of the slice and read the element as the swaps so far have
  left it; an index beyond the end panics.
\<close>

definition swapE :: "nat \<Rightarrow> nat \<Rightarrow> 'a list \<Rightarrow> goerror + 'a list" where
  "swapE i j xs =
     (if i < length xs \<and> j < length xs then Inr (xs[i := xs ! j, j := xs ! i])
      else Inl (Panic ''index out of range''))"

definition sortEnvStep :: "nat \<Rightarrow> envVar list \<Rightarrow> goerror + envVar list" where
  "sortEnvStep i envVars =
     (if env_Name (envVars ! i) = ''MY_POD_NAME'' then swapE 0 i envVars
      else if env_Name (envVars ! i) = ''MY_POD_NAMESPACE'' then swapE 1 i envVars
      else if env_Name (envVars ! i) = ''K8S_SERVICE_NAME'' then swapE 2 i envVars
      else Inr envVars)"

definition sortEnvVar :: "envVar list \<Rightarrow> goerror + envVar list" where
  "sortEnvVar envVars = foldE sortEnvStep [0..<length envVars] envVars"

definition sortMountStep :: "nat \<Rightarrow> volumeMount list \<Rightarrow> goerror + volumeMount list" where
  "sortMountStep i mounts =
     (if vm_Name (mounts ! i) = ''rabbitmq-erlang-cookie'' then swapE 0 i mounts
      else if vm_Name (mounts ! i) = defaultPVCName then swapE 1 i mounts
      else Inr mounts)"

definition sortVolumeMounts :: "volumeMount list \<Rightarrow> goerror + volumeMount list" where
  "sortVolumeMounts mounts = foldE sortMountStep [0..<length mounts] mounts"

section \<open>Restricting an override\<close>

definition sanitizeSecurityContext :: "securityContext \<Rightarrow> securityContext" where
  "sanitizeSecurityContext sc = sc\<lparr>
     sc_Privileged := (if sc_Privileged sc = Some True then Some False else sc_Privileged sc),
     sc_AllowPrivilegeEscalation :=
       (if sc_AllowPrivilegeEscalation sc = Some True then Some False
        else sc_AllowPrivilegeEscalation sc),
     sc_RunAsUser := (if sc_RunAsUser sc = Some 0 then None else sc_RunAsUser sc),
     sc_RunAsNonRoot := (if sc_RunAsNonRoot sc = Some False then Some True else sc_RunAsNonRoot sc),
     sc_Capabilities := map_option (\<lambda>c. c\<lparr>cap_Add := None\<rparr>) (sc_Capabilities sc),
     sc_ReadOnlyRootFilesystem := map_option (\<lambda>_. True) (sc_ReadOnlyRootFilesystem sc)\<rparr>"

definition sanitizeContainer :: "container \<Rightarrow> container" where
  "sanitizeContainer c =
     c\<lparr>ctr_SecurityContext := map_option sanitizeSecurityContext (ctr_SecurityContext c)\<rparr>"

definition sanitizePodSpecOverride :: "podSpec \<Rightarrow> podSpec" where
  "sanitizePodSpecOverride ps = ps\<lparr>
     ps_HostPID := False, ps_HostNetwork := False, ps_HostIPC := False,
     ps_ServiceAccountName := [],
     ps_Volumes := filter (\<lambda>v. vol_HostPath v = None) (ps_Volumes ps),
     ps_Containers := map sanitizeContainer (ps_Containers ps),
     ps_InitContainers := map sanitizeContainer (ps_InitContainers ps)\<rparr>"

section \<open>Patching the pod spec\<close>

definition containerRabbitmq :: "container list \<Rightarrow> container" where
  "containerRabbitmq cs =
     (case List.find (\<lambda>c. ctr_Name c = ''rabbitmq'') cs of Some c \<Rightarrow> c | None \<Rightarrow> emptyContainer)"

text \<open>Assigning to an element of a slice of containers.\<close>

definition setContainer ::
  "nat \<Rightarrow> (container \<Rightarrow> container) \<Rightarrow> container list \<Rightarrow> goerror + container list" where
  "setContainer i f cs =
     (if i < length cs then Inr (cs[i := f (cs ! i)]) else Inl (Panic ''index out of range''))"

text \<open>The first container of the patched spec takes over what the override says of \<open>rabbitmq\<close>.\<close>

definition patchEnv :: "container \<Rightarrow> container list \<Rightarrow> goerror + container list" where
  "patchEnv rmq cs =
     (if ctr_Env rmq = None then Inr cs
      else case cs of
        [] \<Rightarrow> Inl (Panic ''index out of range'')
      | c # rest \<Rightarrow> (case ctr_Env c of
          None \<Rightarrow> Inr cs
        | Some env \<Rightarrow> bindE (sortEnvVar env) (\<lambda>e. Inr (c\<lparr>ctr_Env := Some e\<rparr> # rest))))"

definition patchMounts :: "container \<Rightarrow> container list \<Rightarrow> goerror + container list" where
  "patchMounts rmq cs =
     (if ctr_VolumeMounts rmq = None then Inr cs
      else case cs of
        [] \<Rightarrow> Inl (Panic ''index out of range'')
      | c # rest \<Rightarrow> (case ctr_VolumeMounts c of
          None \<Rightarrow> Inr cs
        | Some ms \<Rightarrow> bindE (sortVolumeMounts ms) (\<lambda>e. Inr (c\<lparr>ctr_VolumeMounts := Some e\<rparr> # rest))))"

definition patchProbes :: "container \<Rightarrow> container list \<Rightarrow> goerror + container list" where
  "patchProbes rmq cs =
     bindE (if ctr_LivenessProbe rmq = None then Inr cs
            else setContainer 0 (\<lambda>c. c\<lparr>ctr_LivenessProbe := ctr_LivenessProbe rmq\<rparr>) cs) (\<lambda>cs1.
     bindE (if ctr_ReadinessProbe rmq = None then Inr cs1
            else setContainer 0 (\<lambda>c. c\<lparr>ctr_ReadinessProbe := ctr_ReadinessProbe rmq\<rparr>) cs1) (\<lambda>cs2.
     if ctr_StartupProbe rmq = None then Inr cs2
     else setContainer 0 (\<lambda>c. c\<lparr>ctr_StartupProbe := ctr_StartupProbe rmq\<rparr>) cs2))"

text \<open>An empty security context in the override removes the one of the same index.\<close>

definition dropContexts :: "container list \<Rightarrow> container list \<Rightarrow> goerror + container list" where
  "dropContexts overrides cs =
     foldE (\<lambda>i. if ctr_SecurityContext (overrides ! i) = Some emptySecurityContext
               then setContainer i (\<lambda>c. c\<lparr>ctr_SecurityContext := None\<rparr>) else Inr)
       [0..<length overrides] cs"

definition patchPodSpec ::
  "(podSpec \<Rightarrow> podSpec \<Rightarrow> goerror + podSpec) \<Rightarrow> podSpec \<Rightarrow> podSpec \<Rightarrow> goerror + podSpec" where
  "patchPodSpec patch podSpec podSpecOverride =
     (case patch podSpec podSpecOverride of
        Inl e \<Rightarrow> Inl (WrapError ''error patching podSpec'' e)
      | Inr patched \<Rightarrow>
          let rmq = containerRabbitmq (ps_Containers podSpecOverride)
          in bindE (patchEnv rmq (ps_Containers patched)) (\<lambda>cs1.
             bindE (patchMounts rmq cs1) (\<lambda>cs2.
             bindE (patchProbes rmq cs2) (\<lambda>cs3.
             bindE (dropContexts (ps_InitContainers podSpecOverride) (ps_InitContainers patched)) (\<lambda>is.
             bindE (dropContexts (ps_Containers podSpecOverride) cs3) (\<lambda>cs4.
               Inr (patched\<lparr>
                 ps_SecurityContext :=
                   (if ps_SecurityContext podSpecOverride = Some emptyPodSecurityContext then None
                    else ps_SecurityContext patched),
                 ps_InitContainers := is, ps_Containers := cs4\<rparr>)))))))"

section \<open>Claims\<close>

definition persistentVolumeClaim :: "RabbitmqCluster \<Rightarrow> goerror + persistentVolumeClaim list" where
  "persistentVolumeClaim r =
     bindE (deref (Storage (Persistence (Spec r)))) (\<lambda>storage.
       if quantity_Cmp storage 0 = 0 then Inr []
       else Inr [\<lparr>pvc_Meta = emptyMeta\<lparr>Name := defaultPVCName, Namespace := cluster_Namespace r,
              Labels := Some (Label (cluster_Name r)),
              Annotations := ReconcileAndFilterAnnotations (Some Map.empty) [Annotations (Meta r)]\<rparr>,
            pvc_Spec = \<lparr>pvc_Requests = Some [''storage'' \<mapsto> storage],
              pvc_AccessModes = [''ReadWriteOnce''],
              pvc_StorageClassName = StorageClassName (Persistence (Spec r)), pvc_Other = None\<rparr>\<rparr>])"

definition disableBlockOwnerDeletion :: "persistentVolumeClaim \<Rightarrow> persistentVolumeClaim" where
  "disableBlockOwnerDeletion pvc =
     pvc\<lparr>pvc_Meta := (pvc_Meta pvc)\<lparr>OwnerReferences :=
       map (\<lambda>ref. ref\<lparr>or_BlockOwnerDeletion := Some False\<rparr>) (OwnerReferences (pvc_Meta pvc))\<rparr>\<rparr>"

text \<open>The map of requests is shared, so the assignment in the loop reaches the template.\<close>

definition setCapacity :: "quantity option \<Rightarrow> persistentVolumeClaim \<Rightarrow> goerror + persistentVolumeClaim" where
  "setCapacity capacity t =
     (if Name (pvc_Meta t) \<noteq> defaultPVCName then Inr t
      else bindE (deref capacity) (\<lambda>q.
        case pvc_Requests (pvc_Spec t) of
          None \<Rightarrow> Inl (Panic ''assignment to entry in nil map'')
        | Some m \<Rightarrow> Inr (t\<lparr>pvc_Spec := (pvc_Spec t)\<lparr>pvc_Requests := Some (m(''storage'' \<mapsto> q))\<rparr>\<rparr>)))"

definition updatePersistenceStorageCapacity ::
  "persistentVolumeClaim list \<Rightarrow> quantity option \<Rightarrow> goerror + persistentVolumeClaim list" where
  "updatePersistenceStorageCapacity templates capacity = mapE (setCapacity capacity) templates"

definition overrideClaim ::
  "RabbitmqResourceBuilder \<Rightarrow> string \<Rightarrow> PersistentVolumeClaimOverride \<Rightarrow> goerror + persistentVolumeClaim" where
  "overrideClaim b namespace o' =
     bindE (SetControllerReference b ((copyObjectMeta emptyMeta (opvc_Meta o'))\<lparr>Namespace := namespace\<rparr>))
       (\<lambda>m. Inr (disableBlockOwnerDeletion \<lparr>pvc_Meta = m, pvc_Spec = opvc_Spec o'\<rparr>))"

section \<open>The override\<close>

definition overrideSpecFields :: "StatefulSetSpec \<Rightarrow> statefulSet \<Rightarrow> statefulSet" where
  "overrideSpecFields o' sts = sts\<lparr>
     sts_Replicas := (if os_Replicas o' \<noteq> None then os_Replicas o' else sts_Replicas sts),
     sts_UpdateStrategy := (case os_UpdateStrategy o' of Some u \<Rightarrow> u | None \<Rightarrow> sts_UpdateStrategy sts),
     sts_PodManagementPolicy :=
       (if os_PodManagementPolicy o' \<noteq> [] then os_PodManagementPolicy o' else sts_PodManagementPolicy sts),
     sts_MinReadySeconds :=
       (if os_MinReadySeconds o' \<noteq> 0 then os_MinReadySeconds o' else sts_MinReadySeconds sts)\<rparr>"

definition overrideClaims ::
  "RabbitmqResourceBuilder \<Rightarrow> StatefulSetSpec \<Rightarrow> statefulSet \<Rightarrow> goerror + statefulSet" where
  "overrideClaims b o' sts =
     (if os_VolumeClaimTemplates o' = [] then Inr sts
      else bindE (deref (Storage (Persistence (Spec (Instance b))))) (\<lambda>storage.
        if quantity_Cmp storage 0 = 0 then Inr sts
        else bindE (mapE (overrideClaim b (Namespace (sts_Meta sts))) (os_VolumeClaimTemplates o'))
               (\<lambda>pvcs. Inr (sts\<lparr>sts_VolumeClaimTemplates := pvcs\<rparr>))))"

definition overrideTemplate ::
  "(podSpec \<Rightarrow> podSpec \<Rightarrow> goerror + podSpec) \<Rightarrow> RabbitmqResourceBuilder \<Rightarrow> PodTemplateSpec
     \<Rightarrow> statefulSet \<Rightarrow> goerror + statefulSet" where
  "overrideTemplate patch b t sts =
     (let sts1 = (case pt_Meta t of
                    None \<Rightarrow> sts
                  | Some m \<Rightarrow> sts\<lparr>sts_TemplateMeta := copyObjectMeta (sts_TemplateMeta sts) m\<rparr>)
      in bindE (case pt_Spec t of
                  None \<Rightarrow> Inr (sts_TemplateSpec sts1)
                | Some ps \<Rightarrow> patchPodSpec patch (sts_TemplateSpec sts1) (sanitizePodSpecOverride ps))
           (\<lambda>ps. Inr (sts1\<lparr>sts_TemplateSpec := ps\<lparr>
              ps_ServiceAccountName := ChildResourceName (Instance b) serviceAccountName,
              ps_AutomountServiceAccountToken := Some True\<rparr>\<rparr>)))"

definition applyStsOverride ::
  "(podSpec \<Rightarrow> podSpec \<Rightarrow> goerror + podSpec) \<Rightarrow> RabbitmqResourceBuilder \<Rightarrow> statefulSet
     \<Rightarrow> StatefulSetOverride \<Rightarrow> goerror + statefulSet" where
  "applyStsOverride patch b sts stsOverride =
     (let sts1 = (case ost_Meta stsOverride of
                    None \<Rightarrow> sts
                  | Some e \<Rightarrow> sts\<lparr>sts_Meta := copyLabelsAnnotations (sts_Meta sts) e\<rparr>)
      in case ost_Spec stsOverride of
           None \<Rightarrow> Inr sts1
         | Some o' \<Rightarrow>
             bindE (overrideClaims b o' (overrideSpecFields o' sts1)) (\<lambda>sts2.
               let sts3 = (if os_RetentionPolicy o' \<noteq> None
                           then sts2\<lparr>sts_RetentionPolicy := os_RetentionPolicy o'\<rparr> else sts2)
               in case os_Template o' of
                    None \<Rightarrow> Inr sts3
                  | Some t \<Rightarrow> overrideTemplate patch b t sts3))"

text \<open>
  Restricting the override happens in place: the override of the cluster in memory is the
  restricted one afterwards.
\<close>

definition sanitizedOverride :: "StatefulSetOverride \<Rightarrow> StatefulSetOverride" where
  "sanitizedOverride o' = o'\<lparr>ost_Spec := map_option (\<lambda>s. s\<lparr>os_Template := map_option (\<lambda>t.
     t\<lparr>pt_Spec := map_option sanitizePodSpecOverride (pt_Spec t)\<rparr>) (os_Template s)\<rparr>) (ost_Spec o')\<rparr>"

section \<open>Build and update\<close>

definition StatefulSet_Build :: "RabbitmqResourceBuilder \<Rightarrow> goerror + statefulSet" where
  "StatefulSet_Build b =
     (let r = Instance b in
      bindE (persistentVolumeClaim r) (\<lambda>pvc.
        let sts = emptyStatefulSet\<lparr>
              sts_Meta := namedMeta (ChildResourceName r stsSuffix) (cluster_Namespace r),
              sts_ServiceName := ChildResourceName r headlessServiceSuffix,
              sts_Selector := Some (matchLabels (LabelSelector (cluster_Name r))),
              sts_VolumeClaimTemplates := pvc,
              sts_PodManagementPolicy := ''Parallel'',
              sts_RetentionPolicy := Some (''Delete'', ''Retain'')\<rparr>
        in Inr (case ov_StatefulSet (Override (Spec r)) of
             None \<Rightarrow> sts
           | Some o' \<Rightarrow> (case ost_Spec o' of
               None \<Rightarrow> sts
             | Some s \<Rightarrow> sts\<lparr>
                 sts_Selector := (if os_Selector s \<noteq> None then os_Selector s else sts_Selector sts),
                 sts_ServiceName := (if os_ServiceName s \<noteq> [] then os_ServiceName s
                                     else sts_ServiceName sts)\<rparr>))))"

text \<open>The StatefulSet as generated from the cluster, before the override and the owner reference.\<close>

definition generatedSts ::
  "RabbitmqResourceBuilder \<Rightarrow> persistentVolumeClaim list \<Rightarrow> objectMeta \<Rightarrow> podSpec \<Rightarrow> statefulSet \<Rightarrow> statefulSet" where
  "generatedSts b pvcs tm ts sts = sts\<lparr>sts_Replicas := Replicas (Spec (Instance b)),
     sts_UpdateStrategy := \<lparr>us_Type = ''RollingUpdate'', us_Partition = Some 0\<rparr>,
     sts_Meta := childMeta b (sts_Meta sts), sts_VolumeClaimTemplates := pvcs,
     sts_TemplateMeta := tm, sts_TemplateSpec := ts\<rparr>"

text \<open>The update also returns the cluster, whose override it may have restricted.\<close>

definition StatefulSet_Update ::
  "(podSpec \<Rightarrow> podSpec \<Rightarrow> goerror + podSpec) \<Rightarrow> RabbitmqResourceBuilder \<Rightarrow> statefulSet
     \<Rightarrow> goerror + statefulSet \<times> RabbitmqCluster" where
  "StatefulSet_Update patch b sts =
     bindE (updatePersistenceStorageCapacity (sts_VolumeClaimTemplates sts)
       (Storage (Persistence (Spec (Instance b))))) (\<lambda>pvcs.
     bindE (podTemplateSpec (Instance b) (Annotations (sts_TemplateMeta sts))) (\<lambda>(tm, ts).
     bindE (case ov_StatefulSet (Override (Spec (Instance b))) of
         None \<Rightarrow> Inr (generatedSts b pvcs tm ts sts, Instance b)
       | Some o' \<Rightarrow> (case applyStsOverride patch b (generatedSts b pvcs tm ts sts) o' of
            Inl e \<Rightarrow> Inl (WrapError ''failed applying StatefulSet override'' e)
          | Inr sts3 \<Rightarrow> Inr (sts3, (Instance b)\<lparr>Spec := (Spec (Instance b))\<lparr>Override :=
              (Override (Spec (Instance b)))\<lparr>ov_StatefulSet := Some (sanitizedOverride o')\<rparr>\<rparr>\<rparr>)))
       (\<lambda>(sts3, r'). bindE (SetControllerReference b (sts_Meta sts3)) (\<lambda>m.
         Inr (sts3\<lparr>sts_Meta := m\<rparr>, r')))))"

section \<open>Sorting is correct where it has to be\<close>

lemma swapE_Inr: "i < length xs \<Longrightarrow> j < length xs \<Longrightarrow> swapE i j xs = Inr (xs[i := xs ! j, j := xs ! i])"
  by (simp add: swapE_def)

text \<open>Exactly the element at position \<open>a\<close> has the property.\<close>

definition only_at :: "('a \<Rightarrow> bool) \<Rightarrow> 'a list \<Rightarrow> nat \<Rightarrow> bool" where
  "only_at P xs a \<longleftrightarrow> a < length xs \<and> (\<forall>j < length xs. P (xs ! j) \<longleftrightarrow> j = a)"

lemma only_atD: "only_at P xs a \<Longrightarrow> a < length xs \<and> P (xs ! a)"
  by (simp add: only_at_def)

lemma only_at_swap:
  assumes "only_at P xs a" "i < length xs" "j < length xs"
  shows "only_at P (xs[i := xs ! j, j := xs ! i]) (if a = i then j else if a = j then i else a)"
  using assms unfolding only_at_def by (auto simp: nth_list_update)

lemma mset_swapE: "swapE i j xs = Inr ys \<Longrightarrow> mset ys = mset xs"
  by (auto simp: swapE_def mset_swap split: if_splits)

text \<open>The state of the loop over the mounts before index \<open>i\<close>.\<close>

definition mountsInv :: "volumeMount list \<Rightarrow> nat \<Rightarrow> volumeMount list \<Rightarrow> bool" where
  "mountsInv ms0 i ms \<longleftrightarrow> mset ms = mset ms0 \<and>
     (\<exists>a b. only_at (\<lambda>m. vm_Name m = ''rabbitmq-erlang-cookie'') ms a \<and>
            only_at (\<lambda>m. vm_Name m = defaultPVCName) ms b \<and> a \<noteq> b \<and>
            (a < i \<longrightarrow> a = 0) \<and> (b < i \<longrightarrow> b = 1))"

lemma mountsInvI:
  assumes "mset ms = mset ms0" "only_at (\<lambda>m. vm_Name m = ''rabbitmq-erlang-cookie'') ms a"
    "only_at (\<lambda>m. vm_Name m = defaultPVCName) ms b" "a \<noteq> b" "a < i \<longrightarrow> a = 0" "b < i \<longrightarrow> b = 1"
  shows "mountsInv ms0 i ms"
  unfolding mountsInv_def using assms by blast

lemma sortMountStep_inv:
  assumes "mountsInv ms0 i ms" and i: "i < length ms"
  shows "\<exists>ms'. sortMountStep i ms = Inr ms' \<and> mountsInv ms0 (Suc i) ms' \<and> length ms' = length ms"
proof -
  obtain a b where a: "only_at (\<lambda>m. vm_Name m = ''rabbitmq-erlang-cookie'') ms a"
    and b: "only_at (\<lambda>m. vm_Name m = defaultPVCName) ms b" and ab: "a \<noteq> b"
    and ai: "a < i \<longrightarrow> a = 0" and bi: "b < i \<longrightarrow> b = 1" and m: "mset ms = mset ms0"
    using assms(1) unfolding mountsInv_def by blast
  have len: "a < length ms" "b < length ms" "1 < length ms" "0 < length ms"
    using a b ab unfolding only_at_def by auto
  consider "i = a" | "i = b" | "i \<noteq> a" "i \<noteq> b" by blast
  then show ?thesis
  proof cases
    case 1
    let ?ms = "ms[0 := ms ! i, i := ms ! 0]"
    have "sortMountStep i ms = Inr ?ms"
      using a i len unfolding only_at_def sortMountStep_def by (simp add: 1 swapE_Inr)
    moreover have "only_at (\<lambda>m. vm_Name m = ''rabbitmq-erlang-cookie'') ?ms 0"
      using only_at_swap [OF a, of 0 i] i len 1 by (auto split: if_splits)
    moreover have "b \<noteq> 0" using bi ab 1 by auto
    then have "only_at (\<lambda>m. vm_Name m = defaultPVCName) ?ms b"
      using only_at_swap [OF b, of 0 i] i len 1 ab by auto
    moreover have "mset ?ms = mset ms0" using m i len by (simp add: mset_swap)
    moreover have "b < Suc i \<longrightarrow> b = 1" using bi ab 1 by auto
    ultimately have "mountsInv ms0 (Suc i) ?ms"
      using \<open>b \<noteq> 0\<close> by (intro mountsInvI [of _ _ 0 b]) simp_all
    with \<open>sortMountStep i ms = Inr ?ms\<close> show ?thesis by simp
  next
    case 2
    let ?ms = "ms[1 := ms ! i, i := ms ! 1]"
    have "vm_Name (ms ! i) \<noteq> ''rabbitmq-erlang-cookie''" "vm_Name (ms ! i) = defaultPVCName"
      using a b i ab 2 unfolding only_at_def by auto
    then have "sortMountStep i ms = Inr ?ms"
      using i len unfolding sortMountStep_def by (simp add: swapE_Inr)
    moreover have "only_at (\<lambda>m. vm_Name m = defaultPVCName) ?ms 1"
      using only_at_swap [OF b, of 1 i] i len 2 by (auto split: if_splits)
    moreover have "only_at (\<lambda>m. vm_Name m = ''rabbitmq-erlang-cookie'') ?ms (if a = 1 then i else a)"
      using only_at_swap [OF a, of 1 i] i len 2 ab by (auto split: if_splits)
    moreover have "mset ?ms = mset ms0" using m i len by (simp add: mset_swap)
    moreover have "(if a = 1 then i else a) \<noteq> 1"
      "(if a = 1 then i else a) < Suc i \<longrightarrow> (if a = 1 then i else a) = 0"
      using ai ab 2 by (auto simp: less_Suc_eq)
    ultimately have "mountsInv ms0 (Suc i) ?ms"
      by (intro mountsInvI [of _ _ "if a = 1 then i else a" 1]) simp_all
    with \<open>sortMountStep i ms = Inr ?ms\<close> show ?thesis by simp
  next
    case 3
    then have "sortMountStep i ms = Inr ms"
      using a b i unfolding only_at_def sortMountStep_def by auto
    moreover have "mountsInv ms0 (Suc i) ms"
      using 3 m ab ai bi by (intro mountsInvI [OF m a b]) (auto simp: less_Suc_eq)
    ultimately show ?thesis by simp
  qed
qed

lemma sortVolumeMounts_correct:
  assumes "only_at (\<lambda>m. vm_Name m = ''rabbitmq-erlang-cookie'') ms a"
    and "only_at (\<lambda>m. vm_Name m = defaultPVCName) ms b"
  shows "\<exists>ms'. sortVolumeMounts ms = Inr ms' \<and> mset ms' = mset ms \<and>
    vm_Name (ms' ! 0) = ''rabbitmq-erlang-cookie'' \<and> vm_Name (ms' ! 1) = defaultPVCName"
proof -
  have "a \<noteq> b" using only_atD [OF assms(1)] only_atD [OF assms(2)] by (auto simp: defaultPVCName_def)
  then have "mountsInv ms 0 ms" using assms by (intro mountsInvI) auto
  then have "\<exists>ms'. foldE sortMountStep [0..<length ms] ms = Inr ms' \<and>
      (mountsInv ms (length ms) ms' \<and> length ms' = length ms)"
    using sortMountStep_inv
    by (intro foldE_upt [where Inv = "\<lambda>i ms'. mountsInv ms i ms' \<and> length ms' = length ms"]) fastforce+
  then show ?thesis
    unfolding sortVolumeMounts_def mountsInv_def only_at_def by metis
qed

definition envInv :: "envVar list \<Rightarrow> nat \<Rightarrow> envVar list \<Rightarrow> bool" where
  "envInv es0 i es \<longleftrightarrow> mset es = mset es0 \<and>
     (\<exists>a b c. only_at (\<lambda>e. env_Name e = ''MY_POD_NAME'') es a \<and>
        only_at (\<lambda>e. env_Name e = ''MY_POD_NAMESPACE'') es b \<and>
        only_at (\<lambda>e. env_Name e = ''K8S_SERVICE_NAME'') es c \<and>
        (a < i \<longrightarrow> a = 0) \<and> (b < i \<longrightarrow> b = 1 \<and> a < i) \<and> (c < i \<longrightarrow> c = 2 \<and> b < i) \<and>
        (i \<le> a \<longrightarrow> a < b) \<and> (i \<le> b \<longrightarrow> b < c))"

lemma envInvI:
  assumes "mset es = mset es0" "only_at (\<lambda>e. env_Name e = ''MY_POD_NAME'') es a"
    "only_at (\<lambda>e. env_Name e = ''MY_POD_NAMESPACE'') es b"
    "only_at (\<lambda>e. env_Name e = ''K8S_SERVICE_NAME'') es c"
    "a < i \<longrightarrow> a = 0" "b < i \<longrightarrow> b = 1 \<and> a < i" "c < i \<longrightarrow> c = 2 \<and> b < i"
    "i \<le> a \<longrightarrow> a < b" "i \<le> b \<longrightarrow> b < c"
  shows "envInv es0 i es"
  unfolding envInv_def using assms by blast

lemma sortEnvStep_inv:
  assumes "envInv es0 i es" and i: "i < length es"
  shows "\<exists>es'. sortEnvStep i es = Inr es' \<and> envInv es0 (Suc i) es' \<and> length es' = length es"
proof -
  obtain a b c where a: "only_at (\<lambda>e. env_Name e = ''MY_POD_NAME'') es a"
    and b: "only_at (\<lambda>e. env_Name e = ''MY_POD_NAMESPACE'') es b"
    and c: "only_at (\<lambda>e. env_Name e = ''K8S_SERVICE_NAME'') es c"
    and ord: "a < i \<longrightarrow> a = 0" "b < i \<longrightarrow> b = 1 \<and> a < i" "c < i \<longrightarrow> c = 2 \<and> b < i"
      "i \<le> a \<longrightarrow> a < b" "i \<le> b \<longrightarrow> b < c" and m: "mset es = mset es0"
    using assms(1) unfolding envInv_def by blast
  have at: "env_Name (es ! j) = ''MY_POD_NAME'' \<longleftrightarrow> j = a"
    "env_Name (es ! j) = ''MY_POD_NAMESPACE'' \<longleftrightarrow> j = b"
    "env_Name (es ! j) = ''K8S_SERVICE_NAME'' \<longleftrightarrow> j = c" if "j < length es" for j
    using a b c that unfolding only_at_def by blast+
  have len: "a < length es" "b < length es" "c < length es"
    using a b c unfolding only_at_def by auto
  have ne: "es \<noteq> []" using i by auto
  have swapped: "\<exists>es'. swapE k i es = Inr es' \<and> envInv es0 (Suc i) es' \<and> length es' = length es"
    if k: "k < length es" and "envInv es0 (Suc i) (es[k := es ! i, i := es ! k])" for k
    using that i by (simp add: swapE_Inr)
  have ms: "mset (es[k := es ! i, i := es ! k]) = mset es0" if "k < length es" for k
    using m i that by (simp add: mset_swap)
  consider "i = a" | "i = b" | "i = c" | "i \<noteq> a" "i \<noteq> b" "i \<noteq> c" by blast
  then show ?thesis
  proof cases
    case 1
    have "envInv es0 (Suc i) (es[0 := es ! i, i := es ! 0])"
    proof (rule envInvI [OF ms, of 0 0 b c])
      show "0 < length es" using i by auto
      have "b \<noteq> 0" "c \<noteq> 0" "b \<noteq> i" "c \<noteq> i" using ord 1 by auto
      then show "only_at (\<lambda>e. env_Name e = ''MY_POD_NAME'') (es[0 := es ! i, i := es ! 0]) 0"
        "only_at (\<lambda>e. env_Name e = ''MY_POD_NAMESPACE'') (es[0 := es ! i, i := es ! 0]) b"
        "only_at (\<lambda>e. env_Name e = ''K8S_SERVICE_NAME'') (es[0 := es ! i, i := es ! 0]) c"
        using only_at_swap [OF a, of 0 i] only_at_swap [OF b, of 0 i] only_at_swap [OF c, of 0 i] i 1
          ne by (auto split: if_splits)
    qed (use ord 1 in auto)
    moreover have "0 < length es" using i by auto
    ultimately show ?thesis using swapped [of 0] at(1) [OF i] 1 by (simp add: sortEnvStep_def)
  next
    case 2
    have "a = 0" "0 < b" "i < c" using ord 2 by auto
    then have one: "1 < length es" and "c \<noteq> 1" using len 2 by auto
    have "envInv es0 (Suc i) (es[1 := es ! i, i := es ! 1])"
    proof (rule envInvI [OF ms, of 1 0 1 c])
      show "only_at (\<lambda>e. env_Name e = ''MY_POD_NAME'') (es[1 := es ! i, i := es ! 1]) 0"
        "only_at (\<lambda>e. env_Name e = ''MY_POD_NAMESPACE'') (es[1 := es ! i, i := es ! 1]) 1"
        "only_at (\<lambda>e. env_Name e = ''K8S_SERVICE_NAME'') (es[1 := es ! i, i := es ! 1]) c"
        using only_at_swap [OF a, of 1 i] only_at_swap [OF b, of 1 i] only_at_swap [OF c, of 1 i] i 2
          \<open>a = 0\<close> \<open>0 < b\<close> \<open>i < c\<close> \<open>c \<noteq> 1\<close> one by (auto split: if_splits)
    qed (use ord 2 one \<open>a = 0\<close> \<open>i < c\<close> in auto)
    moreover have "i \<noteq> a" using \<open>a = 0\<close> \<open>0 < b\<close> 2 by auto
    ultimately show ?thesis
      using swapped [OF one] at [OF i] 2 by (simp add: sortEnvStep_def)
  next
    case 3
    have "b \<noteq> c" "a \<noteq> c" using only_atD [OF a] only_atD [OF b] only_atD [OF c] by auto
    then have pos: "b = 1" "a = 0" "2 \<le> c" using ord 3 by auto
    then have two: "2 < length es" using len by simp
    have "envInv es0 (Suc i) (es[2 := es ! i, i := es ! 2])"
    proof (rule envInvI [OF ms, of 2 0 1 2])
      show "only_at (\<lambda>e. env_Name e = ''MY_POD_NAME'') (es[2 := es ! i, i := es ! 2]) 0"
        "only_at (\<lambda>e. env_Name e = ''MY_POD_NAMESPACE'') (es[2 := es ! i, i := es ! 2]) 1"
        "only_at (\<lambda>e. env_Name e = ''K8S_SERVICE_NAME'') (es[2 := es ! i, i := es ! 2]) 2"
        using only_at_swap [OF a, of 2 i] only_at_swap [OF b, of 2 i] only_at_swap [OF c, of 2 i] i 3
          pos two by (auto split: if_splits)
    qed (use ord 3 two pos in auto)
    then show ?thesis
      using swapped [OF two] at [OF i] 3 \<open>b \<noteq> c\<close> \<open>a \<noteq> c\<close> by (simp add: sortEnvStep_def)
  next
    case 4
    then have "sortEnvStep i es = Inr es"
      using at [OF i] by (simp add: sortEnvStep_def)
    moreover have "envInv es0 (Suc i) es"
      using 4 ord by (intro envInvI [OF m a b c]) (auto simp: less_Suc_eq)
    ultimately show ?thesis by simp
  qed
qed

text \<open>
  The mounts of the RabbitMQ container after an override: if the cookie volume and the data
  volume are each mounted once, in any position, sorting succeeds, loses no mount, and puts the
  mount of \<open>/var/lib/rabbitmq/\<close> before that of the data directory below it.
\<close>

theorem sortVolumeMounts_meaning:
  assumes "only_at (\<lambda>m. vm_Name m = ''rabbitmq-erlang-cookie'') ms a"
    and "only_at (\<lambda>m. vm_Name m = defaultPVCName) ms b"
  shows "\<exists>ms'. sortVolumeMounts ms = Inr ms' \<and> mset ms' = mset ms \<and>
    vm_Name (ms' ! 0) = ''rabbitmq-erlang-cookie'' \<and> vm_Name (ms' ! 1) = defaultPVCName"
  by (rule sortVolumeMounts_correct [OF assms])

theorem sortVolumeMounts_meaning_witness:
  "\<exists>ms'. sortVolumeMounts [mount ''x'' ''/x'' [], mount ''persistence'' ''/p'' [],
      mount ''rabbitmq-erlang-cookie'' ''/c'' []] = Inr ms' \<and>
    vm_Name (ms' ! 0) = ''rabbitmq-erlang-cookie''"
  using sortVolumeMounts_meaning [of "[mount ''x'' ''/x'' [], mount ''persistence'' ''/p'' [],
      mount ''rabbitmq-erlang-cookie'' ''/c'' []]" 2 1]
  by (auto simp: only_at_def mount_def defaultPVCName_def less_Suc_eq)

text \<open>
  The environment of the RabbitMQ container after an override: if the three variables that
  others refer to occur once each and in their order, with anything before, between and after
  them, sorting succeeds, loses no variable, and puts the three first, in their order.
\<close>

theorem sortEnvVar_meaning:
  assumes "only_at (\<lambda>e. env_Name e = ''MY_POD_NAME'') es a"
    and "only_at (\<lambda>e. env_Name e = ''MY_POD_NAMESPACE'') es b"
    and "only_at (\<lambda>e. env_Name e = ''K8S_SERVICE_NAME'') es c"
    and "a < b" and "b < c"
  shows "\<exists>es'. sortEnvVar es = Inr es' \<and> mset es' = mset es \<and>
    env_Name (es' ! 0) = ''MY_POD_NAME'' \<and> env_Name (es' ! 1) = ''MY_POD_NAMESPACE'' \<and>
    env_Name (es' ! 2) = ''K8S_SERVICE_NAME''"
proof -
  have "envInv es 0 es" using assms(4,5) by (intro envInvI [OF refl assms(1-3)]) auto
  then have "\<exists>es'. foldE sortEnvStep [0..<length es] es = Inr es' \<and>
      (envInv es (length es) es' \<and> length es' = length es)"
    using sortEnvStep_inv
    by (intro foldE_upt [where Inv = "\<lambda>i es'. envInv es i es' \<and> length es' = length es"]) fastforce+
  then show ?thesis
    unfolding sortEnvVar_def envInv_def only_at_def by metis
qed

theorem sortEnvVar_meaning_witness:
  "\<exists>es'. sortEnvVar [plainEnv ''X'' [], plainEnv ''MY_POD_NAME'' [], plainEnv ''MY_POD_NAMESPACE'' [],
      plainEnv ''K8S_SERVICE_NAME'' []] = Inr es' \<and> env_Name (es' ! 0) = ''MY_POD_NAME''"
  using sortEnvVar_meaning [of "[plainEnv ''X'' [], plainEnv ''MY_POD_NAME'' [],
      plainEnv ''MY_POD_NAMESPACE'' [], plainEnv ''K8S_SERVICE_NAME'' []]" 1 2 3]
  by (auto simp: only_at_def plainEnv_def less_Suc_eq)

text \<open>
  Without the order the sorting does not do what its comment says: with the service name
  before the pod name, the pod name, which was third, ends up last, after variables that may
  refer to it.
\<close>

theorem sortEnvVar_misplaces:
  "sortEnvVar [plainEnv ''X'' [], plainEnv ''K8S_SERVICE_NAME'' [], plainEnv ''MY_POD_NAME'' [],
      plainEnv ''MY_POD_NAMESPACE'' []] =
   Inr [plainEnv ''X'' [], plainEnv ''MY_POD_NAMESPACE'' [], plainEnv ''K8S_SERVICE_NAME'' [],
      plainEnv ''MY_POD_NAME'' []]"
  by code_simp

section \<open>The StatefulSet builder satisfies the contracts\<close>

lemma setCapacity_again: "setCapacity q t = Inr t' \<Longrightarrow> setCapacity q t' = Inr t'"
  by (auto simp: setCapacity_def bindE_Inr_iff deref_Inr_iff split: if_splits option.splits)

lemma updateCapacity_again:
  "updatePersistenceStorageCapacity ts q = Inr ts' \<Longrightarrow> updatePersistenceStorageCapacity ts' q = Inr ts'"
  by (auto simp: updatePersistenceStorageCapacity_def mapE_Inr_iff intro: setCapacity_again)

lemma ReconcileAnnotations_again:
  "ReconcileAnnotations (ReconcileAnnotations a [m]) [m] = ReconcileAnnotations a [m]"
  by (simp add: ReconcileAnnotations_def mergeWithFilter_def)

lemma podTemplateSpec_again:
  "podTemplateSpec r prev = Inr (tm, ts) \<Longrightarrow> podTemplateSpec r (Annotations tm) = Inr (tm, ts)"
  by (auto simp: podTemplateSpec_def Let_def bindE_Inr_iff ReconcileAnnotations_again split: option.splits)

lemma overrideSpecFields_meta [simp]: "sts_Meta (overrideSpecFields o' s) = sts_Meta s"
  by (simp add: overrideSpecFields_def)

lemma overrideClaims_meta: "overrideClaims b o' s = Inr s' \<Longrightarrow> sts_Meta s' = sts_Meta s"
  by (auto simp: overrideClaims_def bindE_Inr_iff split: if_splits)

lemma overrideTemplate_meta: "overrideTemplate patch b t s = Inr s' \<Longrightarrow> sts_Meta s' = sts_Meta s"
  by (auto simp: overrideTemplate_def Let_def bindE_Inr_iff split: option.splits)

lemma applyStsOverride_names:
  assumes "applyStsOverride patch b s o' = Inr s'"
  shows "Name (sts_Meta s') = Name (sts_Meta s) \<and> Namespace (sts_Meta s') = Namespace (sts_Meta s)"
  using assms
  by (auto simp: applyStsOverride_def Let_def bindE_Inr_iff
      dest!: overrideClaims_meta overrideTemplate_meta split: option.splits if_splits)

text \<open>The cluster whose override has been restricted.\<close>

definition restricted :: "RabbitmqCluster \<Rightarrow> RabbitmqCluster" where
  "restricted r = r\<lparr>Spec := (Spec r)\<lparr>Override := (Override (Spec r))\<lparr>
     ov_StatefulSet := map_option sanitizedOverride (ov_StatefulSet (Override (Spec r)))\<rparr>\<rparr>\<rparr>"

lemma StatefulSet_Update_cases:
  assumes "StatefulSet_Update patch b sts = Inr (sts', r')"
  obtains pvcs tm ts s3 m where
    "updatePersistenceStorageCapacity (sts_VolumeClaimTemplates sts)
       (Storage (Persistence (Spec (Instance b)))) = Inr pvcs"
    "podTemplateSpec (Instance b) (Annotations (sts_TemplateMeta sts)) = Inr (tm, ts)"
    "(case ov_StatefulSet (Override (Spec (Instance b))) of
        None \<Rightarrow> s3 = generatedSts b pvcs tm ts sts
      | Some o' \<Rightarrow> applyStsOverride patch b (generatedSts b pvcs tm ts sts) o' = Inr s3)"
    "SetControllerReference b (sts_Meta s3) = Inr m" "sts' = s3\<lparr>sts_Meta := m\<rparr>"
    "r' = restricted (Instance b)"
proof -
  let ?o = "ov_StatefulSet (Override (Spec (Instance b)))"
  obtain pvcs tm ts s3 m where
    1: "updatePersistenceStorageCapacity (sts_VolumeClaimTemplates sts)
          (Storage (Persistence (Spec (Instance b)))) = Inr pvcs"
    and 2: "podTemplateSpec (Instance b) (Annotations (sts_TemplateMeta sts)) = Inr (tm, ts)"
    and 3: "(case ?o of None \<Rightarrow> Inr (generatedSts b pvcs tm ts sts, Instance b)
             | Some o' \<Rightarrow> (case applyStsOverride patch b (generatedSts b pvcs tm ts sts) o' of
                  Inl e \<Rightarrow> Inl (WrapError ''failed applying StatefulSet override'' e)
                | Inr sts3 \<Rightarrow> Inr (sts3, (Instance b)\<lparr>Spec := (Spec (Instance b))\<lparr>Override :=
                    (Override (Spec (Instance b)))\<lparr>ov_StatefulSet := Some (sanitizedOverride o')\<rparr>\<rparr>\<rparr>)))
            = Inr (s3, r')"
    and 4: "SetControllerReference b (sts_Meta s3) = Inr m" and 5: "sts' = s3\<lparr>sts_Meta := m\<rparr>"
    using assms unfolding StatefulSet_Update_def bindE_Inr_iff by (force simp: bindE_Inr_iff)
  have "case ?o of None \<Rightarrow> s3 = generatedSts b pvcs tm ts sts
      | Some o' \<Rightarrow> applyStsOverride patch b (generatedSts b pvcs tm ts sts) o' = Inr s3"
    using 3 by (simp split: option.splits sum.splits)
  moreover have "r' = restricted (Instance b)"
    using 3 by (auto simp: restricted_def split: option.splits sum.splits)
  ultimately show thesis by (rule that [OF 1 2 _ 4 5])
qed

lemma StatefulSet_Update_plain:
  assumes "ov_StatefulSet (Override (Spec (Instance b))) = None"
  shows "StatefulSet_Update patch b sts = Inr (sts', r') \<longleftrightarrow> r' = Instance b \<and> (\<exists>pvcs tm ts m.
    updatePersistenceStorageCapacity (sts_VolumeClaimTemplates sts)
      (Storage (Persistence (Spec (Instance b)))) = Inr pvcs \<and>
    podTemplateSpec (Instance b) (Annotations (sts_TemplateMeta sts)) = Inr (tm, ts) \<and>
    SetControllerReference b (childMeta b (sts_Meta sts)) = Inr m \<and>
    sts' = (generatedSts b pvcs tm ts sts)\<lparr>sts_Meta := m\<rparr>)"
  using assms by (auto simp: StatefulSet_Update_def bindE_Inr_iff generatedSts_def)

lemma StatefulSet_Build_meta:
  assumes "StatefulSet_Build b = Inr x"
  shows "sts_Meta x = namedMeta (ChildResourceName (Instance b) stsSuffix) (cluster_Namespace (Instance b))"
proof -
  let ?o = "ov_StatefulSet (Override (Spec (Instance b)))"
  consider "?o = None" | o' where "?o = Some o'" "ost_Spec o' = None"
    | o' s where "?o = Some o'" "ost_Spec o' = Some s" by (metis option.exhaust)
  then show ?thesis
    using assms by cases (auto simp: StatefulSet_Build_def Let_def bindE_Inr_iff)
qed

interpretation sts: resource_builder sts_Meta stsSuffix
  "\<lambda>b x. StatefulSet_Build b = Inr x" "\<lambda>b x y. \<exists>patch r'. StatefulSet_Update patch b x = Inr (y, r')"
proof unfold_locales
  fix b x assume "StatefulSet_Build b = Inr x"
  then show "Name (sts_Meta x) = ChildResourceName (Instance b) stsSuffix \<and>
      Namespace (sts_Meta x) = cluster_Namespace (Instance b)"
    by (simp add: StatefulSet_Build_meta)
next
  fix b x y assume r: "reference_only b" and "\<exists>patch r'. StatefulSet_Update patch b x = Inr (y, r')"
  then obtain patch r' where "StatefulSet_Update patch b x = Inr (y, r')" by blast
  then show "Name (sts_Meta y) = Name (sts_Meta x) \<and> Namespace (sts_Meta y) = Namespace (sts_Meta x)"
    by (rule StatefulSet_Update_cases)
      (auto simp: generatedSts_def reference_names [OF r] dest!: applyStsOverride_names split: option.splits)
qed

text \<open>Without an override a StatefulSet settles with its first update.\<close>

interpretation plain_sts: stable_builder sts_Meta stsSuffix
  "\<lambda>b x. StatefulSet_Build b = Inr x"
  "\<lambda>b x y. ov_StatefulSet (Override (Spec (Instance b))) = None \<and>
           StatefulSet_Update patch b x = Inr (y, Instance b)"
proof unfold_locales
  fix b x assume "StatefulSet_Build b = Inr x"
  then show "Name (sts_Meta x) = ChildResourceName (Instance b) stsSuffix \<and>
      Namespace (sts_Meta x) = cluster_Namespace (Instance b)"
    by (rule sts.built_identity)
next
  fix b x y assume "reference_only b"
    "ov_StatefulSet (Override (Spec (Instance b))) = None \<and>
       StatefulSet_Update patch b x = Inr (y, Instance b)"
  then show "Name (sts_Meta y) = Name (sts_Meta x) \<and> Namespace (sts_Meta y) = Namespace (sts_Meta x)"
    using sts.updated_identity by blast
next
  fix b x y assume r: "reference_only b" "reference_idem b"
    and u: "ov_StatefulSet (Override (Spec (Instance b))) = None \<and>
      StatefulSet_Update patch b x = Inr (y, Instance b)"
  have o': "ov_StatefulSet (Override (Spec (Instance b))) = None" using u by blast
  obtain pvcs tm ts m where
    1: "updatePersistenceStorageCapacity (sts_VolumeClaimTemplates x)
          (Storage (Persistence (Spec (Instance b)))) = Inr pvcs"
    and 2: "podTemplateSpec (Instance b) (Annotations (sts_TemplateMeta x)) = Inr (tm, ts)"
    and 3: "SetControllerReference b (childMeta b (sts_Meta x)) = Inr m"
    and y: "y = (generatedSts b pvcs tm ts x)\<lparr>sts_Meta := m\<rparr>"
    using u unfolding StatefulSet_Update_plain [OF o'] by blast
  have eq: "StatefulSet_Update patch b y = Inr (z, r') \<longleftrightarrow> r' = Instance b \<and> z = y" for z r'
    unfolding StatefulSet_Update_plain [OF o']
    by (simp add: y generatedSts_def updateCapacity_again [OF 1] podTemplateSpec_again [OF 2]
        childMeta_settled [OF r(1) 3] reference_again [OF r(2) 3])
  show "\<exists>z. ov_StatefulSet (Override (Spec (Instance b))) = None \<and>
      StatefulSet_Update patch b y = Inr (z, Instance b)"
    using o' eq by blast
  show "z = y" if "ov_StatefulSet (Override (Spec (Instance b))) = None \<and>
      StatefulSet_Update patch b y = Inr (z, Instance b)" for z
    using that eq by blast
qed

end
