(* ===== verification/Pod_Consistency.thy ===== *)
theory Pod_Consistency
  imports StatefulSet_Builder
begin

text \<open>
  The parts of the generated StatefulSet, config map and service fit together: every mount has
  its volume and every mounted file its source, the probes name existing ports, the selector
  selects the pods, and the service targets ports the containers declare, with one exception.
\<close>

section \<open>Volumes and mounts\<close>

lemma volumeNames:
  "map vol_Name (podVolumes r storage) =
     [''plugins-conf'', ''rabbitmq-confd'', ''rabbitmq-erlang-cookie'', ''erlang-cookie-secret'',
      ''rabbitmq-plugins'', ''pod-info''] @
     (if rabbitmqConfigurationIsSet r then [''server-conf''] else []) @
     (if quantity_Cmp storage 0 = 0 then [''persistence''] else []) @
     (if SecretTLSEnabled r then [''rabbitmq-tls''] else [])"
  by (simp add: podVolumes_def baseVolumes_def appendDefaultUserSecretVolumeProjection_def
      persistenceVolume_def tlsVolume_def)

lemma claimNames:
  assumes "persistentVolumeClaim r = Inr pvcs" and "Storage (Persistence (Spec r)) = Some storage"
  shows "map (Name \<circ> pvc_Meta) pvcs = (if quantity_Cmp storage 0 = 0 then [] else [''persistence''])"
  using assms by (auto simp: persistentVolumeClaim_def bindE_def deref_def defaultPVCName_def split: if_splits)

text \<open>
  A volume provides the file of a sub-path if one of its projections does, or if it is the whole
  server config map and that has an entry of this name.
\<close>

definition projectsPath :: "string \<Rightarrow> configMap \<Rightarrow> string \<Rightarrow> volumeProjection \<Rightarrow> bool" where
  "projectsPath name cm path src =
     (case src of
        ProjConfigMap n items \<Rightarrow> n = name \<and> (\<exists>(k, p) \<in> set items. p = path \<and> mget (cm_Data cm) k \<noteq> None)
      | ProjSecret n opt items \<Rightarrow> path \<in> snd ` set items)"

definition providesPath :: "string \<Rightarrow> configMap \<Rightarrow> string \<Rightarrow> volume \<Rightarrow> bool" where
  "providesPath name cm path v \<longleftrightarrow>
     (\<exists>p. vol_Projected v = Some p \<and> (\<exists>src \<in> set (pv_Sources p). projectsPath name cm path src)) \<or>
     vol_ConfigMap v = Some name \<and> mget (cm_Data cm) path \<noteq> None"

text \<open>The mounts of all containers, by volume and sub-path.\<close>

definition mountTable :: "RabbitmqCluster \<Rightarrow> (string \<times> string) set" where
  "mountTable r =
     {(''plugins-conf'', []), (''rabbitmq-erlang-cookie'', []), (''erlang-cookie-secret'', []),
      (''rabbitmq-plugins'', []), (''persistence'', []), (''pod-info'', []),
      (''rabbitmq-confd'', ''operatorDefaults.conf''),
      (''rabbitmq-confd'', ''userDefinedConfiguration.conf'')} \<union>
     (if VaultDefaultUserSecretEnabled r then {} else {(''rabbitmq-confd'', ''default_user.conf'')}) \<union>
     (if EnvConfig (Rabbitmq (Spec r)) \<noteq> [] then {(''server-conf'', ''rabbitmq-env.conf'')} else {}) \<union>
     (if AdvancedConfig (Rabbitmq (Spec r)) \<noteq> [] then {(''server-conf'', ''advanced.config'')} else {}) \<union>
     (if ErlangInetConfig (Rabbitmq (Spec r)) \<noteq> [] then {(''server-conf'', ''erl_inetrc'')} else {}) \<union>
     (if SecretTLSEnabled r then {(''rabbitmq-tls'', [])} else {})"

definition mountKey :: "volumeMount \<Rightarrow> string \<times> string" where
  "mountKey m = (vm_Name m, vm_SubPath m)"

lemma setupMounts_table: "mountKey ` set (setupMounts r) \<subseteq> mountTable r"
  by (auto simp: setupMounts_def mountTable_def mount_def mountKey_def)

lemma rabbitmqMounts_table: "mountKey ` set (rabbitmqMounts r) \<subseteq> mountTable r"
  by (simp add: rabbitmqMounts_def mountTable_def mount_def tlsMount_def mountKey_def image_Un)

definition containerMounts :: "podSpec \<Rightarrow> volumeMount list" where
  "containerMounts ps =
     concat (map (\<lambda>c. case ctr_VolumeMounts c of None \<Rightarrow> [] | Some ms \<Rightarrow> ms)
       (ps_InitContainers ps @ ps_Containers ps))"

lemma containerMounts_table:
  "mountKey ` set (containerMounts (podSpecOf r storage resources grace)) \<subseteq> mountTable r"
proof -
  have "mountKey ` set (case ctr_VolumeMounts (defaultUserCredentialUpdater r i) of None \<Rightarrow> [] | Some ms \<Rightarrow> ms)
      \<subseteq> mountTable r" for i
    by (auto simp: defaultUserCredentialUpdater_def mountTable_def mount_def tlsMount_def mountKey_def)
  moreover have "ctr_VolumeMounts (setupContainer r) = Some (setupMounts r)"
    "ctr_VolumeMounts (rabbitmqContainer r resources grace) = Some (rabbitmqMounts r)"
    by (simp_all add: setupContainer_def rabbitmqContainer_def Let_def)
  ultimately show ?thesis
    using setupMounts_table [of r] rabbitmqMounts_table [of r]
    by (auto simp: containerMounts_def podSpecOf_def simp del: option.case_eq_if split: option.split_asm if_split_asm)
qed

lemma confd_volume:
  obtains v p where "v \<in> set (podVolumes r storage)" "vol_Name v = ''rabbitmq-confd''"
    "vol_Projected v = Some p"
    "ProjConfigMap (ChildResourceName r ServerConfigMapName)
       [(''operatorDefaults.conf'', ''operatorDefaults.conf''),
        (''userDefinedConfiguration.conf'', ''userDefinedConfiguration.conf'')] \<in> set (pv_Sources p)"
    "\<not> VaultDefaultUserSecretEnabled r \<Longrightarrow>
       \<exists>n. ProjSecret n None [(''default_user.conf'', ''default_user.conf'')] \<in> set (pv_Sources p)"
proof -
  let ?src = "ProjConfigMap (ChildResourceName r ServerConfigMapName)
       [(''operatorDefaults.conf'', ''operatorDefaults.conf''),
        (''userDefinedConfiguration.conf'', ''userDefinedConfiguration.conf'')]"
  let ?v = "\<lambda>srcs. emptyVolume\<lparr>vol_Name := ''rabbitmq-confd'',
        vol_Projected := Some \<lparr>pv_Sources = ?src # srcs, pv_DefaultMode = None\<rparr>\<rparr>"
  let ?u = "\<lambda>n. ProjSecret n None [(''default_user.conf'', ''default_user.conf'')]"
  have base: "?v [] \<in> set (baseVolumes r)"
    by (simp add: baseVolumes_def)
  have append: "\<exists>n. ?v [?u n] \<in> set (appendDefaultUserSecretVolumeProjection (baseVolumes r) r n0)" for n0
    unfolding appendDefaultUserSecretVolumeProjection_def Let_def set_map
    by (intro exI, rule image_eqI [OF _ base]) simp
  consider "VaultDefaultUserSecretEnabled r" "\<not> ExternalSecretEnabled r" "?v [] \<in> set (podVolumes r storage)"
    | n where "?v [?u n] \<in> set (podVolumes r storage)"
  proof (cases "ExternalSecretEnabled r \<or> \<not> VaultDefaultUserSecretEnabled r")
    case True
    then have "\<exists>n. ?v [?u n] \<in> set (podVolumes r storage)"
      using append unfolding podVolumes_def by (cases "ExternalSecretEnabled r") auto
    then show thesis using that(2) by blast
  next
    case False
    then have "?v [] \<in> set (podVolumes r storage)"
      using base by (simp add: podVolumes_def)
    then show thesis using False that(1) by blast
  qed
  then show thesis
  proof cases
    case 1
    show thesis by (rule that [OF 1(3)], simp, simp, simp, use 1 in simp)
  next
    case 2
    show thesis by (rule that [OF 2], simp, simp, simp, simp)
  qed
qed

lemma serverConf_entries:
  assumes "ServerConfigMap_Update I b restart cm = Inr (cm', restart')"
  shows "mget (cm_Data cm') ''operatorDefaults.conf'' \<noteq> None"
    "mget (cm_Data cm') ''userDefinedConfiguration.conf'' \<noteq> None"
    "EnvConfig (Rabbitmq (Spec (Instance b))) \<noteq> [] \<Longrightarrow> mget (cm_Data cm') ''rabbitmq-env.conf'' \<noteq> None"
    "AdvancedConfig (Rabbitmq (Spec (Instance b))) \<noteq> [] \<Longrightarrow> mget (cm_Data cm') ''advanced.config'' \<noteq> None"
    "ErlangInetConfig (Rabbitmq (Spec (Instance b))) \<noteq> [] \<Longrightarrow> mget (cm_Data cm') ''erl_inetrc'' \<noteq> None"
  using assms by (auto elim!: ServerConfigMap_Update_cases simp: mget_def serverConfData_lookup Let_def)

lemma mountTable_named:
  assumes "(n, sub) \<in> mountTable r"
    and "persistentVolumeClaim r = Inr pvcs" and "Storage (Persistence (Spec r)) = Some storage"
  shows "n \<in> set (map vol_Name (podVolumes r storage) @ map (Name \<circ> pvc_Meta) pvcs)"
  using assms(1) unfolding volumeNames claimNames [OF assms(2,3)]
  by (auto simp: mountTable_def rabbitmqConfigurationIsSet_def split: if_splits)

lemma mountTable_provided:
  assumes "(n, sub) \<in> mountTable (Instance b)" and "sub \<noteq> []"
    and u: "ServerConfigMap_Update I b restart cm = Inr (cm', restart')"
  shows "\<exists>v \<in> set (podVolumes (Instance b) storage). vol_Name v = n \<and>
    providesPath (ChildResourceName (Instance b) ServerConfigMapName) cm' sub v"
proof (cases "n = ''server-conf''")
  case True
  let ?v = "emptyVolume\<lparr>vol_Name := ''server-conf'',
      vol_ConfigMap := Some (ChildResourceName (Instance b) ServerConfigMapName)\<rparr>"
  have "rabbitmqConfigurationIsSet (Instance b) \<and> mget (cm_Data cm') sub \<noteq> None"
    using assms(1) True serverConf_entries [OF u]
    by (auto simp: mountTable_def rabbitmqConfigurationIsSet_def split: if_splits)
  then have "?v \<in> set (podVolumes (Instance b) storage)"
    "providesPath (ChildResourceName (Instance b) ServerConfigMapName) cm' sub ?v"
    by (simp_all add: podVolumes_def providesPath_def)
  then show ?thesis using True by (intro bexI [of _ ?v]) simp_all
next
  case False
  obtain v p where v: "v \<in> set (podVolumes (Instance b) storage)" "vol_Name v = ''rabbitmq-confd''"
      "vol_Projected v = Some p"
    and c: "ProjConfigMap (ChildResourceName (Instance b) ServerConfigMapName)
       [(''operatorDefaults.conf'', ''operatorDefaults.conf''),
        (''userDefinedConfiguration.conf'', ''userDefinedConfiguration.conf'')] \<in> set (pv_Sources p)"
    and s: "\<not> VaultDefaultUserSecretEnabled (Instance b) \<longrightarrow>
       (\<exists>n. ProjSecret n None [(''default_user.conf'', ''default_user.conf'')] \<in> set (pv_Sources p))"
    by (rule confd_volume [of "Instance b" storage]) blast
  have n: "n = ''rabbitmq-confd''" and
    "sub \<in> {''operatorDefaults.conf'', ''userDefinedConfiguration.conf''} \<or>
     sub = ''default_user.conf'' \<and> \<not> VaultDefaultUserSecretEnabled (Instance b)"
    using assms(1,2) False by (auto simp: mountTable_def split: if_splits)
  then have "\<exists>src \<in> set (pv_Sources p). projectsPath (ChildResourceName (Instance b) ServerConfigMapName) cm' sub src"
    using c s serverConf_entries(1,2) [OF u] by (force simp: projectsPath_def)
  then show ?thesis using v n unfolding providesPath_def by blast
qed

text \<open>
  C16. Everything a generated pod mounts exists: with the claims of the StatefulSet and the server
  config map that the operator writes for the same cluster, the names of volumes and claims are
  distinct, every mount of every container refers to one of them, and a mount of a single
  file refers to a volume that provides this file.
\<close>

theorem pod_mounts_resolve:
  assumes "podTemplateSpec (Instance b) prev = Inr (tm, ts)"
    and "persistentVolumeClaim (Instance b) = Inr pvcs"
    and "ServerConfigMap_Update I b restart cm = Inr (cm', restart')"
  shows "distinct (map vol_Name (ps_Volumes ts) @ map (Name \<circ> pvc_Meta) pvcs) \<and>
    (\<forall>m \<in> set (containerMounts ts).
       vm_Name m \<in> set (map vol_Name (ps_Volumes ts) @ map (Name \<circ> pvc_Meta) pvcs) \<and>
       (vm_SubPath m \<noteq> [] \<longrightarrow> (\<exists>v \<in> set (ps_Volumes ts). vol_Name v = vm_Name m \<and>
          providesPath (ChildResourceName (Instance b) ServerConfigMapName) cm' (vm_SubPath m) v)))"
proof -
  obtain storage resources grace where s: "Storage (Persistence (Spec (Instance b))) = Some storage"
    and ts: "ts = podSpecOf (Instance b) storage resources grace"
    using assms(1) by (auto simp: podTemplateSpec_def Let_def bindE_Inr_iff deref_Inr_iff)
  have vols: "ps_Volumes ts = podVolumes (Instance b) storage"
    by (simp add: ts podSpecOf_def)
  have "(vm_Name m, vm_SubPath m) \<in> mountTable (Instance b)" if "m \<in> set (containerMounts ts)" for m
    using that containerMounts_table [of "Instance b" storage resources grace]
    by (auto simp: ts mountKey_def)
  moreover have "distinct (map vol_Name (ps_Volumes ts) @ map (Name \<circ> pvc_Meta) pvcs)"
    unfolding vols volumeNames claimNames [OF assms(2) s] by simp
  ultimately show ?thesis
    using mountTable_named [OF _ assms(2) s] mountTable_provided [OF _ _ assms(3)]
    unfolding vols by blast
qed

theorem pod_mounts_resolve_witness:
  "\<exists>tm ts pvcs cm' x. podTemplateSpec (exampleServer 3) None = Inr (tm, ts) \<and>
     persistentVolumeClaim (exampleServer 3) = Inr pvcs \<and>
     ServerConfigMap_Update exampleIni (exampleServerBuilder 3) True
       (ServerConfigMap_Build (exampleServerBuilder 3)) = Inr (cm', x) \<and>
     (\<forall>m \<in> set (containerMounts ts).
        vm_Name m \<in> set (map vol_Name (ps_Volumes ts) @ map (Name \<circ> pvc_Meta) pvcs))"
proof -
  have f: "Storage (Persistence (Spec (exampleServer 3))) = Some 1" "Resources (Spec (exampleServer 3)) \<noteq> None"
    "TerminationGracePeriodSeconds (Spec (exampleServer 3)) \<noteq> None"
    by (simp_all add: exampleServer_def)
  obtain tm ts where t: "podTemplateSpec (exampleServer 3) None = Inr (tm, ts)"
    using f by (auto simp: podTemplateSpec_def Let_def bindE_def deref_def)
  obtain pvcs where p: "persistentVolumeClaim (exampleServer 3) = Inr pvcs"
    using f by (cases "persistentVolumeClaim (exampleServer 3)")
      (auto simp: persistentVolumeClaim_def bindE_def deref_def split: if_splits)
  obtain cm' x where u: "ServerConfigMap_Update exampleIni (exampleServerBuilder 3) True
      (ServerConfigMap_Build (exampleServerBuilder 3)) = Inr (cm', x)"
    using exampleServer_first [of 3] by auto
  have i: "Instance (exampleServerBuilder 3) = exampleServer 3" by simp
  note pod_mounts_resolve [OF _ _ u, unfolded i, OF t p]
  with t p u show ?thesis by blast
qed

lemma containerPortsWhen_distinct:
  "distinct (map (fst \<circ> snd) cs) \<Longrightarrow> distinct (map cp_Name (containerPortsWhen cs))"
  "distinct (map (snd \<circ> snd) cs) \<Longrightarrow> distinct (map cp_ContainerPort (containerPortsWhen cs))"
  by (induction cs) (auto simp: containerPortsWhen_def image_iff split: prod.splits)

text \<open>
  The probes of the RabbitMQ container name ports the container declares, each port name and
  number is declared once, and the selector of the StatefulSet, of both services and of the spread
  constraint selects the pods of the template.
\<close>

theorem pod_probes_and_selector:
  "(case pr_Handler (readinessProbe r) of ProbeTCPSocket p \<Rightarrow> p \<in> cp_Name ` set (updateContainerPorts r) | _ \<Rightarrow> False) \<and>
   (case pr_Handler (startupProbe r) of
      ProbeHTTPGet path p scheme \<Rightarrow> p \<in> cp_Name ` set (updateContainerPorts r) | ProbeExec c \<Rightarrow> True | _ \<Rightarrow> False) \<and>
   distinct (map cp_Name (updateContainerPorts r)) \<and>
   distinct (map cp_ContainerPort (updateContainerPorts r)) \<and>
   selects (LabelSelector (cluster_Name r)) (Some (Label (cluster_Name r)))"
proof -
  have "selects (LabelSelector n) (Some (Label n))" for n
    by (simp add: selects_def LabelSelector_def Label_def map_le_def)
  moreover have "distinct (map cp_Name (updateContainerPorts r))"
    by (simp add: updateContainerPorts_def updateContainerPortsOnlyTLSListeners_def containerPortsWhen_distinct)
  moreover have "distinct (map cp_ContainerPort (updateContainerPorts r))"
    by (simp add: updateContainerPorts_def updateContainerPortsOnlyTLSListeners_def containerPortsWhen_distinct)
  moreover have "{if DisableNonTLSListeners r then ''amqps'' else ''amqp'',
      if DisableNonTLSListeners r then ''management-tls'' else ''management''} \<subseteq> cp_Name ` set (updateContainerPorts r)"
    by (simp add: updateContainerPorts_def updateContainerPortsOnlyTLSListeners_def containerPortsWhen_def)
  ultimately show ?thesis
    by (simp add: readinessProbe_def startupProbe_def)
qed

definition servicePortKeys :: "RabbitmqCluster \<Rightarrow> (string \<times> intOrString) set" where
  "servicePortKeys r = (\<lambda>p. (sp_Name p, sp_TargetPort p)) ` set (generatedPorts r)"

definition containerPortKeys :: "RabbitmqCluster \<Rightarrow> (string \<times> intOrString) set" where
  "containerPortKeys r = (\<lambda>p. (cp_Name p, IntVal (cp_ContainerPort p))) ` set (updateContainerPorts r)"

lemma portsWhen_image: "f ` set (portsWhen cs) = (\<Union>(c, p) \<in> set cs. if c then {f p} else {})"
  by (force simp: portsWhen_def split: if_splits)

lemma containerPortsWhen_image:
  "(\<lambda>p. (cp_Name p, IntVal (cp_ContainerPort p))) ` set (containerPortsWhen cs) =
     (\<Union>(c, n, p) \<in> set cs. if c then {(n, IntVal p)} else {})"
  by (force simp: containerPortsWhen_def split: if_splits)

lemma servicePortKeys_eq:
  "servicePortKeys r =
     (if \<not> DisableNonTLSListeners r
      then \<Union>(c, p) \<in> set (plainPortTable r). if c then {(sp_Name p, sp_TargetPort p)} else {} else {}) \<union>
     (if TLSEnabled r
      then \<Union>(c, p) \<in> set (tlsPortTable r). if c then {(sp_Name p, sp_TargetPort p)} else {}
      else {(''prometheus'', IntVal 15692)})"
  by (simp add: servicePortKeys_def generatedPorts_def portsWhen_image image_Un tcpPort_def)

text \<open>
  The service sends traffic to ports that the RabbitMQ container declares under the same name
  and number, except when the plain listeners are disabled: then the TLS ports of the web plugins
  are missing from the container, and so is the port for plain metrics if TLS is off.
\<close>

theorem service_targets_declared:
  "servicePortKeys r - containerPortKeys r =
     (if \<not> DisableNonTLSListeners r then {}
      else if \<not> TLSEnabled r then {(''prometheus'', IntVal 15692)}
      else (if AdditionalPluginEnabled r ''rabbitmq_web_mqtt'' then {(''web-mqtt-tls'', IntVal 15676)} else {}) \<union>
           (if AdditionalPluginEnabled r ''rabbitmq_web_stomp'' then {(''web-stomp-tls'', IntVal 15673)} else {}) \<union>
           (if AdditionalPluginEnabled r ''rabbitmq_web_amqp'' then {(''web-amqp-tls'', IntVal 15677)} else {}))"
  unfolding servicePortKeys_eq containerPortKeys_def updateContainerPorts_def
    updateContainerPortsOnlyTLSListeners_def plainPortTable_def tlsPortTable_def tcpPort_def
  by (cases "DisableNonTLSListeners r"; cases "TLSEnabled r") (auto simp: containerPortsWhen_image)

end
