(* ===== verification/Webhook.thy ===== *)
theory Webhook
  imports StatefulSet_Builder
begin

text \<open>
  \<open>internal/webhook/v1beta1/rabbitmqcluster_webhook.go\<close>: the admission webhook. The validator
  refuses overrides that ask for access to the host or for privileges, the defaulter fills in what
  the user left unset. The results relate the validator to the restriction of overrides in the
  StatefulSet builder, its second line of defence.
\<close>

section \<open>Validation\<close>

text \<open>
  A field error is the path of the field and a message. How the API machinery makes the error
  \<open>Invalid\<close> of a list of them (\<open>apierrors.NewInvalid\<close>) is a parameter.
\<close>

datatype pathElement = Child string | Index nat

record fieldError =
  fe_Path :: "pathElement list"
  fe_Detail :: string

definition Forbidden :: "pathElement list \<Rightarrow> string \<Rightarrow> fieldError" where
  "Forbidden path detail = \<lparr>fe_Path = path, fe_Detail = detail\<rparr>"

definition specPath :: "pathElement list" where
  "specPath = map Child [''spec'', ''override'', ''statefulSet'', ''spec'', ''template'', ''spec'']"

definition errorWhen :: "bool \<Rightarrow> pathElement list \<Rightarrow> string \<Rightarrow> fieldError list" where
  "errorWhen c path detail = (if c then [Forbidden path detail] else [])"

definition securityContextErrors :: "pathElement list \<Rightarrow> securityContext \<Rightarrow> fieldError list" where
  "securityContextErrors cPath sc =
     (let at = (\<lambda>field. cPath @ [Child ''securityContext'', Child field]) in
      errorWhen (sc_Privileged sc = Some True) (at ''privileged'')
        ''privileged containers are not permitted in override'' @
      errorWhen (sc_AllowPrivilegeEscalation sc = Some True) (at ''allowPrivilegeEscalation'')
        ''allowPrivilegeEscalation is not permitted in override'' @
      errorWhen (sc_RunAsUser sc = Some 0) (at ''runAsUser'')
        ''runAsUser 0 is not permitted in override'' @
      errorWhen (sc_RunAsNonRoot sc = Some False) (at ''runAsNonRoot'')
        ''runAsNonRoot false is not permitted in override'' @
      errorWhen (sc_ReadOnlyRootFilesystem sc = Some False) (at ''readOnlyRootFilesystem'')
        ''readOnlyRootFilesystem false is not permitted in override'' @
      errorWhen (case sc_Capabilities sc of None \<Rightarrow> False | Some c \<Rightarrow> cap_Add c \<noteq> None) (at ''capabilities'')
        ''adding capabilities is not permitted in override'')"

definition containerErrors :: "string \<Rightarrow> nat \<times> container \<Rightarrow> fieldError list" where
  "containerErrors field = (\<lambda>(i, c).
     case ctr_SecurityContext c of
       None \<Rightarrow> []
     | Some sc \<Rightarrow> securityContextErrors (specPath @ [Child field, Index i]) sc)"

definition podSpecErrors :: "podSpec \<Rightarrow> fieldError list" where
  "podSpecErrors podSpec =
     errorWhen (ps_HostPID podSpec) (specPath @ [Child ''hostPID'']) ''hostPID is not permitted in override'' @
     errorWhen (ps_HostNetwork podSpec) (specPath @ [Child ''hostNetwork''])
       ''hostNetwork is not permitted in override'' @
     errorWhen (ps_HostIPC podSpec) (specPath @ [Child ''hostIPC'']) ''hostIPC is not permitted in override'' @
     errorWhen (ps_ServiceAccountName podSpec \<noteq> []) (specPath @ [Child ''serviceAccountName''])
       ''serviceAccountName is managed by the operator and cannot be overridden'' @
     concat (map (\<lambda>(i, vol). errorWhen (vol_HostPath vol \<noteq> None)
         (specPath @ [Child ''volumes'', Index i, Child ''hostPath''])
         ''hostPath volumes are not permitted in override'') (enumerate 0 (ps_Volumes podSpec))) @
     concat (map (containerErrors ''containers'') (enumerate 0 (ps_Containers podSpec))) @
     concat (map (containerErrors ''initContainers'') (enumerate 0 (ps_InitContainers podSpec)))"

definition podSpecOverride :: "RabbitmqCluster \<Rightarrow> podSpec option" where
  "podSpecOverride cluster =
     (case ov_StatefulSet (Override (Spec cluster)) of
        None \<Rightarrow> None
      | Some override \<Rightarrow> (case ost_Spec override of
          None \<Rightarrow> None
        | Some spec \<Rightarrow> (case os_Template spec of
            None \<Rightarrow> None
          | Some template \<Rightarrow> pt_Spec template)))"

definition validatePodSpecOverride ::
  "(string \<Rightarrow> fieldError list \<Rightarrow> goerror) \<Rightarrow> RabbitmqCluster \<Rightarrow> goerror option" where
  "validatePodSpecOverride NewInvalid cluster =
     (case podSpecOverride cluster of
        None \<Rightarrow> None
      | Some podSpec \<Rightarrow>
          (let allErrs = podSpecErrors podSpec
           in if allErrs \<noteq> [] then Some (NewInvalid (cluster_Name cluster) allErrs) else None))"

definition ValidateCreate ::
  "(string \<Rightarrow> fieldError list \<Rightarrow> goerror) \<Rightarrow> RabbitmqCluster \<Rightarrow> goerror option" where
  "ValidateCreate NewInvalid obj = validatePodSpecOverride NewInvalid obj"

definition ValidateUpdate ::
  "(string \<Rightarrow> fieldError list \<Rightarrow> goerror) \<Rightarrow> RabbitmqCluster \<Rightarrow> RabbitmqCluster \<Rightarrow> goerror option" where
  "ValidateUpdate NewInvalid oldObj newObj = validatePodSpecOverride NewInvalid newObj"

definition ValidateDelete :: "RabbitmqCluster \<Rightarrow> goerror option" where
  "ValidateDelete obj = None"

section \<open>Defaults\<close>

record RabbitmqClusterCustomDefaulter =
  DefaultRabbitmqImage :: string
  DefaultImagePullSecrets :: string
  DefaultUserUpdaterImage :: string

text \<open>Appending the names of a comma-separated list to a slice that may be nil.\<close>

definition appendPullSecrets :: "string list option \<Rightarrow> string \<Rightarrow> string list option" where
  "appendPullSecrets secrets names =
     foldl (\<lambda>l ref. if ref = [] then l else Some ((case l of None \<Rightarrow> [] | Some xs \<Rightarrow> xs) @ [ref]))
       secrets (Split1 names (CHR '',''))"

definition Default :: "RabbitmqClusterCustomDefaulter \<Rightarrow> RabbitmqCluster \<Rightarrow> RabbitmqCluster" where
  "Default d obj =
     (let s = Spec obj;
          s1 = (if Image s = [] then s\<lparr>Image := DefaultRabbitmqImage d\<rparr> else s);
          s2 = (if ImagePullSecrets s1 = None \<and> DefaultImagePullSecrets d \<noteq> []
                then s1\<lparr>ImagePullSecrets := appendPullSecrets None (DefaultImagePullSecrets d)\<rparr> else s1);
          s3 = (case Vault (spec_SecretBackend s2) of
                  None \<Rightarrow> s2
                | Some v \<Rightarrow>
                    if v_DefaultUserUpdaterImage v = None
                    then s2\<lparr>spec_SecretBackend := (spec_SecretBackend s2)\<lparr>Vault :=
                           Some (v\<lparr>v_DefaultUserUpdaterImage := Some (DefaultUserUpdaterImage d)\<rparr>)\<rparr>\<rparr>
                    else s2)
      in obj\<lparr>Spec := s3\<rparr>)"

section \<open>Validator and restriction agree\<close>

lemma errorWhen_Nil [simp]: "errorWhen c p m = [] \<longleftrightarrow> \<not> c"
  by (simp add: errorWhen_def)

lemma securityContextErrors_Nil:
  "securityContextErrors p sc = [] \<longleftrightarrow> sanitizeSecurityContext sc = sc"
proof -
  have cap: "(case sc_Capabilities sc of None \<Rightarrow> False | Some c \<Rightarrow> cap_Add c \<noteq> None) \<longleftrightarrow>
      map_option (\<lambda>c. c\<lparr>cap_Add := None\<rparr>) (sc_Capabilities sc) \<noteq> sc_Capabilities sc"
    by (cases "sc_Capabilities sc"; cases "the (sc_Capabilities sc)"; cases "cap_Add (the (sc_Capabilities sc))") auto
  have ro: "sc_ReadOnlyRootFilesystem sc = Some False \<longleftrightarrow>
      map_option (\<lambda>_. True) (sc_ReadOnlyRootFilesystem sc) \<noteq> sc_ReadOnlyRootFilesystem sc"
    by (cases "sc_ReadOnlyRootFilesystem sc") auto
  show ?thesis
    unfolding securityContextErrors_def Let_def append_is_Nil_conv errorWhen_Nil cap ro
    by (cases sc) (auto simp: sanitizeSecurityContext_def)
qed

lemma containerErrors_Nil: "containerErrors f (i, c) = [] \<longleftrightarrow> sanitizeContainer c = c"
  by (cases c; cases "ctr_SecurityContext c")
    (auto simp: containerErrors_def sanitizeContainer_def securityContextErrors_Nil)

lemma concat_enumerate_Nil:
  "concat (map g (enumerate n xs)) = [] \<longleftrightarrow> (\<forall>i < length xs. g (n + i, xs ! i) = [])"
  by (auto simp: in_set_enumerate_eq nth_enumerate_eq set_conv_nth)

lemma map_same_iff: "map f xs = xs \<longleftrightarrow> (\<forall>x \<in> set xs. f x = x)"
  by (induction xs) auto

lemma containersErrors_Nil:
  "concat (map (containerErrors f) (enumerate 0 cs)) = [] \<longleftrightarrow> map sanitizeContainer cs = cs"
  unfolding concat_enumerate_Nil map_same_iff all_set_conv_all_nth by (simp add: containerErrors_Nil)

lemma filter_same_iff: "filter P xs = xs \<longleftrightarrow> (\<forall>x \<in> set xs. P x)"
  by (metis filter_True filter_id_conv)

lemma podSpecErrors_Nil: "podSpecErrors ps = [] \<longleftrightarrow> sanitizePodSpecOverride ps = ps"
proof -
  have v: "concat (map (\<lambda>(i, vol). errorWhen (vol_HostPath vol \<noteq> None)
         (specPath @ [Child ''volumes'', Index i, Child ''hostPath''])
         ''hostPath volumes are not permitted in override'') (enumerate 0 (ps_Volumes ps))) = [] \<longleftrightarrow>
      filter (\<lambda>v. vol_HostPath v = None) (ps_Volumes ps) = ps_Volumes ps"
    unfolding concat_enumerate_Nil filter_same_iff all_set_conv_all_nth by simp
  show ?thesis
    unfolding podSpecErrors_def append_is_Nil_conv errorWhen_Nil containersErrors_Nil v
    by (cases ps) (auto simp: sanitizePodSpecOverride_def)
qed

lemma sanitizeSecurityContext_idem [simp]:
  "sanitizeSecurityContext (sanitizeSecurityContext sc) = sanitizeSecurityContext sc"
  by (simp add: sanitizeSecurityContext_def option.map_comp comp_def)

lemma sanitizeContainer_idem [simp]: "sanitizeContainer (sanitizeContainer c) = sanitizeContainer c"
  by (simp add: sanitizeContainer_def option.map_comp comp_def)

lemma sanitizePodSpecOverride_idem [simp]:
  "sanitizePodSpecOverride (sanitizePodSpecOverride ps) = sanitizePodSpecOverride ps"
  by (simp add: sanitizePodSpecOverride_def comp_def)

lemma sanitizedOverride_idem [simp]:
  "sanitizedOverride (sanitizedOverride o') = sanitizedOverride o'"
  by (simp add: sanitizedOverride_def option.map_comp comp_def)

lemma sanitizedOverride_same_iff:
  "sanitizedOverride o' = o' \<longleftrightarrow>
     (\<forall>s t ps. ost_Spec o' = Some s \<and> os_Template s = Some t \<and> pt_Spec t = Some ps \<longrightarrow>
        sanitizePodSpecOverride ps = ps)"
proof (cases "ost_Spec o'")
  case None
  then show ?thesis by (cases o') (simp add: sanitizedOverride_def)
next
  case (Some s)
  show ?thesis
  proof (cases "os_Template s")
    case None
    then show ?thesis using Some by (cases o'; cases s) (simp add: sanitizedOverride_def)
  next
    case t: (Some t)
    then show ?thesis
      using Some by (cases o'; cases s; cases t; cases "pt_Spec t") (auto simp: sanitizedOverride_def)
  qed
qed

lemma validatePodSpecOverride_None:
  "validatePodSpecOverride NewInvalid r = None \<longleftrightarrow>
     map_option sanitizedOverride (ov_StatefulSet (Override (Spec r))) = ov_StatefulSet (Override (Spec r))"
  by (auto simp: validatePodSpecOverride_def podSpecOverride_def Let_def podSpecErrors_Nil
      sanitizedOverride_same_iff split: option.splits)

lemma restricted_accepted: "validatePodSpecOverride NewInvalid (restricted r) = None"
  by (simp add: validatePodSpecOverride_None restricted_def option.map_comp comp_def)

lemma accepted_restricted: "validatePodSpecOverride NewInvalid r = None \<Longrightarrow> restricted r = r"
  by (simp add: validatePodSpecOverride_None restricted_def)

section \<open>Only the restricted override matters\<close>

lemma restricted_fields:
  "Meta (restricted r) = Meta r"
  "Replicas (Spec (restricted r)) = Replicas (Spec r)"
  "Image (Spec (restricted r)) = Image (Spec r)"
  "ImagePullSecrets (Spec (restricted r)) = ImagePullSecrets (Spec r)"
  "ServiceSpec (Spec (restricted r)) = ServiceSpec (Spec r)"
  "Persistence (Spec (restricted r)) = Persistence (Spec r)"
  "Resources (Spec (restricted r)) = Resources (Spec r)"
  "Affinity (Spec (restricted r)) = Affinity (Spec r)"
  "Tolerations (Spec (restricted r)) = Tolerations (Spec r)"
  "Rabbitmq (Spec (restricted r)) = Rabbitmq (Spec r)"
  "TLS (Spec (restricted r)) = TLS (Spec r)"
  "TerminationGracePeriodSeconds (Spec (restricted r)) = TerminationGracePeriodSeconds (Spec r)"
  "DelayStartSeconds (Spec (restricted r)) = DelayStartSeconds (Spec r)"
  "spec_SecretBackend (Spec (restricted r)) = spec_SecretBackend (Spec r)"
  by (simp_all add: restricted_def)

lemma restricted_predicates:
  "SecretTLSEnabled (restricted r) = SecretTLSEnabled r"
  "VaultTLSEnabled (restricted r) = VaultTLSEnabled r"
  "TLSEnabled (restricted r) = TLSEnabled r"
  "MutualTLSEnabled (restricted r) = MutualTLSEnabled r"
  "VaultDefaultUserSecretEnabled (restricted r) = VaultDefaultUserSecretEnabled r"
  "ExternalSecretEnabled (restricted r) = ExternalSecretEnabled r"
  "DisableNonTLSListeners (restricted r) = DisableNonTLSListeners r"
  "AdditionalPluginEnabled (restricted r) p = AdditionalPluginEnabled r p"
  "StreamNeeded (restricted r) = StreamNeeded r"
  "DisableDefaultTopologySpreadConstraints (restricted r) = DisableDefaultTopologySpreadConstraints r"
  "ChildResourceName (restricted r) sfx = ChildResourceName r sfx"
  "ServiceSubDomain (restricted r) = ServiceSubDomain r"
  "rabbitmqConfigurationIsSet (restricted r) = rabbitmqConfigurationIsSet r"
  by (simp_all only: SecretTLSEnabled_def VaultTLSEnabled_def TLSEnabled_def MutualTLSEnabled_def
      VaultDefaultUserSecretEnabled_def ExternalSecretEnabled_def DisableNonTLSListeners_def
      AdditionalPluginEnabled_def StreamNeeded_def DisableDefaultTopologySpreadConstraints_def
      ChildResourceName_def ServiceSubDomain_def rabbitmqConfigurationIsSet_def restricted_fields)

lemma podHostNames_restricted: "podHostNames (restricted r) = podHostNames r"
  unfolding podHostNames_def restricted_fields restricted_predicates by (rule refl)

lemma setupContainer_restricted: "setupContainer (restricted r) = setupContainer r"
  unfolding setupContainer_def setupCommand_def setupMounts_def restricted_fields restricted_predicates podHostNames_restricted by (rule refl)

lemma rabbitmqContainer_restricted: "rabbitmqContainer (restricted r) = rabbitmqContainer r"
  unfolding rabbitmqContainer_def rabbitmqMounts_def updateContainerPorts_def updateContainerPortsOnlyTLSListeners_def readinessProbe_def startupProbe_def envVarsK8sObjects_def restricted_fields restricted_predicates podHostNames_restricted by (rule refl)

lemma defaultUserCredentialUpdater_restricted: "defaultUserCredentialUpdater (restricted r) = defaultUserCredentialUpdater r"
  unfolding defaultUserCredentialUpdater_def envVarsK8sObjects_def restricted_fields restricted_predicates podHostNames_restricted by (rule refl)

lemma podVolumes_restricted: "podVolumes (restricted r) = podVolumes r"
  unfolding podVolumes_def baseVolumes_def tlsVolume_def persistenceVolume_def appendDefaultUserSecretVolumeProjection_def restricted_fields restricted_predicates podHostNames_restricted by (rule refl)

lemma podTemplateSpec_restricted: "podTemplateSpec (restricted r) = podTemplateSpec r"
  unfolding podTemplateSpec_def podSpecOf_def defaultTopologySpreadConstraints_def
    appendVaultAnnotations_def vaultTLSAnnotations_def restricted_fields restricted_predicates
    setupContainer_restricted rabbitmqContainer_restricted defaultUserCredentialUpdater_restricted
    podVolumes_restricted podHostNames_restricted by (rule refl)

text \<open>The builder for the cluster with the restricted override.\<close>

definition restrictedBuilder :: "RabbitmqResourceBuilder \<Rightarrow> RabbitmqResourceBuilder" where
  "restrictedBuilder b = b\<lparr>Instance := restricted (Instance b)\<rparr>"

lemma restrictedBuilder_Instance [simp]: "Instance (restrictedBuilder b) = restricted (Instance b)"
  by (simp add: restrictedBuilder_def)

lemma overrideSpecFields_restricted:
  "overrideSpecFields (s\<lparr>os_Template := t\<rparr>) sts = overrideSpecFields s sts"
  by (simp add: overrideSpecFields_def)

lemma overrideTemplate_restricted:
  "overrideTemplate patch (restrictedBuilder b) (t\<lparr>pt_Spec := map_option sanitizePodSpecOverride (pt_Spec t)\<rparr>) sts =
   overrideTemplate patch b t sts"
  by (cases "pt_Spec t") (simp_all add: overrideTemplate_def restricted_predicates)

lemma reference_restricted:
  assumes "\<forall>m. Scheme b (restricted (Instance b)) m = Scheme b (Instance b) m"
  shows "SetControllerReference (restrictedBuilder b) = SetControllerReference b"
  using assms by (auto simp: SetControllerReference_def restrictedBuilder_def)

lemma overrideClaims_restricted:
  assumes "\<forall>m. Scheme b (restricted (Instance b)) m = Scheme b (Instance b) m"
  shows "overrideClaims (restrictedBuilder b) (s\<lparr>os_Template := t\<rparr>) sts = overrideClaims b s sts"
proof -
  have "overrideClaim (restrictedBuilder b) = overrideClaim b"
    by (intro ext) (simp add: overrideClaim_def reference_restricted [OF assms])
  then show ?thesis
    by (simp add: overrideClaims_def restricted_fields cong: if_cong)
qed

lemma applyStsOverride_restricted:
  assumes "\<forall>m. Scheme b (restricted (Instance b)) m = Scheme b (Instance b) m"
  shows "applyStsOverride patch (restrictedBuilder b) sts (sanitizedOverride o') = applyStsOverride patch b sts o'"
proof (cases "ost_Spec o'")
  case None
  then show ?thesis by (simp add: applyStsOverride_def sanitizedOverride_def)
next
  case (Some s)
  then show ?thesis
    by (cases "os_Template s")
      (simp_all add: applyStsOverride_def sanitizedOverride_def overrideSpecFields_restricted
        overrideClaims_restricted [OF assms] overrideTemplate_restricted cong: if_cong)
qed

lemma StatefulSet_Update_restricted:
  assumes "\<forall>m. Scheme b (restricted (Instance b)) m = Scheme b (Instance b) m"
    and "StatefulSet_Update patch b sts = Inr (sts', r')"
  shows "StatefulSet_Update patch (restrictedBuilder b) sts = Inr (sts', r')"
proof -
  have g: "generatedSts (restrictedBuilder b) = generatedSts b"
    by (intro ext) (simp add: generatedSts_def childMeta_def clusterLabels_def restricted_fields)
  have o': "ov_StatefulSet (Override (Spec (restricted (Instance b)))) =
      map_option sanitizedOverride (ov_StatefulSet (Override (Spec (Instance b))))"
    by (simp add: restricted_def)
  have r: "r\<lparr>Spec := (Spec r)\<lparr>Override := (Override (Spec r))\<lparr>ov_StatefulSet := Some (sanitizedOverride o')\<rparr>\<rparr>\<rparr> =
      restricted r" if "ov_StatefulSet (Override (Spec r)) = Some o'" for r o'
    using that by (simp add: restricted_def)
  have r': "restricted (Instance b) = Instance b" if "ov_StatefulSet (Override (Spec (Instance b))) = None"
    using that by (simp add: restricted_def)
  have rr: "restricted (restricted r) = restricted r" for r
    by (simp add: restricted_def option.map_comp comp_def)
  show ?thesis
  proof (cases "ov_StatefulSet (Override (Spec (Instance b)))")
    case None
    then show ?thesis
      using assms(2) reference_restricted [OF assms(1)]
      by (simp add: StatefulSet_Update_def restricted_fields podTemplateSpec_restricted g o' r')
  next
    case (Some ov)
    then have rs: "(restricted (Instance b))\<lparr>Spec := (Spec (restricted (Instance b)))\<lparr>Override :=
        (Override (Spec (restricted (Instance b))))\<lparr>ov_StatefulSet := Some (sanitizedOverride ov)\<rparr>\<rparr>\<rparr> =
        restricted (Instance b)"
      by (simp add: restricted_def)
    show ?thesis
      using assms(2) Some
      by (simp add: StatefulSet_Update_def restricted_fields podTemplateSpec_restricted g o' rs r [OF Some]
          applyStsOverride_restricted [OF assms(1)] reference_restricted [OF assms(1)] cong: sum.case_cong)
  qed
qed

lemma applyStsOverride_account:
  assumes "applyStsOverride patch b sts o' = Inr sts'"
    and "ps_ServiceAccountName (sts_TemplateSpec sts) = ChildResourceName (Instance b) serviceAccountName"
    and "ps_AutomountServiceAccountToken (sts_TemplateSpec sts) = Some True"
  shows "ps_ServiceAccountName (sts_TemplateSpec sts') = ChildResourceName (Instance b) serviceAccountName \<and>
    ps_AutomountServiceAccountToken (sts_TemplateSpec sts') = Some True"
proof (cases "ost_Spec o'")
  case None
  then show ?thesis
    using assms by (auto simp: applyStsOverride_def split: option.splits)
next
  case (Some s)
  have claims: "sts_TemplateSpec s2 = sts_TemplateSpec s1"
    if "overrideClaims b s (overrideSpecFields s s1) = Inr s2" for s1 s2
    using that by (auto simp: overrideClaims_def overrideSpecFields_def bindE_Inr_iff split: if_splits)
  show ?thesis
  proof (cases "os_Template s")
    case None
    then show ?thesis
      using assms Some
      by (auto simp: applyStsOverride_def Let_def bindE_Inr_iff dest!: claims split: option.splits if_splits)
  next
    case (Some t)
    then show ?thesis
      using assms(1) \<open>ost_Spec o' = Some s\<close>
      by (auto simp: applyStsOverride_def overrideTemplate_def Let_def bindE_Inr_iff)
  qed
qed

section \<open>Results\<close>

text \<open>
  C19. The two lines of defence agree: the validator accepts a cluster exactly when restricting its
  override changes nothing, and it accepts every cluster whose override has been restricted.
\<close>

theorem validator_and_restriction_agree:
  "(validatePodSpecOverride NewInvalid r = None \<longleftrightarrow> restricted r = r) \<and>
   validatePodSpecOverride NewInvalid (restricted r) = None"
  using restricted_accepted accepted_restricted by metis

text \<open>
  C4. Updating a StatefulSet with a hostile override, one that got past the validator: whatever the
  merge of the override does, the pods run under the service account of the operator's choice; the
  cluster in memory is left with an override the validator accepts, unchanged if it accepted the
  override in the first place; and the refused parts had no effect: the same StatefulSet results
  when they are taken out beforehand.
\<close>

theorem StatefulSet_Update_override_safety:
  assumes "StatefulSet_Update patch b sts = Inr (sts', r')"
    and "\<forall>m. Scheme b (restricted (Instance b)) m = Scheme b (Instance b) m"
  shows "ps_ServiceAccountName (sts_TemplateSpec sts') = ChildResourceName (Instance b) serviceAccountName \<and>
    ps_AutomountServiceAccountToken (sts_TemplateSpec sts') = Some True \<and>
    validatePodSpecOverride NewInvalid r' = None \<and>
    (validatePodSpecOverride NewInvalid (Instance b) = None \<longrightarrow> r' = Instance b) \<and>
    StatefulSet_Update patch (b\<lparr>Instance := r'\<rparr>) sts = Inr (sts', r')"
proof -
  obtain pvcs tm ts s3 m where
    t: "podTemplateSpec (Instance b) (Annotations (sts_TemplateMeta sts)) = Inr (tm, ts)"
    and s3: "case ov_StatefulSet (Override (Spec (Instance b))) of
        None \<Rightarrow> s3 = generatedSts b pvcs tm ts sts
      | Some o' \<Rightarrow> applyStsOverride patch b (generatedSts b pvcs tm ts sts) o' = Inr s3"
    and sts': "sts' = s3\<lparr>sts_Meta := m\<rparr>" and r': "r' = restricted (Instance b)"
    using assms(1) by (rule StatefulSet_Update_cases)
  have "ps_ServiceAccountName ts = ChildResourceName (Instance b) serviceAccountName \<and>
      ps_AutomountServiceAccountToken ts = Some True"
    using t by (auto simp: podTemplateSpec_def podSpecOf_def Let_def bindE_Inr_iff)
  then have "ps_ServiceAccountName (sts_TemplateSpec s3) = ChildResourceName (Instance b) serviceAccountName \<and>
      ps_AutomountServiceAccountToken (sts_TemplateSpec s3) = Some True"
    using s3 by (auto simp: generatedSts_def dest!: applyStsOverride_account split: option.splits)
  then show ?thesis
    using StatefulSet_Update_restricted [OF assms(2,1)] accepted_restricted [of NewInvalid "Instance b"]
      restricted_accepted [of NewInvalid "Instance b"]
    by (simp add: sts' r' restrictedBuilder_def)
qed

text \<open>A cluster whose override asks for the process namespace of the host and for root.\<close>

definition hostilePodSpec :: podSpec where
  "hostilePodSpec = emptyPodSpec\<lparr>ps_HostPID := True, ps_ServiceAccountName := ''admin'',
     ps_Containers := [emptyContainer\<lparr>ctr_Name := ''rabbitmq'', ctr_SecurityContext :=
       Some (emptySecurityContext\<lparr>sc_Privileged := Some True, sc_RunAsUser := Some 0\<rparr>)\<rparr>]\<rparr>"

definition withPodSpecOverride :: "podSpec \<Rightarrow> RabbitmqCluster" where
  "withPodSpecOverride ps = emptyCluster\<lparr>Meta := namedMeta ''rmq'' ''ns'', Spec := emptyClusterSpec\<lparr>
     Persistence := \<lparr>StorageClassName = None, Storage = Some 0, EmptyDir = None\<rparr>,
     Resources := Some \<lparr>Limits = None, Requests = None\<rparr>, TerminationGracePeriodSeconds := Some 60,
     Override := \<lparr>ov_StatefulSet = Some \<lparr>ost_Meta = None, ost_Spec = Some
       \<lparr>os_Replicas = None, os_Selector = None,
        os_Template = Some \<lparr>pt_Meta = None, pt_Spec = Some ps\<rparr>, os_VolumeClaimTemplates = [],
        os_ServiceName = [], os_PodManagementPolicy = [], os_UpdateStrategy = None,
        os_MinReadySeconds = 0, os_RetentionPolicy = None\<rparr>\<rparr>, ov_Service = None\<rparr>\<rparr>\<rparr>"

lemma withPodSpecOverride_fields:
  "Storage (Persistence (Spec (withPodSpecOverride ps))) = Some 0"
  "Resources (Spec (withPodSpecOverride ps)) = Some \<lparr>Limits = None, Requests = None\<rparr>"
  "TerminationGracePeriodSeconds (Spec (withPodSpecOverride ps)) = Some 60"
  "Meta (withPodSpecOverride ps) = namedMeta ''rmq'' ''ns''"
  "podSpecOverride (withPodSpecOverride ps) = Some ps"
  by (simp_all add: withPodSpecOverride_def podSpecOverride_def)

lemma podTemplateSpec_defined:
  assumes "Storage (Persistence (Spec r)) = Some q" "Resources (Spec r) = Some res"
    "TerminationGracePeriodSeconds (Spec r) = Some g"
  obtains tm ts where "podTemplateSpec r prev = Inr (tm, ts)"
  using assms by (auto simp: podTemplateSpec_def Let_def bindE_def deref_def)

lemma patch_hostile:
  "patchPodSpec (\<lambda>ps o'. Inr o') ps (sanitizePodSpecOverride hostilePodSpec) =
     Inr (sanitizePodSpecOverride hostilePodSpec)"
  by (simp add: patchPodSpec_def hostilePodSpec_def sanitizePodSpecOverride_def sanitizeContainer_def
      sanitizeSecurityContext_def containerRabbitmq_def patchEnv_def patchMounts_def patchProbes_def
      dropContexts_def emptyContainer_def emptyPodSpec_def emptySecurityContext_def bindE_def)

lemma withPodSpecOverride_updates:
  "\<exists>sts' r'. StatefulSet_Update (\<lambda>ps o'. Inr o') (exampleBuilder (withPodSpecOverride hostilePodSpec))
     emptyStatefulSet = Inr (sts', r')"
proof -
  let ?r = "withPodSpecOverride hostilePodSpec"
  obtain tm ts where t: "podTemplateSpec ?r (Annotations (sts_TemplateMeta emptyStatefulSet)) = Inr (tm, ts)"
    using podTemplateSpec_defined withPodSpecOverride_fields by metis
  obtain o' s where o': "ov_StatefulSet (Override (Spec ?r)) = Some o'" "ost_Meta o' = None"
    "ost_Spec o' = Some s" "os_Template s = Some \<lparr>pt_Meta = None, pt_Spec = Some hostilePodSpec\<rparr>"
    "os_VolumeClaimTemplates s = []" "os_RetentionPolicy s = None"
    by (simp add: withPodSpecOverride_def)
  have "\<exists>s'. applyStsOverride (\<lambda>ps o'. Inr o') (exampleBuilder ?r) s0 o' = Inr s'" for s0
    using o' by (simp add: applyStsOverride_def overrideClaims_def overrideTemplate_def bindE_def patch_hostile)
  then obtain g where "applyStsOverride (\<lambda>ps o'. Inr o') (exampleBuilder ?r)
      (generatedSts (exampleBuilder ?r) [] tm ts emptyStatefulSet) o' = Inr g"
    by blast
  moreover have "Instance (exampleBuilder r) = r" for r by (simp add: exampleBuilder_def)
  moreover have "\<exists>m'. SetControllerReference (exampleBuilder r) m = Inr m'" for r m
    by (simp add: SetControllerReference_def exampleBuilder_def)
  moreover have "updatePersistenceStorageCapacity (sts_VolumeClaimTemplates emptyStatefulSet) q = Inr []" for q
    by (simp add: updatePersistenceStorageCapacity_def emptyStatefulSet_def)
  ultimately show ?thesis
    using t o'(1) by (auto simp: StatefulSet_Update_def bindE_def split: sum.splits) (metis sum.distinct(1))
qed

theorem StatefulSet_Update_override_safety_witness:
  "\<exists>sts' r'. StatefulSet_Update (\<lambda>ps o'. Inr o') (exampleBuilder (withPodSpecOverride hostilePodSpec))
       emptyStatefulSet = Inr (sts', r') \<and>
     ps_ServiceAccountName (sts_TemplateSpec sts') = ''rmq-server'' \<and>
     validatePodSpecOverride (\<lambda>n e. StatusError Invalid n) r' = None \<and>
     validatePodSpecOverride (\<lambda>n e. StatusError Invalid n) (withPodSpecOverride hostilePodSpec) \<noteq> None"
proof -
  let ?b = "exampleBuilder (withPodSpecOverride hostilePodSpec)"
  obtain sts' r' where u: "StatefulSet_Update (\<lambda>ps o'. Inr o') ?b emptyStatefulSet = Inr (sts', r')"
    using withPodSpecOverride_updates by blast
  have "\<forall>m. Scheme ?b (restricted (Instance ?b)) m = Scheme ?b (Instance ?b) m"
    by (simp add: exampleBuilder_def restricted_fields)
  note StatefulSet_Update_override_safety [OF u this, of "\<lambda>n e. StatusError Invalid n"]
  moreover have "ChildResourceName (Instance ?b) serviceAccountName = ''rmq-server''"
    by (simp add: exampleBuilder_def withPodSpecOverride_fields ChildResourceName_def
        serviceAccountName_def TrimSuffix_def HasSuffix_def suffix_to_prefix)
  moreover have "validatePodSpecOverride (\<lambda>n e. StatusError Invalid n) (withPodSpecOverride hostilePodSpec) \<noteq> None"
    by (simp add: validatePodSpecOverride_def withPodSpecOverride_fields podSpecErrors_def hostilePodSpec_def)
  ultimately show ?thesis using u by auto
qed

text \<open>The override of the next result: root at the level of the pod, no context for the container.\<close>

definition rootPodSpec :: podSpec where
  "rootPodSpec = emptyPodSpec\<lparr>
     ps_SecurityContext := Some (emptyPodSecurityContext\<lparr>psc_RunAsUser := Some 0\<rparr>),
     ps_Containers := [emptyContainer\<lparr>ctr_Name := ''rabbitmq'',
       ctr_SecurityContext := Some emptySecurityContext\<rparr>]\<rparr>"

lemma rootPodSpec_accepted: "podSpecErrors rootPodSpec = []"
  by (simp add: podSpecErrors_def rootPodSpec_def emptyPodSpec_def containerErrors_def
      securityContextErrors_def emptySecurityContext_def)

lemma rootPodSpec_patched:
  assumes "patch ps rootPodSpec = Inr patched" and "ps_Containers patched = c # cs"
  shows "patchPodSpec patch ps rootPodSpec =
    Inr (patched\<lparr>ps_Containers := c\<lparr>ctr_SecurityContext := None\<rparr> # cs\<rparr>)"
  using assms
  by (cases patched) (auto simp: patchPodSpec_def rootPodSpec_def containerRabbitmq_def emptyPodSpec_def
      emptyContainer_def emptyPodSecurityContext_def patchEnv_def patchMounts_def patchProbes_def
      dropContexts_def setContainer_def bindE_def)

text \<open>
  The webhook does not refuse every request to run as root: an override whose pod-level
  security context asks for user 0 and which empties the security context of the RabbitMQ container
  is accepted and survives the restriction; and for every merge that keeps a container, the first
  container is then left without the operator's security context, under the merged pod-level one.
\<close>

theorem webhook_accepts_root:
  assumes "patch ps rootPodSpec = Inr patched" and "ps_Containers patched = c # cs"
  shows "validatePodSpecOverride NewInvalid (withPodSpecOverride rootPodSpec) = None \<and>
    restricted (withPodSpecOverride rootPodSpec) = withPodSpecOverride rootPodSpec \<and>
    (\<exists>res. patchPodSpec patch ps rootPodSpec = Inr res \<and>
       ps_SecurityContext res = ps_SecurityContext patched \<and>
       ctr_SecurityContext (hd (ps_Containers res)) = None)"
proof -
  have v: "validatePodSpecOverride N (withPodSpecOverride rootPodSpec) = None" for N
    by (simp add: validatePodSpecOverride_def withPodSpecOverride_fields rootPodSpec_accepted)
  then show ?thesis
    using accepted_restricted [OF v] rootPodSpec_patched [of patch ps, OF assms] by simp
qed

theorem webhook_accepts_root_witness:
  "\<exists>res. patchPodSpec (\<lambda>ps o'. Inr o') emptyPodSpec rootPodSpec = Inr res \<and>
     ps_SecurityContext res = Some (emptyPodSecurityContext\<lparr>psc_RunAsUser := Some 0\<rparr>) \<and>
     ctr_SecurityContext (hd (ps_Containers res)) = None"
proof -
  have "ps_Containers rootPodSpec = [emptyContainer\<lparr>ctr_Name := ''rabbitmq'',
       ctr_SecurityContext := Some emptySecurityContext\<rparr>]" and
    s: "ps_SecurityContext rootPodSpec = Some (emptyPodSecurityContext\<lparr>psc_RunAsUser := Some 0\<rparr>)"
    by (simp_all add: rootPodSpec_def)
  then show ?thesis
    using webhook_accepts_root [of "\<lambda>ps o'. Inr o'" emptyPodSpec rootPodSpec] by auto
qed

lemma appendPullSecrets_eq:
  "appendPullSecrets l s =
     (let names = filter (\<lambda>n. n \<noteq> []) (Split1 s (CHR '',''))
      in if names = [] then l else Some ((case l of None \<Rightarrow> [] | Some xs \<Rightarrow> xs) @ names))"
proof -
  have "foldl (\<lambda>l ref. if ref = [] then l else Some ((case l of None \<Rightarrow> [] | Some xs \<Rightarrow> xs) @ [ref])) l refs =
      (let names = filter (\<lambda>n. n \<noteq> []) refs
       in if names = [] then l else Some ((case l of None \<Rightarrow> [] | Some xs \<Rightarrow> xs) @ names))"
    for l and refs :: "string list"
    by (induction refs arbitrary: l) (auto simp: Let_def)
  then show ?thesis unfolding appendPullSecrets_def .
qed

definition defaultPullSecrets :: "RabbitmqClusterCustomDefaulter \<Rightarrow> string list option \<Rightarrow> string list option" where
  "defaultPullSecrets d l =
     (case l of Some l \<Rightarrow> Some l
      | None \<Rightarrow> (let names = filter (\<lambda>n. n \<noteq> []) (Split1 (DefaultImagePullSecrets d) (CHR '',''))
                 in if names = [] then None else Some names))"

definition defaultVault :: "RabbitmqClusterCustomDefaulter \<Rightarrow> VaultSpec \<Rightarrow> VaultSpec" where
  "defaultVault d v = v\<lparr>v_DefaultUserUpdaterImage :=
     Some (ptr_Deref (v_DefaultUserUpdaterImage v) (DefaultUserUpdaterImage d))\<rparr>"

lemma Default_eq:
  "Default d r = r\<lparr>Spec := (Spec r)\<lparr>
     Image := if Image (Spec r) = [] then DefaultRabbitmqImage d else Image (Spec r),
     ImagePullSecrets := defaultPullSecrets d (ImagePullSecrets (Spec r)),
     spec_SecretBackend := (spec_SecretBackend (Spec r))\<lparr>Vault :=
       map_option (defaultVault d) (Vault (spec_SecretBackend (Spec r)))\<rparr>\<rparr>\<rparr>"
proof -
  have p: "(if l = None \<and> DefaultImagePullSecrets d \<noteq> []
      then appendPullSecrets None (DefaultImagePullSecrets d) else l) = defaultPullSecrets d l" for l
    by (auto simp: defaultPullSecrets_def appendPullSecrets_eq Let_def split: option.splits)
  have v: "(case v of None \<Rightarrow> s
      | Some v \<Rightarrow> if v_DefaultUserUpdaterImage v = None
          then s\<lparr>spec_SecretBackend := (spec_SecretBackend s)\<lparr>Vault :=
                 Some (v\<lparr>v_DefaultUserUpdaterImage := Some (DefaultUserUpdaterImage d)\<rparr>)\<rparr>\<rparr>
          else s) =
      s\<lparr>spec_SecretBackend := (spec_SecretBackend s)\<lparr>Vault := map_option (defaultVault d) v\<rparr>\<rparr>"
    if "v = Vault (spec_SecretBackend s)" for v and s :: RabbitmqClusterSpec
    using that by (auto simp: defaultVault_def ptr_Deref_def split: option.splits)
  show ?thesis
    using p [of "ImagePullSecrets (Spec r)"]
    by (auto simp: Default_def Let_def v)
qed

text \<open>
  The defaulter fills in only what is unset: a given image, given pull secrets and a given
  updater image are kept, an unset one becomes the operator's default (of the comma-separated pull
  secrets the non-empty ones in their order), everything else stays as it is, and defaulting a
  second time changes nothing.
\<close>

theorem Default_meaning:
  "Image (Spec (Default d r)) = (if Image (Spec r) = [] then DefaultRabbitmqImage d else Image (Spec r)) \<and>
   ImagePullSecrets (Spec (Default d r)) =
     (case ImagePullSecrets (Spec r) of
        Some l \<Rightarrow> Some l
      | None \<Rightarrow> (let names = filter (\<lambda>n. n \<noteq> []) (Split1 (DefaultImagePullSecrets d) (CHR '',''))
                 in if names = [] then None else Some names)) \<and>
   Vault (spec_SecretBackend (Spec (Default d r))) =
     map_option (\<lambda>v. v\<lparr>v_DefaultUserUpdaterImage :=
         Some (ptr_Deref (v_DefaultUserUpdaterImage v) (DefaultUserUpdaterImage d))\<rparr>)
       (Vault (spec_SecretBackend (Spec r))) \<and>
   (\<exists>i p v. Default d r = r\<lparr>Spec := (Spec r)\<lparr>Image := i, ImagePullSecrets := p,
      spec_SecretBackend := (spec_SecretBackend (Spec r))\<lparr>Vault := v\<rparr>\<rparr>\<rparr>) \<and>
   Default d (Default d r) = Default d r"
proof -
  have "defaultPullSecrets d (defaultPullSecrets d l) = defaultPullSecrets d l" for l
    by (simp add: defaultPullSecrets_def Let_def split: option.splits)
  moreover have "defaultVault d (defaultVault d v) = defaultVault d v" for v
    by (simp add: defaultVault_def ptr_Deref_def)
  ultimately have "Default d (Default d r) = Default d r"
    by (simp add: Default_eq option.map_comp comp_def)
  moreover have "\<exists>i p v. Default d r = r\<lparr>Spec := (Spec r)\<lparr>Image := i, ImagePullSecrets := p,
      spec_SecretBackend := (spec_SecretBackend (Spec r))\<lparr>Vault := v\<rparr>\<rparr>\<rparr>"
    unfolding Default_eq by blast
  ultimately show ?thesis
    by (simp add: Default_eq defaultPullSecrets_def defaultVault_def [abs_def])
qed

end
