(* ===== verification/Child_Resources.thy ===== *)
theory Child_Resources
  imports Pod_Consistency Webhook
begin

text \<open>
  \<open>internal/resource/rabbitmq_resource_builder.go\<close>: the list of builders of a cluster, and the
  interface \<open>ResourceBuilder\<close> as the controller uses it, with one object type for all children.
  The results hold for every builder of the list; they rest on the contracts \<open>resource_builder\<close>
  and \<open>stable_builder\<close> that the theories of the single builders discharge.
\<close>

section \<open>The list of builders\<close>

datatype builderKind =
    HeadlessServiceBuilder | ServiceBuilder | ErlangCookieBuilder | DefaultUserSecretBuilder
  | RabbitmqPluginsConfigMapBuilder | ServerConfigMapBuilder | ServiceAccountBuilder
  | RoleBuilder | RoleBindingBuilder | StatefulSetBuilder

text \<open>
  The version comparison is that of the semver package: the parameter \<open>check\<close> parses a version,
  \<open>None\<close> if it cannot, and tells whether it is at least 4.1.0.
\<close>

definition ShouldCreatePeerDiscoveryRBAC :: "(string \<Rightarrow> bool option) \<Rightarrow> RabbitmqCluster \<Rightarrow> bool" where
  "ShouldCreatePeerDiscoveryRBAC check rmq =
     (let version = GetRabbitMQVersion rmq
      in if version = VersionNotAnnotated then True
         else case check version of None \<Rightarrow> True | Some c \<Rightarrow> \<not> c)"

definition ResourceBuilders :: "(string \<Rightarrow> bool option) \<Rightarrow> RabbitmqCluster \<Rightarrow> builderKind list" where
  "ResourceBuilders check r =
     (let builders =
        [HeadlessServiceBuilder, ServiceBuilder, ErlangCookieBuilder, DefaultUserSecretBuilder,
         RabbitmqPluginsConfigMapBuilder, ServerConfigMapBuilder, ServiceAccountBuilder] @
        (if ShouldCreatePeerDiscoveryRBAC check r then [RoleBuilder, RoleBindingBuilder] else []) @
        [StatefulSetBuilder]
      in if VaultDefaultUserSecretEnabled r \<or> ExternalSecretEnabled r
         then take 3 builders @ drop 4 builders else builders)"

section \<open>Building and updating any child\<close>

datatype childObject =
    ChildService service | ChildConfigMap configMap | ChildSecret secret
  | ChildServiceAccount serviceAccount | ChildRole role | ChildRoleBinding roleBinding
  | ChildStatefulSet statefulSet

fun objectMetaOf :: "childObject \<Rightarrow> objectMeta" where
  "objectMetaOf (ChildService x) = svc_Meta x"
| "objectMetaOf (ChildConfigMap x) = cm_Meta x"
| "objectMetaOf (ChildSecret x) = sec_Meta x"
| "objectMetaOf (ChildServiceAccount x) = sa_Meta x"
| "objectMetaOf (ChildRole x) = role_Meta x"
| "objectMetaOf (ChildRoleBinding x) = rb_Meta x"
| "objectMetaOf (ChildStatefulSet x) = sts_Meta x"

fun objectType :: "childObject \<Rightarrow> string" where
  "objectType (ChildService x) = ''*v1.Service''"
| "objectType (ChildConfigMap x) = ''*v1.ConfigMap''"
| "objectType (ChildSecret x) = ''*v1.Secret''"
| "objectType (ChildServiceAccount x) = ''*v1.ServiceAccount''"
| "objectType (ChildRole x) = ''*v1.Role''"
| "objectType (ChildRoleBinding x) = ''*v1.RoleBinding''"
| "objectType (ChildStatefulSet x) = ''*v1.StatefulSet''"

text \<open>
  What the builders use of other packages: the ini library, sources of random bytes, the order in
  which Go visits the map of ports, the two strategic merges and the version comparison.
\<close>

record 'f deps =
  d_Ini :: "'f ini"
  d_CookieRandom :: random
  d_UsernameRandom :: random
  d_PasswordRandom :: random
  d_PortOrder :: port_order
  d_ServicePatch :: "serviceSpec \<Rightarrow> serviceSpec \<Rightarrow> goerror + serviceSpec"
  d_PodPatch :: "podSpec \<Rightarrow> podSpec \<Rightarrow> goerror + podSpec"
  d_VersionCheck :: "string \<Rightarrow> bool option"

fun Build :: "'f deps \<Rightarrow> builderKind \<Rightarrow> RabbitmqResourceBuilder \<Rightarrow> goerror + childObject" where
  "Build d HeadlessServiceBuilder b = Inr (ChildService (HeadlessService_Build b))"
| "Build d ServiceBuilder b = Inr (ChildService (Service_Build b))"
| "Build d ErlangCookieBuilder b =
     bindE (ErlangCookie_Build (d_CookieRandom d) b) (\<lambda>x. Inr (ChildSecret x))"
| "Build d DefaultUserSecretBuilder b =
     bindE (DefaultUserSecret_Build (d_Ini d) (d_UsernameRandom d) (d_PasswordRandom d) b)
       (\<lambda>x. Inr (ChildSecret x))"
| "Build d RabbitmqPluginsConfigMapBuilder b = Inr (ChildConfigMap (PluginsConfigMap_Build b))"
| "Build d ServerConfigMapBuilder b = Inr (ChildConfigMap (ServerConfigMap_Build b))"
| "Build d ServiceAccountBuilder b = Inr (ChildServiceAccount (ServiceAccount_Build b))"
| "Build d RoleBuilder b = Inr (ChildRole (Role_Build b))"
| "Build d RoleBindingBuilder b = Inr (ChildRoleBinding (RoleBinding_Build b))"
| "Build d StatefulSetBuilder b = bindE (StatefulSet_Build b) (\<lambda>x. Inr (ChildStatefulSet x))"

definition UpdateMayRequireStsRecreate :: "builderKind \<Rightarrow> bool" where
  "UpdateMayRequireStsRecreate k = (k = StatefulSetBuilder)"

text \<open>The type assertion with which each builder begins.\<close>

definition asService :: "childObject \<Rightarrow> goerror + service" where
  "asService x = (case x of ChildService y \<Rightarrow> Inr y | _ \<Rightarrow> Inl (Panic ''interface conversion''))"
definition asConfigMap :: "childObject \<Rightarrow> goerror + configMap" where
  "asConfigMap x = (case x of ChildConfigMap y \<Rightarrow> Inr y | _ \<Rightarrow> Inl (Panic ''interface conversion''))"
definition asSecret :: "childObject \<Rightarrow> goerror + secret" where
  "asSecret x = (case x of ChildSecret y \<Rightarrow> Inr y | _ \<Rightarrow> Inl (Panic ''interface conversion''))"
definition asServiceAccount :: "childObject \<Rightarrow> goerror + serviceAccount" where
  "asServiceAccount x = (case x of ChildServiceAccount y \<Rightarrow> Inr y | _ \<Rightarrow> Inl (Panic ''interface conversion''))"
definition asRole :: "childObject \<Rightarrow> goerror + role" where
  "asRole x = (case x of ChildRole y \<Rightarrow> Inr y | _ \<Rightarrow> Inl (Panic ''interface conversion''))"
definition asRoleBinding :: "childObject \<Rightarrow> goerror + roleBinding" where
  "asRoleBinding x = (case x of ChildRoleBinding y \<Rightarrow> Inr y | _ \<Rightarrow> Inl (Panic ''interface conversion''))"
definition asStatefulSet :: "childObject \<Rightarrow> goerror + statefulSet" where
  "asStatefulSet x = (case x of ChildStatefulSet y \<Rightarrow> Inr y | _ \<Rightarrow> Inl (Panic ''interface conversion''))"

text \<open>
  An update returns the object, the cluster (whose override the StatefulSet builder may have
  restricted) and the flag \<open>UpdateRequiresStsRestart\<close>, which only the builder of the server
  config map has.
\<close>

fun Update ::
  "'f deps \<Rightarrow> builderKind \<Rightarrow> RabbitmqResourceBuilder \<Rightarrow> bool \<Rightarrow> childObject
     \<Rightarrow> goerror + childObject \<times> RabbitmqCluster \<times> bool" where
  "Update d HeadlessServiceBuilder b restart x =
     bindE (asService x) (\<lambda>o'. bindE (HeadlessService_Update b o')
       (\<lambda>y. Inr (ChildService y, Instance b, restart)))"
| "Update d ServiceBuilder b restart x =
     bindE (asService x) (\<lambda>o'. bindE (Service_Update (d_PortOrder d) (d_ServicePatch d) b o')
       (\<lambda>y. Inr (ChildService y, Instance b, restart)))"
| "Update d ErlangCookieBuilder b restart x =
     bindE (asSecret x) (\<lambda>o'. bindE (ErlangCookie_Update b o')
       (\<lambda>y. Inr (ChildSecret y, Instance b, restart)))"
| "Update d DefaultUserSecretBuilder b restart x =
     bindE (asSecret x) (\<lambda>o'. bindE (DefaultUserSecret_Update b o')
       (\<lambda>y. Inr (ChildSecret y, Instance b, restart)))"
| "Update d RabbitmqPluginsConfigMapBuilder b restart x =
     bindE (asConfigMap x) (\<lambda>o'. bindE (PluginsConfigMap_Update b o')
       (\<lambda>y. Inr (ChildConfigMap y, Instance b, restart)))"
| "Update d ServerConfigMapBuilder b restart x =
     bindE (asConfigMap x) (\<lambda>o'. bindE (ServerConfigMap_Update (d_Ini d) b restart o')
       (\<lambda>(y, restart'). Inr (ChildConfigMap y, Instance b, restart')))"
| "Update d ServiceAccountBuilder b restart x =
     bindE (asServiceAccount x) (\<lambda>o'. bindE (ServiceAccount_Update b o')
       (\<lambda>y. Inr (ChildServiceAccount y, Instance b, restart)))"
| "Update d RoleBuilder b restart x =
     bindE (asRole x) (\<lambda>o'. bindE (Role_Update b o')
       (\<lambda>y. Inr (ChildRole y, Instance b, restart)))"
| "Update d RoleBindingBuilder b restart x =
     bindE (asRoleBinding x) (\<lambda>o'. bindE (RoleBinding_Update b o')
       (\<lambda>y. Inr (ChildRoleBinding y, Instance b, restart)))"
| "Update d StatefulSetBuilder b restart x =
     bindE (asStatefulSet x) (\<lambda>o'. bindE (StatefulSet_Update (d_PodPatch d) b o')
       (\<lambda>(y, r'). Inr (ChildStatefulSet y, r', restart)))"

section \<open>The list is right\<close>

text \<open>
  The list of builders: the StatefulSet comes last, so everything its pods need is written
  before; the role and its binding are built exactly when the version asks for it, the secret of
  the default user exactly when neither Vault nor an external secret provides it, the other
  children always, and nothing twice.
\<close>

theorem ResourceBuilders_meaning:
  "\<exists>ks. ResourceBuilders check r = ks @ [StatefulSetBuilder] \<and> distinct (ks @ [StatefulSetBuilder]) \<and>
     set ks = {HeadlessServiceBuilder, ServiceBuilder, ErlangCookieBuilder,
         RabbitmqPluginsConfigMapBuilder, ServerConfigMapBuilder, ServiceAccountBuilder} \<union>
       (if VaultDefaultUserSecretEnabled r \<or> ExternalSecretEnabled r then {} else {DefaultUserSecretBuilder}) \<union>
       (if ShouldCreatePeerDiscoveryRBAC check r then {RoleBuilder, RoleBindingBuilder} else {})"
  by (cases "VaultDefaultUserSecretEnabled r \<or> ExternalSecretEnabled r"; cases "ShouldCreatePeerDiscoveryRBAC check r")
    (auto simp: ResourceBuilders_def Let_def)

section \<open>Every child keeps its identity\<close>

fun suffixOf :: "builderKind \<Rightarrow> string" where
  "suffixOf HeadlessServiceBuilder = headlessServiceSuffix"
| "suffixOf ServiceBuilder = ServiceSuffix"
| "suffixOf ErlangCookieBuilder = erlangCookieName"
| "suffixOf DefaultUserSecretBuilder = DefaultUserSecretName"
| "suffixOf RabbitmqPluginsConfigMapBuilder = PluginsConfigName"
| "suffixOf ServerConfigMapBuilder = ServerConfigMapName"
| "suffixOf ServiceAccountBuilder = serviceAccountName"
| "suffixOf RoleBuilder = roleName"
| "suffixOf RoleBindingBuilder = roleBindingName"
| "suffixOf StatefulSetBuilder = stsSuffix"

fun typeOf :: "builderKind \<Rightarrow> string" where
  "typeOf HeadlessServiceBuilder = ''*v1.Service''"
| "typeOf ServiceBuilder = ''*v1.Service''"
| "typeOf ErlangCookieBuilder = ''*v1.Secret''"
| "typeOf DefaultUserSecretBuilder = ''*v1.Secret''"
| "typeOf RabbitmqPluginsConfigMapBuilder = ''*v1.ConfigMap''"
| "typeOf ServerConfigMapBuilder = ''*v1.ConfigMap''"
| "typeOf ServiceAccountBuilder = ''*v1.ServiceAccount''"
| "typeOf RoleBuilder = ''*v1.Role''"
| "typeOf RoleBindingBuilder = ''*v1.RoleBinding''"
| "typeOf StatefulSetBuilder = ''*v1.StatefulSet''"

text \<open>What the type assertions let through.\<close>

lemma asserted:
  "asService x = Inr y1 \<longleftrightarrow> x = ChildService y1"
  "asConfigMap x = Inr y2 \<longleftrightarrow> x = ChildConfigMap y2"
  "asSecret x = Inr y3 \<longleftrightarrow> x = ChildSecret y3"
  "asServiceAccount x = Inr y4 \<longleftrightarrow> x = ChildServiceAccount y4"
  "asRole x = Inr y5 \<longleftrightarrow> x = ChildRole y5"
  "asRoleBinding x = Inr y6 \<longleftrightarrow> x = ChildRoleBinding y6"
  "asStatefulSet x = Inr y7 \<longleftrightarrow> x = ChildStatefulSet y7"
  by (cases x; simp add: asService_def asConfigMap_def asSecret_def asServiceAccount_def asRole_def
      asRoleBinding_def asStatefulSet_def; fail)+

text \<open>Updates, inverted.\<close>

lemma Update_Inr:
  "Update d HeadlessServiceBuilder b f x = Inr (y, r', f') \<longleftrightarrow>
     (\<exists>u v. x = ChildService u \<and> y = ChildService v \<and> HeadlessService_Update b u = Inr v \<and> r' = Instance b \<and> f' = f)"
  "Update d ServiceBuilder b f x = Inr (y, r', f') \<longleftrightarrow>
     (\<exists>u v. x = ChildService u \<and> y = ChildService v \<and> Service_Update (d_PortOrder d) (d_ServicePatch d) b u = Inr v \<and> r' = Instance b \<and> f' = f)"
  "Update d ErlangCookieBuilder b f x = Inr (y, r', f') \<longleftrightarrow>
     (\<exists>u v. x = ChildSecret u \<and> y = ChildSecret v \<and> ErlangCookie_Update b u = Inr v \<and> r' = Instance b \<and> f' = f)"
  "Update d DefaultUserSecretBuilder b f x = Inr (y, r', f') \<longleftrightarrow>
     (\<exists>u v. x = ChildSecret u \<and> y = ChildSecret v \<and> DefaultUserSecret_Update b u = Inr v \<and> r' = Instance b \<and> f' = f)"
  "Update d RabbitmqPluginsConfigMapBuilder b f x = Inr (y, r', f') \<longleftrightarrow>
     (\<exists>u v. x = ChildConfigMap u \<and> y = ChildConfigMap v \<and> PluginsConfigMap_Update b u = Inr v \<and> r' = Instance b \<and> f' = f)"
  "Update d ServerConfigMapBuilder b f x = Inr (y, r', f') \<longleftrightarrow>
     (\<exists>u v. x = ChildConfigMap u \<and> y = ChildConfigMap v \<and> ServerConfigMap_Update (d_Ini d) b f u = Inr (v, f') \<and> r' = Instance b)"
  "Update d ServiceAccountBuilder b f x = Inr (y, r', f') \<longleftrightarrow>
     (\<exists>u v. x = ChildServiceAccount u \<and> y = ChildServiceAccount v \<and> ServiceAccount_Update b u = Inr v \<and> r' = Instance b \<and> f' = f)"
  "Update d RoleBuilder b f x = Inr (y, r', f') \<longleftrightarrow>
     (\<exists>u v. x = ChildRole u \<and> y = ChildRole v \<and> Role_Update b u = Inr v \<and> r' = Instance b \<and> f' = f)"
  "Update d RoleBindingBuilder b f x = Inr (y, r', f') \<longleftrightarrow>
     (\<exists>u v. x = ChildRoleBinding u \<and> y = ChildRoleBinding v \<and> RoleBinding_Update b u = Inr v \<and> r' = Instance b \<and> f' = f)"
  "Update d StatefulSetBuilder b f x = Inr (y, r', f') \<longleftrightarrow>
     (\<exists>u v. x = ChildStatefulSet u \<and> y = ChildStatefulSet v \<and> StatefulSet_Update (d_PodPatch d) b u = Inr (v, r') \<and> f' = f)"
  by (auto simp: bindE_Inr_iff asserted)

lemma Build_type: "Build d k b = Inr x \<Longrightarrow> objectType x = typeOf k"
  by (cases k) (auto simp: bindE_Inr_iff)

lemma Update_type: "Update d k b f x = Inr (y, r', f') \<Longrightarrow> objectType y = typeOf k \<and> objectType x = typeOf k"
  by (cases k) (auto simp: Update_Inr simp del: Update.simps)

lemmas plain_identities =
  headless.built_identity [OF refl] svc.built_identity [OF refl] plugins.built_identity [OF refl]
  scm.built_identity [OF refl] sa.built_identity [OF refl] role.built_identity [OF refl]
  rb.built_identity [OF refl]

lemma Build_identity:
  "Build d k b = Inr x \<Longrightarrow> Name (objectMetaOf x) = ChildResourceName (Instance b) (suffixOf k) \<and>
     Namespace (objectMetaOf x) = cluster_Namespace (Instance b)"
  by (cases k) (auto simp: bindE_Inr_iff plain_identities
      dest: sts.built_identity cookie.built_identity [OF exI] user.built_identity [OF exI, OF exI, OF exI])

lemma Update_identity:
  assumes "reference_only b" and "Update d k b f x = Inr (y, r', f')"
  shows "Name (objectMetaOf y) = Name (objectMetaOf x) \<and> Namespace (objectMetaOf y) = Namespace (objectMetaOf x)"
  using assms(2)
  by (cases k) (auto simp: Update_Inr simp del: Update.simps
      dest: headless.updated_identity [OF assms(1)] svc.updated_identity [OF assms(1), OF exI, OF exI]
        cookie.updated_identity [OF assms(1)] user.updated_identity [OF assms(1)]
        plugins.updated_identity [OF assms(1)] scm.updated_identity [OF assms(1), OF exI, OF exI]
        sa.updated_identity [OF assms(1)] role.updated_identity [OF assms(1)]
        rb.updated_identity [OF assms(1)] sts.updated_identity [OF assms(1), OF exI, OF exI])

text \<open>All builders of the list at once satisfy the contract.\<close>

interpretation child: resource_builder objectMetaOf "suffixOf k"
  "\<lambda>b x. \<exists>d. Build (d :: 'f deps) k b = Inr x"
  "\<lambda>b x y. \<exists>d f r' f'. Update (d :: 'f deps) k b f x = Inr (y, r', f')" for k
  by unfold_locales (blast dest: Build_identity Update_identity)+

lemma ChildResourceName_suffix:
  "sfx \<noteq> [] \<Longrightarrow> last sfx \<noteq> CHR ''-'' \<Longrightarrow> ChildResourceName r sfx = cluster_Name r @ ''-'' @ sfx"
  by (auto simp: ChildResourceName_def TrimSuffix_def HasSuffix_def suffix_def)
    (metis last_ConsR last_appendR last_snoc list.discI)

lemma ChildResourceName_empty: "ChildResourceName r [] = cluster_Name r"
  by (simp add: ChildResourceName_def TrimSuffix_def HasSuffix_def suffix_def)

lemmas suffix_defs = headlessServiceSuffix_def ServiceSuffix_def erlangCookieName_def
  DefaultUserSecretName_def PluginsConfigName_def ServerConfigMapName_def serviceAccountName_def
  roleName_def roleBindingName_def stsSuffix_def

lemma child_names_distinct:
  "k1 \<noteq> k2 \<Longrightarrow> typeOf k1 = typeOf k2 \<Longrightarrow>
     ChildResourceName r (suffixOf k1) \<noteq> ChildResourceName r (suffixOf k2)"
  by (cases k1; cases k2; simp add: suffix_defs ChildResourceName_suffix ChildResourceName_empty)

text \<open>
  C10. Identity of the children: an object built by any builder and then updated any number of
  times, whatever the overrides and the other packages do, has the type, name and namespace its
  builder gives it; and no two builders of a cluster share type and name, so no child is
  overwritten by another.
\<close>

theorem children_identity:
  fixes d :: "'f deps"
  assumes "reference_only b" and "Build d k b = Inr x"
    and "(\<lambda>x y. \<exists>d f r' f'. Update (d :: 'f deps) k b f x = Inr (y, r', f'))\<^sup>*\<^sup>* x y"
  shows "objectType y = typeOf k \<and>
    Name (objectMetaOf y) = ChildResourceName (Instance b) (suffixOf k) \<and>
    Namespace (objectMetaOf y) = cluster_Namespace (Instance b) \<and>
    (\<forall>k'. k' \<noteq> k \<longrightarrow> (typeOf k', ChildResourceName (Instance b) (suffixOf k')) \<noteq>
       (objectType y, Name (objectMetaOf y)))"
proof -
  have "objectType y = typeOf k"
    using assms(3) Build_type [OF assms(2)] by (induction) (auto dest: Update_type)
  moreover have "Name (objectMetaOf y) = ChildResourceName (Instance b) (suffixOf k) \<and>
      Namespace (objectMetaOf y) = cluster_Namespace (Instance b)"
    using child.child_identity [OF assms(1) _ assms(3)] assms(2) by blast
  ultimately show ?thesis using child_names_distinct [of _ k] by auto
qed

section \<open>Every child settles\<close>

lemma Service_Update_again:
  assumes "reference_only b" "reference_idem b" "iterates order" "iterates order'"
    and o': "ov_Service (Override (Spec (Instance b))) = None"
    and "Service_Update order patch b x = Inr y"
  shows "Service_Update order' patch' b y = Inr y"
proof -
  obtain m where m: "SetControllerReference b (serviceMeta b (svc_Meta x)) = Inr m"
    and y: "y = x\<lparr>svc_Meta := m, svc_Spec := generatedServiceSpec order b (svc_Spec x)\<rparr>"
    using assms(6) by (auto simp: Service_Update_plain [OF o'])
  have "SetControllerReference b (serviceMeta b m) = Inr m"
    using serviceMeta_settled [OF assms(1) m] reference_again [OF assms(2) m] by simp
  then show ?thesis
    unfolding Service_Update_plain [OF o'] by (simp add: y generatedServiceSpec_idem [OF assms(3,4)])
qed

lemma StatefulSet_Update_again:
  assumes "reference_only b" "reference_idem b"
    and o': "ov_StatefulSet (Override (Spec (Instance b))) = None"
    and "StatefulSet_Update patch b x = Inr (y, r')"
  shows "r' = Instance b \<and> StatefulSet_Update patch' b y = Inr (y, Instance b)"
proof -
  have "r' = Instance b" and "StatefulSet_Update patch' b x = Inr (y, Instance b)"
    using assms(4) unfolding StatefulSet_Update_plain [OF o'] by blast+
  then show ?thesis using plain_sts.settled [OF assms(1,2)] o' by blast
qed

text \<open>
  C8. Updates settle: for a cluster without overrides, a second update of any child changes
  nothing, in whatever order Go visits the map of ports, leaves the cluster in memory alone and
  does not ask for a restart. \<open>CreateOrUpdate\<close>, which compares the object before and after,
  then has nothing to write.
\<close>

theorem children_settle:
  fixes d d' :: "'f deps"
  assumes "reference_only b" and "reference_idem b"
    and "iterates (d_PortOrder d)" and "iterates (d_PortOrder d')" and "d_Ini d' = d_Ini d"
    and "ov_StatefulSet (Override (Spec (Instance b))) = None"
    and "ov_Service (Override (Spec (Instance b))) = None"
    and "Update d k b restart x = Inr (y, r', restart')"
  shows "r' = Instance b \<and> Update d' k b restart2 y =
    Inr (y, Instance b, if k = ServerConfigMapBuilder then False else restart2)"
  using assms(8)
  by (cases k) (auto simp: Update_Inr assms(5) simp del: Update.simps
      dest: headless.settled [OF assms(1,2)] Service_Update_again [OF assms(1,2,3,4,7)]
        cookie.settled [OF assms(1,2)] user.settled [OF assms(1,2)] plugins.settled [OF assms(1,2)]
        ServerConfigMap_Update_again [OF assms(2)] sa.settled [OF assms(1,2)]
        role.settled [OF assms(1,2)] rb.settled [OF assms(1,2)]
        StatefulSet_Update_again [OF assms(1,2,6)])

section \<open>Examples\<close>

definition exampleDeps :: "(string \<times> string) list deps" where
  "exampleDeps = \<lparr>d_Ini = exampleIni, d_CookieRandom = (\<lambda>n. Inr (replicate n CHR ''a'')),
     d_UsernameRandom = (\<lambda>n. Inr (replicate n CHR ''b'')),
     d_PasswordRandom = (\<lambda>n. Inr (replicate n CHR ''c'')), d_PortOrder = exampleOrder,
     d_ServicePatch = (\<lambda>s o'. Inr s), d_PodPatch = (\<lambda>s o'. Inr s), d_VersionCheck = (\<lambda>_. None)\<rparr>"

lemma exampleSecret_built:
  "\<exists>sec. DefaultUserSecret_Build exampleIni (\<lambda>n. Inr (replicate n CHR ''x'')) (\<lambda>n. Inr (replicate n CHR ''y''))
     (exampleBuilder exampleTLSOnly) = Inr sec"
proof -
  have "isl (bindE (generateUsername (\<lambda>n. Inr (replicate n CHR ''x'')) 24) (\<lambda>u.
     bindE (randomEncodedString (\<lambda>n. Inr (replicate n CHR ''y'')) 24) (generateDefaultUserConf exampleIni u))) = False"
    by code_simp
  then show ?thesis
    by (auto simp: DefaultUserSecret_Build_def exampleBuilder_def exampleTLSOnly_def emptyClusterSpec_def bindE_def isl_def
        split: sum.splits)
qed

lemma exampleRole_updates:
  "\<exists>y. Update exampleDeps RoleBuilder (exampleBuilder (exampleServer 3)) True
     (ChildRole (Role_Build (exampleBuilder (exampleServer 3)))) = Inr (y, exampleServer 3, True)"
  by (simp add: asRole_def Role_Update_def SetControllerReference_def exampleBuilder_def bindE_def)

theorem children_identity_witness:
  "\<exists>y. Update exampleDeps RoleBuilder (exampleBuilder (exampleServer 3)) True
       (ChildRole (Role_Build (exampleBuilder (exampleServer 3)))) = Inr (y, exampleServer 3, True) \<and>
     objectType y = ''*v1.Role'' \<and> Name (objectMetaOf y) = ''rmq-peer-discovery''"
proof -
  let ?b = "exampleBuilder (exampleServer 3)"
  obtain y where y: "Update exampleDeps RoleBuilder ?b True (ChildRole (Role_Build ?b)) = Inr (y, exampleServer 3, True)"
    using exampleRole_updates by blast
  have "(\<lambda>x y. \<exists>d f r' f'. Update (d :: (string \<times> string) list deps) RoleBuilder ?b f x = Inr (y, r', f'))\<^sup>*\<^sup>*
      (ChildRole (Role_Build ?b)) y"
    using y by (intro r_into_rtranclp) blast
  from children_identity [OF exampleBuilder_laws(1) _ this, of exampleDeps] y
  show ?thesis
    by (auto simp: exampleBuilder_def exampleServer_def suffix_defs ChildResourceName_suffix)
qed

theorem children_settle_witness:
  "\<exists>y. Update exampleDeps RoleBuilder (exampleBuilder (exampleServer 3)) True
       (ChildRole (Role_Build (exampleBuilder (exampleServer 3)))) = Inr (y, exampleServer 3, True) \<and>
     Update exampleDeps RoleBuilder (exampleBuilder (exampleServer 3)) False y = Inr (y, exampleServer 3, False)"
proof -
  let ?b = "exampleBuilder (exampleServer 3)"
  obtain y where y: "Update exampleDeps RoleBuilder ?b True (ChildRole (Role_Build ?b)) = Inr (y, exampleServer 3, True)"
    using exampleRole_updates by blast
  have i: "iterates (d_PortOrder exampleDeps)" using exampleOrder_iterates by (simp add: exampleDeps_def)
  have o': "ov_StatefulSet (Override (Spec (Instance ?b))) = None"
    "ov_Service (Override (Spec (Instance ?b))) = None" and b: "Instance ?b = exampleServer 3"
    by (simp_all add: exampleBuilder_def exampleServer_def emptyClusterSpec_def)
  from children_settle [OF exampleBuilder_laws i i refl o' y, of False]
  have "Update exampleDeps RoleBuilder ?b False y = Inr (y, exampleServer 3, False)" by (simp del: Update.simps add: b)
  with y show ?thesis by blast
qed

end
