(* ===== verification/Effects.thy ===== *)
theory Effects
  imports Prelude "HOL-Library.State_Monad"
begin

text \<open>
  Computations with a state that may fail, in which all stateful code of the development is written:
  an error is a value, a panic is an error that no caller catches, and the state survives both.
\<close>

type_synonym ('s, 'a) effect = "('s, goerror + 'a) state"

definition returnS :: "'a \<Rightarrow> ('s, 'a) effect" where
  "returnS x = State_Monad.return (Inr x)"

definition throwS :: "goerror \<Rightarrow> ('s, 'a) effect" where
  "throwS e = State_Monad.return (Inl e)"

definition bindS :: "('s, 'a) effect \<Rightarrow> ('a \<Rightarrow> ('s, 'b) effect) \<Rightarrow> ('s, 'b) effect" where
  "bindS m f = State_Monad.bind m (\<lambda>r. case r of Inl e \<Rightarrow> throwS e | Inr x \<Rightarrow> f x)"

definition isPanic :: "goerror \<Rightarrow> bool" where
  "isPanic e = (case error_cause e of Panic m \<Rightarrow> True | _ \<Rightarrow> False)"

text \<open>The error of a call as a value, for callers that look at it; a panic is not caught.\<close>

definition tryS :: "('s, 'a) effect \<Rightarrow> ('s, goerror + 'a) effect" where
  "tryS m = State_Monad.bind m (\<lambda>r. case r of
     Inl e \<Rightarrow> if isPanic e then throwS e else returnS (Inl e)
   | Inr x \<Rightarrow> returnS (Inr x))"

definition liftS :: "goerror + 'a \<Rightarrow> ('s, 'a) effect" where
  "liftS r = State_Monad.return r"

definition checkS :: "goerror option \<Rightarrow> ('s, unit) effect" where
  "checkS e = (case e of None \<Rightarrow> returnS () | Some x \<Rightarrow> throwS x)"

fun forS :: "('a \<Rightarrow> ('s, unit) effect) \<Rightarrow> 'a list \<Rightarrow> ('s, unit) effect" where
  "forS f [] = returnS ()"
| "forS f (x # xs) = bindS (f x) (\<lambda>_. forS f xs)"

lemma run_returnS [simp]: "run_state (returnS x) s = (Inr x, s)"
  by (simp add: returnS_def)

lemma run_throwS [simp]: "run_state (throwS e) s = (Inl e, s)"
  by (simp add: throwS_def)

lemma run_liftS [simp]: "run_state (liftS r) s = (r, s)"
  by (simp add: liftS_def)

lemma run_bindS [simp]:
  "run_state (bindS m f) s =
     (case run_state m s of (Inl e, s') \<Rightarrow> (Inl e, s') | (Inr x, s') \<Rightarrow> run_state (f x) s')"
  by (auto simp: bindS_def split: prod.splits sum.splits)

lemma run_tryS [simp]:
  "run_state (tryS m) s =
     (case run_state m s of
        (Inl e, s') \<Rightarrow> (if isPanic e then Inl e else Inr (Inl e), s')
      | (Inr x, s') \<Rightarrow> (Inr (Inr x), s'))"
  by (auto simp: tryS_def split: prod.splits sum.splits)

lemma run_tryS_Inr: "run_state (tryS m) s = (Inr (Inr x), s') \<longleftrightarrow> run_state m s = (Inr x, s')"
  by (auto split: prod.splits sum.splits if_splits)

lemma run_checkS [simp]:
  "run_state (checkS e) s = (case e of None \<Rightarrow> Inr () | Some x \<Rightarrow> Inl x, s)"
  by (cases e) (simp_all add: checkS_def)

lemma isPanic_simps [simp]:
  "isPanic (StatusError r m) = False" "isPanic (Sentinel m) = False" "isPanic (PlainError m) = False"
  "isPanic (WrapError m e) = isPanic e" "isPanic (Panic m) = True"
  by (simp_all add: isPanic_def)

text \<open>\<open>calm m\<close>: the computation does not panic.\<close>

named_theorems calm_rules

definition calm :: "('s, 'a) effect \<Rightarrow> bool" where
  "calm m \<longleftrightarrow> (\<forall>s e s'. run_state m s = (Inl e, s') \<longrightarrow> \<not> isPanic e)"

lemma calm_simple [calm_rules]:
  "calm (returnS x)" "\<not> isPanic e \<Longrightarrow> calm (throwS e)" "(\<And>e. r = Inl e \<Longrightarrow> \<not> isPanic e) \<Longrightarrow> calm (liftS r)"
  by (auto simp: calm_def)

lemma calm_bindS [calm_rules]: "calm m \<Longrightarrow> (\<And>x. calm (f x)) \<Longrightarrow> calm (bindS m f)"
  unfolding calm_def by (fastforce split: prod.splits sum.splits)

lemma calm_tryS_bindS [calm_rules]:
  "calm m \<Longrightarrow> (\<And>e. \<not> isPanic e \<Longrightarrow> calm (f (Inl e))) \<Longrightarrow> (\<And>x. calm (f (Inr x))) \<Longrightarrow> calm (bindS (tryS m) f)"
  unfolding calm_def by (fastforce split: prod.splits sum.splits if_splits)

lemma calm_forS [calm_rules]: "(\<And>x. x \<in> set xs \<Longrightarrow> calm (f x)) \<Longrightarrow> calm (forS f xs)"
  by (induction xs) (auto intro!: calm_simple calm_bindS)

lemma calm_if [calm_rules]: "(c \<Longrightarrow> calm m) \<Longrightarrow> (\<not> c \<Longrightarrow> calm m') \<Longrightarrow> calm (if c then m else m')"
  by simp

lemma calm_tryS_run: "calm m \<Longrightarrow> \<exists>r s'. run_state (tryS m) s = (Inr r, s')"
  unfolding calm_def by (auto split: prod.splits sum.splits)

end
