(* ===== verification/Controller_Base.thy ===== *)
theory Controller_Base
  imports Child_Resources Effects
begin

text \<open>
  The frame of the controller: its interaction with the outside world, the monad its steps run in,
  and the operations of \<open>internal/controller/utils.go\<close> and the status helpers of
  \<open>rabbitmqcluster_controller.go\<close>.

  The outside world (the API server through the client library, the pods, the clock) is a
  parameter: for each request a function from the history of all requests so far to the answer, so
  that an answer may depend on everything that has happened. All functions have a pointer to the
  cluster object in memory, so that object is part of the state.
\<close>

section \<open>Requests\<close>

datatype request =
    GetCluster string string
  | UpdateCluster RabbitmqCluster
  | PatchStatus RabbitmqCluster RabbitmqCluster \<comment> \<open>the base of the patch and the new object\<close>
  | GetStatefulSet string string
  | UpdateStatefulSet statefulSet
  | GetConfigMap string string
  | UpdateConfigMap configMap
  | ReadSecret string string \<comment> \<open>past the cache\<close>
  | UpdateSecret secret
  | ListEndpointSlices string string \<comment> \<open>namespace and service name\<close>
  | ListPods string string \<comment> \<open>namespace and value of the name label\<close>
  | UpdatePod pod
  | DeleteRole string string
  | DeleteRoleBinding string string
  | WriteChild childObject \<comment> \<open>a create or update issued inside \<open>CreateOrUpdate\<close>\<close>
  | RemoveFinalizer string string \<comment> \<open>the \<open>CreateOrUpdate\<close> that removes the finalizer\<close>
  | RecordEvent string string string \<comment> \<open>type, reason and message\<close>
  | Exec string string string "string list" \<comment> \<open>namespace, pod, container and command\<close>
  | PodOverview string string
  | PodQuorumCheck string string
  | ServiceDeprecatedFeatures string string
  | ScalerGetStatefulSet string string
  | ScalerDeleteStatefulSet string string \<comment> \<open>orphaning the pods\<close>
  | GetClaim string string
  | UpdateClaim persistentVolumeClaim
  | ReadClock
  | Sleep int \<comment> \<open>milliseconds\<close>

type_synonym history = "request list"

datatype operationResult = ResultNone | ResultCreated | ResultUpdated

text \<open>
  The state of a reconciliation. Next to the history and the cluster it has the variables the
  closures of the loop over the builders share: the object of the current builder, the result of
  the last \<open>CreateOrUpdate\<close> and the flag \<open>UpdateRequiresStsRestart\<close> of the builder.
\<close>

record recState =
  Hist :: history
  Rmq :: RabbitmqCluster
  Obj :: "childObject option"
  OpResult :: operationResult
  StsRestart :: bool

abbreviation startState :: "RabbitmqCluster \<Rightarrow> recState" where
  "startState r \<equiv> \<lparr>Hist = [], Rmq = r, Obj = None, OpResult = ResultNone, StsRestart = True\<rparr>"

text \<open>
  Steps that may fail. A panic is an error no caller handles.
\<close>

type_synonym 'a step = "(recState, 'a) effect"

text \<open>
  The management API of a pod, through the interface \<open>RabbitmqClientFactory\<close>: getting a client and
  calling it are one request, since every caller treats the two failures alike.
\<close>

record overview =
  RabbitMQVersion :: string
  ErlangVersion :: string

record kube =
  k_GetCluster :: "history \<Rightarrow> string \<Rightarrow> string \<Rightarrow> goerror + RabbitmqCluster"
  k_UpdateCluster :: "history \<Rightarrow> RabbitmqCluster \<Rightarrow> goerror + RabbitmqCluster"
  k_PatchStatus :: "history \<Rightarrow> RabbitmqCluster \<Rightarrow> RabbitmqCluster \<Rightarrow> goerror + RabbitmqCluster"
  k_GetStatefulSet :: "history \<Rightarrow> string \<Rightarrow> string \<Rightarrow> goerror + statefulSet"
  k_UpdateStatefulSet :: "history \<Rightarrow> statefulSet \<Rightarrow> goerror option"
  k_GetConfigMap :: "history \<Rightarrow> string \<Rightarrow> string \<Rightarrow> goerror + configMap"
  k_UpdateConfigMap :: "history \<Rightarrow> configMap \<Rightarrow> goerror option"
  k_ReadSecret :: "history \<Rightarrow> string \<Rightarrow> string \<Rightarrow> goerror + secret"
  k_UpdateSecret :: "history \<Rightarrow> secret \<Rightarrow> goerror option"
  k_ListEndpointSlices :: "history \<Rightarrow> string \<Rightarrow> string \<Rightarrow> goerror + endpointSlice list"
  k_ListPods :: "history \<Rightarrow> string \<Rightarrow> string \<Rightarrow> goerror + pod list"
  k_UpdatePod :: "history \<Rightarrow> pod \<Rightarrow> goerror option"
  k_Delete :: "history \<Rightarrow> request \<Rightarrow> goerror option"
  k_RemoveFinalizer :: "history \<Rightarrow> string \<Rightarrow> string \<Rightarrow> goerror option"
  k_Exec :: "history \<Rightarrow> string \<Rightarrow> string \<Rightarrow> string \<Rightarrow> string list \<Rightarrow> goerror + string"
  k_Overview :: "history \<Rightarrow> string \<Rightarrow> goerror + overview"
  k_QuorumCheck :: "history \<Rightarrow> string \<Rightarrow> goerror + bool"

text \<open>The clientset of the scaler, the clock, and functions of other packages.\<close>

record 'f api = kube +
  k_ScalerGetStatefulSet :: "history \<Rightarrow> string \<Rightarrow> string \<Rightarrow> goerror + statefulSet"
  k_ScalerDeleteStatefulSet :: "history \<Rightarrow> string \<Rightarrow> string \<Rightarrow> goerror option"
  k_GetClaim :: "history \<Rightarrow> string \<Rightarrow> string \<Rightarrow> goerror + persistentVolumeClaim"
  k_UpdateClaim :: "history \<Rightarrow> persistentVolumeClaim \<Rightarrow> goerror option"
  k_Now :: "history \<Rightarrow> int" \<comment> \<open>milliseconds\<close>
  k_FormatTime :: "int \<Rightarrow> string" \<comment> \<open>RFC 3339\<close>
  k_ParseTime :: "string \<Rightarrow> goerror + int"
  k_Title :: "string \<Rightarrow> string"
  k_Scheme :: "RabbitmqCluster \<Rightarrow> objectMeta \<Rightarrow> goerror + objectMeta"
  k_Deps :: "history \<Rightarrow> 'f deps"
  k_OnError :: "(goerror \<Rightarrow> bool) \<Rightarrow> unit step \<Rightarrow> unit step"
  k_CreateOrUpdate ::
    "(childObject \<Rightarrow> childObject step) \<Rightarrow> childObject \<Rightarrow> (operationResult \<times> goerror option \<times> childObject) step"
  k_ContainsFinalizer :: "objectMeta \<Rightarrow> string \<Rightarrow> bool"
  k_AddFinalizer :: "objectMeta \<Rightarrow> string \<Rightarrow> objectMeta"
  k_QuorumOrder :: "history \<Rightarrow> (string \<times> string) list \<Rightarrow> (string \<times> string) list"

section \<open>Steps\<close>

definition getRmq :: "RabbitmqCluster step" where
  "getRmq = State (\<lambda>s. (Inr (Rmq s), s))"

definition setRmq :: "RabbitmqCluster \<Rightarrow> unit step" where
  "setRmq r = State (\<lambda>s. (Inr (), s\<lparr>Rmq := r\<rparr>))"

definition getObj :: "childObject step" where
  "getObj = State (\<lambda>s. (deref (Obj s), s))"

definition setObj :: "childObject \<Rightarrow> unit step" where
  "setObj x = State (\<lambda>s. (Inr (), s\<lparr>Obj := Some x\<rparr>))"

definition getOpResult :: "operationResult step" where
  "getOpResult = State (\<lambda>s. (Inr (OpResult s), s))"

definition setOpResult :: "operationResult \<Rightarrow> unit step" where
  "setOpResult x = State (\<lambda>s. (Inr (), s\<lparr>OpResult := x\<rparr>))"

definition getRestart :: "bool step" where
  "getRestart = State (\<lambda>s. (Inr (StsRestart s), s))"

definition setRestart :: "bool \<Rightarrow> unit step" where
  "setRestart x = State (\<lambda>s. (Inr (), s\<lparr>StsRestart := x\<rparr>))"

text \<open>What the builders use of other packages, at the current moment.\<close>

definition getDeps :: "'f api \<Rightarrow> 'f deps step" where
  "getDeps A = State (\<lambda>s. (Inr (k_Deps A (Hist s)), s))"

definition request :: "request \<Rightarrow> (history \<Rightarrow> 'a) \<Rightarrow> 'a step" where
  "request q answer = State (\<lambda>s. (Inr (answer (Hist s)), s\<lparr>Hist := Hist s @ [q]\<rparr>))"

text \<open>A request whose answer may be an error that ends the step.\<close>

definition requestE :: "request \<Rightarrow> (history \<Rightarrow> goerror + 'a) \<Rightarrow> 'a step" where
  "requestE q answer = bindS (request q answer) liftS"

definition requestO :: "request \<Rightarrow> (history \<Rightarrow> goerror option) \<Rightarrow> unit step" where
  "requestO q answer = bindS (request q answer) checkS"

lemma run_getRmq [simp]: "run_state getRmq s = (Inr (Rmq s), s)"
  by (simp add: getRmq_def)

lemma run_setRmq [simp]: "run_state (setRmq r) s = (Inr (), s\<lparr>Rmq := r\<rparr>)"
  by (simp add: setRmq_def)

lemma run_variables [simp]:
  "run_state getObj s = (deref (Obj s), s)"
  "run_state (setObj x) s = (Inr (), s\<lparr>Obj := Some x\<rparr>)"
  "run_state getOpResult s = (Inr (OpResult s), s)"
  "run_state (setOpResult o') s = (Inr (), s\<lparr>OpResult := o'\<rparr>)"
  "run_state getRestart s = (Inr (StsRestart s), s)"
  "run_state (setRestart b) s = (Inr (), s\<lparr>StsRestart := b\<rparr>)"
  "run_state (getDeps A) s = (Inr (k_Deps A (Hist s)), s)"
  by (simp_all add: getObj_def setObj_def getOpResult_def setOpResult_def getRestart_def setRestart_def getDeps_def)

lemma run_request [simp]: "run_state (request q f) s = (Inr (f (Hist s)), s\<lparr>Hist := Hist s @ [q]\<rparr>)"
  by (simp add: request_def)

lemma run_requestE [simp]: "run_state (requestE q f) s = (f (Hist s), s\<lparr>Hist := Hist s @ [q]\<rparr>)"
  by (simp add: requestE_def)

lemma run_requestO [simp]:
  "run_state (requestO q f) s =
     (case f (Hist s) of None \<Rightarrow> Inr () | Some x \<Rightarrow> Inl x, s\<lparr>Hist := Hist s @ [q]\<rparr>)"
  by (simp add: requestO_def)

section \<open>What a step may request\<close>

text \<open>
  \<open>emits P m\<close>: started in any state, the step only appends requests that satisfy \<open>P\<close> to the
  history. The rules are collected for proofs that run over the text of a step.
\<close>

named_theorems emits_rules

definition emits :: "(request \<Rightarrow> bool) \<Rightarrow> 'a step \<Rightarrow> bool" where
  "emits P m \<longleftrightarrow> (\<forall>s. \<exists>new. Hist (snd (run_state m s)) = Hist s @ new \<and> list_all P new)"

lemma emits_run:
  assumes "emits P m" "run_state m s = (r, s')"
  obtains new where "Hist s' = Hist s @ new" "list_all P new"
  using assms unfolding emits_def by (metis snd_conv)

lemma emits_pure [emits_rules]:
  "emits P (returnS x)" "emits P (throwS e)" "emits P (liftS r)" "emits P (checkS c)"
  "emits P getRmq" "emits P (setRmq r')" "emits P getObj" "emits P (setObj x')" "emits P getOpResult"
  "emits P (setOpResult o')" "emits P getRestart" "emits P (setRestart b)" "emits P (getDeps A)"
  by (simp_all add: emits_def)

lemma emits_request [emits_rules]:
  "P q \<Longrightarrow> emits P (request q f)" "P q \<Longrightarrow> emits P (requestE q g)" "P q \<Longrightarrow> emits P (requestO q h)"
  by (simp_all add: emits_def)

lemma emits_bindS [emits_rules]:
  assumes "emits P m" and "\<And>x. emits P (f x)"
  shows "emits P (bindS m f)"
  unfolding emits_def
proof
  fix s
  obtain r s1 where r: "run_state m s = (r, s1)" by (metis surj_pair)
  obtain n1 where n1: "Hist s1 = Hist s @ n1" "list_all P n1"
    using assms(1) r by (rule emits_run)
  show "\<exists>new. Hist (snd (run_state (bindS m f) s)) = Hist s @ new \<and> list_all P new"
  proof (cases r)
    case (Inl e)
    then show ?thesis using r n1 by simp
  next
    case (Inr x)
    obtain r2 s2 where r2: "run_state (f x) s1 = (r2, s2)" by (metis surj_pair)
    obtain n2 where "Hist s2 = Hist s1 @ n2" "list_all P n2"
      using assms(2) r2 by (rule emits_run)
    then show ?thesis using r r2 n1 Inr by (intro exI [of _ "n1 @ n2"]) simp
  qed
qed

lemma emits_tryS [emits_rules]: "emits P m \<Longrightarrow> emits P (tryS m)"
  unfolding emits_def by (auto split: prod.splits sum.splits) (metis snd_conv)+

lemma emits_forS [emits_rules]: "(\<And>x. x \<in> set xs \<Longrightarrow> emits P (f x)) \<Longrightarrow> emits P (forS f xs)"
  by (induction xs) (auto intro!: emits_rules)

lemma emits_cases [emits_rules]:
  "(c \<Longrightarrow> emits P m1) \<Longrightarrow> (\<not> c \<Longrightarrow> emits P m2) \<Longrightarrow> emits P (if c then m1 else m2)"
  "(o' = None \<Longrightarrow> emits P n1) \<Longrightarrow> (\<And>x. o' = Some x \<Longrightarrow> emits P (n2 x)) \<Longrightarrow>
     emits P (case o' of None \<Rightarrow> n1 | Some x \<Rightarrow> n2 x)"
  "(\<And>x. u = Inl x \<Longrightarrow> emits P (k1 x)) \<Longrightarrow> (\<And>x. u = Inr x \<Longrightarrow> emits P (k2 x)) \<Longrightarrow>
     emits P (case u of Inl x \<Rightarrow> k1 x | Inr x \<Rightarrow> k2 x)"
  "(\<And>x y. p = (x, y) \<Longrightarrow> emits P (l x y)) \<Longrightarrow> emits P (case p of (x, y) \<Rightarrow> l x y)"
  by (auto split: option.splits sum.splits prod.splits)

lemma emits_mono: "emits P m \<Longrightarrow> (\<And>q. P q \<Longrightarrow> Q q) \<Longrightarrow> emits Q m"
  unfolding emits_def by (metis list.pred_mono_strong)

section \<open>What a step keeps and what it establishes\<close>

text \<open>
  \<open>keeps I m\<close>: the step preserves an invariant of the state, whether it succeeds or fails.
  \<open>yields P m Q\<close>: started in a state that satisfies \<open>P\<close>, a successful run ends with \<open>Q\<close>.
\<close>

named_theorems keeps_rules

definition keeps :: "(recState \<Rightarrow> bool) \<Rightarrow> 'a step \<Rightarrow> bool" where
  "keeps I m \<longleftrightarrow> (\<forall>s. I s \<longrightarrow> I (snd (run_state m s)))"

definition yields :: "(recState \<Rightarrow> bool) \<Rightarrow> 'a step \<Rightarrow> ('a \<Rightarrow> recState \<Rightarrow> bool) \<Rightarrow> bool" where
  "yields P m Q \<longleftrightarrow> (\<forall>s x s'. P s \<longrightarrow> run_state m s = (Inr x, s') \<longrightarrow> Q x s')"

lemma keepsD: "keeps I m \<Longrightarrow> I s \<Longrightarrow> run_state m s = (r, s') \<Longrightarrow> I s'"
  unfolding keeps_def by (metis snd_conv)

lemma keeps_pure [keeps_rules]:
  "keeps I (returnS x)" "keeps I (throwS e)" "keeps I (liftS r)" "keeps I (checkS c)" "keeps I getRmq"
  "keeps I getObj" "keeps I getOpResult" "keeps I getRestart" "keeps I (getDeps A)"
  by (simp_all add: keeps_def)

lemma keeps_set [keeps_rules]:
  "(\<And>s. I s \<Longrightarrow> I (s\<lparr>Rmq := r\<rparr>)) \<Longrightarrow> keeps I (setRmq r)"
  "(\<And>s. I s \<Longrightarrow> I (s\<lparr>Obj := Some x\<rparr>)) \<Longrightarrow> keeps I (setObj x)"
  "(\<And>s. I s \<Longrightarrow> I (s\<lparr>OpResult := o'\<rparr>)) \<Longrightarrow> keeps I (setOpResult o')"
  "(\<And>s. I s \<Longrightarrow> I (s\<lparr>StsRestart := b\<rparr>)) \<Longrightarrow> keeps I (setRestart b)"
  by (simp_all add: keeps_def)

lemma keeps_request [keeps_rules]:
  "(\<And>s. I s \<Longrightarrow> I (s\<lparr>Hist := Hist s @ [q]\<rparr>)) \<Longrightarrow> keeps I (request q f)"
  "(\<And>s. I s \<Longrightarrow> I (s\<lparr>Hist := Hist s @ [q]\<rparr>)) \<Longrightarrow> keeps I (requestE q g)"
  "(\<And>s. I s \<Longrightarrow> I (s\<lparr>Hist := Hist s @ [q]\<rparr>)) \<Longrightarrow> keeps I (requestO q h)"
  by (simp_all add: keeps_def)

lemma keeps_bindS [keeps_rules]:
  assumes "keeps I m" and "\<And>x. keeps I (f x)"
  shows "keeps I (bindS m f)"
  unfolding keeps_def
proof (intro allI impI)
  fix s assume "I s"
  obtain r s1 where r: "run_state m s = (r, s1)" by (metis surj_pair)
  have "I s1" using keepsD [OF assms(1) \<open>I s\<close> r] .
  with r assms(2) show "I (snd (run_state (bindS m f) s))" by (cases r) (auto simp: keeps_def)
qed

lemma keeps_bindS_yields:
  assumes "keeps I m" and "yields I m Q" and "\<And>x s. I s \<Longrightarrow> Q x s \<Longrightarrow> I (snd (run_state (f x) s))"
  shows "keeps I (bindS m f)"
  unfolding keeps_def
proof (intro allI impI)
  fix s assume "I s"
  obtain r s1 where r: "run_state m s = (r, s1)" by (metis surj_pair)
  have "I s1" using keepsD [OF assms(1) \<open>I s\<close> r] .
  with r assms(2,3) \<open>I s\<close> show "I (snd (run_state (bindS m f) s))"
    unfolding yields_def by (cases r) auto
qed

lemma keeps_tryS [keeps_rules]: "keeps I m \<Longrightarrow> keeps I (tryS m)"
  unfolding keeps_def by (auto split: prod.splits sum.splits)

lemma keeps_forS [keeps_rules]: "(\<And>x. x \<in> set xs \<Longrightarrow> keeps I (f x)) \<Longrightarrow> keeps I (forS f xs)"
  by (induction xs) (auto intro!: keeps_rules)

lemma keeps_cases [keeps_rules]:
  "(c \<Longrightarrow> keeps I m1) \<Longrightarrow> (\<not> c \<Longrightarrow> keeps I m2) \<Longrightarrow> keeps I (if c then m1 else m2)"
  "(o' = None \<Longrightarrow> keeps I n1) \<Longrightarrow> (\<And>x. o' = Some x \<Longrightarrow> keeps I (n2 x)) \<Longrightarrow>
     keeps I (case o' of None \<Rightarrow> n1 | Some x \<Rightarrow> n2 x)"
  "(\<And>x. u = Inl x \<Longrightarrow> keeps I (k1 x)) \<Longrightarrow> (\<And>x. u = Inr x \<Longrightarrow> keeps I (k2 x)) \<Longrightarrow>
     keeps I (case u of Inl x \<Rightarrow> k1 x | Inr x \<Rightarrow> k2 x)"
  "(\<And>x y. p = (x, y) \<Longrightarrow> keeps I (l x y)) \<Longrightarrow> keeps I (case p of (x, y) \<Rightarrow> l x y)"
  by (auto split: option.splits sum.splits prod.splits)

text \<open>A step that reads the cluster may use what the invariant says of it.\<close>

lemma keeps_getRmq:
  assumes "\<And>r s. I s \<Longrightarrow> Rmq s = r \<Longrightarrow> I (snd (run_state (f r) s))"
  shows "keeps I (bindS getRmq f)"
  using assms by (simp add: keeps_def)

lemma emits_keeps:
  assumes "emits P m" and "\<And>h new. I h \<Longrightarrow> list_all P new \<Longrightarrow> I (h @ new)"
  shows "keeps (\<lambda>s. I (Hist s)) m"
  unfolding keeps_def
proof (intro allI impI)
  fix s :: recState
  assume s: "I (Hist s)"
  obtain r s1 where r: "run_state m s = (r, s1)" by (metis surj_pair)
  obtain new where new: "Hist s1 = Hist s @ new" "list_all P new" using assms(1) r by (rule emits_run)
  then show "I (Hist (snd (run_state m s)))" using assms(2) [OF s new(2)] r by simp
qed

text \<open>\<open>costs n m\<close>: the step makes at most \<open>n\<close> requests.\<close>

named_theorems costs_rules

definition costs :: "nat \<Rightarrow> 'a step \<Rightarrow> bool" where
  "costs n m \<longleftrightarrow> (\<forall>s. length (Hist (snd (run_state m s))) \<le> length (Hist s) + n)"

lemma costs_mono: "costs n m \<Longrightarrow> n \<le> k \<Longrightarrow> costs k m"
  unfolding costs_def by (meson add_left_mono le_trans)

lemma costs_pure [costs_rules]:
  "costs n (returnS x)" "costs n (throwS e)" "costs n (liftS r)" "costs n (checkS c)" "costs n getRmq"
  "costs n (setRmq r')" "costs n getObj" "costs n (setObj x')" "costs n getOpResult"
  "costs n (setOpResult o')" "costs n getRestart" "costs n (setRestart b)" "costs n (getDeps A)"
  by (simp_all add: costs_def)

lemma costs_request [costs_rules]:
  "1 \<le> n \<Longrightarrow> costs n (request q f)" "1 \<le> n \<Longrightarrow> costs n (requestE q g)" "1 \<le> n \<Longrightarrow> costs n (requestO q h)"
  by (simp_all add: costs_def)

lemma costs_bindS_yields:
  assumes "costs n m" and "yields (\<lambda>_. True) m (\<lambda>x _. Q x)" and "\<And>x. Q x \<Longrightarrow> costs k (f x)"
  shows "costs (n + k) (bindS m f)"
  unfolding costs_def
proof
  fix s
  obtain r s1 where r: "run_state m s = (r, s1)" by (metis surj_pair)
  have l: "length (Hist s1) \<le> length (Hist s) + n" using assms(1) r unfolding costs_def by (metis snd_conv)
  show "length (Hist (snd (run_state (bindS m f) s))) \<le> length (Hist s) + (n + k)"
  proof (cases r)
    case (Inl e)
    then show ?thesis using r l by simp
  next
    case (Inr x)
    then have "Q x" using assms(2) r unfolding yields_def by blast
    then have "length (Hist (snd (run_state (f x) s1))) \<le> length (Hist s1) + k"
      using assms(3) unfolding costs_def by blast
    then show ?thesis using r Inr l by simp
  qed
qed

lemma costs_bindS:
  assumes "costs n m" and "\<And>x. costs k (f x)"
  shows "costs (n + k) (bindS m f)"
  by (rule costs_bindS_yields [OF assms(1), of "\<lambda>_. True"]) (simp_all add: yields_def assms(2))

lemma costs_tryS [costs_rules]: "costs n m \<Longrightarrow> costs n (tryS m)"
  unfolding costs_def by (auto split: prod.splits sum.splits) (metis snd_conv)+

lemma costs_forS: "(\<And>x. costs n (f x)) \<Longrightarrow> costs (n * length xs) (forS f xs)"
proof (induction xs)
  case (Cons x xs)
  then show ?case using costs_bindS [of n "f x" "n * length xs" "\<lambda>_. forS f xs"] by simp
qed (simp add: costs_rules)

lemma costs_cases [costs_rules]:
  "(c \<Longrightarrow> costs n m1) \<Longrightarrow> (\<not> c \<Longrightarrow> costs n m2) \<Longrightarrow> costs n (if c then m1 else m2)"
  "(o' = None \<Longrightarrow> costs n n1) \<Longrightarrow> (\<And>x. o' = Some x \<Longrightarrow> costs n (n2 x)) \<Longrightarrow>
     costs n (case o' of None \<Rightarrow> n1 | Some x \<Rightarrow> n2 x)"
  "(\<And>x. u = Inl x \<Longrightarrow> costs n (k1 x)) \<Longrightarrow> (\<And>x. u = Inr x \<Longrightarrow> costs n (k2 x)) \<Longrightarrow>
     costs n (case u of Inl x \<Rightarrow> k1 x | Inr x \<Rightarrow> k2 x)"
  by (auto split: option.splits sum.splits)

text \<open>Steps that do not panic.\<close>

lemma calm_variables [calm_rules]: "calm getRmq" "calm (setRmq r')" "calm (request q f)"
  by (auto simp: calm_def)

lemmas calm_pure = calm_simple calm_variables

lemma calm_request [calm_rules]:
  "(\<And>h e. g h = Inl e \<Longrightarrow> \<not> isPanic e) \<Longrightarrow> calm (requestE q g)"
  "(\<And>h e. k h = Some e \<Longrightarrow> \<not> isPanic e) \<Longrightarrow> calm (requestO q k)"
  by (auto simp: calm_def split: option.splits)

lemma calm_requestE_bindS:
  "(\<And>h e. g h = Inl e \<Longrightarrow> \<not> isPanic e) \<Longrightarrow> (\<And>h x. g h = Inr x \<Longrightarrow> calm (f x)) \<Longrightarrow> calm (bindS (requestE q g) f)"
  unfolding calm_def by (auto split: sum.splits)

section \<open>The operations of \<open>utils.go\<close>\<close>

definition exec :: "'f api \<Rightarrow> string \<Rightarrow> string \<Rightarrow> string list \<Rightarrow> string step" where
  "exec A podName containerName command =
     bindS getRmq (\<lambda>r. requestE (Exec (cluster_Namespace r) podName containerName command)
       (\<lambda>h. k_Exec A h (cluster_Namespace r) podName containerName command))"

definition getSts :: "'f api \<Rightarrow> statefulSet step" where
  "getSts A =
     bindS getRmq (\<lambda>rmq. let name = ChildResourceName rmq ''server'' in
       requestE (GetStatefulSet (cluster_Namespace rmq) name)
         (\<lambda>h. k_GetStatefulSet A h (cluster_Namespace rmq) name))"

definition getConfigMap :: "'f api \<Rightarrow> string \<Rightarrow> configMap step" where
  "getConfigMap A name =
     bindS getRmq (\<lambda>rmq. requestE (GetConfigMap (cluster_Namespace rmq) name)
       (\<lambda>h. k_GetConfigMap A h (cluster_Namespace rmq) name))"

definition recordEvent :: "string \<Rightarrow> string \<Rightarrow> string \<Rightarrow> unit step" where
  "recordEvent eventType reason msg = request (RecordEvent eventType reason msg) (\<lambda>h. ())"

definition updateRmq :: "'f api \<Rightarrow> unit step" where
  "updateRmq A =
     bindS getRmq (\<lambda>r.
     bindS (requestE (UpdateCluster r) (\<lambda>h. k_UpdateCluster A h r)) setRmq)"

definition readClock :: "'f api \<Rightarrow> int step" where
  "readClock A = request ReadClock (k_Now A)"

definition errorIsConflictOrNotFound :: "goerror \<Rightarrow> bool" where
  "errorIsConflictOrNotFound err = (IsConflict err \<or> IsNotFound err)"

text \<open>Setting and deleting an annotation in the metadata of an object.\<close>

definition withAnnotation :: "string \<Rightarrow> string \<Rightarrow> objectMeta \<Rightarrow> objectMeta" where
  "withAnnotation key value m =
     m\<lparr>Annotations := Some ((case Annotations m of None \<Rightarrow> Map.empty | Some a \<Rightarrow> a)(key \<mapsto> value))\<rparr>"

definition withoutAnnotation :: "string \<Rightarrow> objectMeta \<Rightarrow> objectMeta" where
  "withoutAnnotation key m = m\<lparr>Annotations := map_option (\<lambda>a. a(key := None)) (Annotations m)\<rparr>"

text \<open>
  \<open>deleteAnnotation\<close> and \<open>updateAnnotation\<close> work on any object; the code calls them on the
  cluster, a StatefulSet and a config map. Without annotations there is nothing to delete.
\<close>

definition deleteAnnotationCluster :: "'f api \<Rightarrow> string \<Rightarrow> unit step" where
  "deleteAnnotationCluster A key =
     bindS getRmq (\<lambda>r. if Annotations (Meta r) = None then returnS ()
       else bindS (setRmq (r\<lparr>Meta := withoutAnnotation key (Meta r)\<rparr>)) (\<lambda>_. updateRmq A))"

definition deleteAnnotationSts :: "'f api \<Rightarrow> statefulSet \<Rightarrow> string \<Rightarrow> unit step" where
  "deleteAnnotationSts A sts key =
     (if Annotations (sts_Meta sts) = None then returnS ()
      else let sts' = sts\<lparr>sts_Meta := withoutAnnotation key (sts_Meta sts)\<rparr>
           in requestO (UpdateStatefulSet sts') (\<lambda>h. k_UpdateStatefulSet A h sts'))"

definition deleteAnnotationCm :: "'f api \<Rightarrow> configMap \<Rightarrow> string \<Rightarrow> unit step" where
  "deleteAnnotationCm A cm key =
     (if Annotations (cm_Meta cm) = None then returnS ()
      else let cm' = cm\<lparr>cm_Meta := withoutAnnotation key (cm_Meta cm)\<rparr>
           in requestO (UpdateConfigMap cm') (\<lambda>h. k_UpdateConfigMap A h cm'))"

definition updateAnnotationCluster :: "'f api \<Rightarrow> string \<Rightarrow> string \<Rightarrow> string \<Rightarrow> string \<Rightarrow> unit step" where
  "updateAnnotationCluster A namespace objName key value =
     k_OnError A errorIsConflictOrNotFound
       (bindS (requestE (GetCluster namespace objName) (\<lambda>h. k_GetCluster A h namespace objName)) (\<lambda>r.
        bindS (setRmq (r\<lparr>Meta := withAnnotation key value (Meta r)\<rparr>)) (\<lambda>_. updateRmq A)))"

definition updateAnnotationSts :: "'f api \<Rightarrow> string \<Rightarrow> string \<Rightarrow> string \<Rightarrow> string \<Rightarrow> unit step" where
  "updateAnnotationSts A namespace objName key value =
     k_OnError A errorIsConflictOrNotFound
       (bindS (requestE (GetStatefulSet namespace objName) (\<lambda>h. k_GetStatefulSet A h namespace objName)) (\<lambda>sts.
        let sts' = sts\<lparr>sts_Meta := withAnnotation key value (sts_Meta sts)\<rparr>
        in requestO (UpdateStatefulSet sts') (\<lambda>h. k_UpdateStatefulSet A h sts')))"

definition updateAnnotationCm :: "'f api \<Rightarrow> string \<Rightarrow> string \<Rightarrow> string \<Rightarrow> string \<Rightarrow> unit step" where
  "updateAnnotationCm A namespace objName key value =
     k_OnError A errorIsConflictOrNotFound
       (bindS (requestE (GetConfigMap namespace objName) (\<lambda>h. k_GetConfigMap A h namespace objName)) (\<lambda>cm.
        let cm' = cm\<lparr>cm_Meta := withAnnotation key value (cm_Meta cm)\<rparr>
        in requestO (UpdateConfigMap cm') (\<lambda>h. k_UpdateConfigMap A h cm')))"

section \<open>Writing the status\<close>

text \<open>
  \<open>r.Status().Patch\<close> with the copy \<open>base\<close> of the cluster made before the change; a success
  refreshes the object in memory.
\<close>

definition patchStatus :: "'f api \<Rightarrow> RabbitmqCluster \<Rightarrow> unit step" where
  "patchStatus A base =
     bindS getRmq (\<lambda>r.
     bindS (requestE (PatchStatus base r) (\<lambda>h. k_PatchStatus A h base r)) setRmq)"

definition setCondition ::
  "'f api \<Rightarrow> string \<Rightarrow> conditionStatus \<Rightarrow> string \<Rightarrow> string list \<Rightarrow> unit step" where
  "setCondition A condType st reason messages =
     bindS (readClock A) (\<lambda>now.
     bindS getRmq (\<lambda>r. setRmq (r\<lparr>ClusterStatus := SetCondition now condType st reason messages (ClusterStatus r)\<rparr>)))"

text \<open>An error of the write is only logged.\<close>

definition setReconcileSuccess ::
  "'f api \<Rightarrow> conditionStatus \<Rightarrow> string \<Rightarrow> string \<Rightarrow> unit step" where
  "setReconcileSuccess A condition reason msg =
     bindS getRmq (\<lambda>base.
     bindS (setCondition A ReconcileSuccess condition reason [msg]) (\<lambda>_.
     bindS getRmq (\<lambda>r.
     bindS (if condition = ConditionTrue
            then setRmq (r\<lparr>ClusterStatus := (ClusterStatus r)\<lparr>ObservedGeneration := Generation (Meta r)\<rparr>\<rparr>)
            else returnS ()) (\<lambda>_.
     bindS (tryS (patchStatus A base)) (\<lambda>_. returnS ())))))"

section \<open>What the libraries promise\<close>

text \<open>
  \<open>retry.OnError\<close> and \<open>retry.RetryOnConflict\<close> of client-go run the function once or more; each run
  but the last has failed with an error that the predicate accepts, and the outcome is that of
  the last run.
\<close>

inductive attempts :: "(goerror \<Rightarrow> bool) \<Rightarrow> unit step \<Rightarrow> recState \<Rightarrow> (goerror + unit) \<times> recState \<Rightarrow> bool"
  for p f where
  last_attempt: "attempts p f s (run_state f s)"
| next_attempt: "run_state f s = (Inl e, s1) \<Longrightarrow> p e \<Longrightarrow> attempts p f s1 r \<Longrightarrow> attempts p f s r"

definition retry_law :: "'f api \<Rightarrow> bool" where
  "retry_law A \<longleftrightarrow> (\<forall>p f s. attempts p f s (run_state (k_OnError A p f) s))"

lemma attempts_emits:
  assumes "emits P f" and "attempts p f s r"
  shows "\<exists>new. Hist (snd r) = Hist s @ new \<and> list_all P new"
  using assms(2)
proof (induction)
  case (last_attempt s)
  then show ?case using assms(1) unfolding emits_def by blast
next
  case (next_attempt s e s1 r)
  obtain n1 where n1: "Hist s1 = Hist s @ n1" "list_all P n1"
    using assms(1) next_attempt.hyps(1) by (rule emits_run)
  from next_attempt.IH obtain n2 where n2: "Hist (snd r) = Hist s1 @ n2" "list_all P n2" by blast
  have "Hist (snd r) = Hist s @ (n1 @ n2) \<and> list_all P (n1 @ n2)" using n1 n2 by simp
  then show ?case by blast
qed

lemma emits_OnError: "retry_law A \<Longrightarrow> emits P f \<Longrightarrow> emits P (k_OnError A p f)"
  using attempts_emits unfolding emits_def retry_law_def by blast

lemma keeps_OnError:
  assumes "retry_law A" and "keeps I f"
  shows "keeps I (k_OnError A p f)"
proof -
  have "I s \<longrightarrow> I (snd r)" if "attempts p f s r" for s r
    using that by induction (use assms(2) keepsD in \<open>auto simp: keeps_def\<close>)
  then show ?thesis using assms(1) unfolding keeps_def retry_law_def by blast
qed

lemma OnError_success:
  assumes "retry_law A" and "run_state (k_OnError A p f) s = (Inr (), s')"
  obtains s1 where "run_state f s1 = (Inr (), s')"
proof -
  have "attempts p f s (Inr (), s')" using assms unfolding retry_law_def by metis
  then have "\<exists>s1. run_state f s1 = (Inr (), s')"
    by (induction s "(Inr () :: goerror + unit, s')" rule: attempts.induct) auto
  then show thesis using that by blast
qed

lemma calm_OnError:
  assumes "retry_law A" and "calm f"
  shows "calm (k_OnError A p f)"
proof -
  have "\<not> isPanic e" if "attempts p f s (Inl e, s')" for s e s'
    using that by (induction s "(Inl e :: goerror + unit, s')" rule: attempts.induct)
      (use assms(2) in \<open>auto simp: calm_def\<close>)
  then show ?thesis using assms(1) unfolding calm_def retry_law_def by metis
qed

text \<open>
  \<open>controllerutil.CreateOrUpdate\<close> of controller-runtime runs the callback at most once, on the given
  object or on the one the server has under the same type, name and namespace. If that fails it
  returns the error; otherwise it writes the object the callback has produced, or nothing if that
  is the object the callback was given. The object in memory then is what the server answers for
  it. Reads it makes itself are not recorded.
\<close>

definition sameIdentity :: "childObject \<Rightarrow> childObject \<Rightarrow> bool" where
  "sameIdentity x y \<longleftrightarrow> objectType x = objectType y \<and>
     Name (objectMetaOf x) = Name (objectMetaOf y) \<and> Namespace (objectMetaOf x) = Namespace (objectMetaOf y)"

definition couOutcome ::
  "(childObject \<Rightarrow> childObject step) \<Rightarrow> childObject \<Rightarrow> recState
     \<Rightarrow> (goerror + operationResult \<times> goerror option \<times> childObject) \<times> recState \<Rightarrow> bool" where
  "couOutcome f x s out \<longleftrightarrow>
     (\<exists>e. out = (Inr (ResultNone, Some e, x), s)) \<or>
     (\<exists>x'. sameIdentity x' x \<and>
        (case run_state (f x') s of
           (Inl e, s2) \<Rightarrow> out = (if isPanic e then Inl e else Inr (ResultNone, Some e, x'), s2)
         | (Inr y, s2) \<Rightarrow>
             out = (Inr (ResultNone, None, y), s2) \<and> y = x' \<or>
             (\<exists>op err z. out = (Inr (op, err, z), s2\<lparr>Hist := Hist s2 @ [WriteChild y]\<rparr>) \<and>
                sameIdentity z y \<and> (op = ResultNone \<longleftrightarrow> err \<noteq> None))))"

definition cou_law :: "'f api \<Rightarrow> bool" where
  "cou_law A \<longleftrightarrow> (\<forall>f x s. couOutcome f x s (run_state (k_CreateOrUpdate A f x) s))"

lemma couOutcome_state:
  assumes "couOutcome f x s out"
  shows "snd out = s \<or> (\<exists>x' c s2. run_state (f x') s = (c, s2) \<and> sameIdentity x' x \<and>
    (snd out = s2 \<or> (\<exists>y. c = Inr y \<and> snd out = s2\<lparr>Hist := Hist s2 @ [WriteChild y]\<rparr>)))"
  using assms unfolding couOutcome_def
proof (elim disjE exE conjE)
  fix x'
  assume i: "sameIdentity x' x" and o': "case run_state (f x') s of
      (Inl e, s2) \<Rightarrow> out = (if isPanic e then Inl e else Inr (ResultNone, Some e, x'), s2)
    | (Inr y, s2) \<Rightarrow> out = (Inr (ResultNone, None, y), s2) \<and> y = x' \<or>
        (\<exists>op err z. out = (Inr (op, err, z), s2\<lparr>Hist := Hist s2 @ [WriteChild y]\<rparr>) \<and>
           sameIdentity z y \<and> (op = ResultNone \<longleftrightarrow> err \<noteq> None))"
  obtain c s2 where r: "run_state (f x') s = (c, s2)" by (metis surj_pair)
  then have "snd out = s2 \<or> (\<exists>y. c = Inr y \<and> snd out = s2\<lparr>Hist := Hist s2 @ [WriteChild y]\<rparr>)"
    using o' by (cases c) auto
  with i r show ?thesis by blast
qed simp

lemma emits_CreateOrUpdate:
  assumes "cou_law A" and "\<And>x. emits P (f x)" and "\<And>x s y s'. run_state (f x) s = (Inr y, s') \<Longrightarrow> P (WriteChild y)"
  shows "emits P (k_CreateOrUpdate A f x)"
  unfolding emits_def
proof
  fix s
  let ?out = "run_state (k_CreateOrUpdate A f x) s"
  have "couOutcome f x s ?out" using assms(1) unfolding cou_law_def by blast
  from couOutcome_state [OF this] consider "snd ?out = s"
    | x' c s2 where "run_state (f x') s = (c, s2)" "snd ?out = s2"
    | x' c s2 y where "run_state (f x') s = (c, s2)" "snd ?out = s2\<lparr>Hist := Hist s2 @ [WriteChild y]\<rparr>" "c = Inr y"
    by blast
  then show "\<exists>new. Hist (snd ?out) = Hist s @ new \<and> list_all P new"
  proof cases
    case 1
    then show ?thesis by simp
  next
    case (2 x' c s2)
    then show ?thesis using emits_run [OF assms(2) 2(1)] by metis
  next
    case (3 x' c s2 y)
    obtain n where "Hist s2 = Hist s @ n" "list_all P n" using emits_run [OF assms(2) 3(1)] by metis
    moreover have "P (WriteChild y)" using assms(3) 3(1,3) by blast
    ultimately show ?thesis using 3(2) by (intro exI [of _ "n @ [WriteChild y]"]) simp
  qed
qed


section \<open>A server for examples\<close>

text \<open>
  A server on which nothing exists but the given cluster, writes succeed and functions run at once.
\<close>

definition exampleApi :: "RabbitmqCluster \<Rightarrow> (string \<times> string) list api" where
  "exampleApi r = \<lparr>
     k_GetCluster = (\<lambda>h ns n. Inr r), k_UpdateCluster = (\<lambda>h c. Inr c), k_PatchStatus = (\<lambda>h b c. Inr c),
     k_GetStatefulSet = (\<lambda>h ns n. Inl (StatusError NotFound [])), k_UpdateStatefulSet = (\<lambda>h x. None),
     k_GetConfigMap = (\<lambda>h ns n. Inl (StatusError NotFound [])), k_UpdateConfigMap = (\<lambda>h x. None),
     k_ReadSecret = (\<lambda>h ns n. Inl (StatusError NotFound [])), k_UpdateSecret = (\<lambda>h x. None),
     k_ListEndpointSlices = (\<lambda>h ns n. Inr []), k_ListPods = (\<lambda>h ns n. Inr []), k_UpdatePod = (\<lambda>h x. None),
     k_Delete = (\<lambda>h q. None), k_RemoveFinalizer = (\<lambda>h ns n. None), k_Exec = (\<lambda>h ns p c cmd. Inr []),
     k_Overview = (\<lambda>h p. Inr \<lparr>RabbitMQVersion = ''4.1.0'', ErlangVersion = ''27''\<rparr>), k_QuorumCheck = (\<lambda>h p. Inr True),
     k_ScalerGetStatefulSet = (\<lambda>h ns n. Inl (StatusError NotFound [])), k_ScalerDeleteStatefulSet = (\<lambda>h ns n. None),
     k_GetClaim = (\<lambda>h ns n. Inl (StatusError NotFound [])), k_UpdateClaim = (\<lambda>h x. None),
     k_Now = (\<lambda>h. 1000 * int (length h)), k_FormatTime = (\<lambda>t. Itoa t), k_ParseTime = (\<lambda>s. Inr 0),
     k_Title = (\<lambda>s. s), k_Scheme = Scheme (exampleBuilder r), k_Deps = (\<lambda>h. exampleDeps),
     k_OnError = (\<lambda>p f. f),
     k_CreateOrUpdate = (\<lambda>f x. bindS (tryS (f x)) (\<lambda>u. case u of
        Inl e \<Rightarrow> returnS (ResultNone, Some e, x)
      | Inr y \<Rightarrow> bindS (request (WriteChild y) (\<lambda>h. ())) (\<lambda>_. returnS (ResultUpdated, None, y)))),
     k_ContainsFinalizer = (\<lambda>m f. f \<in> set (Finalizers m)),
     k_AddFinalizer = (\<lambda>m f. if f \<in> set (Finalizers m) then m else m\<lparr>Finalizers := Finalizers m @ [f]\<rparr>),
     k_QuorumOrder = (\<lambda>h xs. xs)\<rparr>"

lemma exampleApi_laws:
  "k_OnError A = (\<lambda>p f. f) \<Longrightarrow> retry_law A"
  "k_CreateOrUpdate A = k_CreateOrUpdate (exampleApi r) \<Longrightarrow> cou_law A"
proof -
  show "k_OnError A = (\<lambda>p f. f) \<Longrightarrow> retry_law A" by (auto simp: retry_law_def intro: last_attempt)
  assume c: "k_CreateOrUpdate A = k_CreateOrUpdate (exampleApi r)"
  show "cou_law A"
    unfolding cou_law_def
  proof (intro allI)
    fix f x s
    show "couOutcome f x s (run_state (k_CreateOrUpdate A f x) s)"
      unfolding couOutcome_def c
      by (rule disjI2, rule exI [of _ x])
        (auto simp: exampleApi_def sameIdentity_def split: prod.splits sum.splits)
  qed
qed

end
