(* ===== verification/Scaling.thy ===== *)
theory Scaling
  imports Controller_Base
begin

text \<open>
  \<open>internal/scaling/scaling.go\<close>: expanding the volumes of a cluster. A StatefulSet does not let its
  claim templates change, so it is deleted without its pods and the claims are resized one by one.
\<close>

section \<open>The scaler\<close>

fun templateCapacity :: "persistentVolumeClaim list \<Rightarrow> quantity" where
  "templateCapacity [] = 0"
| "templateCapacity (t # ts) =
     (if Name (pvc_Meta t) = ''persistence'' then rget (pvc_Requests (pvc_Spec t)) ''storage''
      else templateCapacity ts)"

definition scalerGetSts :: "'f api \<Rightarrow> RabbitmqCluster \<Rightarrow> statefulSet step" where
  "scalerGetSts A rmq =
     (let name = ChildResourceName rmq ''server''
      in requestE (ScalerGetStatefulSet (cluster_Namespace rmq) name)
           (\<lambda>h. k_ScalerGetStatefulSet A h (cluster_Namespace rmq) name))"

definition existingCapacity :: "'f api \<Rightarrow> RabbitmqCluster \<Rightarrow> quantity step" where
  "existingCapacity A rmq =
     bindS (scalerGetSts A rmq) (\<lambda>sts. returnS (templateCapacity (sts_VolumeClaimTemplates sts)))"

text \<open>The loop over the indices of the pods; a claim that does not exist is passed over.\<close>

fun getClaims :: "'f api \<Rightarrow> RabbitmqCluster \<Rightarrow> int list \<Rightarrow> persistentVolumeClaim list \<Rightarrow> persistentVolumeClaim list step" where
  "getClaims A rmq [] pvcs = returnS pvcs"
| "getClaims A rmq (i # is) pvcs =
     bindS (tryS (requestE (GetClaim (cluster_Namespace rmq) (PVCName rmq i))
       (\<lambda>h. k_GetClaim A h (cluster_Namespace rmq) (PVCName rmq i)))) (\<lambda>r.
     case r of
       Inr pvc \<Rightarrow> getClaims A rmq is (pvcs @ [pvc])
     | Inl err \<Rightarrow> if IsNotFound err then getClaims A rmq is pvcs
                  else throwS (WrapError ''failed to get PVC from Kubernetes API'' err))"

definition getClusterPVCs :: "'f api \<Rightarrow> RabbitmqCluster \<Rightarrow> persistentVolumeClaim list step" where
  "getClusterPVCs A rmq = getClaims A rmq (map int [0..<nat (ptr_Deref (Replicas (Spec rmq)) 1)]) []"

definition pvcsNeedingScaling :: "persistentVolumeClaim list \<Rightarrow> quantity \<Rightarrow> persistentVolumeClaim list" where
  "pvcsNeedingScaling existingPVCs desiredCapacity =
     filter (\<lambda>pvc. quantity_Cmp (rget (pvc_Requests (pvc_Spec pvc)) ''storage'') desiredCapacity = -1) existingPVCs"

fun retryWithInterval :: "string \<Rightarrow> nat \<Rightarrow> nat \<Rightarrow> int \<Rightarrow> bool step \<Rightarrow> unit step" where
  "retryWithInterval msg retry 0 interval f =
     throwS (PlainError (''failed to '' @ msg @ '' after '' @ Itoa (int retry) @ '' retries''))"
| "retryWithInterval msg retry (Suc left) interval f =
     bindS f (\<lambda>ok. if ok then returnS ()
       else bindS (request (Sleep interval) (\<lambda>h. ())) (\<lambda>_. retryWithInterval msg retry left interval f))"

definition stsGone :: "'f api \<Rightarrow> RabbitmqCluster \<Rightarrow> bool step" where
  "stsGone A rmq =
     bindS (tryS (scalerGetSts A rmq)) (\<lambda>r. returnS (case r of Inl e \<Rightarrow> IsNotFound e | Inr _ \<Rightarrow> False))"

definition deleteSts :: "'f api \<Rightarrow> RabbitmqCluster \<Rightarrow> unit step" where
  "deleteSts A rmq =
     bindS (tryS (scalerGetSts A rmq)) (\<lambda>r.
     case r of
       Inl err \<Rightarrow> if IsNotFound err then returnS ()
                  else throwS (WrapError ''failed to get statefulset from Kubernetes API'' err)
     | Inr sts \<Rightarrow>
         bindS (tryS (requestO (ScalerDeleteStatefulSet (Namespace (sts_Meta sts)) (Name (sts_Meta sts)))
           (\<lambda>h. k_ScalerDeleteStatefulSet A h (Namespace (sts_Meta sts)) (Name (sts_Meta sts))))) (\<lambda>d.
         case d of
           Inl err \<Rightarrow> throwS (WrapError (''failed to delete statefulSet '' @ Name (sts_Meta sts)) err)
         | Inr _ \<Rightarrow>
             bindS (tryS (retryWithInterval ''delete statefulSet'' 10 10 3000 (stsGone A rmq))) (\<lambda>g.
             case g of
               Inl err \<Rightarrow> throwS (WrapError (''statefulSet not deleting after 30 seconds '' @ Name (sts_Meta sts)) err)
             | Inr _ \<Rightarrow> returnS ())))"

definition withCapacity :: "quantity \<Rightarrow> persistentVolumeClaim \<Rightarrow> goerror + persistentVolumeClaim" where
  "withCapacity q pvc =
     (case pvc_Requests (pvc_Spec pvc) of
        None \<Rightarrow> Inl (Panic ''assignment to entry in nil map'')
      | Some m \<Rightarrow> Inr (pvc\<lparr>pvc_Spec := (pvc_Spec pvc)\<lparr>pvc_Requests := Some (m(''storage'' \<mapsto> q))\<rparr>\<rparr>))"

definition scaleUpPVC :: "'f api \<Rightarrow> quantity \<Rightarrow> persistentVolumeClaim \<Rightarrow> unit step" where
  "scaleUpPVC A desiredCapacity pvc =
     bindS (tryS (requestE (GetClaim (Namespace (pvc_Meta pvc)) (Name (pvc_Meta pvc)))
       (\<lambda>h. k_GetClaim A h (Namespace (pvc_Meta pvc)) (Name (pvc_Meta pvc))))) (\<lambda>r.
     case r of
       Inl err \<Rightarrow> throwS (WrapError ''failed to get PVC from Kubernetes API'' err)
     | Inr latest \<Rightarrow>
         bindS (liftS (withCapacity desiredCapacity latest)) (\<lambda>pvc'.
         bindS (tryS (requestO (UpdateClaim pvc') (\<lambda>h. k_UpdateClaim A h pvc'))) (\<lambda>u.
         case u of
           Inl err \<Rightarrow> throwS (WrapError (''failed to update PersistentVolumeClaim '' @ Name (pvc_Meta pvc')) err)
         | Inr _ \<Rightarrow> returnS ())))"

definition scaleUpPVCs :: "'f api \<Rightarrow> persistentVolumeClaim list \<Rightarrow> quantity \<Rightarrow> unit step" where
  "scaleUpPVCs A pvcs desiredCapacity = forS (scaleUpPVC A desiredCapacity) pvcs"

definition scalingRefused :: "quantity \<Rightarrow> quantity \<Rightarrow> goerror option" where
  "scalingRefused existing desired =
     (if quantity_Cmp existing 0 = 0 \<and> quantity_Cmp desired 0 \<noteq> 0
      then Some (PlainError ''changing from ephemeral to persistent storage is not supported'')
      else if quantity_Cmp existing desired = 1
      then Some (PlainError ''shrinking persistent volumes is not supported'')
      else None)"

definition Scale :: "'f api \<Rightarrow> RabbitmqCluster \<Rightarrow> quantity \<Rightarrow> unit step" where
  "Scale A rmq desiredCapacity =
     bindS (tryS (existingCapacity A rmq)) (\<lambda>c.
     bindS (case c of
              Inl err \<Rightarrow> if IsNotFound err then returnS ()
                         else throwS (WrapError ''failed to determine existing STS capactiy'' err)
            | Inr existing \<Rightarrow> checkS (scalingRefused existing desiredCapacity)) (\<lambda>_.
     bindS (getClusterPVCs A rmq) (\<lambda>existingPVCs.
     let pvcsToBeScaled = pvcsNeedingScaling existingPVCs desiredCapacity
     in if pvcsToBeScaled = [] then returnS ()
        else bindS (tryS (deleteSts A rmq)) (\<lambda>d.
          case d of
            Inl err \<Rightarrow> throwS (WrapError ''failed to delete Statefulset from Kubernetes API'' err)
          | Inr _ \<Rightarrow> scaleUpPVCs A pvcsToBeScaled desiredCapacity))))"


section \<open>Refusals\<close>

text \<open>
  The scaler refuses to go from ephemeral to persistent storage and to shrink volumes: if the
  StatefulSet has no storage and some is wanted, or has more than is wanted, it returns an error
  and its only request is the read of the StatefulSet. Nothing is deleted or resized.
\<close>

theorem Scale_refuses:
  assumes "k_ScalerGetStatefulSet A (Hist s) (cluster_Namespace rmq) (ChildResourceName rmq ''server'') = Inr sts"
    and "templateCapacity (sts_VolumeClaimTemplates sts) = 0 \<and> desired \<noteq> 0 \<or>
         desired < templateCapacity (sts_VolumeClaimTemplates sts)"
  shows "\<exists>e. run_state (Scale A rmq desired) s =
    (Inl e, s\<lparr>Hist := Hist s @ [ScalerGetStatefulSet (cluster_Namespace rmq) (ChildResourceName rmq ''server'')]\<rparr>)"
  using assms
  by (auto simp: Scale_def existingCapacity_def scalerGetSts_def scalingRefused_def quantity_Cmp_def Let_def)

section \<open>Claims are resized after the StatefulSet is gone\<close>

text \<open>
  \<open>seenGone\<close>: after the first \<open>n\<close> requests the StatefulSet was asked for and not found.
\<close>

definition seenGone :: "'f api \<Rightarrow> RabbitmqCluster \<Rightarrow> nat \<Rightarrow> history \<Rightarrow> bool" where
  "seenGone A rmq n h \<longleftrightarrow>
     (\<exists>h1 h2 e. h = h1 @ ScalerGetStatefulSet (cluster_Namespace rmq) (ChildResourceName rmq ''server'') # h2 \<and>
        n \<le> length h1 \<and>
        k_ScalerGetStatefulSet A h1 (cluster_Namespace rmq) (ChildResourceName rmq ''server'') = Inl e \<and> IsNotFound e)"

definition resizeSafe :: "'f api \<Rightarrow> RabbitmqCluster \<Rightarrow> quantity \<Rightarrow> nat \<Rightarrow> history \<Rightarrow> bool" where
  "resizeSafe A rmq q n h \<longleftrightarrow>
     (\<forall>pre c post. h = pre @ UpdateClaim c # post \<and> n \<le> length pre \<longrightarrow>
        rget (pvc_Requests (pvc_Spec c)) ''storage'' = q \<and> seenGone A rmq n pre)"

definition noResize :: "request \<Rightarrow> bool" where
  "noResize q = (case q of UpdateClaim c \<Rightarrow> False | _ \<Rightarrow> True)"

lemma seenGone_append: "seenGone A rmq n h \<Longrightarrow> seenGone A rmq n (h @ h')"
  unfolding seenGone_def by force

lemma resizeSafe_snoc:
  assumes "resizeSafe A rmq q n h"
    and "\<And>c. r = UpdateClaim c \<Longrightarrow> rget (pvc_Requests (pvc_Spec c)) ''storage'' = q \<and> seenGone A rmq n h"
  shows "resizeSafe A rmq q n (h @ [r])"
  using assms unfolding resizeSafe_def
  by (auto simp: append_eq_append_conv2 Cons_eq_append_conv append_eq_Cons_conv) 

lemma resizeSafe_append: "list_all noResize new \<Longrightarrow> resizeSafe A rmq q n h \<Longrightarrow> resizeSafe A rmq q n (h @ new)"
proof (induction new rule: rev_induct)
  case (snoc r new)
  have "r \<noteq> UpdateClaim c" for c using snoc.prems(1) by (auto simp: noResize_def)
  then show ?case
    using resizeSafe_snoc [of A rmq q n "h @ new" r] snoc.IH snoc.prems by simp
qed simp

lemma resizeSafe_start: "resizeSafe A rmq q (length h) h"
  by (auto simp: resizeSafe_def)

lemma noResize_simps [simp]:
  "noResize (GetClaim a b)" "noResize (ScalerGetStatefulSet a b)" "noResize (ScalerDeleteStatefulSet a b)"
  "noResize (Sleep i)" "\<not> noResize (UpdateClaim c)"
  by (simp_all add: noResize_def)

lemma emits_scalerGetSts: "emits noResize (scalerGetSts A rmq)"
  by (auto simp: scalerGetSts_def Let_def intro!: emits_rules)

lemma emits_getClaims: "emits noResize (getClaims A rmq is pvcs)"
  by (induction A rmq "is" pvcs rule: getClaims.induct) (auto intro!: emits_rules)

lemma emits_retry: "emits noResize f \<Longrightarrow> emits noResize (retryWithInterval msg n k i f)"
  by (induction msg n k i f rule: retryWithInterval.induct) (auto intro!: emits_rules)

lemma emits_deleteSts: "emits noResize (deleteSts A rmq)"
  by (auto simp: deleteSts_def stsGone_def intro!: emits_rules emits_scalerGetSts emits_retry)

lemma keeps_resizeSafe: "emits noResize m \<Longrightarrow> keeps (\<lambda>s. resizeSafe A rmq q n (Hist s)) m"
  by (rule emits_keeps) (auto intro: resizeSafe_append)

text \<open>Only a read that did not find the StatefulSet lets the deletion succeed.\<close>

lemma gone_when_read:
  assumes "run_state (tryS (scalerGetSts A rmq)) s = (Inr (Inl e), s')" and "IsNotFound e" and "n \<le> length (Hist s)"
  shows "seenGone A rmq n (Hist s')"
  unfolding seenGone_def
  by (rule exI [of _ "Hist s"], rule exI [of _ "[]"], rule exI [of _ e])
    (use assms in \<open>auto simp: scalerGetSts_def Let_def split: sum.splits if_splits\<close>)

lemma retry_gone:
  assumes "run_state (retryWithInterval msg m k i (stsGone A rmq)) s = (Inr (), s')" and "n \<le> length (Hist s)"
  shows "seenGone A rmq n (Hist s')"
  using assms
proof (induction k arbitrary: s)
  case (Suc k)
  obtain r s1 where r: "run_state (tryS (scalerGetSts A rmq)) s = (r, s1)" by (metis surj_pair)
  have len: "n \<le> length (Hist s1)"
    using r Suc.prems(2) by (auto simp: scalerGetSts_def Let_def split: sum.splits if_splits)
  show ?case
  proof (cases "\<exists>e. r = Inr (Inl e) \<and> IsNotFound e")
    case True
    then obtain e where e: "r = Inr (Inl e)" "IsNotFound e" by blast
    then have "s' = s1" using Suc.prems(1) r by (simp add: stsGone_def del: run_tryS)
    then show ?thesis using gone_when_read r e Suc.prems(2) by blast
  next
    case False
    then have "run_state (retryWithInterval msg m k i (stsGone A rmq)) (s1\<lparr>Hist := Hist s1 @ [Sleep i]\<rparr>) = (Inr (), s')"
      using Suc.prems(1) r by (auto simp: stsGone_def simp del: run_tryS split: sum.splits)
    then show ?thesis using Suc.IH len by simp
  qed
qed simp

lemma deleteSts_gone:
  assumes "run_state (deleteSts A rmq) s = (Inr (), s')" and "n \<le> length (Hist s)"
  shows "seenGone A rmq n (Hist s')"
proof -
  obtain r s1 where r: "run_state (tryS (scalerGetSts A rmq)) s = (r, s1)" by (metis surj_pair)
  have len: "n \<le> length (Hist s1)"
    using r assms(2) by (auto simp: scalerGetSts_def Let_def split: sum.splits if_splits)
  consider e where "r = Inr (Inl e)" "IsNotFound e" "s' = s1"
    | sts s2 where "n \<le> length (Hist s2)"
        "run_state (tryS (retryWithInterval ''delete statefulSet'' 10 10 3000 (stsGone A rmq))) s2 = (Inr (Inr ()), s')"
  proof (cases r)
    case (Inl e)
    then show ?thesis using assms(1) r by (simp add: deleteSts_def del: run_tryS)
  next
    case (Inr a)
    show ?thesis
    proof (cases a)
      case e: (Inl e)
      then have "IsNotFound e \<and> s' = s1"
        using assms(1) r Inr by (auto simp: deleteSts_def simp del: run_tryS split: if_splits)
      then show ?thesis using that(1) Inr e by blast
    next
      case sts: (Inr sts)
      let ?q = "ScalerDeleteStatefulSet (Namespace (sts_Meta sts)) (Name (sts_Meta sts))"
      have "run_state (tryS (retryWithInterval ''delete statefulSet'' 10 10 3000 (stsGone A rmq)))
          (s1\<lparr>Hist := Hist s1 @ [?q]\<rparr>) = (Inr (Inr ()), s')"
        using assms(1) r Inr sts
        by (auto simp: deleteSts_def run_tryS [of "requestO _ _"] simp del: run_tryS
            split: option.splits if_splits sum.splits prod.splits)
      then show ?thesis using that(2) [of "s1\<lparr>Hist := Hist s1 @ [?q]\<rparr>"] len by simp
    qed
  qed
  then show ?thesis
    unfolding run_tryS_Inr by cases (use gone_when_read r assms(2) retry_gone in blast)+
qed

lemma scaleUpPVC_keeps:
  "keeps (\<lambda>s. resizeSafe A rmq q n (Hist s) \<and> seenGone A rmq n (Hist s)) (scaleUpPVC A q pvc)"
proof -
  have w: "rget (pvc_Requests (pvc_Spec p)) ''storage'' = q" if "withCapacity q x = Inr p" for x p
    using that by (auto simp: withCapacity_def rget_def mget_def split: option.splits)
  have two: "resizeSafe A rmq q n (h @ [GetClaim a b, UpdateClaim c])"
    if "resizeSafe A rmq q n h" "seenGone A rmq n h" "rget (pvc_Requests (pvc_Spec c)) ''storage'' = q" for h a b c
  proof -
    have "resizeSafe A rmq q n (h @ [GetClaim a b])" using that(1) by (rule resizeSafe_snoc) simp
    then have "resizeSafe A rmq q n ((h @ [GetClaim a b]) @ [UpdateClaim c])"
      by (rule resizeSafe_snoc) (use that seenGone_append in simp)
    then show ?thesis by simp
  qed
  show ?thesis
    unfolding scaleUpPVC_def keeps_def
    by (auto dest: w intro!: seenGone_append resizeSafe_snoc two split: sum.splits option.splits prod.splits if_splits)
qed

lemma Scale_keeps:
  "keeps (\<lambda>s. resizeSafe A rmq q n (Hist s) \<and> n \<le> length (Hist s)) (Scale A rmq q)"
proof -
  let ?I = "\<lambda>s. resizeSafe A rmq q n (Hist s) \<and> n \<le> length (Hist s)"
  have e: "keeps ?I m" if "emits noResize m" for m :: "'z step"
    using that by (rule emits_keeps) (auto intro: resizeSafe_append)
  have up: "keeps ?I (bindS (tryS (deleteSts A rmq)) (\<lambda>d. case d of
       Inl err \<Rightarrow> throwS (WrapError ''failed to delete Statefulset from Kubernetes API'' err)
     | Inr _ \<Rightarrow> scaleUpPVCs A pvcs q))" for pvcs
  proof (rule keeps_bindS_yields)
    show "keeps ?I (tryS (deleteSts A rmq))" by (intro e emits_rules emits_deleteSts)
    show "yields ?I (tryS (deleteSts A rmq)) (\<lambda>d s. \<forall>u. d = Inr u \<longrightarrow> seenGone A rmq n (Hist s))"
      using deleteSts_gone unfolding yields_def by (auto simp: run_tryS_Inr simp del: run_tryS)
    have k: "keeps (\<lambda>s. resizeSafe A rmq q n (Hist s) \<and> seenGone A rmq n (Hist s)) (scaleUpPVCs A pvcs q)"
      unfolding scaleUpPVCs_def by (intro keeps_rules scaleUpPVC_keeps)
    fix d :: "goerror + unit" and s :: recState
    assume "?I s" "\<forall>u. d = Inr u \<longrightarrow> seenGone A rmq n (Hist s)"
    then show "?I (snd (run_state (case d of
       Inl err \<Rightarrow> throwS (WrapError ''failed to delete Statefulset from Kubernetes API'' err)
     | Inr _ \<Rightarrow> scaleUpPVCs A pvcs q) s))"
      using k unfolding keeps_def by (cases d) (auto simp: seenGone_def dest!: spec [of _ s])
  qed
  show ?thesis
    unfolding Scale_def existingCapacity_def getClusterPVCs_def Let_def
    by (intro keeps_rules up e emits_getClaims emits_scalerGetSts)
qed

text \<open>
  C3. A claim is only ever resized to the capacity that is wanted, and only after the scaler has
  asked for the StatefulSet and was told that it does not exist: the claims of a StatefulSet that
  is still there are not touched.
\<close>

theorem Scale_resizes_safely:
  assumes "run_state (Scale A rmq desired) s = (r, s')"
    and "Hist s' = pre @ UpdateClaim c # post" and "length (Hist s) \<le> length pre"
  shows "rget (pvc_Requests (pvc_Spec c)) ''storage'' = desired \<and>
    (\<exists>h1 h2 e. pre = h1 @ ScalerGetStatefulSet (cluster_Namespace rmq) (ChildResourceName rmq ''server'') # h2 \<and>
       length (Hist s) \<le> length h1 \<and>
       k_ScalerGetStatefulSet A h1 (cluster_Namespace rmq) (ChildResourceName rmq ''server'') = Inl e \<and> IsNotFound e)"
proof -
  have "resizeSafe A rmq desired (length (Hist s)) (Hist s')"
    using keepsD [OF Scale_keeps _ assms(1), of "length (Hist s)"] resizeSafe_start by blast
  then show ?thesis using assms(2,3) unfolding resizeSafe_def seenGone_def by blast
qed


section \<open>The number of requests\<close>

lemma costs_scalerGetSts: "costs 1 (scalerGetSts A rmq)"
  by (simp add: scalerGetSts_def Let_def costs_rules)

lemma costs_getClaims: "costs (length is) (getClaims A rmq is pvcs)"
proof (induction A rmq "is" pvcs rule: getClaims.induct)
  case (2 A rmq i "is" pvcs)
  show ?case
    unfolding getClaims.simps list.size Nat.add_0_right
    by (rule costs_bindS [of 1 _ "length is", unfolded plus_1_eq_Suc, THEN costs_mono])
      (auto intro!: costs_rules 2)
qed (simp add: costs_rules)

lemma getClaims_length:
  "yields (\<lambda>_. True) (getClaims A rmq is pvcs) (\<lambda>x _. length x \<le> length is + length pvcs)"
proof (induction A rmq "is" pvcs rule: getClaims.induct)
  case (2 A rmq i "is" pvcs)
  show ?case
    using 2 unfolding yields_def
    by (auto split: sum.splits if_splits) fastforce+
qed (simp add: yields_def)

lemma costs_retry: "costs c f \<Longrightarrow> costs ((c + 1) * k) (retryWithInterval msg n k i f)"
proof (induction k)
  case (Suc k)
  have "costs (c + (1 + (c + 1) * k)) (retryWithInterval msg n (Suc k) i f)"
    unfolding retryWithInterval.simps
    by (intro costs_bindS costs_rules Suc.prems) (use Suc in \<open>auto intro!: costs_bindS costs_rules\<close>)
  then show ?case by (simp add: algebra_simps)
qed (simp add: costs_rules)

lemma costs_deleteSts: "costs 22 (deleteSts A rmq)"
proof -
  have g: "costs 1 (stsGone A rmq)"
    unfolding stsGone_def by (rule costs_bindS [of 1 _ 0, unfolded Nat.add_0_right]) (intro costs_rules costs_scalerGetSts)+
  have r: "costs 20 (retryWithInterval ''delete statefulSet'' 10 10 3000 (stsGone A rmq))"
    using costs_retry [OF g, of 10] by simp
  have "costs (1 + (1 + (20 + 0))) (deleteSts A rmq)"
    unfolding deleteSts_def
    by (rule costs_bindS, intro costs_rules costs_scalerGetSts, rule costs_cases, intro costs_rules,
        rule costs_bindS, intro costs_rules, simp, rule costs_cases, intro costs_rules,
        rule costs_bindS, intro costs_rules r) (intro costs_rules)
  then show ?thesis by simp
qed

lemma costs_scaleUpPVC: "costs 2 (scaleUpPVC A q pvc)"
proof -
  have "costs (1 + (0 + (1 + 0))) (scaleUpPVC A q pvc)"
    unfolding scaleUpPVC_def
    by (rule costs_bindS, intro costs_rules, simp, rule costs_cases, intro costs_rules,
        rule costs_bindS, intro costs_rules, rule costs_bindS, intro costs_rules, simp) (intro costs_rules)
  then show ?thesis by (simp add: numeral_2_eq_2)
qed

text \<open>
  C13. Scaling ends after a bounded number of requests, whatever the answers are: with \<open>n\<close> replicas
  at most \<open>23 + 3 * n\<close>, of which the wait for the deletion of the StatefulSet makes up 20.
\<close>

theorem Scale_bounded:
  "length (Hist (snd (run_state (Scale A rmq desired) s))) \<le>
     length (Hist s) + 23 + 3 * nat (ptr_Deref (Replicas (Spec rmq)) 1)"
proof -
  let ?n = "nat (ptr_Deref (Replicas (Spec rmq)) 1)"
  have p: "costs ?n (getClusterPVCs A rmq)"
    using costs_getClaims [of "map int [0..<?n]" A rmq "[]"] by (simp add: getClusterPVCs_def)
  have y: "yields (\<lambda>_. True) (getClusterPVCs A rmq) (\<lambda>x _. length x \<le> ?n)"
    using getClaims_length [of A rmq "map int [0..<?n]" "[]"] by (simp add: getClusterPVCs_def)
  have u: "costs (2 * ?n) (scaleUpPVCs A (pvcsNeedingScaling pvcs desired) desired)" if "length pvcs \<le> ?n" for pvcs
  proof -
    have "length (pvcsNeedingScaling pvcs desired) \<le> ?n"
      unfolding pvcsNeedingScaling_def by (rule le_trans [OF length_filter_le that])
    then show ?thesis
      unfolding scaleUpPVCs_def by (intro costs_mono [OF costs_forS [OF costs_scaleUpPVC]] mult_le_mono2)
  qed
  have e: "costs (1 + 0) (existingCapacity A rmq)"
    unfolding existingCapacity_def by (rule costs_bindS) (intro costs_scalerGetSts costs_rules)+
  have "costs ((1 + 0) + (0 + (?n + (22 + 2 * ?n)))) (Scale A rmq desired)"
    unfolding Scale_def Let_def
    by (rule costs_bindS, intro costs_rules e, rule costs_bindS, intro costs_rules, 
        rule costs_bindS_yields [OF p y], rule costs_cases, intro costs_rules,
        rule costs_bindS, intro costs_rules costs_deleteSts, rule costs_cases, intro costs_rules, erule u)
  then show ?thesis unfolding costs_def by (simp add: algebra_simps)
qed


section \<open>A cooperating server\<close>

text \<open>
  What the server does when nothing goes wrong: the StatefulSet \<open>sts\<close> exists until it is deleted
  and is then gone, each replica has a claim with storage requests, and writes succeed.
\<close>

definition cooperating ::
  "'f api \<Rightarrow> RabbitmqCluster \<Rightarrow> statefulSet \<Rightarrow> (int \<Rightarrow> persistentVolumeClaim) \<Rightarrow> bool" where
  "cooperating A rmq sts claim \<longleftrightarrow>
     (let ns = cluster_Namespace rmq; name = ChildResourceName rmq ''server'' in
       Namespace (sts_Meta sts) = ns \<and> Name (sts_Meta sts) = name \<and>
       (\<forall>h. if ScalerDeleteStatefulSet ns name \<in> set h
            then \<exists>m. k_ScalerGetStatefulSet A h ns name = Inl (StatusError NotFound m)
            else k_ScalerGetStatefulSet A h ns name = Inr sts) \<and>
       (\<forall>h. k_ScalerDeleteStatefulSet A h ns name = None) \<and>
       (\<forall>h i. k_GetClaim A h ns (PVCName rmq i) = Inr (claim i)) \<and>
       (\<forall>h p. k_UpdateClaim A h p = None) \<and>
       (\<forall>i. Namespace (pvc_Meta (claim i)) = ns \<and> Name (pvc_Meta (claim i)) = PVCName rmq i \<and>
            pvc_Requests (pvc_Spec (claim i)) \<noteq> None))"

definition resizedTo :: "quantity \<Rightarrow> persistentVolumeClaim \<Rightarrow> persistentVolumeClaim" where
  "resizedTo q p =
     p\<lparr>pvc_Spec := (pvc_Spec p)\<lparr>pvc_Requests := Some ((the (pvc_Requests (pvc_Spec p)))(''storage'' \<mapsto> q))\<rparr>\<rparr>"

lemma run_getClaims:
  assumes "\<And>h i. k_GetClaim A h (cluster_Namespace rmq) (PVCName rmq i) = Inr (claim i)"
  shows "run_state (getClaims A rmq is pvcs) s = (Inr (pvcs @ map claim is),
    s\<lparr>Hist := Hist s @ map (\<lambda>i. GetClaim (cluster_Namespace rmq) (PVCName rmq i)) is\<rparr>)"
  by (induction "is" arbitrary: pvcs s) (simp_all add: assms)

lemma run_scaleUpPVCs:
  assumes "\<And>h i. k_GetClaim A h (cluster_Namespace rmq) (PVCName rmq i) = Inr (claim i)"
    and "\<And>h p. k_UpdateClaim A h p = None"
    and "\<And>i. Namespace (pvc_Meta (claim i)) = cluster_Namespace rmq \<and> Name (pvc_Meta (claim i)) = PVCName rmq i \<and>
            pvc_Requests (pvc_Spec (claim i)) \<noteq> None"
  shows "run_state (scaleUpPVCs A (map claim is) q) s = (Inr (), s\<lparr>Hist := Hist s @
    concat (map (\<lambda>i. [GetClaim (cluster_Namespace rmq) (PVCName rmq i), UpdateClaim (resizedTo q (claim i))]) is)\<rparr>)"
proof (induction "is" arbitrary: s)
  case (Cons i "is")
  obtain m where "pvc_Requests (pvc_Spec (claim i)) = Some m" using assms(3) by blast
  then have "withCapacity q (claim i) = Inr (resizedTo q (claim i))"
    by (simp add: withCapacity_def resizedTo_def)
  then show ?case using Cons by (simp add: scaleUpPVCs_def scaleUpPVC_def assms)
qed (simp add: scaleUpPVCs_def)

lemma run_deleteSts:
  assumes "cooperating A rmq sts claim"
    and "ScalerDeleteStatefulSet (cluster_Namespace rmq) (ChildResourceName rmq ''server'') \<notin> set (Hist s)"
  shows "run_state (deleteSts A rmq) s = (Inr (), s\<lparr>Hist := Hist s @
    [ScalerGetStatefulSet (cluster_Namespace rmq) (ChildResourceName rmq ''server''),
     ScalerDeleteStatefulSet (cluster_Namespace rmq) (ChildResourceName rmq ''server''),
     ScalerGetStatefulSet (cluster_Namespace rmq) (ChildResourceName rmq ''server'')]\<rparr>)"
proof -
  let ?ns = "cluster_Namespace rmq" and ?n = "ChildResourceName rmq ''server''"
  let ?h = "Hist s @ [ScalerGetStatefulSet ?ns ?n, ScalerDeleteStatefulSet ?ns ?n]"
  have a: "k_ScalerGetStatefulSet A (Hist s) ?ns ?n = Inr sts"
    using assms unfolding cooperating_def Let_def by metis
  have c: "\<And>h. k_ScalerDeleteStatefulSet A h ?ns ?n = None" "Namespace (sts_Meta sts) = ?ns" "Name (sts_Meta sts) = ?n"
    using assms(1) unfolding cooperating_def Let_def by blast+
  have "ScalerDeleteStatefulSet ?ns ?n \<in> set ?h" by simp
  then obtain m where b: "k_ScalerGetStatefulSet A ?h ?ns ?n = Inl (StatusError NotFound m)"
    using assms(1) unfolding cooperating_def Let_def by metis
  have ten: "(10::nat) = Suc 9" by simp
  show ?thesis
    unfolding deleteSts_def stsGone_def scalerGetSts_def Let_def ten retryWithInterval.simps
    by (simp add: a b c isPanic_def IsNotFound_def)
qed

text \<open>
  C11. If the server cooperates and the wanted capacity is allowed, scaling succeeds with exactly
  these requests: the StatefulSet and the claims are read, and if some claim is smaller than wanted
  the StatefulSet is deleted, seen gone, and each of the smaller claims, no other, is read again
  and updated to the wanted capacity.
\<close>

theorem Scale_succeeds:
  assumes "cooperating A rmq sts claim"
    and "ScalerDeleteStatefulSet (cluster_Namespace rmq) (ChildResourceName rmq ''server'') \<notin> set (Hist s)"
    and "templateCapacity (sts_VolumeClaimTemplates sts) \<le> desired"
    and "templateCapacity (sts_VolumeClaimTemplates sts) = 0 \<Longrightarrow> desired = 0"
  shows "let ns = cluster_Namespace rmq; name = ChildResourceName rmq ''server'';
             all = map int [0..<nat (ptr_Deref (Replicas (Spec rmq)) 1)];
             small = filter (\<lambda>i. rget (pvc_Requests (pvc_Spec (claim i))) ''storage'' < desired) all
         in run_state (Scale A rmq desired) s = (Inr (), s\<lparr>Hist := Hist s @ [ScalerGetStatefulSet ns name] @
              map (\<lambda>i. GetClaim ns (PVCName rmq i)) all @
              (if small = [] then []
               else [ScalerGetStatefulSet ns name, ScalerDeleteStatefulSet ns name, ScalerGetStatefulSet ns name] @
                 concat (map (\<lambda>i. [GetClaim ns (PVCName rmq i), UpdateClaim (resizedTo desired (claim i))]) small))\<rparr>)"
proof -
  let ?ns = "cluster_Namespace rmq" and ?n = "ChildResourceName rmq ''server''"
  define all where "all = map int [0..<nat (ptr_Deref (Replicas (Spec rmq)) 1)]"
  define small where "small = filter (\<lambda>i. rget (pvc_Requests (pvc_Spec (claim i))) ''storage'' < desired) all"
  have a: "k_ScalerGetStatefulSet A (Hist s) ?ns ?n = Inr sts"
    using assms(1,2) unfolding cooperating_def Let_def by metis
  have g: "\<And>h i. k_GetClaim A h ?ns (PVCName rmq i) = Inr (claim i)" and u: "\<And>h p. k_UpdateClaim A h p = None"
    and n: "\<And>i. Namespace (pvc_Meta (claim i)) = ?ns \<and> Name (pvc_Meta (claim i)) = PVCName rmq i \<and>
            pvc_Requests (pvc_Spec (claim i)) \<noteq> None"
    using assms(1) unfolding cooperating_def Let_def by blast+
  have ok: "scalingRefused (templateCapacity (sts_VolumeClaimTemplates sts)) desired = None"
    using assms(3,4) by (auto simp: scalingRefused_def go_simps)
  have small: "pvcsNeedingScaling (map claim all) desired = map claim small"
    by (simp add: pvcsNeedingScaling_def small_def filter_map comp_def go_simps)
  have del: "run_state (deleteSts A rmq) t = (Inr (), t\<lparr>Hist := Hist t @
      [ScalerGetStatefulSet ?ns ?n, ScalerDeleteStatefulSet ?ns ?n, ScalerGetStatefulSet ?ns ?n]\<rparr>)"
    if "ScalerDeleteStatefulSet ?ns ?n \<notin> set (Hist t)" for t
    using run_deleteSts [OF assms(1)] that by simp
  have read: "ScalerDeleteStatefulSet ?ns ?n \<notin> (\<lambda>i. GetClaim ?ns (PVCName rmq i)) ` X" for X by blast
  show ?thesis
    unfolding Let_def Scale_def existingCapacity_def scalerGetSts_def getClusterPVCs_def
      all_def [symmetric] small_def [symmetric]
    using assms(2) read by (auto simp: a ok run_getClaims [OF g] small del run_scaleUpPVCs [OF g u n])
qed


section \<open>Examples\<close>

text \<open>A cluster of one replica whose StatefulSet and claim have capacity 1.\<close>

definition exampleClaim :: "string \<Rightarrow> string \<Rightarrow> persistentVolumeClaim" where
  "exampleClaim ns n = \<lparr>pvc_Meta = namedMeta n ns, pvc_Spec = \<lparr>pvc_Requests = Some [''storage'' \<mapsto> 1],
     pvc_AccessModes = [], pvc_StorageClassName = None, pvc_Other = None\<rparr>\<rparr>"

definition exampleScaled :: statefulSet where
  "exampleScaled = emptyStatefulSet\<lparr>sts_Meta := namedMeta ''rmq-server'' ''ns'',
     sts_VolumeClaimTemplates := [exampleClaim ''ns'' ''persistence'']\<rparr>"

definition scalingApi :: "(string \<times> string) list api" where
  "scalingApi = (exampleApi (exampleServer 1))\<lparr>
     k_ScalerGetStatefulSet := (\<lambda>h ns n. if ScalerDeleteStatefulSet ns n \<in> set h
        then Inl (StatusError NotFound []) else Inr exampleScaled),
     k_GetClaim := (\<lambda>h ns n. Inr (exampleClaim ns n))\<rparr>"

lemma exampleServer_names:
  "cluster_Namespace (exampleServer k) = ''ns''" "cluster_Name (exampleServer k) = ''rmq''"
  "ChildResourceName (exampleServer k) ''server'' = ''rmq-server''"
  by (simp_all add: exampleServer_def ChildResourceName_def TrimSuffix_def HasSuffix_def suffix_to_prefix)

lemma exampleScaled_capacity: "templateCapacity (sts_VolumeClaimTemplates exampleScaled) = 1"
  by (simp add: exampleScaled_def exampleClaim_def go_simps)

lemma scalingApi_cooperating:
  "cooperating scalingApi (exampleServer 1) exampleScaled (\<lambda>i. exampleClaim ''ns'' (PVCName (exampleServer 1) i))"
  unfolding cooperating_def Let_def exampleServer_names
  by (auto simp: scalingApi_def exampleApi_def exampleScaled_def exampleClaim_def)

theorem Scale_refuses_witness:
  "\<exists>e. run_state (Scale scalingApi (exampleServer 1) 0) (startState (exampleServer 1)) =
     (Inl e, (startState (exampleServer 1))\<lparr>Hist := [ScalerGetStatefulSet ''ns'' ''rmq-server'']\<rparr>)"
proof -
  have "k_ScalerGetStatefulSet scalingApi [] (cluster_Namespace (exampleServer 1))
      (ChildResourceName (exampleServer 1) ''server'') = Inr exampleScaled"
    by (simp add: scalingApi_def)
  from Scale_refuses [of _ "startState (exampleServer 1)", simplified, OF this] show ?thesis
    by (simp add: exampleScaled_capacity exampleServer_names)
qed

lemma exampleServer_claims:
  "PVCName (exampleServer 1) 0 = ''persistence-rmq-server-0''"
  "nat (ptr_Deref (Replicas (Spec (exampleServer 1))) 1) = 1"
  by (simp_all add: PVCName_def exampleServer_names Itoa_def show_nat.simps [of 0] digit_def)
    (code_simp, simp add: exampleServer_def ptr_Deref_def)

theorem Scale_succeeds_witness:
  "run_state (Scale scalingApi (exampleServer 1) 2) (startState (exampleServer 1)) =
     (Inr (), (startState (exampleServer 1))\<lparr>Hist := [ScalerGetStatefulSet ''ns'' ''rmq-server'', GetClaim ''ns'' ''persistence-rmq-server-0'',
        ScalerGetStatefulSet ''ns'' ''rmq-server'', ScalerDeleteStatefulSet ''ns'' ''rmq-server'',
        ScalerGetStatefulSet ''ns'' ''rmq-server'', GetClaim ''ns'' ''persistence-rmq-server-0'',
        UpdateClaim (resizedTo 2 (exampleClaim ''ns'' ''persistence-rmq-server-0''))]\<rparr>)"
  using Scale_succeeds [OF scalingApi_cooperating, of "startState (exampleServer 1)" 2]
  by (simp add: exampleScaled_capacity exampleServer_names exampleServer_claims Let_def)
    (simp add: exampleClaim_def go_simps)

lemma exampleScale_run:
  "Hist (snd (run_state (Scale scalingApi (exampleServer 1) 2) (startState (exampleServer 1)))) =
     [ScalerGetStatefulSet ''ns'' ''rmq-server'', GetClaim ''ns'' ''persistence-rmq-server-0'',
      ScalerGetStatefulSet ''ns'' ''rmq-server'', ScalerDeleteStatefulSet ''ns'' ''rmq-server'',
      ScalerGetStatefulSet ''ns'' ''rmq-server'', GetClaim ''ns'' ''persistence-rmq-server-0'',
      UpdateClaim (resizedTo 2 (exampleClaim ''ns'' ''persistence-rmq-server-0''))]"
proof -
  have get: "k_ScalerGetStatefulSet scalingApi [] ''ns'' ''rmq-server'' = Inr exampleScaled"
    "\<And>h n. k_GetClaim scalingApi h ''ns'' n = Inr (exampleClaim ''ns'' n)"
    "\<And>h p. k_UpdateClaim scalingApi h p = None"
    by (simp_all add: scalingApi_def exampleApi_def)
  show ?thesis
    unfolding Scale_def existingCapacity_def scalerGetSts_def getClusterPVCs_def exampleServer_names
      exampleServer_claims Let_def
    by (simp add: get exampleScaled_capacity scalingRefused_def go_simps exampleServer_names exampleServer_claims
        run_deleteSts [OF scalingApi_cooperating, unfolded exampleServer_names] pvcsNeedingScaling_def)
      (simp add: exampleClaim_def go_simps scaleUpPVCs_def scaleUpPVC_def withCapacity_def resizedTo_def get)
qed

theorem Scale_resizes_safely_witness:
  "\<exists>r s' pre c. run_state (Scale scalingApi (exampleServer 1) 2) (startState (exampleServer 1)) = (r, s') \<and>
     Hist s' = pre @ [UpdateClaim c] \<and> rget (pvc_Requests (pvc_Spec c)) ''storage'' = 2 \<and>
     ScalerGetStatefulSet ''ns'' ''rmq-server'' \<in> set pre"
proof -
  obtain r s' where r: "run_state (Scale scalingApi (exampleServer 1) 2) (startState (exampleServer 1)) = (r, s')"
    by (metis surj_pair)
  then have h: "Hist s' = butlast (Hist s') @ [last (Hist s')]"
    using exampleScale_run by (metis append_butlast_last_id list.distinct(1) snd_conv)
  obtain c where c: "last (Hist s') = UpdateClaim c" using exampleScale_run r by simp
  have e: "Hist s' = butlast (Hist s') @ UpdateClaim c # []" using h c by simp
  show ?thesis
    using Scale_resizes_safely [OF r e] r e by (auto simp: exampleServer_names)
qed

end
