(* ===== verification/Reconcile_Steps.thy ===== *)
theory Reconcile_Steps
  imports Scaling
begin

text \<open>
  The steps a reconciliation takes up to the writing of the children:
  \<open>reconcile_operator_defaults.go\<close>, \<open>reconcile_finalizer.go\<close>, \<open>reconcile_tls.go\<close>,
  \<open>reconcile_scale_zero.go\<close>, \<open>reconcile_scale_down.go\<close> and \<open>reconcile_persistence.go\<close> of
  \<open>internal/controller\<close>. A function that returns a duration to wait and an error is a step with the
  duration as its value, in milliseconds: next to an error the framework ignores the duration.
\<close>

section \<open>The reconciler\<close>

record RabbitmqClusterReconciler =
  rec_DefaultRabbitmqImage :: string
  rec_DefaultUserUpdaterImage :: string
  rec_ControlRabbitmqImage :: bool

section \<open>Operator defaults\<close>

definition updateRabbitmqCluster :: "'f api \<Rightarrow> int step" where
  "updateRabbitmqCluster A =
     bindS (tryS (updateRmq A)) (\<lambda>r.
     case r of
       Inl err \<Rightarrow> if IsConflict err then returnS 2000 else throwS err
     | Inr _ \<Rightarrow> returnS 0)"

definition setUpdaterImage :: "string \<Rightarrow> RabbitmqCluster \<Rightarrow> RabbitmqCluster" where
  "setUpdaterImage img r =
     r\<lparr>Spec := (Spec r)\<lparr>spec_SecretBackend := (spec_SecretBackend (Spec r))\<lparr>Vault :=
       map_option (\<lambda>v. v\<lparr>v_DefaultUserUpdaterImage := Some img\<rparr>) (Vault (spec_SecretBackend (Spec r)))\<rparr>\<rparr>\<rparr>"

text \<open>The duration that \<open>updateRabbitmqCluster\<close> returns is only used next to an error.\<close>

definition reconcileOperatorDefaults :: "'f api \<Rightarrow> RabbitmqClusterReconciler \<Rightarrow> int step" where
  "reconcileOperatorDefaults A R =
     (if \<not> rec_ControlRabbitmqImage R then returnS 0
      else
        bindS getRmq (\<lambda>r.
        bindS (setRmq (r\<lparr>Spec := (Spec r)\<lparr>Image := rec_DefaultRabbitmqImage R\<rparr>\<rparr>)) (\<lambda>_.
        bindS (updateRabbitmqCluster A) (\<lambda>_.
        bindS getRmq (\<lambda>r.
        if VaultEnabled r
        then bindS (setRmq (setUpdaterImage (rec_DefaultUserUpdaterImage R) r)) (\<lambda>_.
             bindS (updateRabbitmqCluster A) (\<lambda>_. returnS 0))
        else returnS 0)))))"

section \<open>Finalizer and deletion\<close>

definition deletionFinalizer :: string where
  "deletionFinalizer = ''deletion.finalizers.rabbitmqclusters.rabbitmq.com''"

definition addFinalizerIfNeeded :: "'f api \<Rightarrow> unit step" where
  "addFinalizerIfNeeded A =
     bindS getRmq (\<lambda>r.
     if DeletionTimestamp (Meta r) = None \<and> \<not> k_ContainsFinalizer A (Meta r) deletionFinalizer
     then k_OnError A IsConflict
       (bindS getRmq (\<lambda>r.
        bindS (setRmq (r\<lparr>Meta := k_AddFinalizer A (Meta r) deletionFinalizer\<rparr>)) (\<lambda>_. updateRmq A)))
     else returnS ())"

definition removeFinalizer :: "'f api \<Rightarrow> unit step" where
  "removeFinalizer A =
     bindS getRmq (\<lambda>r.
     bindS (tryS (requestO (RemoveFinalizer (cluster_Namespace r) (cluster_Name r))
       (\<lambda>h. k_RemoveFinalizer A h (cluster_Namespace r) (cluster_Name r)))) (\<lambda>res.
     case res of
       Inl err \<Rightarrow> checkS (IgnoreNotFound (Some err))
     | Inr _ \<Rightarrow> returnS ()))"

text \<open>The body of the loop over the pods. Writing to a nil map panics.\<close>

definition labelPod :: "'f api \<Rightarrow> pod \<Rightarrow> unit step" where
  "labelPod A p =
     (case Labels (pod_Meta p) of
        None \<Rightarrow> throwS (Panic ''assignment to entry in nil map'')
      | Some m \<Rightarrow>
          (let p' = p\<lparr>pod_Meta := (pod_Meta p)\<lparr>Labels := Some (m(DeletionMarker \<mapsto> ''true''))\<rparr>\<rparr> in
           bindS (tryS (requestO (UpdatePod p') (\<lambda>h. k_UpdatePod A h p'))) (\<lambda>r.
           case r of
             Inr _ \<Rightarrow> returnS ()
           | Inl err \<Rightarrow>
               if IsNotFound err then returnS ()
               else throwS (WrapError (''cannot Update Pod '' @ Name (pod_Meta p') @ '' in Namespace '' @
                      Namespace (pod_Meta p')) err))))"

definition addRabbitmqDeletionLabel :: "'f api \<Rightarrow> unit step" where
  "addRabbitmqDeletionLabel A =
     bindS getRmq (\<lambda>r.
     bindS (requestE (ListPods (cluster_Namespace r) (cluster_Name r))
       (\<lambda>h. k_ListPods A h (cluster_Namespace r) (cluster_Name r))) (\<lambda>pods.
     forS (labelPod A) pods))"

definition checkIfLabelPropagated :: "'f api \<Rightarrow> bool step" where
  "checkIfLabelPropagated A =
     bindS getRmq (\<lambda>r.
     bindS (tryS (exec A (ChildResourceName r ''server'' @ ''-0'') ''rabbitmq''
       [''sh'', ''-c'', ''cat /etc/pod-info/skipPreStopChecks''])) (\<lambda>res.
     case res of
       Inl err \<Rightarrow> returnS True
     | Inr stdout \<Rightarrow> returnS (HasPrefix stdout ''true'')))"

text \<open>
  The wait for the labels, with fuel for its iterations: the result tells whether the loop ended by
  its own condition. \<open>waitForLabel_ends\<close> below shows that 16 iterations are enough, so that the
  error for a wait that has run out of fuel does not occur.
\<close>

fun waitForLabel :: "'f api \<Rightarrow> nat \<Rightarrow> int \<Rightarrow> bool step" where
  "waitForLabel A 0 timeout = returnS False"
| "waitForLabel A (Suc n) timeout =
     bindS (readClock A) (\<lambda>now.
     if now < timeout
     then bindS (checkIfLabelPropagated A) (\<lambda>propagated.
          if propagated then returnS True
          else bindS (request (Sleep 200) (\<lambda>h. ())) (\<lambda>_. waitForLabel A n timeout))
     else returnS True)"

definition waitIterations :: nat where
  "waitIterations = 16"

definition prepareForDeletion :: "'f api \<Rightarrow> unit step" where
  "prepareForDeletion A =
     bindS getRmq (\<lambda>r.
     if k_ContainsFinalizer A (Meta r) deletionFinalizer
     then
       bindS (tryS (k_OnError A IsConflict (addRabbitmqDeletionLabel A))) (\<lambda>_.
       bindS (readClock A) (\<lambda>now.
       bindS (waitForLabel A waitIterations (now + 3000)) (\<lambda>ended.
       if ended then removeFinalizer A else throwS (Panic ''out of fuel''))))
     else returnS ())"

section \<open>TLS\<close>

definition errDisableNonTLSConfig :: goerror where
  "errDisableNonTLSConfig = Sentinel ''TLS must be enabled if disableNonTLSListeners is set to true''"

definition readSecret :: "'f api \<Rightarrow> string \<Rightarrow> secret step" where
  "readSecret A secretName =
     bindS getRmq (\<lambda>r. requestE (ReadSecret (cluster_Namespace r) secretName)
       (\<lambda>h. k_ReadSecret A h (cluster_Namespace r) secretName))"

definition checkTLSSecrets :: "'f api \<Rightarrow> unit step" where
  "checkTLSSecrets A =
     bindS getRmq (\<lambda>r.
     let secretName = SecretName (TLS (Spec r)); ns = cluster_Namespace r; caName = CaSecretName (TLS (Spec r));
         fail = (\<lambda>err. bindS (recordEvent ''Warning'' ''TLSError'' (Error err)) (\<lambda>_. throwS err))
     in
     bindS (tryS (readSecret A secretName)) (\<lambda>res.
     case res of
       Inl err \<Rightarrow>
         bindS (recordEvent ''Warning'' ''TLSError''
           (''Failed to get TLS secret '' @ secretName @ '' in namespace '' @ ns @ '': '' @ Error err)) (\<lambda>_. throwS err)
     | Inr secret \<Rightarrow>
         if mget (sec_Data secret) ''tls.crt'' = None \<or> mget (sec_Data secret) ''tls.key'' = None
         then fail (StatusError BadRequest (''TLS secret '' @ secretName @ '' in namespace '' @ ns @
                '' does not have the fields tls.crt and tls.key''))
         else if MutualTLSEnabled r then
           bindS (if SingleTLSSecret r then returnS secret
                  else bindS (tryS (readSecret A caName)) (\<lambda>ca.
                    case ca of
                      Inl err \<Rightarrow>
                        bindS (recordEvent ''Warning'' ''TLSError''
                          (''Failed to get CA certificate secret '' @ caName @ '' in namespace '' @ ns @ '': '' @ Error err))
                          (\<lambda>_. throwS err)
                    | Inr s \<Rightarrow> returnS s)) (\<lambda>secret.
           if mget (sec_Data secret) ''ca.crt'' = None
           then fail (StatusError BadRequest (''TLS secret '' @ caName @ '' in namespace '' @ ns @
                  '' does not have the field ca.crt''))
           else returnS ())
         else returnS ()))"

definition reconcileTLS :: "'f api \<Rightarrow> unit step" where
  "reconcileTLS A =
     bindS getRmq (\<lambda>r.
     if DisableNonTLSListeners r \<and> \<not> TLSEnabled r
     then
       bindS (recordEvent ''Warning'' ''TLSError'' (Error errDisableNonTLSConfig)) (\<lambda>_.
       bindS (setReconcileSuccess A ConditionFalse ''TLSError'' (Error errDisableNonTLSConfig)) (\<lambda>_.
       throwS errDisableNonTLSConfig))
     else if SecretTLSEnabled r
     then
       bindS (tryS (checkTLSSecrets A)) (\<lambda>res.
       case res of
         Inl err \<Rightarrow> bindS (setReconcileSuccess A ConditionFalse ''TLSError'' (Error err)) (\<lambda>_. throwS err)
       | Inr _ \<Rightarrow> returnS ())
     else returnS ())"

section \<open>Scaling to, from and below zero\<close>

definition beforeZeroReplicasConfigured :: string where
  "beforeZeroReplicasConfigured = ''rabbitmq.com/before-zero-replicas-configured''"

definition ScaleToZero :: "statefulSet \<Rightarrow> statefulSet \<Rightarrow> goerror + bool" where
  "ScaleToZero current sts =
     bindE (deref (sts_Replicas current)) (\<lambda>currentReplicas.
     bindE (deref (sts_Replicas sts)) (\<lambda>desiredReplicas.
     Inr (desiredReplicas = 0 \<and> currentReplicas > 0)))"

definition ScaleFromZero :: "statefulSet \<Rightarrow> statefulSet \<Rightarrow> goerror + bool" where
  "ScaleFromZero current sts =
     bindE (deref (sts_Replicas current)) (\<lambda>currentReplicas.
     bindE (deref (sts_Replicas sts)) (\<lambda>desiredReplicas.
     Inr (currentReplicas = 0 \<and> desiredReplicas > 0)))"

definition recordEventsAndSetCondition ::
  "'f api \<Rightarrow> string \<Rightarrow> conditionStatus \<Rightarrow> string \<Rightarrow> string \<Rightarrow> string \<Rightarrow> unit step" where
  "recordEventsAndSetCondition A condType condStatus eventType reason msg =
     bindS (recordEvent eventType reason msg) (\<lambda>_.
     bindS getRmq (\<lambda>base.
     bindS (setCondition A condType condStatus reason [msg]) (\<lambda>_.
     patchStatus A base)))"

text \<open>The error of the status write is only logged.\<close>

definition refuseScaling :: "'f api \<Rightarrow> string \<Rightarrow> string \<Rightarrow> bool step" where
  "refuseScaling A reason msg =
     bindS (tryS (recordEventsAndSetCondition A ReconcileSuccess ConditionFalse ''Warning'' reason msg))
       (\<lambda>_. returnS True)"

definition scaleFromZeroToBeforeReplicasConfigured :: "'f api \<Rightarrow> statefulSet \<Rightarrow> bool step" where
  "scaleFromZeroToBeforeReplicasConfigured A sts =
     bindS (liftS (deref (sts_Replicas sts))) (\<lambda>desiredReplicas.
     bindS getRmq (\<lambda>r.
     case mget (Annotations (Meta r)) beforeZeroReplicasConfigured of
       None \<Rightarrow> returnS False
     | Some annotationValue \<Rightarrow>
         (case ParseInt10 32 annotationValue of
            None \<Rightarrow> refuseScaling A ''TransformErrorOperation''
              ''Failed to convert string to integer for before-zero-replicas-configuration annotation''
          | Some beforeZeroReplicas \<Rightarrow>
              if desiredReplicas \<noteq> beforeZeroReplicas
              then refuseScaling A ''UnsupportedOperation''
                (''Unsupported operation; when scaling from zero, you can only restore the previous number of replicas ('' @
                 Itoa beforeZeroReplicas @ '')'')
              else returnS False)))"

definition saveReplicasBeforeZero :: "'f api \<Rightarrow> statefulSet \<Rightarrow> unit step" where
  "saveReplicasBeforeZero A current =
     bindS (liftS (deref (sts_Replicas current))) (\<lambda>currentReplicas.
     bindS (recordEvent ''Normal'' ''ScaleDownToZero'' ''Cluster Scale down to 0 replicas'') (\<lambda>_.
     bindS getRmq (\<lambda>r.
     updateAnnotationCluster A (cluster_Namespace r) (cluster_Name r) beforeZeroReplicasConfigured
       (Itoa currentReplicas))))"

definition removeReplicasBeforeZeroAnnotationIfExists :: "'f api \<Rightarrow> unit step" where
  "removeReplicasBeforeZeroAnnotationIfExists A =
     bindS getRmq (\<lambda>r.
     if mget (Annotations (Meta r)) beforeZeroReplicasConfigured \<noteq> None
     then bindS (tryS (deleteAnnotationCluster A beforeZeroReplicasConfigured)) (\<lambda>_. returnS ())
     else returnS ())"

definition scaleDown :: "'f api \<Rightarrow> statefulSet \<Rightarrow> statefulSet \<Rightarrow> bool step" where
  "scaleDown A current sts =
     bindS (liftS (deref (sts_Replicas current))) (\<lambda>currentReplicas.
     bindS (liftS (deref (sts_Replicas sts))) (\<lambda>desiredReplicas.
     if currentReplicas > desiredReplicas
     then
       (let msg = ''Cluster Scale down not supported; tried to scale cluster from '' @ Itoa currentReplicas @
              '' nodes to '' @ Itoa desiredReplicas @ '' nodes'';
            reason = ''UnsupportedOperation''
        in bindS (recordEvent ''Warning'' reason msg) (\<lambda>_.
           bindS getRmq (\<lambda>base.
           bindS (setCondition A ReconcileSuccess ConditionFalse reason [msg]) (\<lambda>_.
           bindS (tryS (patchStatus A base)) (\<lambda>_. returnS True)))))
     else returnS False))"

section \<open>Persistence\<close>

fun persistenceStorageCapacity :: "persistentVolumeClaim list \<Rightarrow> quantity" where
  "persistenceStorageCapacity [] = 0"
| "persistenceStorageCapacity (t # ts) =
     (if Name (pvc_Meta t) = ''persistence'' then rget (pvc_Requests (pvc_Spec t)) ''storage''
      else persistenceStorageCapacity ts)"

definition reconcilePVC :: "'f api \<Rightarrow> statefulSet \<Rightarrow> unit step" where
  "reconcilePVC A desiredSts =
     bindS getRmq (\<lambda>rmq.
     bindS (tryS (Scale A rmq (persistenceStorageCapacity (sts_VolumeClaimTemplates desiredSts)))) (\<lambda>res.
     case res of
       Inl err \<Rightarrow>
         bindS (recordEvent ''Warning'' ''FailedReconcilePersistence'' (''Failed to scale PVCs: '' @ Error err))
           (\<lambda>_. throwS err)
     | Inr _ \<Rightarrow> returnS ()))"


section \<open>The deletion comes to its end\<close>

text \<open>
  The clock does not go back, and a sleep takes its time.
\<close>

definition clock_law :: "'f api \<Rightarrow> bool" where
  "clock_law A \<longleftrightarrow> (\<forall>h h'. k_Now A h \<le> k_Now A (h @ h')) \<and>
     (\<forall>h d h'. k_Now A h + d \<le> k_Now A (h @ Sleep d # h'))"

text \<open>
  The libraries report errors and do not panic, and a pod found by its labels has labels.
\<close>

definition pods_law :: "'f api \<Rightarrow> bool" where
  "pods_law A \<longleftrightarrow>
     (\<forall>h ns p c cmd e. k_Exec A h ns p c cmd = Inl e \<longrightarrow> \<not> isPanic e) \<and>
     (\<forall>h ns n e. k_ListPods A h ns n = Inl e \<longrightarrow> \<not> isPanic e) \<and>
     (\<forall>h p e. k_UpdatePod A h p = Some e \<longrightarrow> \<not> isPanic e) \<and>
     (\<forall>h ns n pods p. k_ListPods A h ns n = Inr pods \<longrightarrow> p \<in> set pods \<longrightarrow> Labels (pod_Meta p) \<noteq> None)"

lemma run_checkIfLabelPropagated:
  assumes "pods_law A"
  shows "\<exists>b. run_state (checkIfLabelPropagated A) s = (Inr b, s\<lparr>Hist := Hist s @
    [Exec (cluster_Namespace (Rmq s)) (ChildResourceName (Rmq s) ''server'' @ ''-0'') ''rabbitmq''
       [''sh'', ''-c'', ''cat /etc/pod-info/skipPreStopChecks'']]\<rparr>)"
  using assms unfolding checkIfLabelPropagated_def exec_def pods_law_def
  by (auto split: sum.splits)

lemma waitForLabel_ends:
  assumes "clock_law A" and "pods_law A" and "timeout - k_Now A (Hist s) \<le> 200 * int n"
  shows "fst (run_state (waitForLabel A (Suc n) timeout) s) = Inr True"
  using assms(3)
proof (induction n arbitrary: s)
  case 0
  then show ?case by (simp add: readClock_def)
next
  case (Suc n)
  let ?s1 = "s\<lparr>Hist := Hist s @ [ReadClock]\<rparr>"
  obtain b e where e: "run_state (checkIfLabelPropagated A) ?s1 = (Inr b, ?s1\<lparr>Hist := Hist s @ [ReadClock, e]\<rparr>)"
    using run_checkIfLabelPropagated [OF assms(2), of ?s1] by auto
  have "k_Now A (Hist s) \<le> k_Now A (Hist s @ [ReadClock, e])"
    and "k_Now A (Hist s @ [ReadClock, e]) + 200 \<le> k_Now A ((Hist s @ [ReadClock, e]) @ [Sleep 200])"
    using assms(1) unfolding clock_law_def by blast+
  then have "k_Now A (Hist s) + 200 \<le> k_Now A (Hist s @ [ReadClock, e, Sleep 200])" by simp
  then have "fst (run_state (waitForLabel A (Suc n) timeout) (s\<lparr>Hist := Hist s @ [ReadClock, e, Sleep 200]\<rparr>)) = Inr True"
    using Suc by simp
  then show ?case
    unfolding waitForLabel.simps(2) [of A "Suc n"] by (simp add: readClock_def e del: waitForLabel.simps)
qed

text \<open>What a deletion may request before the finalizer is removed.\<close>

fun deletionRequest :: "request \<Rightarrow> bool" where
  "deletionRequest (ListPods ns n) = True"
| "deletionRequest (UpdatePod p) = (mget (Labels (pod_Meta p)) DeletionMarker = Some ''true'')"
| "deletionRequest (Exec ns p c cmd) = (cmd = [''sh'', ''-c'', ''cat /etc/pod-info/skipPreStopChecks''])"
| "deletionRequest ReadClock = True"
| "deletionRequest (Sleep d) = (d = 200)"
| "deletionRequest q = False"

lemma emits_waitForLabel: "emits deletionRequest (waitForLabel A n timeout)"
  by (induction A n timeout rule: waitForLabel.induct)
    (auto simp: readClock_def checkIfLabelPropagated_def exec_def intro!: emits_rules)

lemma emits_addRabbitmqDeletionLabel: "emits deletionRequest (addRabbitmqDeletionLabel A)"
  by (auto simp: addRabbitmqDeletionLabel_def labelPod_def Let_def mget_def intro!: emits_rules)

lemma calm_addRabbitmqDeletionLabel:
  assumes "pods_law A"
  shows "calm (addRabbitmqDeletionLabel A)"
proof -
  have l: "calm (labelPod A p)" if "Labels (pod_Meta p) \<noteq> None" for p
    using that assms unfolding labelPod_def Let_def pods_law_def
    by (auto intro!: calm_tryS_bindS calm_request calm_pure)
  have e: "k_ListPods A h ns n = Inl e \<Longrightarrow> \<not> isPanic e"
    and p: "k_ListPods A h ns n = Inr pods \<Longrightarrow> p \<in> set pods \<Longrightarrow> Labels (pod_Meta p) \<noteq> None" for h ns n e pods p
    using assms unfolding pods_law_def by blast+
  show ?thesis
    unfolding addRabbitmqDeletionLabel_def
    by (rule calm_bindS, rule calm_pure, rule calm_requestE_bindS, erule e, rule calm_forS, rule l, erule p)
qed


lemma deletion_keeps_cluster:
  "keeps (\<lambda>s. Rmq s = r) (addRabbitmqDeletionLabel A)" "keeps (\<lambda>s. Rmq s = r) (waitForLabel A n timeout)"
  subgoal by (auto simp: addRabbitmqDeletionLabel_def labelPod_def Let_def intro!: keeps_rules)
  subgoal by (induction A n timeout rule: waitForLabel.induct)
    (auto simp: readClock_def checkIfLabelPropagated_def exec_def intro!: keeps_rules)
  done

lemma prepareForDeletion_trace:
  assumes "retry_law A" and "clock_law A" and "pods_law A"
    and "k_ContainsFinalizer A (Meta (Rmq s)) deletionFinalizer"
  shows "\<exists>new. list_all deletionRequest new \<and>
    Hist (snd (run_state (prepareForDeletion A) s)) =
      Hist s @ new @ [RemoveFinalizer (cluster_Namespace (Rmq s)) (cluster_Name (Rmq s))]"
proof -
  let ?label = "k_OnError A IsConflict (addRabbitmqDeletionLabel A)"
  obtain r s1 where s1: "run_state (tryS ?label) s = (Inr r, s1)"
    using calm_tryS_run [OF calm_OnError [OF assms(1) calm_addRabbitmqDeletionLabel [OF assms(3)]]] by blast
  have "emits deletionRequest (tryS ?label)" and k: "keeps (\<lambda>t. Rmq t = Rmq s) (tryS ?label)"
    by (intro emits_tryS emits_OnError keeps_tryS keeps_OnError assms emits_addRabbitmqDeletionLabel deletion_keeps_cluster)+
  then obtain n1 where n1: "Hist s1 = Hist s @ n1" "list_all deletionRequest n1"
    using s1 by (metis emits_run)
  let ?s2 = "s1\<lparr>Hist := Hist s1 @ [ReadClock]\<rparr>" and ?t = "k_Now A (Hist s1) + 3000"
  have "k_Now A (Hist s1) \<le> k_Now A (Hist ?s2)" using assms(2) unfolding clock_law_def by simp
  then have "fst (run_state (waitForLabel A (Suc 15) ?t) ?s2) = Inr True"
    by (intro waitForLabel_ends assms) simp
  moreover have "Suc 15 = waitIterations" by (simp add: waitIterations_def)
  ultimately obtain s3 where s3: "run_state (waitForLabel A waitIterations ?t) ?s2 = (Inr True, s3)"
    by (metis prod.collapse)
  obtain n2 where n2: "Hist s3 = Hist ?s2 @ n2" "list_all deletionRequest n2"
    using emits_waitForLabel s3 by (rule emits_run)
  have "Rmq s1 = Rmq s" using keepsD [OF k refl s1] .
  then have "Rmq s3 = Rmq s" using keepsD [OF deletion_keeps_cluster(2) _ s3, of "Rmq s"] by simp
  then have "Hist (snd (run_state (prepareForDeletion A) s)) =
      Hist s @ (n1 @ ReadClock # n2) @ [RemoveFinalizer (cluster_Namespace (Rmq s)) (cluster_Name (Rmq s))]"
    unfolding prepareForDeletion_def removeFinalizer_def
    using assms(4) s1 s3 n1(1) n2(1)
    by (simp add: readClock_def del: run_tryS) (auto split: option.splits sum.splits)
  moreover have "list_all deletionRequest (n1 @ ReadClock # n2)" using n1 n2 by simp
  ultimately show ?thesis by blast
qed


section \<open>TLS secrets are checked\<close>

text \<open>What has to be there for TLS to be configured, as the reads at the given history find it.\<close>

definition tlsReady :: "'f api \<Rightarrow> history \<Rightarrow> RabbitmqCluster \<Rightarrow> bool" where
  "tlsReady A h r \<longleftrightarrow>
     (let ns = cluster_Namespace r; name = SecretName (TLS (Spec r)); caName = CaSecretName (TLS (Spec r)) in
      (DisableNonTLSListeners r \<longrightarrow> TLSEnabled r) \<and>
      (SecretTLSEnabled r \<longrightarrow>
        (\<exists>sec. k_ReadSecret A h ns name = Inr sec \<and>
           mget (sec_Data sec) ''tls.crt'' \<noteq> None \<and> mget (sec_Data sec) ''tls.key'' \<noteq> None \<and>
           (MutualTLSEnabled r \<longrightarrow>
              (if SingleTLSSecret r then mget (sec_Data sec) ''ca.crt'' \<noteq> None
               else \<exists>ca. k_ReadSecret A (h @ [ReadSecret ns name]) ns caName = Inr ca \<and>
                      mget (sec_Data ca) ''ca.crt'' \<noteq> None)))))"

lemma checkTLSSecrets_success:
  "run_state (checkTLSSecrets A) s = (Inr (), s') \<longleftrightarrow>
     (let r = Rmq s; ns = cluster_Namespace r; name = SecretName (TLS (Spec r)); caName = CaSecretName (TLS (Spec r))
      in \<exists>sec. k_ReadSecret A (Hist s) ns name = Inr sec \<and>
           mget (sec_Data sec) ''tls.crt'' \<noteq> None \<and> mget (sec_Data sec) ''tls.key'' \<noteq> None \<and>
           (if MutualTLSEnabled r \<and> \<not> SingleTLSSecret r
            then (\<exists>ca. k_ReadSecret A (Hist s @ [ReadSecret ns name]) ns caName = Inr ca \<and>
                      mget (sec_Data ca) ''ca.crt'' \<noteq> None) \<and>
                 s' = s\<lparr>Hist := Hist s @ [ReadSecret ns name, ReadSecret ns caName]\<rparr>
            else (MutualTLSEnabled r \<longrightarrow> mget (sec_Data sec) ''ca.crt'' \<noteq> None) \<and>
                 s' = s\<lparr>Hist := Hist s @ [ReadSecret ns name]\<rparr>))"
  unfolding checkTLSSecrets_def readSecret_def recordEvent_def Let_def
  by (auto split: sum.splits if_splits)

lemma reconcileTLS_runs:
  "run_state (reconcileTLS A) s = (Inr (), s') \<longleftrightarrow>
     (DisableNonTLSListeners (Rmq s) \<longrightarrow> TLSEnabled (Rmq s)) \<and>
     (if SecretTLSEnabled (Rmq s) then run_state (checkTLSSecrets A) s = (Inr (), s') else s' = s)"
proof -
  let ?F = "\<lambda>res. case res of
       Inl err \<Rightarrow> bindS (setReconcileSuccess A ConditionFalse ''TLSError'' (Error err)) (\<lambda>_. throwS err)
     | Inr _ \<Rightarrow> returnS ()"
  have F: "run_state (?F x) t = (Inr (), s') \<longleftrightarrow> x = Inr () \<and> s' = t" for x t
    by (cases x) (auto split: prod.splits sum.splits)
  have check: "run_state (bindS (tryS (checkTLSSecrets A)) ?F) s = (Inr (), s') \<longleftrightarrow>
      run_state (checkTLSSecrets A) s = (Inr (), s')"
  proof -
    obtain r s1 where r: "run_state (tryS (checkTLSSecrets A)) s = (r, s1)" by (metis surj_pair)
    have "run_state (bindS (tryS (checkTLSSecrets A)) ?F) s = (Inr (), s') \<longleftrightarrow> r = Inr (Inr ()) \<and> s' = s1"
      unfolding run_bindS r using F by (cases r) auto
    also have "\<dots> \<longleftrightarrow> run_state (tryS (checkTLSSecrets A)) s = (Inr (Inr ()), s')" using r by auto
    finally show ?thesis unfolding run_tryS_Inr .
  qed
  consider "DisableNonTLSListeners (Rmq s) \<and> \<not> TLSEnabled (Rmq s)"
    | "DisableNonTLSListeners (Rmq s) \<longrightarrow> TLSEnabled (Rmq s)" "SecretTLSEnabled (Rmq s)"
    | "DisableNonTLSListeners (Rmq s) \<longrightarrow> TLSEnabled (Rmq s)" "\<not> SecretTLSEnabled (Rmq s)" by blast
  then show ?thesis
  proof cases
    case 1
    then show ?thesis by (auto simp: reconcileTLS_def split: prod.splits sum.splits)
  next
    case 2
    then have "\<not> (DisableNonTLSListeners (Rmq s) \<and> \<not> TLSEnabled (Rmq s))" by blast
    then have "run_state (reconcileTLS A) s = run_state (bindS (tryS (checkTLSSecrets A)) ?F) s"
      using 2 by (simp only: reconcileTLS_def run_bindS [of getRmq] run_getRmq prod.case sum.case if_True if_False)
    then show ?thesis using 2 check by simp
  next
    case 3
    then show ?thesis by (auto simp: reconcileTLS_def)
  qed
qed


section \<open>Scaling to zero and back\<close>

text \<open>
  C22. What is saved when a cluster is scaled to zero is what scaling from zero is checked against: if
  saving the replicas of a StatefulSet succeeds, the last request writes a cluster for which scaling
  up from zero is let through, without a request, if it restores exactly that number, and refused
  otherwise.
\<close>

theorem zero_round_trip:
  assumes "retry_law A" and "sts_Replicas current = Some c" and "sts_Replicas sts = Some d"
    and "0 < c" and "c < 2 ^ 31" and "run_state (saveReplicasBeforeZero A current) s = (Inr (), s')"
  shows "\<exists>h r. Hist s' = h @ [UpdateCluster r] \<and>
    (\<forall>B t. Rmq t = r \<longrightarrow>
       (if d = c then run_state (scaleFromZeroToBeforeReplicasConfigured B sts) t = (Inr False, t)
        else fst (run_state (scaleFromZeroToBeforeReplicasConfigured B sts) t) \<noteq> Inr False))"
proof -
  let ?u = "bindS (requestE (GetCluster (cluster_Namespace (Rmq s)) (cluster_Name (Rmq s)))
      (\<lambda>h. k_GetCluster A h (cluster_Namespace (Rmq s)) (cluster_Name (Rmq s)))) (\<lambda>r.
        bindS (setRmq (r\<lparr>Meta := withAnnotation beforeZeroReplicasConfigured (Itoa c) (Meta r)\<rparr>)) (\<lambda>_. updateRmq A))"
  have "\<exists>s1. run_state (k_OnError A errorIsConflictOrNotFound ?u) s1 = (Inr (), s')"
    using assms(2,6) unfolding saveReplicasBeforeZero_def updateAnnotationCluster_def
    by (auto simp: deref_def recordEvent_def)
  then obtain s2 where s2: "run_state ?u s2 = (Inr (), s')" using OnError_success [OF assms(1)] by blast
  then obtain r h where r: "Hist s' = h @ [UpdateCluster r]"
      "mget (Annotations (Meta r)) beforeZeroReplicasConfigured = Some (Itoa c)"
    by (auto simp: updateRmq_def withAnnotation_def mget_def split: sum.splits)
  have p: "ParseInt10 32 (Itoa c) = Some c" using assms(4,5) by (intro ParseInt10_Itoa) simp_all
  have "if d = c then run_state (scaleFromZeroToBeforeReplicasConfigured B sts) t = (Inr False, t)
        else fst (run_state (scaleFromZeroToBeforeReplicasConfigured B sts) t) \<noteq> Inr False" if "Rmq t = r" for B :: "'b api" and t
    using that r(2) p assms(3)
    by (auto simp: scaleFromZeroToBeforeReplicasConfigured_def deref_def refuseScaling_def
        split: prod.splits sum.splits)
  with r(1) show ?thesis by blast
qed


section \<open>Conflicts while the defaults are enforced\<close>

text \<open>
  A conflict while the operator enforces its images is not retried later: the step never asks
  for the reconciliation to be run again, although \<open>updateRabbitmqCluster\<close> asks for two seconds on
  a conflict. The reconciliation goes on with a cluster whose write has failed.
\<close>

theorem operator_defaults_never_requeue:
  assumes "run_state (reconcileOperatorDefaults A R) s = (Inr d, s')"
  shows "d = 0"
  using assms by (auto simp: reconcileOperatorDefaults_def split: if_splits prod.splits sum.splits)

section \<open>Examples\<close>

theorem zero_round_trip_witness:
  "\<exists>s' r. run_state (saveReplicasBeforeZero (exampleApi (exampleServer 3)) (exampleStatefulSet 3 3))
       (startState (exampleServer 3)) = (Inr (), s') \<and> last (Hist s') = UpdateCluster r \<and>
     run_state (scaleFromZeroToBeforeReplicasConfigured (exampleApi r) (exampleStatefulSet 3 0)) (startState r) =
       (Inr False, startState r)"
proof -
  let ?A = "exampleApi (exampleServer 3)" and ?s = "startState (exampleServer 3)"
  have l: "retry_law ?A" by (rule exampleApi_laws(1)) (simp add: exampleApi_def)
  have n: "sts_Replicas (exampleStatefulSet k j) = Some k" for k j by (simp add: exampleStatefulSet_def)
  obtain s' where r: "run_state (saveReplicasBeforeZero ?A (exampleStatefulSet 3 3)) ?s = (Inr (), s')"
    by (simp add: saveReplicasBeforeZero_def n deref_def recordEvent_def updateAnnotationCluster_def updateRmq_def exampleApi_def)
  from zero_round_trip [OF l n n _ _ r, of 3 0]
  obtain h c where c: "Hist s' = h @ [UpdateCluster c]" and
    z: "\<forall>(B :: (string \<times> string) list api) t. Rmq t = c \<longrightarrow>
      run_state (scaleFromZeroToBeforeReplicasConfigured B (exampleStatefulSet 3 0)) t = (Inr False, t)"
    by auto
  have "run_state (scaleFromZeroToBeforeReplicasConfigured (exampleApi c) (exampleStatefulSet 3 0)) (startState c) =
      (Inr False, startState c)" using z by simp
  moreover have "last (Hist s') = UpdateCluster c" using c by simp
  ultimately show ?thesis using r by blast
qed

definition conflictApi :: "(string \<times> string) list api" where
  "conflictApi = (exampleApi (exampleServer 3))\<lparr>k_UpdateCluster := (\<lambda>h c. Inl (StatusError Conflict []))\<rparr>"

definition exampleReconciler :: RabbitmqClusterReconciler where
  "exampleReconciler = \<lparr>rec_DefaultRabbitmqImage = ''rabbitmq'', rec_DefaultUserUpdaterImage = [], rec_ControlRabbitmqImage = True\<rparr>"

theorem operator_defaults_never_requeue_witness:
  "\<exists>s'. run_state (reconcileOperatorDefaults conflictApi exampleReconciler) (startState (exampleServer 3)) = (Inr 0, s') \<and>
     fst (run_state (updateRabbitmqCluster conflictApi) (startState (exampleServer 3))) = Inr 2000"
proof -
  let ?s = "startState (exampleServer 3)"
  have u: "run_state (updateRabbitmqCluster conflictApi) s = (Inr 2000, s\<lparr>Hist := Hist s @ [UpdateCluster (Rmq s)]\<rparr>)" for s
    by (simp add: updateRabbitmqCluster_def updateRmq_def conflictApi_def IsConflict_def)
  have v: "\<not> VaultEnabled (r\<lparr>Spec := (Spec (exampleServer 3))\<lparr>Image := i\<rparr>\<rparr>)" for r i
    by (simp add: VaultEnabled_def exampleServer_def emptyClusterSpec_def)
  obtain d s' where r: "run_state (reconcileOperatorDefaults conflictApi exampleReconciler) ?s = (Inr d, s')"
    by (simp add: reconcileOperatorDefaults_def exampleReconciler_def u v)
  with operator_defaults_never_requeue [OF r] u show ?thesis by auto
qed

end
