(* ===== verification/Reconcile_Runtime.thy ===== *)
theory Reconcile_Runtime
  imports Controller_Base
begin

text \<open>
  The steps a reconciliation takes on the running cluster: restarts after a change of the
  configuration (\<open>reconcile_rabbitmq_configurations.go\<close>), the status (\<open>reconcile_status.go\<close>) and
  the commands run in the pods (\<open>reconcile_cli.go\<close>) of \<open>internal/controller\<close>.
\<close>

section \<open>Configuration changes\<close>

definition pluginsUpdateAnnotation :: string where
  "pluginsUpdateAnnotation = ''rabbitmq.com/pluginsUpdatedAt''"

definition serverConfAnnotation :: string where
  "serverConfAnnotation = ''rabbitmq.com/serverConfUpdatedAt''"

definition stsRestartAnnotation :: string where
  "stsRestartAnnotation = ''rabbitmq.com/lastRestartAt''"

definition stsCreateAnnotation :: string where
  "stsCreateAnnotation = ''rabbitmq.com/createdAt''"

text \<open>
  The type switch of \<open>annotateIfNeeded\<close>: the step that writes the annotation and the name of the
  object, if there is something to annotate.
\<close>

definition annotationTarget ::
  "'f api \<Rightarrow> builderKind \<Rightarrow> operationResult \<Rightarrow> bool \<Rightarrow> RabbitmqCluster \<Rightarrow> (string \<times> (string \<Rightarrow> unit step)) option" where
  "annotationTarget A builder operationResult updateRequiresStsRestart rmq =
     (case builder of
        RabbitmqPluginsConfigMapBuilder \<Rightarrow>
          if operationResult \<noteq> ResultUpdated then None
          else let objName = ChildResourceName rmq PluginsConfigName
               in Some (objName, updateAnnotationCm A (cluster_Namespace rmq) objName pluginsUpdateAnnotation)
      | ServerConfigMapBuilder \<Rightarrow>
          if operationResult \<noteq> ResultUpdated \<or> \<not> updateRequiresStsRestart then None
          else let objName = ChildResourceName rmq ServerConfigMapName
               in Some (objName, updateAnnotationCm A (cluster_Namespace rmq) objName serverConfAnnotation)
      | StatefulSetBuilder \<Rightarrow>
          if operationResult \<noteq> ResultCreated then None
          else let objName = ChildResourceName rmq ''server''
               in Some (objName, updateAnnotationSts A (cluster_Namespace rmq) objName stsCreateAnnotation)
      | _ \<Rightarrow> None)"

definition annotateIfNeeded :: "'f api \<Rightarrow> builderKind \<Rightarrow> operationResult \<Rightarrow> bool \<Rightarrow> unit step" where
  "annotateIfNeeded A builder operationResult updateRequiresStsRestart =
     bindS getRmq (\<lambda>rmq.
     case annotationTarget A builder operationResult updateRequiresStsRestart rmq of
       None \<Rightarrow> returnS ()
     | Some (objName, annotate) \<Rightarrow>
         bindS (readClock A) (\<lambda>now.
         bindS (tryS (annotate (k_FormatTime A now))) (\<lambda>res.
         case res of
           Inl err \<Rightarrow>
             bindS (recordEvent ''Warning'' ''FailedUpdate'' (''failed to annotate '' @ objName)) (\<lambda>_. throwS err)
         | Inr _ \<Rightarrow> returnS ())))"

text \<open>\<open>return 10 * time.Second, client.IgnoreNotFound(err)\<close>.\<close>

definition requeueIfNotFound :: "goerror \<Rightarrow> int step" where
  "requeueIfNotFound err = (if IsNotFound err then returnS 10000 else throwS err)"

text \<open>The function that is retried: it reads the StatefulSet anew and sets the annotation of its pods.\<close>

definition annotateRestart :: "'f api \<Rightarrow> unit step" where
  "annotateRestart A =
     bindS (getSts A) (\<lambda>sts.
     bindS (readClock A) (\<lambda>now.
     let sts' = sts\<lparr>sts_TemplateMeta := withAnnotation stsRestartAnnotation (k_FormatTime A now) (sts_TemplateMeta sts)\<rparr>
     in requestO (UpdateStatefulSet sts') (\<lambda>h. k_UpdateStatefulSet A h sts')))"

text \<open>Go compares strings bytewise.\<close>

definition restartStatefulSetIfNeeded :: "'f api \<Rightarrow> int step" where
  "restartStatefulSetIfNeeded A =
     bindS getRmq (\<lambda>rmq.
     bindS (tryS (getConfigMap A (ChildResourceName rmq ServerConfigMapName))) (\<lambda>c.
     case c of
       Inl err \<Rightarrow> requeueIfNotFound err
     | Inr serverConf \<Rightarrow>
         (case mget (Annotations (cm_Meta serverConf)) serverConfAnnotation of
            None \<Rightarrow> returnS 0
          | Some serverConfigUpdatedAt \<Rightarrow>
              bindS (tryS (getSts A)) (\<lambda>s.
              case s of
                Inl err \<Rightarrow> requeueIfNotFound err
              | Inr sts \<Rightarrow>
                  if (case mget (Annotations (sts_TemplateMeta sts)) stsRestartAnnotation of
                        None \<Rightarrow> False
                      | Some stsRestartedAt \<Rightarrow> serverConfigUpdatedAt < stsRestartedAt)
                  then returnS 0
                  else
                    bindS (tryS (k_OnError A IsConflict (annotateRestart A))) (\<lambda>res.
                    case res of
                      Inl err \<Rightarrow>
                        bindS (recordEvent ''Warning'' ''FailedUpdate''
                          (''failed to restart StatefulSet '' @ ChildResourceName rmq ''server'' @
                           ''; rabbitmq.conf configuration may be outdated'')) (\<lambda>_. throwS err)
                    | Inr _ \<Rightarrow>
                        bindS (recordEvent ''Normal'' ''SuccessfulUpdate''
                          (''restarted StatefulSet '' @ ChildResourceName rmq ''server'')) (\<lambda>_. returnS 0))))))"

text \<open>The config map is a pointer; the field access panics if it is nil.\<close>

definition pluginsConfigUpdatedRecently :: "'f api \<Rightarrow> configMap option \<Rightarrow> bool step" where
  "pluginsConfigUpdatedRecently A cfg =
     bindS (liftS (deref cfg)) (\<lambda>cm.
     case mget (Annotations (cm_Meta cm)) pluginsUpdateAnnotation of
       None \<Rightarrow> returnS False
     | Some pluginsUpdatedAt \<Rightarrow>
         bindS (liftS (k_ParseTime A pluginsUpdatedAt)) (\<lambda>annotationTime.
         bindS (readClock A) (\<lambda>now. returnS (now - annotationTime < 2000))))"

section \<open>The status\<close>

definition desiredDefaultUser :: "RabbitmqCluster \<Rightarrow> RabbitmqClusterDefaultUser" where
  "desiredDefaultUser rmq =
     \<lparr>SecretReference =
        (if \<not> VaultDefaultUserSecretEnabled rmq
         then Some \<lparr>sr_Name = ChildResourceName rmq DefaultUserSecretName, sr_Namespace = cluster_Namespace rmq,
                sr_Keys = Some [''username'' \<mapsto> ''username'', ''password'' \<mapsto> ''password'']\<rparr>
         else None),
      ServiceReference = Some \<lparr>svr_Name = ChildResourceName rmq [], svr_Namespace = cluster_Namespace rmq\<rparr>\<rparr>"

definition desiredBinding :: "RabbitmqCluster \<Rightarrow> string option" where
  "desiredBinding rmq =
     (if \<not> VaultDefaultUserSecretEnabled rmq
      then Some (if \<not> ExternalSecretEnabled rmq then ChildResourceName rmq DefaultUserSecretName
                 else ExternalSecret (spec_SecretBackend (Spec rmq)))
      else None)"

definition reconcileStatus :: "'f api \<Rightarrow> unit step" where
  "reconcileStatus A =
     bindS getRmq (\<lambda>rmq.
     let defaultUserStatus = desiredDefaultUser rmq; binding = desiredBinding rmq
     in if DefaultUser (ClusterStatus rmq) \<noteq> Some defaultUserStatus \<or> Binding (ClusterStatus rmq) \<noteq> binding
        then
          bindS (setRmq (rmq\<lparr>ClusterStatus := (ClusterStatus rmq)
            \<lparr>DefaultUser := Some defaultUserStatus, Binding := binding\<rparr>\<rparr>)) (\<lambda>_.
          patchStatus A rmq)
        else returnS ())"

definition getPodEndpoints :: "'f api \<Rightarrow> endpoint list step" where
  "getPodEndpoints A =
     bindS getRmq (\<lambda>rmq.
     bindS (tryS (requestE (ListEndpointSlices (cluster_Namespace rmq) (cluster_Name rmq))
       (\<lambda>h. k_ListEndpointSlices A h (cluster_Namespace rmq) (cluster_Name rmq)))) (\<lambda>res.
     case res of
       Inl err \<Rightarrow> throwS (WrapError ''failed to list endpoint slices'' err)
     | Inr slices \<Rightarrow>
         (case slices of
            [] \<Rightarrow> throwS (PlainError (''no endpoint slices found for cluster '' @ cluster_Name rmq))
          | s # _ \<Rightarrow> returnS (es_Endpoints s))))"

text \<open>The result of a check: the name of the pod and its status.\<close>

type_synonym nodeQuorumCheck = "string \<times> string"

definition checkNodeQuorumStatus :: "'f api \<Rightarrow> string \<Rightarrow> nodeQuorumCheck step" where
  "checkNodeQuorumStatus A podName =
     bindS getRmq (\<lambda>rmq.
     bindS (tryS (requestE (PodQuorumCheck (cluster_Namespace rmq) podName) (\<lambda>h. k_QuorumCheck A h podName))) (\<lambda>res.
     returnS (podName, (case res of
        Inl err \<Rightarrow> ''unavailable''
      | Inr ok \<Rightarrow> if ok then ''ok'' else ''quorum-critical''))))"

definition endpointPodName :: "endpoint \<Rightarrow> string" where
  "endpointPodName e =
     (case ep_Hostname e of
        Some n \<Rightarrow> if n \<noteq> [] then n else
          (case ep_TargetRef e of Some t \<Rightarrow> if t \<noteq> [] then t else ''unknown'' | None \<Rightarrow> ''unknown'')
      | None \<Rightarrow>
          (case ep_TargetRef e of Some t \<Rightarrow> if t \<noteq> [] then t else ''unknown'' | None \<Rightarrow> ''unknown''))"

fun mapS :: "('a \<Rightarrow> 'b step) \<Rightarrow> 'a list \<Rightarrow> 'b list step" where
  "mapS f [] = returnS []"
| "mapS f (x # xs) = bindS (f x) (\<lambda>y. bindS (mapS f xs) (\<lambda>ys. returnS (y # ys)))"

text \<open>The loop over the results: critical pods in the order of arrival, and two counters.\<close>

definition criticalPods :: "nodeQuorumCheck list \<Rightarrow> string list" where
  "criticalPods results = map fst (filter (\<lambda>r. snd r = ''quorum-critical'') results)"

definition countStatus :: "string \<Rightarrow> nodeQuorumCheck list \<Rightarrow> nat" where
  "countStatus st results = length (filter (\<lambda>r. snd r = st) results)"

definition quorumStatusOf :: "nodeQuorumCheck list \<Rightarrow> string" where
  "quorumStatusOf results =
     (let critical = criticalPods results; unavailableCount = countStatus ''unavailable'' results;
          okCount = countStatus ''ok'' results
      in if length critical > 0
         then (let status = ''quorum-critical: '' @ Join critical '', ''
               in if unavailableCount > 0 then status @ '' ('' @ Itoa (int unavailableCount) @ '' unavailable)'' else status)
         else if okCount > 0
         then (if unavailableCount > 0 then ''ok ('' @ Itoa (int unavailableCount) @ '' unavailable)'' else ''ok'')
         else ''unavailable'')"

text \<open>
  The nodes are checked concurrently: the requests are listed in the order of the endpoints, and
  the results arrive in an order that is a parameter.
\<close>

definition checkQuorumStatus :: "'f api \<Rightarrow> string step" where
  "checkQuorumStatus A =
     bindS (tryS (getPodEndpoints A)) (\<lambda>res.
     case res of
       Inl err \<Rightarrow> returnS ''unavailable''
     | Inr endpoints \<Rightarrow>
         if endpoints = [] then returnS ''unavailable''
         else
           bindS (mapS (checkNodeQuorumStatus A) (map endpointPodName endpoints)) (\<lambda>results.
           bindS (State (\<lambda>s. (Inr (k_QuorumOrder A (Hist s) results), s))) (\<lambda>arrived.
           returnS (quorumStatusOf arrived))))"

definition updateQuorumStatus :: "'f api \<Rightarrow> unit step" where
  "updateQuorumStatus A =
     bindS (checkQuorumStatus A) (\<lambda>newStatus.
     bindS getRmq (\<lambda>rmq.
     if QuorumStatus (ClusterStatus rmq) = newStatus then returnS ()
     else
       bindS (setRmq (rmq\<lparr>ClusterStatus := (ClusterStatus rmq)\<lparr>QuorumStatus := newStatus\<rparr>\<rparr>)) (\<lambda>_.
       bindS (tryS (patchStatus A rmq)) (\<lambda>res.
       case res of
         Inl err \<Rightarrow> if IsConflict err then returnS ()
                    else throwS (WrapError ''failed to update quorum status'' err)
       | Inr _ \<Rightarrow> returnS ()))))"

section \<open>Commands in the pods\<close>

definition queueRebalanceAnnotation :: string where
  "queueRebalanceAnnotation = ''rabbitmq.com/queueRebalanceNeededAt''"

definition statefulSetBeingUpdated :: "statefulSet \<Rightarrow> bool" where
  "statefulSetBeingUpdated sts = (sts_CurrentRevision sts \<noteq> sts_UpdateRevision sts)"

definition allReplicasReadyAndUpdated :: "statefulSet \<Rightarrow> bool" where
  "allReplicasReadyAndUpdated sts =
     (case sts_Replicas sts of
        None \<Rightarrow> False
      | Some n \<Rightarrow> sts_ReadyReplicas sts = n \<and> \<not> statefulSetBeingUpdated sts)"

text \<open>The conjunctions of Go are evaluated from the left; the replicas are read last.\<close>

definition statefulSetNeedsQueueRebalance :: "statefulSet \<Rightarrow> RabbitmqCluster \<Rightarrow> goerror + bool" where
  "statefulSetNeedsQueueRebalance sts rmq =
     (if statefulSetBeingUpdated sts \<and> \<not> SkipPostDeploySteps (Spec rmq)
      then bindE (deref (Replicas (Spec rmq))) (\<lambda>n. Inr (n > 1))
      else Inr False)"

text \<open>What the three commands share: on failure an event and a wrapped error.\<close>

definition execOrFail :: "'f api \<Rightarrow> string \<Rightarrow> string \<Rightarrow> string list \<Rightarrow> unit step" where
  "execOrFail A msg podName command =
     bindS (tryS (exec A podName ''rabbitmq'' command)) (\<lambda>res.
     case res of
       Inl err \<Rightarrow>
         bindS (recordEvent ''Warning'' ''FailedReconcile'' (msg @ '' '' @ podName)) (\<lambda>_.
         throwS (WrapError (msg @ '' '' @ podName) err))
     | Inr _ \<Rightarrow> returnS ())"

definition runEnableFeatureFlagsCommand :: "'f api \<Rightarrow> statefulSet \<Rightarrow> unit step" where
  "runEnableFeatureFlagsCommand A sts =
     bindS getRmq (\<lambda>rmq.
     bindS (execOrFail A ''failed to enable all feature flags on pod'' (ChildResourceName rmq ''server'' @ ''-0'')
       [''bash'', ''-c'', ''rabbitmqctl enable_feature_flag all'']) (\<lambda>_.
     deleteAnnotationSts A sts stsCreateAnnotation))"

definition serverPod :: "RabbitmqCluster \<Rightarrow> int \<Rightarrow> string" where
  "serverPod rmq i = ChildResourceName rmq ''server'' @ ''-'' @ Itoa i"

definition setPluginsCommand :: "RabbitmqCluster \<Rightarrow> string list" where
  "setPluginsCommand rmq =
     (let plugins = NewRabbitmqPlugins (AdditionalPlugins (Rabbitmq (Spec rmq)))
      in [''sh'', ''-c'', ''rabbitmq-plugins set '' @ AsString plugins '' ''])"

definition runSetPluginsCommand :: "'f api \<Rightarrow> configMap \<Rightarrow> unit step" where
  "runSetPluginsCommand A cm =
     bindS getRmq (\<lambda>rmq.
     bindS (liftS (deref (Replicas (Spec rmq)))) (\<lambda>replicas.
     bindS (forS (\<lambda>i. execOrFail A ''failed to set plugins on pod'' (serverPod rmq i) (setPluginsCommand rmq))
       (map int [0..<nat replicas])) (\<lambda>_.
     deleteAnnotationCm A cm pluginsUpdateAnnotation)))"

definition runQueueRebalanceCommand :: "'f api \<Rightarrow> unit step" where
  "runQueueRebalanceCommand A =
     bindS getRmq (\<lambda>rmq.
     bindS (execOrFail A ''failed to run queue rebalance on pod'' (ChildResourceName rmq ''server'' @ ''-0'')
       [''sh'', ''-c'', ''rabbitmq-queues rebalance all'']) (\<lambda>_.
     deleteAnnotationCluster A queueRebalanceAnnotation))"

definition runRabbitmqCLICommandsIfAnnotated :: "'f api \<Rightarrow> int step" where
  "runRabbitmqCLICommandsIfAnnotated A =
     bindS (getSts A) (\<lambda>sts.
     if \<not> allReplicasReadyAndUpdated sts then returnS 15000
     else
       bindS getRmq (\<lambda>rmq.
       bindS (tryS (getConfigMap A (ChildResourceName rmq PluginsConfigName))) (\<lambda>c.
       bindS (case c of
                Inr cm \<Rightarrow> returnS (Some cm)
              | Inl err \<Rightarrow> if IsNotFound err then returnS None else throwS err) (\<lambda>pluginsConfig.
       bindS (pluginsConfigUpdatedRecently A pluginsConfig) (\<lambda>updatedRecently.
       if updatedRecently then returnS 2000
       else
         bindS (liftS (deref pluginsConfig)) (\<lambda>cm.
         bindS (if mval (Annotations (cm_Meta cm)) pluginsUpdateAnnotation \<noteq> []
                then runSetPluginsCommand A cm else returnS ()) (\<lambda>_.
         bindS (if mval (Annotations (sts_Meta sts)) stsCreateAnnotation \<noteq> [] \<or> AutoEnableAllFeatureFlags (Spec rmq)
                then runEnableFeatureFlagsCommand A sts else returnS ()) (\<lambda>_.
         bindS (if mval (Annotations (Meta rmq)) queueRebalanceAnnotation \<noteq> []
                then runQueueRebalanceCommand A else returnS ()) (\<lambda>_.
         returnS 0)))))))))"

definition versionsAnnotated :: "overview \<Rightarrow> RabbitmqCluster \<Rightarrow> bool" where
  "versionsAnnotated ov rmq =
     (Annotations (Meta rmq) \<noteq> None \<and>
      mval (Annotations (Meta rmq)) RabbitmqVersionAnnotation = RabbitMQVersion ov \<and>
      mval (Annotations (Meta rmq)) ErlangVersionAnnotation = ErlangVersion ov)"

definition reconcileRabbitmqVersionAnnotation :: "'f api \<Rightarrow> int step" where
  "reconcileRabbitmqVersionAnnotation A =
     bindS (getSts A) (\<lambda>sts.
     if \<not> allReplicasReadyAndUpdated sts then returnS 15000
     else
       bindS getRmq (\<lambda>rmq.
       let podName = ChildResourceName rmq ''server'' @ ''-0'' in
       bindS (tryS (requestE (PodOverview (cluster_Namespace rmq) podName) (\<lambda>h. k_Overview A h podName))) (\<lambda>o'.
       case o' of
         Inl err \<Rightarrow> returnS 0
       | Inr ov \<Rightarrow>
           if versionsAnnotated ov rmq then returnS 0
           else
             bindS (setRmq (rmq\<lparr>Meta := withAnnotation ErlangVersionAnnotation (ErlangVersion ov)
               (withAnnotation RabbitmqVersionAnnotation (RabbitMQVersion ov) (Meta rmq))\<rparr>)) (\<lambda>_.
             bindS (tryS (updateRmq A)) (\<lambda>res.
             case res of
               Inl err \<Rightarrow> throwS (WrapError ''failed to update RabbitmqCluster with version annotations'' err)
             | Inr _ \<Rightarrow> returnS 0)))))"

definition markForQueueRebalance :: "'f api \<Rightarrow> unit step" where
  "markForQueueRebalance A =
     bindS getRmq (\<lambda>rmq.
     let m = (Meta rmq)\<lparr>Annotations := Some (case Annotations (Meta rmq) of None \<Rightarrow> Map.empty | Some a \<Rightarrow> a)\<rparr> in
     bindS (setRmq (rmq\<lparr>Meta := m\<rparr>)) (\<lambda>_.
     if length (mval (Annotations m) queueRebalanceAnnotation) > 0 then returnS ()
     else
       bindS (readClock A) (\<lambda>now.
       bindS (setRmq (rmq\<lparr>Meta := withAnnotation queueRebalanceAnnotation (k_FormatTime A now) m\<rparr>)) (\<lambda>_.
       updateRmq A))))"


section \<open>Plugins are set on every pod\<close>

text \<open>The request that sets the plugins on a pod, and its answer.\<close>

definition setPluginsRequest :: "RabbitmqCluster \<Rightarrow> int \<Rightarrow> request" where
  "setPluginsRequest rmq i =
     Exec (cluster_Namespace rmq) (serverPod rmq i) ''rabbitmq'' (setPluginsCommand rmq)"

definition setPluginsAnswer :: "'f api \<Rightarrow> history \<Rightarrow> RabbitmqCluster \<Rightarrow> int \<Rightarrow> goerror + string" where
  "setPluginsAnswer A h rmq i =
     k_Exec A h (cluster_Namespace rmq) (serverPod rmq i) ''rabbitmq'' (setPluginsCommand rmq)"

abbreviation setPluginsOn :: "'f api \<Rightarrow> RabbitmqCluster \<Rightarrow> int \<Rightarrow> unit step" where
  "setPluginsOn A rmq i \<equiv>
     execOrFail A ''failed to set plugins on pod'' (serverPod rmq i) (setPluginsCommand rmq)"

lemma execOrFail_success:
  "run_state (execOrFail A msg podName cmd) s = (Inr (), s') \<longleftrightarrow>
     (\<exists>out. k_Exec A (Hist s) (cluster_Namespace (Rmq s)) podName ''rabbitmq'' cmd = Inr out) \<and>
     s' = s\<lparr>Hist := Hist s @ [Exec (cluster_Namespace (Rmq s)) podName ''rabbitmq'' cmd]\<rparr>"
  by (auto simp: execOrFail_def exec_def recordEvent_def split: sum.splits if_splits)

fun isConfigMapUpdate :: "request \<Rightarrow> bool" where
  "isConfigMapUpdate (UpdateConfigMap c) = True"
| "isConfigMapUpdate q = False"

lemma emits_setPlugins: "emits (\<lambda>q. \<not> isConfigMapUpdate q) (forS (setPluginsOn A rmq) is)"
  by (auto simp: execOrFail_def exec_def recordEvent_def intro!: emits_rules)

lemma setPlugins_success:
  assumes "run_state (forS (setPluginsOn A rmq) is) s = (Inr (), s')" and "cluster_Namespace (Rmq s) = cluster_Namespace rmq"
  shows "s' = s\<lparr>Hist := Hist s @ map (setPluginsRequest rmq) is\<rparr> \<and>
    (\<forall>k<length is. \<exists>out. setPluginsAnswer A (Hist s @ map (setPluginsRequest rmq) (take k is)) rmq (is ! k) = Inr out)"
  using assms
proof (induction "is" arbitrary: s)
  case (Cons i "is")
  let ?s1 = "s\<lparr>Hist := Hist s @ [setPluginsRequest rmq i]\<rparr>"
  have a: "\<exists>out. setPluginsAnswer A (Hist s) rmq i = Inr out"
    and r: "run_state (forS (setPluginsOn A rmq) is) ?s1 = (Inr (), s')"
    using Cons.prems execOrFail_success [of A _ "serverPod rmq i" "setPluginsCommand rmq" s]
    by (auto simp: setPluginsAnswer_def setPluginsRequest_def split: sum.splits prod.splits)
  have "cluster_Namespace (Rmq ?s1) = cluster_Namespace rmq" using Cons.prems(2) by simp
  note IH = Cons.IH [OF r this]
  have "\<exists>out. setPluginsAnswer A (Hist s @ map (setPluginsRequest rmq) (take k (i # is))) rmq ((i # is) ! k) = Inr out"
    if "k < length (i # is)" for k
    using that a IH by (cases k) auto
  then show ?case using IH by simp
qed simp

text \<open>
  The annotation that asks for the plugins to be set is only removed once they are set on every
  pod: if the config map is written at all, it is the last request, after one successful command
  for each replica in order, and the written map has no such annotation.
\<close>

theorem set_plugins_then_clear:
  assumes "run_state (runSetPluginsCommand A cm) s = (r, s')"
    and "Hist s' = Hist s @ new" and "UpdateConfigMap c \<in> set new"
  shows "\<exists>n. Replicas (Spec (Rmq s)) = Some n \<and>
    new = map (setPluginsRequest (Rmq s)) (map int [0..<nat n]) @ [UpdateConfigMap c] \<and>
    (\<forall>k<nat n. \<exists>out. setPluginsAnswer A (Hist s @ map (setPluginsRequest (Rmq s)) (map int [0..<k])) (Rmq s) (int k) = Inr out) \<and>
    mget (Annotations (cm_Meta c)) pluginsUpdateAnnotation = None"
proof -
  have noC: "UpdateConfigMap c \<notin> set new'" if "list_all (\<lambda>q. \<not> isConfigMapUpdate q) new'" for new'
    using that by (auto simp: list_all_iff)
  obtain n where n: "Replicas (Spec (Rmq s)) = Some n"
    using assms by (cases "Replicas (Spec (Rmq s))") (auto simp: runSetPluginsCommand_def deref_def Let_def)
  let ?is = "map int [0..<nat n]"
  obtain x s1 where x: "run_state (forS (setPluginsOn A (Rmq s)) ?is) s = (x, s1)" by (metis surj_pair)
  obtain n1 where n1: "Hist s1 = Hist s @ n1" "list_all (\<lambda>q. \<not> isConfigMapUpdate q) n1"
    using emits_setPlugins x by (rule emits_run)
  have "x = Inr ()"
  proof (rule ccontr)
    assume "x \<noteq> Inr ()"
    then obtain e where "x = Inl e" by (cases x) auto
    then have "s' = s1" using assms(1) n x by (simp add: runSetPluginsCommand_def deref_def Let_def)
    then show False using n1 assms(2,3) noC by simp
  qed
  then have ok: "s1 = s\<lparr>Hist := Hist s @ map (setPluginsRequest (Rmq s)) ?is\<rparr>"
      "\<forall>k<length ?is. \<exists>out. setPluginsAnswer A (Hist s @ map (setPluginsRequest (Rmq s)) (take k ?is)) (Rmq s) (?is ! k) = Inr out"
    using setPlugins_success x by blast+
  have r: "run_state (deleteAnnotationCm A cm pluginsUpdateAnnotation) s1 = (r, s')"
    using assms(1) n x \<open>x = Inr ()\<close> by (simp add: runSetPluginsCommand_def deref_def Let_def)
  let ?c = "cm\<lparr>cm_Meta := withoutAnnotation pluginsUpdateAnnotation (cm_Meta cm)\<rparr>"
  have cases: "new = map (setPluginsRequest (Rmq s)) ?is \<or>
     new = map (setPluginsRequest (Rmq s)) ?is @ [UpdateConfigMap ?c]"
    using r ok(1) assms(2) by (auto simp: deleteAnnotationCm_def Let_def split: if_splits)
  have "mget (Annotations (cm_Meta ?c)) pluginsUpdateAnnotation = None"
    by (simp add: withoutAnnotation_def mget_def split: option.splits)
  note cases = cases this
  have m: "UpdateConfigMap c \<notin> set (map (setPluginsRequest (Rmq s)) ?is)" by (auto simp: setPluginsRequest_def)
  have "\<exists>out. setPluginsAnswer A (Hist s @ map (setPluginsRequest (Rmq s)) (map int [0..<k])) (Rmq s) (int k) = Inr out"
    if "k < nat n" for k
    using ok(2) that by (auto simp: take_map)
  then show ?thesis using n cases m assms(3) by auto
qed

section \<open>A missing plugins config map\<close>

text \<open>
  C31. If all replicas are ready and the config map of the plugins does not exist, the step that
  runs commands in the pods dereferences a nil pointer: the error is ignored as the comment says,
  but the missing config map is used.
\<close>

theorem missing_plugins_panics:
  assumes "k_GetStatefulSet A (Hist s) (cluster_Namespace (Rmq s)) (ChildResourceName (Rmq s) ''server'') = Inr sts"
    and "allReplicasReadyAndUpdated sts"
    and "k_GetConfigMap A (Hist s @ [GetStatefulSet (cluster_Namespace (Rmq s)) (ChildResourceName (Rmq s) ''server'')])
           (cluster_Namespace (Rmq s)) (ChildResourceName (Rmq s) PluginsConfigName) = Inl e"
    and "IsNotFound e"
  shows "fst (run_state (runRabbitmqCLICommandsIfAnnotated A) s) = Inl (Panic ''nil dereference'')"
proof -
  have "\<not> isPanic e" using assms(4) by (auto simp: IsNotFound_def isPanic_def split: goerror.splits)
  then show ?thesis
    using assms by (simp add: runRabbitmqCLICommandsIfAnnotated_def getSts_def getConfigMap_def Let_def
        pluginsConfigUpdatedRecently_def deref_def)
qed


section \<open>The quorum status\<close>

text \<open>The results arrive in some order.\<close>

definition order_law :: "'f api \<Rightarrow> bool" where
  "order_law A \<longleftrightarrow> (\<forall>h xs. mset (k_QuorumOrder A h xs) = mset xs)"

lemma quorumStatusOf_ok:
  assumes "\<And>r. r \<in> set results \<Longrightarrow> snd r \<in> {''ok'', ''unavailable'', ''quorum-critical''}" and "results \<noteq> []"
  shows "quorumStatusOf results = ''ok'' \<longleftrightarrow> (\<forall>r \<in> set results. snd r = ''ok'')"
proof -
  have c: "criticalPods results = [] \<longleftrightarrow> (\<forall>r \<in> set results. snd r \<noteq> ''quorum-critical'')"
    by (auto simp: criticalPods_def filter_empty_conv)
  have n: "countStatus st results = 0 \<longleftrightarrow> (\<forall>r \<in> set results. snd r \<noteq> st)" for st
    by (auto simp: countStatus_def filter_empty_conv)
  have "quorumStatusOf results = ''ok'' \<longleftrightarrow>
      criticalPods results = [] \<and> countStatus ''ok'' results \<noteq> 0 \<and> countStatus ''unavailable'' results = 0"
    by (simp add: quorumStatusOf_def Let_def)
  also have "\<dots> \<longleftrightarrow> (\<forall>r \<in> set results. snd r = ''ok'')"
  proof
    assume "criticalPods results = [] \<and> countStatus ''ok'' results \<noteq> 0 \<and> countStatus ''unavailable'' results = 0"
    then show "\<forall>r \<in> set results. snd r = ''ok''" unfolding c n using assms(1) by blast
  next
    assume all: "\<forall>r \<in> set results. snd r = ''ok''"
    obtain a b where "(a, b) \<in> set results" using assms(2) by (cases results) auto
    then show "criticalPods results = [] \<and> countStatus ''ok'' results \<noteq> 0 \<and> countStatus ''unavailable'' results = 0"
      unfolding c n using all by auto
  qed
  finally show ?thesis .
qed

definition quorumRequest :: "RabbitmqCluster \<Rightarrow> string \<Rightarrow> request" where
  "quorumRequest rmq podName = PodQuorumCheck (cluster_Namespace rmq) podName"

definition quorumResult :: "goerror + bool \<Rightarrow> string" where
  "quorumResult res = (case res of Inl err \<Rightarrow> ''unavailable'' | Inr ok \<Rightarrow> if ok then ''ok'' else ''quorum-critical'')"

lemma quorumResult_values:
  "quorumResult x \<in> {''ok'', ''unavailable'', ''quorum-critical''}" "quorumResult x = ''ok'' \<longleftrightarrow> x = Inr True"
  by (cases x; simp add: quorumResult_def)+

lemma run_checkNodeQuorumStatus:
  "run_state (checkNodeQuorumStatus A p) s =
     (case k_QuorumCheck A (Hist s) p of
        Inl e \<Rightarrow> if isPanic e then Inl e else Inr (p, quorumResult (Inl e))
      | Inr b \<Rightarrow> Inr (p, quorumResult (Inr b)),
      s\<lparr>Hist := Hist s @ [quorumRequest (Rmq s) p]\<rparr>)"
  by (auto simp: checkNodeQuorumStatus_def quorumResult_def quorumRequest_def split: sum.splits)

lemma run_quorumChecks:
  assumes "run_state (mapS (checkNodeQuorumStatus A) ps) s = (Inr results, s')"
  shows "s' = s\<lparr>Hist := Hist s @ map (quorumRequest (Rmq s)) ps\<rparr> \<and>
    map snd results = map (\<lambda>i. quorumResult (k_QuorumCheck A (Hist s @ map (quorumRequest (Rmq s)) (take i ps)) (ps ! i)))
      [0..<length ps]"
  using assms
proof (induction ps arbitrary: s results)
  case (Cons p ps)
  let ?s1 = "s\<lparr>Hist := Hist s @ [quorumRequest (Rmq s) p]\<rparr>"
  obtain y ys where y: "results = y # ys" "snd y = quorumResult (k_QuorumCheck A (Hist s) p)"
      "run_state (mapS (checkNodeQuorumStatus A) ps) ?s1 = (Inr ys, s')"
    using Cons.prems
    by (auto simp: run_checkNodeQuorumStatus split: sum.splits if_splits prod.splits)
  from Cons.IH [OF y(3)] y(1,2) show ?case
    by (simp add: upt_conv_Cons map_Suc_upt [symmetric] del: map_Suc_upt upt_Suc)
qed simp

lemma quorumChecks_answered:
  assumes "\<And>i. i < length ps \<Longrightarrow> k_QuorumCheck A (Hist s @ map (quorumRequest (Rmq s)) (take i ps)) (ps ! i) = Inr True"
  shows "\<exists>results s'. run_state (mapS (checkNodeQuorumStatus A) ps) s = (Inr results, s')"
  using assms
proof (induction ps arbitrary: s)
  case (Cons p ps)
  let ?s1 = "s\<lparr>Hist := Hist s @ [quorumRequest (Rmq s) p]\<rparr>"
  have "k_QuorumCheck A (Hist ?s1 @ map (quorumRequest (Rmq ?s1)) (take i ps)) (ps ! i) = Inr True" if "i < length ps" for i
    using Cons.prems [of "Suc i"] that by simp
  from Cons.IH [OF this] obtain rs s' where "run_state (mapS (checkNodeQuorumStatus A) ps) ?s1 = (Inr rs, s')" by blast
  then show ?case using Cons.prems [of 0] by (simp add: run_checkNodeQuorumStatus)
qed simp


lemma order_lawD: "order_law A \<Longrightarrow> mset (k_QuorumOrder A h results) = mset results"
  unfolding order_law_def by blast

text \<open>In whatever order the results arrive.\<close>

lemma quorum_arrived:
  assumes snds: "map snd results = map (\<lambda>i. quorumResult (a i)) [0..<n]" and "n \<noteq> 0" and ms: "mset arrived = mset results"
  shows "quorumStatusOf arrived = ''ok'' \<longleftrightarrow> (\<forall>i<n. a i = Inr True)"
proof -
  have set: "set arrived = set results" using mset_eq_setD [OF ms] .
  have vals: "snd ` set results = (\<lambda>i. quorumResult (a i)) ` {0..<n}"
    using arg_cong [OF snds, of set] by simp
  have "snd r \<in> {''ok'', ''unavailable'', ''quorum-critical''}" if "r \<in> set arrived" for r
  proof -
    have "snd r \<in> (\<lambda>i. quorumResult (a i)) ` {0..<n}" using that set vals by blast
    then obtain i where "snd r = quorumResult (a i)" by blast
    then show ?thesis using quorumResult_values(1) by (simp only:)
  qed
  moreover have "arrived \<noteq> []" using assms(2) snds set by (cases results) (auto simp: upt_rec)
  ultimately have "quorumStatusOf arrived = ''ok'' \<longleftrightarrow> (\<forall>v \<in> snd ` set results. v = ''ok'')"
    using quorumStatusOf_ok [of arrived] set by auto
  also have "\<dots> \<longleftrightarrow> (\<forall>i<n. quorumResult (a i) = ''ok'')" unfolding vals by auto
  finally show ?thesis unfolding quorumResult_values(2) .
qed



section \<open>Restarts\<close>

fun restartWrite :: "'f api \<Rightarrow> request \<Rightarrow> bool" where
  "restartWrite A (UpdateStatefulSet x) =
     (\<exists>t. mget (Annotations (sts_TemplateMeta x)) stsRestartAnnotation = Some (k_FormatTime A t))"
| "restartWrite A q = True"

fun isStsUpdate :: "request \<Rightarrow> bool" where
  "isStsUpdate (UpdateStatefulSet x) = True"
| "isStsUpdate q = False"

lemma emits_annotateRestart: "emits (restartWrite A) (annotateRestart A)"
  by (auto simp: annotateRestart_def getSts_def Let_def readClock_def withAnnotation_def mget_def intro!: emits_rules)


section \<open>The references in the status\<close>

text \<open>
  What the status refers to. The step writes the status at most once, and then everything but
  the two references stays; the binding names the secret with the credentials, an external secret if
  there is one. The reference to the default user however names the secret of the operator even if
  an external secret replaces it, in which case no builder creates that secret.
\<close>

theorem reconcileStatus_references:
  "\<exists>new. Hist (snd (run_state (reconcileStatus A) s)) = Hist s @ new \<and>
    (let r = Rmq s;
         r' = r\<lparr>ClusterStatus := (ClusterStatus r)\<lparr>DefaultUser := Some (desiredDefaultUser r), Binding := desiredBinding r\<rparr>\<rparr>
     in new = (if r' = r then [] else [PatchStatus r r'])) \<and>
    (if VaultDefaultUserSecretEnabled (Rmq s)
     then desiredBinding (Rmq s) = None \<and> SecretReference (desiredDefaultUser (Rmq s)) = None
     else desiredBinding (Rmq s) = Some (if ExternalSecretEnabled (Rmq s) then ExternalSecret (spec_SecretBackend (Spec (Rmq s)))
            else ChildResourceName (Rmq s) DefaultUserSecretName) \<and>
       map_option sr_Name (SecretReference (desiredDefaultUser (Rmq s))) = Some (ChildResourceName (Rmq s) DefaultUserSecretName) \<and>
       (DefaultUserSecretBuilder \<in> set (ResourceBuilders check (Rmq s)) \<longleftrightarrow> \<not> ExternalSecretEnabled (Rmq s)))"
proof -
  have b: "DefaultUserSecretBuilder \<in> set (ResourceBuilders check r) \<longleftrightarrow>
      \<not> VaultDefaultUserSecretEnabled r \<and> \<not> ExternalSecretEnabled r" for r
    by (simp add: ResourceBuilders_def Let_def)
  have same: "r\<lparr>ClusterStatus := (ClusterStatus r)\<lparr>DefaultUser := d, Binding := e\<rparr>\<rparr> = r \<longleftrightarrow>
      DefaultUser (ClusterStatus r) = d \<and> Binding (ClusterStatus r) = e" for r d e
    by (cases r; cases "ClusterStatus r") auto
  have "Hist (snd (run_state (reconcileStatus A) s)) = Hist s @
      (let r = Rmq s;
         r' = r\<lparr>ClusterStatus := (ClusterStatus r)\<lparr>DefaultUser := Some (desiredDefaultUser r), Binding := desiredBinding r\<rparr>\<rparr>
       in if r' = r then [] else [PatchStatus r r'])"
    unfolding Let_def same by (auto simp: reconcileStatus_def patchStatus_def Let_def split: sum.splits)
  then show ?thesis unfolding b by (simp add: desiredBinding_def desiredDefaultUser_def Let_def)
qed


section \<open>Examples\<close>

definition exampleConfigMap :: "string \<Rightarrow> string \<Rightarrow> configMap" where
  "exampleConfigMap k v = \<lparr>cm_Meta = (namedMeta ''rmq-plugins-conf'' ''ns'')\<lparr>Annotations := Some [k \<mapsto> v]\<rparr>, cm_Data = None\<rparr>"

definition exampleEndpoints :: endpointSlice where
  "exampleEndpoints = \<lparr>es_Endpoints = map (\<lambda>n. \<lparr>ep_Addresses = [], ep_Hostname = Some n, ep_TargetRef = None\<rparr>)
     [''rmq-server-0'', ''rmq-server-1'']\<rparr>"

definition runningApi :: "(string \<times> string) list api" where
  "runningApi = (exampleApi (exampleServer 1))\<lparr>
     k_GetStatefulSet := (\<lambda>h ns n. Inr (exampleStatefulSet 1 1)),
     k_ListEndpointSlices := (\<lambda>h ns n. Inr [exampleEndpoints])\<rparr>"

lemma exampleServer_spec:
  "Replicas (Spec (exampleServer k)) = Some k" "AdditionalPlugins (Rabbitmq (Spec (exampleServer k))) = []"
  by (simp_all add: exampleServer_def emptyClusterSpec_def)

theorem set_plugins_then_clear_witness:
  "\<exists>s' c. run_state (runSetPluginsCommand runningApi (exampleConfigMap pluginsUpdateAnnotation ''t''))
       (startState (exampleServer 1)) = (Inr (), s') \<and>
     Hist s' = [setPluginsRequest (exampleServer 1) 0, UpdateConfigMap c] \<and>
     mget (Annotations (cm_Meta c)) pluginsUpdateAnnotation = None"
proof -
  let ?cm = "exampleConfigMap pluginsUpdateAnnotation ''t''" and ?s = "startState (exampleServer 1)"
  have a: "k_Exec runningApi h ns p c cmd = Inr []" "k_UpdateConfigMap runningApi h x = None" for h ns p c cmd x
    by (simp_all add: runningApi_def exampleApi_def)
  obtain s' c new where r: "run_state (runSetPluginsCommand runningApi ?cm) ?s = (Inr (), s')"
    "Hist s' = Hist ?s @ new" "UpdateConfigMap c \<in> set new"
    by (simp add: runSetPluginsCommand_def exampleServer_spec deref_def execOrFail_def exec_def a deleteAnnotationCm_def
        exampleConfigMap_def Let_def)
  from set_plugins_then_clear [OF r] r show ?thesis by (auto simp: exampleServer_spec)
qed

theorem missing_plugins_panics_witness:
  "fst (run_state (runRabbitmqCLICommandsIfAnnotated runningApi) (startState (exampleServer 1))) =
     Inl (Panic ''nil dereference'')"
  by (rule missing_plugins_panics [of _ _ "exampleStatefulSet 1 1" "StatusError NotFound []"])
    (simp_all add: runningApi_def exampleApi_def exampleStatefulSet_def allReplicasReadyAndUpdated_def
      statefulSetBeingUpdated_def emptyStatefulSet_def IsNotFound_def)


definition outdatedApi :: "(string \<times> string) list api" where
  "outdatedApi = runningApi\<lparr>k_GetConfigMap := (\<lambda>h ns n. Inr (exampleConfigMap serverConfAnnotation ''2''))\<rparr>"


end
