(* ===== verification/Controller.thy ===== *)
theory Controller
  imports Reconcile_Steps Reconcile_Runtime
begin

text \<open>
  \<open>internal/controller/rabbitmqcluster_controller.go\<close>: the reconciliation of a cluster, composed of
  the steps of the preceding theories.
\<close>

section \<open>Status conditions\<close>

definition getChildResources :: "'f api \<Rightarrow> runtimeObject list step" where
  "getChildResources A =
     bindS (tryS (getSts A)) (\<lambda>s.
     bindS (case s of
              Inr sts \<Rightarrow> returnS (Some sts)
            | Inl err \<Rightarrow> if IsNotFound err then returnS None else throwS err) (\<lambda>sts.
     bindS getRmq (\<lambda>rmq.
     bindS (requestE (ListEndpointSlices (cluster_Namespace rmq) (cluster_Name rmq))
       (\<lambda>h. k_ListEndpointSlices A h (cluster_Namespace rmq) (cluster_Name rmq))) (\<lambda>slices.
     returnS [ObjStatefulSet sts, ObjEndpointSlice (case slices of [] \<Rightarrow> None | x # _ \<Rightarrow> Some x)]))))"

text \<open>Each of the condition functions reads the clock.\<close>

definition readClocks :: "'f api \<Rightarrow> (string \<Rightarrow> int) step" where
  "readClocks A =
     bindS (readClock A) (\<lambda>t1. bindS (readClock A) (\<lambda>t2. bindS (readClock A) (\<lambda>t3. bindS (readClock A) (\<lambda>t4.
       returnS (\<lambda>c. if c = AllReplicasReady then t1 else if c = ClusterAvailable then t2
                    else if c = NoWarnings then t3 else t4)))))"

definition updateStatusConditions :: "'f api \<Rightarrow> int step" where
  "updateStatusConditions A =
     bindS (getChildResources A) (\<lambda>childResources.
     bindS getRmq (\<lambda>rmq.
     bindS (readClocks A) (\<lambda>clock.
     bindS (liftS (SetConditions clock childResources (ClusterStatus rmq))) (\<lambda>st.
     bindS (setRmq (rmq\<lparr>ClusterStatus := st\<rparr>)) (\<lambda>_.
     if Conditions st \<noteq> Conditions (ClusterStatus rmq)
     then
       bindS (tryS (patchStatus A rmq)) (\<lambda>res.
       case res of
         Inl err \<Rightarrow> if IsConflict err then returnS 2000 else throwS err
       | Inr _ \<Rightarrow> returnS 0)
     else returnS 0)))))"

section \<open>Events\<close>

definition operationName :: "operationResult \<Rightarrow> string" where
  "operationName r = (case r of ResultCreated \<Rightarrow> ''create'' | ResultUpdated \<Rightarrow> ''update'' | ResultNone \<Rightarrow> ''unchanged'')"

definition logAndRecordOperationResult :: "'f api \<Rightarrow> childObject \<Rightarrow> operationResult \<Rightarrow> goerror option \<Rightarrow> unit step" where
  "logAndRecordOperationResult A x operationResult err =
     (if operationResult = ResultNone \<and> err = None then returnS ()
      else
        (let operation = operationName operationResult;
             what = '' resource '' @ Name (objectMetaOf x) @ '' of Type '' @ objectType x
         in case err of
              None \<Rightarrow> recordEvent ''Normal'' (''Successful'' @ k_Title A operation) (operation @ ''d'' @ what)
            | Some e \<Rightarrow>
                recordEvent ''Warning'' (''Failed'' @ k_Title A operation)
                  ((if operation \<noteq> ''unchanged'' then ''failed to '' @ operation @ what @ '': '' else []) @ Error e)))"

section \<open>The owner index\<close>

definition apiGVStr :: string where
  "apiGVStr = ''rabbitmq.com/v1beta1''"

definition ownerKind :: string where
  "ownerKind = ''RabbitmqCluster''"

definition validateAndGetOwner :: "ownerReference option \<Rightarrow> string list" where
  "validateAndGetOwner owner =
     (case owner of
        None \<Rightarrow> []
      | Some o' \<Rightarrow> if or_APIVersion o' \<noteq> apiGVStr \<or> or_Kind o' \<noteq> ownerKind then [] else [or_Name o'])"

text \<open>
  The owner of an object that is its controller, \<open>metav1.GetControllerOf\<close>, is the parameter
  \<open>controllerOf\<close>. All kinds of children are indexed.
\<close>

definition addResourceToIndex :: "(objectMeta \<Rightarrow> ownerReference option) \<Rightarrow> childObject \<Rightarrow> string list" where
  "addResourceToIndex controllerOf x = validateAndGetOwner (controllerOf (objectMetaOf x))"

section \<open>Reconciling the children\<close>

text \<open>
  A step of the reconciliation either lets it go on, \<open>None\<close>, or ends it with a duration after which
  to reconcile again, 0 for not at all.
\<close>

type_synonym flow = "int option step"

definition andThen :: "flow \<Rightarrow> flow \<Rightarrow> flow" where
  "andThen m k = bindS m (\<lambda>r. case r of Some d \<Rightarrow> returnS (Some d) | None \<Rightarrow> k)"

text \<open>\<open>if requeueAfter, err := m; err != nil || requeueAfter > 0 { return }\<close>.\<close>

definition requeueIfPositive :: "int step \<Rightarrow> flow" where
  "requeueIfPositive m = bindS m (\<lambda>d. returnS (if d > 0 then Some d else None))"

definition proceed :: "unit step \<Rightarrow> flow" where
  "proceed m = bindS m (\<lambda>_. returnS None)"

text \<open>The same with a step that reports the error in the status before it is returned.\<close>

definition reportFailure :: "'f api \<Rightarrow> string \<Rightarrow> 'a step \<Rightarrow> 'a step" where
  "reportFailure A reason m =
     bindS (tryS m) (\<lambda>res.
     case res of
       Inl err \<Rightarrow> bindS (setReconcileSuccess A ConditionFalse reason (Error err)) (\<lambda>_. throwS err)
     | Inr x \<Rightarrow> returnS x)"

definition builderOf :: "'f api \<Rightarrow> RabbitmqCluster \<Rightarrow> RabbitmqResourceBuilder" where
  "builderOf A rmq = \<lparr>Instance = rmq, Scheme = k_Scheme A\<rparr>"

definition buildObj :: "'f api \<Rightarrow> builderKind \<Rightarrow> unit step" where
  "buildObj A k =
     bindS (getDeps A) (\<lambda>d.
     bindS getRmq (\<lambda>rmq.
     bindS (liftS (Build d k (builderOf A rmq))) setObj))"

text \<open>\<open>builder.Update(obj)\<close>; it may change the cluster in memory and the flag of the builder.\<close>

definition updateObj :: "'f api \<Rightarrow> builderKind \<Rightarrow> childObject \<Rightarrow> childObject step" where
  "updateObj A k x =
     bindS (getDeps A) (\<lambda>d.
     bindS getRmq (\<lambda>rmq.
     bindS getRestart (\<lambda>restart.
     bindS (liftS (Update d k (builderOf A rmq) restart x)) (\<lambda>(y, rmq', restart').
     bindS (setRmq rmq') (\<lambda>_.
     bindS (setRestart restart') (\<lambda>_. returnS y))))))"

text \<open>The checks on an existing StatefulSet before it is updated.\<close>

definition checkScaling :: "'f api \<Rightarrow> statefulSet \<Rightarrow> statefulSet \<Rightarrow> flow" where
  "checkScaling A current sts =
     bindS (liftS (ScaleToZero current sts)) (\<lambda>toZero.
     andThen
       (if toZero then proceed (saveReplicasBeforeZero A current)
        else bindS (scaleDown A current sts) (\<lambda>refused. returnS (if refused then Some 0 else None)))
       (bindS (liftS (ScaleFromZero current sts)) (\<lambda>fromZero.
        if fromZero
        then
          bindS (scaleFromZeroToBeforeReplicasConfigured A sts) (\<lambda>refused.
          if refused then returnS (Some 0)
          else proceed (removeReplicasBeforeZeroAnnotationIfExists A))
        else returnS None)))"

definition prepareStatefulSet :: "'f api \<Rightarrow> builderKind \<Rightarrow> flow" where
  "prepareStatefulSet A k =
     bindS (tryS (getSts A)) (\<lambda>c.
     andThen
       (case c of
          Inl err \<Rightarrow> if IsNotFound err then returnS None else throwS err
        | Inr current \<Rightarrow>
            bindS getObj (\<lambda>x.
            bindS (updateObj A k x) (\<lambda>y.
            bindS (setObj y) (\<lambda>_.
            bindS (liftS (asStatefulSet y)) (\<lambda>sts. checkScaling A current sts)))))
       (bindS getObj (\<lambda>x.
        bindS (liftS (asStatefulSet x)) (\<lambda>sts.
        proceed (reportFailure A ''FailedReconcilePVC'' (reconcilePVC A sts))))))"

definition createOrUpdateObj :: "'f api \<Rightarrow> builderKind \<Rightarrow> unit step" where
  "createOrUpdateObj A k =
     k_OnError A IsConflict
       (bindS getObj (\<lambda>x.
        bindS (k_CreateOrUpdate A (updateObj A k) x) (\<lambda>(operationResult, apiError, y).
        bindS (setObj y) (\<lambda>_.
        bindS (setOpResult operationResult) (\<lambda>_. checkS apiError)))))"

definition reconcileBuilder :: "'f api \<Rightarrow> builderKind \<Rightarrow> flow" where
  "reconcileBuilder A k =
     bindS (setRestart True) (\<lambda>_.
     bindS (buildObj A k) (\<lambda>_.
     andThen (if UpdateMayRequireStsRecreate k then prepareStatefulSet A k else returnS None)
       (bindS (setOpResult ResultNone) (\<lambda>_.
        bindS (tryS (createOrUpdateObj A k)) (\<lambda>res.
        bindS getObj (\<lambda>x.
        bindS getOpResult (\<lambda>operationResult.
        case res of
          Inl err \<Rightarrow>
            bindS (logAndRecordOperationResult A x operationResult (Some err)) (\<lambda>_.
            if errors_Is err ErrInvalidEnvConfig
            then bindS (setReconcileSuccess A ConditionFalse ''InvalidConfiguration'' (Error err)) (\<lambda>_. returnS (Some 0))
            else bindS (setReconcileSuccess A ConditionFalse ''Error'' (Error err)) (\<lambda>_. throwS err))
        | Inr _ \<Rightarrow>
            bindS (logAndRecordOperationResult A x operationResult None) (\<lambda>_.
            bindS getRestart (\<lambda>restart.
            proceed (annotateIfNeeded A k operationResult restart))))))))))"

fun reconcileBuilders :: "'f api \<Rightarrow> builderKind list \<Rightarrow> flow" where
  "reconcileBuilders A [] = returnS None"
| "reconcileBuilders A (k # ks) = andThen (reconcileBuilder A k) (reconcileBuilders A ks)"

section \<open>The steps before and after\<close>

definition pauseReconciliationLabel :: string where
  "pauseReconciliationLabel = ''rabbitmq.com/pauseReconciliation''"

definition pauseReconciliation :: "'f api \<Rightarrow> unit step" where
  "pauseReconciliation A =
     bindS (recordEvent ''Warning'' ''PausedReconciliation''
       (''label '' @ [CHR 0x27] @ pauseReconciliationLabel @ [CHR 0x27] @ '' is set to true'')) (\<lambda>_.
     bindS getRmq (\<lambda>base.
     bindS (setCondition A NoWarnings ConditionFalse ''reconciliation paused'' []) (\<lambda>_.
     bindS (tryS (patchStatus A base)) (\<lambda>_. returnS ()))))"

definition tlsStep :: "'f api \<Rightarrow> flow" where
  "tlsStep A =
     bindS (tryS (reconcileTLS A)) (\<lambda>res.
     case res of
       Inl tlsErr \<Rightarrow> if errors_Is tlsErr errDisableNonTLSConfig then returnS (Some 0) else throwS tlsErr
     | Inr _ \<Rightarrow> returnS None)"

text \<open>An existing secret of the default user gets the labels that let the cache see it.\<close>

definition labelDefaultUserSecret :: "'f api \<Rightarrow> unit step" where
  "labelDefaultUserSecret A =
     bindS getRmq (\<lambda>rmq.
     bindS (tryS (readSecret A (ChildResourceName rmq ''default-user''))) (\<lambda>res.
     case res of
       Inl err \<Rightarrow> returnS ()
     | Inr secret \<Rightarrow>
         if mget (Labels (sec_Meta secret)) ''app.kubernetes.io/part-of'' \<noteq> Some ''rabbitmq''
         then
           (let secret' = secret\<lparr>sec_Meta := (sec_Meta secret)\<lparr>Labels := GetLabels (cluster_Name rmq) (Labels (Meta rmq))\<rparr>\<rparr>
            in bindS (tryS (requestO (UpdateSecret secret') (\<lambda>h. k_UpdateSecret A h secret'))) (\<lambda>_. returnS ()))
         else returnS ()))"

definition rebalanceStep :: "'f api \<Rightarrow> unit step" where
  "rebalanceStep A =
     bindS (tryS (getSts A)) (\<lambda>res.
     case res of
       Inl err \<Rightarrow> if IsNotFound err then returnS () else throwS err
     | Inr sts \<Rightarrow>
         bindS getRmq (\<lambda>rmq.
         bindS (liftS (statefulSetNeedsQueueRebalance sts rmq)) (\<lambda>needed.
         if needed then markForQueueRebalance A else returnS ())))"

definition deleteIgnoringNotFound :: "'f api \<Rightarrow> request \<Rightarrow> unit step" where
  "deleteIgnoringNotFound A q =
     bindS (tryS (requestO q (\<lambda>h. k_Delete A h q))) (\<lambda>res.
     case res of
       Inl err \<Rightarrow> if IsNotFound err then returnS () else throwS err
     | Inr _ \<Rightarrow> returnS ())"

definition deletePeerDiscoveryRBAC :: "'f api \<Rightarrow> unit step" where
  "deletePeerDiscoveryRBAC A =
     bindS getRmq (\<lambda>rmq.
     bindS (getDeps A) (\<lambda>d.
     if \<not> ShouldCreatePeerDiscoveryRBAC (d_VersionCheck d) rmq
     then forS (deleteIgnoringNotFound A)
       [DeleteRole (cluster_Namespace rmq) (ChildResourceName rmq ''peer-discovery''),
        DeleteRoleBinding (cluster_Namespace rmq) (ChildResourceName rmq ''server'')]
     else returnS ()))"

definition buildersStep :: "'f api \<Rightarrow> flow" where
  "buildersStep A =
     bindS getRmq (\<lambda>rmq.
     bindS (getDeps A) (\<lambda>d.
     reconcileBuilders A (ResourceBuilders (d_VersionCheck d) rmq)))"

text \<open>A failed check of the quorum does not fail the reconciliation.\<close>

definition quorumStep :: "'f api \<Rightarrow> unit step" where
  "quorumStep A = bindS (tryS (updateQuorumStatus A)) (\<lambda>_. returnS ())"

section \<open>The reconciliation\<close>

text \<open>What happens to a cluster that exists, is not being deleted and is not paused.\<close>

definition reconcileCluster :: "'f api \<Rightarrow> RabbitmqClusterReconciler \<Rightarrow> flow" where
  "reconcileCluster A R =
     andThen (requeueIfPositive (reconcileOperatorDefaults A R)) (
     andThen (proceed (addFinalizerIfNeeded A)) (
     andThen (requeueIfPositive (updateStatusConditions A)) (
     andThen (tlsStep A) (
     andThen (proceed (labelDefaultUserSecret A)) (
     andThen (proceed (rebalanceStep A)) (
     andThen (proceed (deletePeerDiscoveryRBAC A)) (
     andThen (buildersStep A) (
     andThen (requeueIfPositive (restartStatefulSetIfNeeded A)) (
     andThen (proceed (reconcileStatus A)) (
     andThen (proceed (quorumStep A)) (
     andThen (requeueIfPositive (reportFailure A ''FailedVersionAnnotation'' (reconcileRabbitmqVersionAnnotation A)))
             (requeueIfPositive (reportFailure A ''FailedCLICommand'' (runRabbitmqCLICommandsIfAnnotated A))))))))))))))"

definition Reconcile :: "'f api \<Rightarrow> RabbitmqClusterReconciler \<Rightarrow> string \<Rightarrow> string \<Rightarrow> int step" where
  "Reconcile A R namespace name =
     bindS (tryS (requestE (GetCluster namespace name) (\<lambda>h. k_GetCluster A h namespace name))) (\<lambda>res.
     case res of
       Inl err \<Rightarrow> if IsNotFound err then returnS 0 else throwS err
     | Inr rmq \<Rightarrow>
         bindS (setRmq rmq) (\<lambda>_.
         if DeletionTimestamp (Meta rmq) \<noteq> None
         then bindS (prepareForDeletion A) (\<lambda>_. returnS 0)
         else if mget (Labels (Meta rmq)) pauseReconciliationLabel = Some ''true''
         then bindS (pauseReconciliation A) (\<lambda>_. returnS 0)
         else
           bindS (reconcileCluster A R) (\<lambda>r.
           case r of
             Some requeueAfter \<Rightarrow> returnS requeueAfter
           | None \<Rightarrow>
               bindS (setReconcileSuccess A ConditionTrue ''Success'' ''Finish reconciling'') (\<lambda>_. returnS 0))))"


section \<open>What composed steps request\<close>

lemma emits_andThen [emits_rules]: "emits P m \<Longrightarrow> emits P k \<Longrightarrow> emits P (andThen m k)"
  unfolding andThen_def by (auto intro!: emits_rules)

lemma emits_flow [emits_rules]:
  "emits P m \<Longrightarrow> emits P (proceed m)" "emits P d \<Longrightarrow> emits P (requeueIfPositive d)"
  unfolding proceed_def requeueIfPositive_def by (auto intro!: emits_rules)

lemma emits_updateObj: "emits P (updateObj A k x)"
  unfolding updateObj_def by (auto intro!: emits_rules)

section \<open>Deleted and paused clusters\<close>


text \<open>
  A paused cluster is left alone: beyond reading it, the reconciliation records an event and
  writes one status, in which only the condition for warnings can differ.
\<close>

theorem Reconcile_paused:
  assumes "k_GetCluster A (Hist s) ns n = Inr rmq" and "DeletionTimestamp (Meta rmq) = None"
    and "mget (Labels (Meta rmq)) pauseReconciliationLabel = Some ''true''"
  shows "\<exists>msg now. Hist (snd (run_state (Reconcile A R ns n) s)) =
    Hist s @ [GetCluster ns n, RecordEvent ''Warning'' ''PausedReconciliation'' msg, ReadClock,
      PatchStatus rmq (rmq\<lparr>ClusterStatus :=
        SetCondition now NoWarnings ConditionFalse ''reconciliation paused'' [] (ClusterStatus rmq)\<rparr>)]"
proof -
  let ?s1 = "s\<lparr>Hist := Hist s @ [GetCluster ns n], Rmq := rmq\<rparr>"
  have "run_state (Reconcile A R ns n) s = run_state (bindS (pauseReconciliation A) (\<lambda>_. returnS 0)) ?s1"
    using assms unfolding Reconcile_def by simp
  then show ?thesis
    by (auto simp: pauseReconciliation_def recordEvent_def setCondition_def readClock_def patchStatus_def
        split: sum.splits)
qed

section \<open>Scale-down is refused\<close>

text \<open>
  A StatefulSet is not scaled down: if the generated StatefulSet has fewer replicas than the
  existing one, and more than zero, the reconciliation of the StatefulSet ends with an event and a
  status that says so. Nothing else is requested: neither the StatefulSet nor a claim is written.
\<close>

theorem scale_down_refused:
  assumes "Build (k_Deps A (Hist s)) StatefulSetBuilder (builderOf A (Rmq s)) = Inr x"
    and "k_GetStatefulSet A (Hist s) (cluster_Namespace (Rmq s)) (ChildResourceName (Rmq s) ''server'') = Inr current"
    and "Update (k_Deps A (Hist s @ [GetStatefulSet (cluster_Namespace (Rmq s)) (ChildResourceName (Rmq s) ''server'')]))
      StatefulSetBuilder (builderOf A (Rmq s)) True x = Inr (ChildStatefulSet sts, rmq', f)"
    and "sts_Replicas current = Some c" and "sts_Replicas sts = Some d" and "0 < d" and "d < c"
  shows "\<exists>msg now. Hist (snd (run_state (reconcileBuilder A StatefulSetBuilder) s)) = Hist s @
      [GetStatefulSet (cluster_Namespace (Rmq s)) (ChildResourceName (Rmq s) ''server''),
       RecordEvent ''Warning'' ''UnsupportedOperation'' msg, ReadClock,
       PatchStatus rmq' (rmq'\<lparr>ClusterStatus :=
         SetCondition now ReconcileSuccess ConditionFalse ''UnsupportedOperation'' [msg] (ClusterStatus rmq')\<rparr>)] \<and>
    fst (run_state (reconcileBuilder A StatefulSetBuilder) s) \<noteq> Inr None"
  using assms
  by (auto simp: reconcileBuilder_def buildObj_def andThen_def UpdateMayRequireStsRecreate_def prepareStatefulSet_def
      getSts_def Let_def updateObj_def checkScaling_def ScaleToZero_def deref_def bindE_def scaleDown_def
      asStatefulSet_def recordEvent_def setCondition_def readClock_def patchStatus_def
      simp del: Build.simps Update.simps split: sum.splits)


section \<open>An invalid environment configuration stops the reconciliation\<close>

definition noChildWrite :: "request \<Rightarrow> bool" where
  "noChildWrite q = (case q of WriteChild y \<Rightarrow> False | _ \<Rightarrow> True)"

lemma noChildWrite_simps [simp]:
  "noChildWrite ReadClock" "noChildWrite (PatchStatus b r)" "noChildWrite (RecordEvent a b' c)"
  by (simp_all add: noChildWrite_def)

lemma invalid_env_update:
  assumes "validateEnvConfig (EnvConfig (Rabbitmq (Spec (Rmq s)))) \<noteq> None"
  shows "\<exists>e. run_state (updateObj A ServerConfigMapBuilder x) s = (Inl e, s)"
proof -
  have "ServerConfigMap_Update I (builderOf A (Rmq s)) f cm \<noteq> Inr z" for I f cm z
    using assms by (auto simp: ServerConfigMap_Update_def builderOf_def Let_def bindE_Inr_iff split: option.splits)
  then have "\<exists>e. Update (k_Deps A (Hist s)) ServerConfigMapBuilder (builderOf A (Rmq s)) (StsRestart s) x = Inl e"
    using Update_Inr(6) by (metis obj_sumE surj_pair)
  then show ?thesis by (auto simp: updateObj_def simp del: Update.simps)
qed

lemma invalid_env_attempt:
  assumes "cou_law A" and "validateEnvConfig (EnvConfig (Rabbitmq (Spec (Rmq s)))) \<noteq> None"
  shows "\<exists>e s'. run_state (bindS getObj (\<lambda>x.
        bindS (k_CreateOrUpdate A (updateObj A ServerConfigMapBuilder) x) (\<lambda>(operationResult, apiError, y).
        bindS (setObj y) (\<lambda>_.
        bindS (setOpResult operationResult) (\<lambda>_. checkS apiError))))) s = (Inl e, s') \<and> Rmq s' = Rmq s \<and> Hist s' = Hist s"
proof (cases "Obj s")
  case None
  then show ?thesis by (simp add: deref_def)
next
  case (Some x)
  have "couOutcome (updateObj A ServerConfigMapBuilder) x s (run_state (k_CreateOrUpdate A (updateObj A ServerConfigMapBuilder) x) s)"
    using assms(1) unfolding cou_law_def by blast
  then have "(\<exists>e. run_state (k_CreateOrUpdate A (updateObj A ServerConfigMapBuilder) x) s = (Inl e, s)) \<or>
      (\<exists>e y. run_state (k_CreateOrUpdate A (updateObj A ServerConfigMapBuilder) x) s = (Inr (ResultNone, Some e, y), s))"
    unfolding couOutcome_def
  proof (elim disjE exE conjE)
    fix x'
    assume c: "case run_state (updateObj A ServerConfigMapBuilder x') s of
        (Inl e, s2) \<Rightarrow> run_state (k_CreateOrUpdate A (updateObj A ServerConfigMapBuilder) x) s =
           (if isPanic e then Inl e else Inr (ResultNone, Some e, x'), s2)
      | (Inr y, s2) \<Rightarrow> run_state (k_CreateOrUpdate A (updateObj A ServerConfigMapBuilder) x) s = (Inr (ResultNone, None, y), s2) \<and> y = x' \<or>
           (\<exists>op err z. run_state (k_CreateOrUpdate A (updateObj A ServerConfigMapBuilder) x) s =
              (Inr (op, err, z), s2\<lparr>Hist := Hist s2 @ [WriteChild y]\<rparr>) \<and> sameIdentity z y \<and> (op = ResultNone \<longleftrightarrow> err \<noteq> None))"
    obtain e where "run_state (updateObj A ServerConfigMapBuilder x') s = (Inl e, s)"
      using invalid_env_update [OF assms(2)] by blast
    then show ?thesis using c by (cases "isPanic e") auto
  qed simp
  then show ?thesis using Some by (auto simp: deref_def)
qed

lemma invalid_env_createOrUpdate:
  assumes "retry_law A" and "cou_law A" and "validateEnvConfig (EnvConfig (Rabbitmq (Spec (Rmq s)))) \<noteq> None"
  shows "\<exists>e s'. run_state (createOrUpdateObj A ServerConfigMapBuilder) s = (Inl e, s') \<and> Hist s' = Hist s"
proof -
  let ?f = "bindS getObj (\<lambda>x.
        bindS (k_CreateOrUpdate A (updateObj A ServerConfigMapBuilder) x) (\<lambda>(operationResult, apiError, y).
        bindS (setObj y) (\<lambda>_.
        bindS (setOpResult operationResult) (\<lambda>_. checkS apiError))))"
  have "\<exists>e s'. r = (Inl e, s') \<and> Hist s' = Hist t"
    if "attempts IsConflict ?f t r" "validateEnvConfig (EnvConfig (Rabbitmq (Spec (Rmq t)))) \<noteq> None" for t r
    using that
  proof (induction)
    case (last_attempt t)
    then show ?case using invalid_env_attempt [OF assms(2)] by blast
  next
    case (next_attempt t e s1 r)
    have "Rmq s1 = Rmq t \<and> Hist s1 = Hist t"
      using invalid_env_attempt [OF assms(2) next_attempt.prems] next_attempt.hyps(1) by auto
    then show ?case using next_attempt.IH next_attempt.prems by simp
  qed
  then show ?thesis
    using assms(1,3) unfolding createOrUpdateObj_def retry_law_def by blast
qed

text \<open>What follows a failed write of a child.\<close>

definition afterFailure :: "'f api \<Rightarrow> goerror \<Rightarrow> flow" where
  "afterFailure A err =
     bindS getObj (\<lambda>x.
     bindS getOpResult (\<lambda>operationResult.
     bindS (logAndRecordOperationResult A x operationResult (Some err)) (\<lambda>_.
     if errors_Is err ErrInvalidEnvConfig
     then bindS (setReconcileSuccess A ConditionFalse ''InvalidConfiguration'' (Error err)) (\<lambda>_. returnS (Some 0))
     else bindS (setReconcileSuccess A ConditionFalse ''Error'' (Error err)) (\<lambda>_. throwS err))))"

lemma afterFailure_stops:
  "fst (run_state (afterFailure A err) s) \<noteq> Inr None" "emits noChildWrite (afterFailure A err)"
proof -
  have "emits noChildWrite (setReconcileSuccess A c reason msg)" for c reason msg
    unfolding setReconcileSuccess_def setCondition_def patchStatus_def readClock_def by (auto intro!: emits_rules)
  then show "emits noChildWrite (afterFailure A err)"
    unfolding afterFailure_def logAndRecordOperationResult_def recordEvent_def Let_def by (auto intro!: emits_rules)
  show "fst (run_state (afterFailure A err) s) \<noteq> Inr None"
    by (auto simp: afterFailure_def split: prod.splits sum.splits)
qed

lemma reconcileBuilder_failed:
  assumes "run_state (createOrUpdateObj A k) (s\<lparr>StsRestart := True, Obj := Some x, OpResult := ResultNone\<rparr>) = (Inl e, s')"
    and "Build (k_Deps A (Hist s)) k (builderOf A (Rmq s)) = Inr x" and "k \<noteq> StatefulSetBuilder"
  shows "run_state (reconcileBuilder A k) s = (if isPanic e then (Inl e, s') else run_state (afterFailure A e) s')"
  using assms
  by (simp add: reconcileBuilder_def buildObj_def andThen_def UpdateMayRequireStsRecreate_def afterFailure_def
      del: Build.simps)

text \<open>
  C20. With command substitution in the environment configuration the reconciliation stops at the
  config map of the server: whatever the server answers, no child is written for it and the
  following builders, the StatefulSet among them, are not reached.
\<close>

theorem invalid_env_stops:
  assumes "retry_law A" and "cou_law A" and "validateEnvConfig (EnvConfig (Rabbitmq (Spec (Rmq s)))) \<noteq> None"
  shows "fst (run_state (reconcileBuilders A (ServerConfigMapBuilder # ks)) s) \<noteq> Inr None \<and>
    (\<exists>new. Hist (snd (run_state (reconcileBuilders A (ServerConfigMapBuilder # ks)) s)) = Hist s @ new \<and>
       list_all noChildWrite new)"
proof -
  let ?x = "ChildConfigMap (ServerConfigMap_Build (builderOf A (Rmq s)))"
  let ?s1 = "s\<lparr>StsRestart := True, Obj := Some ?x, OpResult := ResultNone\<rparr>"
  obtain e s' where e: "run_state (createOrUpdateObj A ServerConfigMapBuilder) ?s1 = (Inl e, s')" "Hist s' = Hist s"
    using invalid_env_createOrUpdate [OF assms(1,2), of ?s1] assms(3) by auto
  have run: "run_state (reconcileBuilder A ServerConfigMapBuilder) s =
      (if isPanic e then (Inl e, s') else run_state (afterFailure A e) s')"
    by (rule reconcileBuilder_failed [OF e(1)]) simp_all
  have r: "fst (run_state (reconcileBuilder A ServerConfigMapBuilder) s) \<noteq> Inr None \<and>
    (\<exists>new. Hist (snd (run_state (reconcileBuilder A ServerConfigMapBuilder) s)) = Hist s @ new \<and> list_all noChildWrite new)"
    unfolding run using afterFailure_stops(1) [of A e s'] afterFailure_stops(2) [of A e, unfolded emits_def, rule_format, of s'] e(2)
    by (cases "isPanic e") simp_all
  have "run_state (reconcileBuilders A (ServerConfigMapBuilder # ks)) s = run_state (reconcileBuilder A ServerConfigMapBuilder) s"
    using r by (auto simp: andThen_def split: prod.splits sum.splits option.splits)
  then show ?thesis using r by simp
qed


section \<open>Examples\<close>

lemma exampleApi_good: "retry_law (exampleApi r)" "cou_law (exampleApi r)"
  by (rule exampleApi_laws(1), simp add: exampleApi_def) (rule exampleApi_laws(2) [OF refl])

definition elapsed :: "history \<Rightarrow> int" where
  "elapsed h = sum_list (map (\<lambda>q. case q of Sleep d \<Rightarrow> max 0 d | _ \<Rightarrow> 1) h)"

lemma elapsed_nonneg: "0 \<le> elapsed h"
  unfolding elapsed_def by (induction h) (auto split: request.split)

lemma elapsed_simps: "elapsed (h @ h') = elapsed h + elapsed h'" "elapsed (Sleep d # h) = max 0 d + elapsed h"
  by (simp_all add: elapsed_def)

definition exampleDeleted :: RabbitmqCluster where
  "exampleDeleted = (exampleServer 1)\<lparr>Meta := (namedMeta ''rmq'' ''ns'')\<lparr>DeletionTimestamp := Some 1, Finalizers := [deletionFinalizer]\<rparr>\<rparr>"

definition deletionApi :: "(string \<times> string) list api" where
  "deletionApi = (exampleApi exampleDeleted)\<lparr>k_Now := elapsed\<rparr>"


definition examplePaused :: RabbitmqCluster where
  "examplePaused = (exampleServer 1)\<lparr>Meta := (namedMeta ''rmq'' ''ns'')\<lparr>Labels := Some [pauseReconciliationLabel \<mapsto> ''true'']\<rparr>\<rparr>"

theorem Reconcile_paused_witness:
  "\<exists>msg now. Hist (snd (run_state (Reconcile (exampleApi examplePaused) exampleReconciler ''ns'' ''rmq'') (startState emptyCluster))) =
    [GetCluster ''ns'' ''rmq'', RecordEvent ''Warning'' ''PausedReconciliation'' msg, ReadClock,
      PatchStatus examplePaused (examplePaused\<lparr>ClusterStatus :=
        SetCondition now NoWarnings ConditionFalse ''reconciliation paused'' [] (ClusterStatus examplePaused)\<rparr>)]"
proof -
  have "k_GetCluster (exampleApi examplePaused) h ns n = Inr examplePaused" for h ns n by (simp add: exampleApi_def)
  moreover have "DeletionTimestamp (Meta examplePaused) = None"
    "mget (Labels (Meta examplePaused)) pauseReconciliationLabel = Some ''true''"
    by (simp_all add: examplePaused_def emptyMeta_def mget_def)
  ultimately show ?thesis
    using Reconcile_paused [of "exampleApi examplePaused" "startState emptyCluster" _ _ examplePaused] by simp
qed

definition exampleInvalidEnv :: RabbitmqCluster where
  "exampleInvalidEnv = (exampleServer 1)\<lparr>Spec := (Spec (exampleServer 1))\<lparr>Rabbitmq :=
     (Rabbitmq (Spec (exampleServer 1)))\<lparr>EnvConfig := ''A=`id`''\<rparr>\<rparr>\<rparr>"

theorem invalid_env_stops_witness:
  "fst (run_state (reconcileBuilders (exampleApi exampleInvalidEnv) [ServerConfigMapBuilder, StatefulSetBuilder])
     (startState exampleInvalidEnv)) \<noteq> Inr None"
proof -
  have "validateEnvConfig (EnvConfig (Rabbitmq (Spec (Rmq (startState exampleInvalidEnv))))) \<noteq> None"
    by (simp add: validateEnvConfig_def exampleInvalidEnv_def HasPrefix_def)
  from invalid_env_stops [OF exampleApi_good this] show ?thesis by blast
qed

lemma exampleServer_sts:
  "\<exists>x y. Build d StatefulSetBuilder (exampleBuilder (exampleServer k)) = Inr (ChildStatefulSet x) \<and>
     Update d' StatefulSetBuilder (exampleBuilder (exampleServer k)) f (ChildStatefulSet x) =
       Inr (ChildStatefulSet y, exampleServer k, f) \<and> sts_Replicas y = Some k"
proof -
  let ?b = "exampleBuilder (exampleServer k)"
  have i: "Instance ?b = exampleServer k" by (simp add: exampleBuilder_def)
  have r: "\<exists>m'. SetControllerReference ?b m = Inr m'" for m by (simp add: SetControllerReference_def exampleBuilder_def)
  have p: "\<exists>pvcs. persistentVolumeClaim (exampleServer k) = Inr pvcs \<and> (\<exists>pvcs'. updatePersistenceStorageCapacity pvcs (Some 1) = Inr pvcs')"
    by (simp add: persistentVolumeClaim_def exampleServer_def deref_def bindE_def go_simps
        updatePersistenceStorageCapacity_def setCapacity_def)
  have o': "ov_StatefulSet (Override (Spec (Instance ?b))) = None"
    unfolding i by (simp add: exampleServer_def emptyClusterSpec_def)
  have st: "Storage (Persistence (Spec (exampleServer k))) = Some 1"
    "Resources (Spec (exampleServer k)) = Some \<lparr>Limits = None, Requests = None\<rparr>"
    "TerminationGracePeriodSeconds (Spec (exampleServer k)) = Some 60"
    by (simp_all add: exampleServer_def)
  obtain pvcs pvcs' where p': "persistentVolumeClaim (exampleServer k) = Inr pvcs" "updatePersistenceStorageCapacity pvcs (Some 1) = Inr pvcs'"
    using p by blast
  then obtain x where x: "StatefulSet_Build ?b = Inr x" "sts_VolumeClaimTemplates x = pvcs"
    using o' by (simp add: StatefulSet_Build_def Let_def i bindE_def)
  obtain tm ts where t: "podTemplateSpec (exampleServer k) (Annotations (sts_TemplateMeta x)) = Inr (tm, ts)"
    using podTemplateSpec_defined st by metis
  obtain m where m: "SetControllerReference ?b (childMeta ?b (sts_Meta x)) = Inr m" using r by blast
  have "StatefulSet_Update (d_PodPatch d') ?b x = Inr ((generatedSts ?b pvcs' tm ts x)\<lparr>sts_Meta := m\<rparr>, exampleServer k)"
    unfolding StatefulSet_Update_plain [OF o'] i st x(2) using p' t m by blast
  moreover have "sts_Replicas ((generatedSts ?b pvcs' tm ts x)\<lparr>sts_Meta := m\<rparr>) = Some k"
    by (simp add: generatedSts_def i exampleServer_spec)
  ultimately show ?thesis using x(1) by (auto simp: bindE_def asStatefulSet_def)
qed

definition largerApi :: "(string \<times> string) list api" where
  "largerApi = (exampleApi (exampleServer 3))\<lparr>k_GetStatefulSet := (\<lambda>h ns n. Inr (exampleStatefulSet 5 5))\<rparr>"

theorem scale_down_refused_witness:
  "\<exists>h msg. Hist (snd (run_state (reconcileBuilder largerApi StatefulSetBuilder) (startState (exampleServer 3)))) = h \<and>
     RecordEvent ''Warning'' ''UnsupportedOperation'' msg \<in> set h \<and> length h = 4"
proof -
  have b: "builderOf largerApi r = exampleBuilder r" for r
    by (simp add: builderOf_def largerApi_def exampleApi_def exampleBuilder_def)
  obtain x y where u: "Build (k_Deps largerApi []) StatefulSetBuilder (exampleBuilder (exampleServer 3)) = Inr (ChildStatefulSet x)"
    "Update (k_Deps largerApi [GetStatefulSet ''ns'' ''rmq-server'']) StatefulSetBuilder (exampleBuilder (exampleServer 3)) True
       (ChildStatefulSet x) = Inr (ChildStatefulSet y, exampleServer 3, True)" "sts_Replicas y = Some 3"
    using exampleServer_sts by blast
  have g: "k_GetStatefulSet largerApi h ns n = Inr (exampleStatefulSet 5 5)" for h ns n by (simp add: largerApi_def)
  have n: "sts_Replicas (exampleStatefulSet 5 5) = Some 5" by (simp add: exampleStatefulSet_def)
  from scale_down_refused [of largerApi "startState (exampleServer 3)" "ChildStatefulSet x" "exampleStatefulSet 5 5" y
      "exampleServer 3" True 5 3] u g n
  show ?thesis by (auto simp: b exampleServer_names simp del: Build.simps Update.simps)
qed

end
