(* ===== verification/Status_Writes.thy ===== *)
theory Status_Writes
  imports Controller
begin

text \<open>
  What a reconciliation may write: a locale for a relation between the status a patch starts from and
  the one it writes, and for a property of the children, which every step of the reconciliation
  respects, and its interpretations for the observed generation and for the list of deprecated features.
\<close>

section \<open>Policies for writes\<close>

fun writesKeep ::
  "(RabbitmqClusterStatus \<Rightarrow> RabbitmqClusterStatus \<Rightarrow> bool) \<Rightarrow> (childObject \<Rightarrow> bool) \<Rightarrow> request \<Rightarrow> bool" where
  "writesKeep keep child (PatchStatus base r) = keep (ClusterStatus base) (ClusterStatus r)"
| "writesKeep keep child (WriteChild y) = child y"
| "writesKeep keep child q = True"

definition keepsGeneration :: "request \<Rightarrow> bool" where
  "keepsGeneration = writesKeep (\<lambda>st st'. ObservedGeneration st' = ObservedGeneration st) (\<lambda>_. True)"

definition keepsFeatures :: "request \<Rightarrow> bool" where
  "keepsFeatures = writesKeep (\<lambda>st st'. DeprecatedFeaturesUsed st' = DeprecatedFeaturesUsed st) (\<lambda>_. True)"

lemmas request_unfolds = Let_def readClock_def recordEvent_def exec_def getSts_def getConfigMap_def updateRmq_def
  deleteAnnotationCluster_def deleteAnnotationSts_def deleteAnnotationCm_def
  updateAnnotationCluster_def updateAnnotationSts_def updateAnnotationCm_def

text \<open>
  The changes of the status the steps make before the final one, and the children that come out of an
  update. Only roles and their bindings are constrained.
\<close>

locale write_policy =
  fixes keep :: "RabbitmqClusterStatus \<Rightarrow> RabbitmqClusterStatus \<Rightarrow> bool"
    and child :: "childObject \<Rightarrow> bool"
  assumes keep_SetCondition: "keep st (SetCondition now c v reason messages st)"
    and keep_SetConditions: "SetConditions clock rs st = Inr st' \<Longrightarrow> keep st st'"
    and keep_references: "keep st (st\<lparr>DefaultUser := u, Binding := b\<rparr>)"
    and keep_quorum: "keep st (st\<lparr>QuorumStatus := q\<rparr>)"
    and updated_role: "Role_Update rb role = Inr role' \<Longrightarrow> child (ChildRole role')"
    and updated_binding: "RoleBinding_Update rb binding = Inr binding' \<Longrightarrow> child (ChildRoleBinding binding')"
    and other_child: "(\<And>x. y \<noteq> ChildRole x) \<Longrightarrow> (\<And>x. y \<noteq> ChildRoleBinding x) \<Longrightarrow> child y"
begin

text \<open>The steps that write the status.\<close>

lemma status_setReconcileSuccess:
  "c \<noteq> ConditionTrue \<Longrightarrow> emits (writesKeep keep child) (setReconcileSuccess A c reason msg)"
  unfolding emits_def
  by (auto simp: setReconcileSuccess_def setCondition_def patchStatus_def readClock_def keep_SetCondition split: sum.splits)

lemma status_refuseScaling: "emits (writesKeep keep child) (refuseScaling A reason msg)"
  unfolding emits_def
  by (auto simp: refuseScaling_def recordEventsAndSetCondition_def recordEvent_def setCondition_def patchStatus_def
      readClock_def keep_SetCondition split: sum.splits)

lemma status_scaleDown: "emits (writesKeep keep child) (scaleDown A current sts)"
  unfolding emits_def
  by (auto simp: scaleDown_def recordEvent_def setCondition_def patchStatus_def Let_def
      readClock_def keep_SetCondition split: sum.splits)

lemma status_reconcileStatus: "emits (writesKeep keep child) (reconcileStatus A)"
  unfolding emits_def by (auto simp: reconcileStatus_def patchStatus_def Let_def keep_references split: sum.splits)

lemma status_pauseReconciliation: "emits (writesKeep keep child) (pauseReconciliation A)"
  unfolding emits_def
  by (auto simp: pauseReconciliation_def recordEvent_def setCondition_def patchStatus_def
      readClock_def keep_SetCondition split: sum.splits)


lemma status_updateQuorumStatus: "emits (writesKeep keep child) (updateQuorumStatus A)"
proof -
  have m: "emits (writesKeep keep child) (mapS (checkNodeQuorumStatus A) ps)" for ps
    by (induction ps) (auto simp: checkNodeQuorumStatus_def intro!: emits_rules)
  have o': "emits (writesKeep keep child) (State (\<lambda>s. (Inr (k_QuorumOrder A (Hist s) results), s)) :: (string \<times> string) list step)" for results
    by (simp add: emits_def)
  have c: "emits (writesKeep keep child) (checkQuorumStatus A)"
    unfolding checkQuorumStatus_def getPodEndpoints_def
    by (auto intro!: emits_rules m o' split: list.split)
  show ?thesis
    unfolding updateQuorumStatus_def
    by (rule emits_bindS [OF c]) (auto simp: emits_def patchStatus_def keep_quorum split: sum.splits)
qed

lemma status_updateStatusConditions: "emits (writesKeep keep child) (updateStatusConditions A)"
proof -
  have c: "emits (writesKeep keep child) (getChildResources A)"
    unfolding getChildResources_def getSts_def Let_def by (auto intro!: emits_rules)
  show ?thesis
    unfolding updateStatusConditions_def
    by (rule emits_bindS [OF c])
      (auto simp: emits_def patchStatus_def readClocks_def readClock_def keep_SetConditions split: sum.splits)
qed

text \<open>The other steps do not write the status.\<close>

lemma status_reconcileOperatorDefaults: "emits (writesKeep keep child) (reconcileOperatorDefaults A R)"
  unfolding reconcileOperatorDefaults_def updateRabbitmqCluster_def request_unfolds
  by (auto intro!: emits_rules)

lemma status_addFinalizer: "retry_law A \<Longrightarrow> emits (writesKeep keep child) (addFinalizerIfNeeded A)"
  unfolding addFinalizerIfNeeded_def request_unfolds by (auto intro!: emits_rules emits_OnError)

lemma status_tls: "emits (writesKeep keep child) (tlsStep A)"
proof -
  have "emits (writesKeep keep child) (checkTLSSecrets A)"
    unfolding checkTLSSecrets_def readSecret_def request_unfolds by (auto intro!: emits_rules)
  then show ?thesis
    unfolding tlsStep_def reconcileTLS_def recordEvent_def by (auto intro!: emits_rules status_setReconcileSuccess)
qed

lemma status_labelSecret: "emits (writesKeep keep child) (labelDefaultUserSecret A)"
  unfolding labelDefaultUserSecret_def readSecret_def Let_def by (auto intro!: emits_rules)

lemma status_rebalance: "emits (writesKeep keep child) (rebalanceStep A)"
  unfolding rebalanceStep_def markForQueueRebalance_def request_unfolds by (auto intro!: emits_rules)

lemma status_deleteRBAC: "emits (writesKeep keep child) (deletePeerDiscoveryRBAC A)"
  unfolding deletePeerDiscoveryRBAC_def deleteIgnoringNotFound_def by (auto intro!: emits_rules)

lemma status_Scale: "emits (writesKeep keep child) (Scale A rmq q)"
proof -
  have g: "emits (writesKeep keep child) (getClaims A rmq is pvcs)" for "is" pvcs
    by (induction A rmq "is" pvcs rule: getClaims.induct) (auto intro!: emits_rules)
  have r: "emits (writesKeep keep child) (retryWithInterval msg n k i f)" if "emits (writesKeep keep child) f" for msg n k i f
    using that by (induction msg n k i f rule: retryWithInterval.induct) (auto intro!: emits_rules)
  show ?thesis
    unfolding Scale_def existingCapacity_def scalerGetSts_def getClusterPVCs_def deleteSts_def stsGone_def
      scaleUpPVCs_def scaleUpPVC_def Let_def
    by (auto intro!: emits_rules g r)
qed


lemma status_reportFailure: "emits (writesKeep keep child) m \<Longrightarrow> emits (writesKeep keep child) (reportFailure A reason m)"
  unfolding reportFailure_def by (auto intro!: emits_rules status_setReconcileSuccess)

lemma status_checkScaling: "retry_law A \<Longrightarrow> emits (writesKeep keep child) (checkScaling A current sts)"
  unfolding checkScaling_def saveReplicasBeforeZero_def scaleFromZeroToBeforeReplicasConfigured_def
    removeReplicasBeforeZeroAnnotationIfExists_def request_unfolds
  by (auto intro!: emits_rules emits_OnError status_scaleDown status_refuseScaling)

lemma status_prepareStatefulSet: "retry_law A \<Longrightarrow> emits (writesKeep keep child) (prepareStatefulSet A k)"
  unfolding prepareStatefulSet_def reconcilePVC_def getSts_def Let_def recordEvent_def
  by (auto intro!: emits_rules status_checkScaling emits_updateObj status_reportFailure status_Scale)

lemma updated_child: "Update d k b f x = Inr (y, r', f') \<Longrightarrow> child y"
  by (cases k) (auto simp: Update_Inr simp del: Update.simps intro: updated_role updated_binding other_child)

lemma updateObj_policy: "run_state (updateObj A k x) s = (Inr y, s') \<Longrightarrow> child y"
  by (auto simp: updateObj_def simp del: Update.simps intro: updated_child split: sum.splits)

lemma status_createOrUpdate: "retry_law A \<Longrightarrow> cou_law A \<Longrightarrow> emits (writesKeep keep child) (createOrUpdateObj A k)"
  unfolding createOrUpdateObj_def
  by (auto intro!: emits_rules emits_OnError emits_CreateOrUpdate emits_updateObj dest: updateObj_policy)

lemma status_annotateIfNeeded: "retry_law A \<Longrightarrow> emits (writesKeep keep child) (annotateIfNeeded A k op restart)"
  unfolding annotateIfNeeded_def annotationTarget_def request_unfolds
  by (auto intro!: emits_rules emits_OnError split: builderKind.splits if_splits)

lemma status_reconcileBuilder: "retry_law A \<Longrightarrow> cou_law A \<Longrightarrow> emits (writesKeep keep child) (reconcileBuilder A k)"
  unfolding reconcileBuilder_def buildObj_def logAndRecordOperationResult_def recordEvent_def Let_def
  by (auto intro!: emits_rules status_prepareStatefulSet status_createOrUpdate status_annotateIfNeeded
      status_setReconcileSuccess)


lemma status_builders: "retry_law A \<Longrightarrow> cou_law A \<Longrightarrow> emits (writesKeep keep child) (buildersStep A)"
proof -
  assume "retry_law A" "cou_law A"
  then have "emits (writesKeep keep child) (reconcileBuilders A ks)" for ks
    by (induction ks) (auto intro!: emits_rules status_reconcileBuilder)
  then show ?thesis unfolding buildersStep_def by (auto intro!: emits_rules)
qed

lemma status_restart: "retry_law A \<Longrightarrow> emits (writesKeep keep child) (restartStatefulSetIfNeeded A)"
  unfolding restartStatefulSetIfNeeded_def annotateRestart_def requeueIfNotFound_def request_unfolds
  by (auto intro!: emits_rules emits_OnError)

lemma status_version: "emits (writesKeep keep child) (reconcileRabbitmqVersionAnnotation A)"
  unfolding reconcileRabbitmqVersionAnnotation_def request_unfolds by (auto intro!: emits_rules)

lemma status_commands: "emits (writesKeep keep child) (runRabbitmqCLICommandsIfAnnotated A)"
  unfolding runRabbitmqCLICommandsIfAnnotated_def pluginsConfigUpdatedRecently_def runSetPluginsCommand_def
    runEnableFeatureFlagsCommand_def runQueueRebalanceCommand_def execOrFail_def request_unfolds
  by (auto intro!: emits_rules)

lemma status_reconcileCluster:
  "retry_law A \<Longrightarrow> cou_law A \<Longrightarrow> emits (writesKeep keep child) (reconcileCluster A R)"
  unfolding reconcileCluster_def quorumStep_def
  by (intro emits_rules status_reconcileOperatorDefaults status_addFinalizer status_updateStatusConditions
      status_tls status_labelSecret status_rebalance status_deleteRBAC status_builders
      status_restart status_reconcileStatus status_updateQuorumStatus status_reportFailure
      status_version status_commands)

lemma status_prepareForDeletion: "retry_law A \<Longrightarrow> emits (writesKeep keep child) (prepareForDeletion A)"
proof -
  assume l: "retry_law A"
  have d: "writesKeep keep child q" if "deletionRequest q" for q using that by (cases q) auto
  show ?thesis
    unfolding prepareForDeletion_def removeFinalizer_def readClock_def
    using l emits_mono [OF emits_addRabbitmqDeletionLabel d] emits_mono [OF emits_waitForLabel d]
    by (auto intro!: emits_rules emits_OnError)
qed

end

text \<open>With the observed generation free to change, every step is covered.\<close>

locale write_policy_all = write_policy +
  assumes keep_generation: "keep st st' \<Longrightarrow> keep st (st'\<lparr>ObservedGeneration := g\<rparr>)"
begin

lemma status_success: "emits (writesKeep keep child) (setReconcileSuccess A c reason msg)"
  unfolding emits_def
  by (auto simp: setReconcileSuccess_def setCondition_def patchStatus_def readClock_def keep_SetCondition keep_generation
      split: sum.splits)

lemma status_Reconcile:
  "retry_law A \<Longrightarrow> cou_law A \<Longrightarrow> emits (writesKeep keep child) (Reconcile A R ns n)"
  unfolding Reconcile_def
  by (intro emits_rules status_success status_reconcileCluster status_prepareForDeletion status_pauseReconciliation)
    simp_all

end

interpretation generation: write_policy "\<lambda>st st'. ObservedGeneration st' = ObservedGeneration st" "\<lambda>_. True"
  by unfold_locales (auto simp: SetCondition_def SetConditions_def Let_def bindE_Inr_iff)

interpretation features: write_policy_all "\<lambda>st st'. DeprecatedFeaturesUsed st' = DeprecatedFeaturesUsed st" "\<lambda>_. True"
  by unfold_locales (auto simp: SetCondition_def SetConditions_def Let_def bindE_Inr_iff)

section \<open>The observed generation\<close>

lemma keepsGeneration_simps [simp]:
  "keepsGeneration (PatchStatus base r) \<longleftrightarrow>
     ObservedGeneration (ClusterStatus r) = ObservedGeneration (ClusterStatus base)"
  "keepsGeneration (GetCluster ns n)" "keepsGeneration ReadClock"
  by (simp_all add: keepsGeneration_def)

lemma setReconcileSuccess_True:
  "\<exists>c. Hist (snd (run_state (setReconcileSuccess A ConditionTrue reason msg) s)) = Hist s @ [ReadClock, PatchStatus (Rmq s) c] \<and>
     ObservedGeneration (ClusterStatus c) = Generation (Meta (Rmq s))"
  by (auto simp: setReconcileSuccess_def setCondition_def patchStatus_def readClock_def split: sum.splits)

text \<open>The last part of \<open>Reconcile\<close>, and the two ways it can go.\<close>

abbreviation finish :: "'f api \<Rightarrow> RabbitmqClusterReconciler \<Rightarrow> int step" where
  "finish A R \<equiv> bindS (reconcileCluster A R) (\<lambda>r. case r of Some d \<Rightarrow> returnS d
     | None \<Rightarrow> bindS (setReconcileSuccess A ConditionTrue ''Success'' ''Finish reconciling'') (\<lambda>_. returnS 0))"

definition untouched :: "int step \<Rightarrow> recState \<Rightarrow> bool" where
  "untouched m s \<longleftrightarrow> (\<exists>new. Hist (snd (run_state m s)) = Hist s @ new \<and> list_all keepsGeneration new)"

definition finished :: "'f api \<Rightarrow> RabbitmqClusterReconciler \<Rightarrow> int step \<Rightarrow> recState \<Rightarrow> bool" where
  "finished A R m s1 \<longleftrightarrow> (\<exists>s2 c new. run_state (reconcileCluster A R) s1 = (Inr None, s2) \<and>
     Hist s2 = Hist s1 @ new \<and> list_all keepsGeneration new \<and>
     Hist (snd (run_state m s1)) = Hist s2 @ [ReadClock, PatchStatus (Rmq s2) c] \<and>
     ObservedGeneration (ClusterStatus c) = Generation (Meta (Rmq s2)))"

lemma emits_untouched: "emits keepsGeneration m \<Longrightarrow> untouched m s"
  unfolding emits_def untouched_def by blast

lemma finish_ways:
  assumes "retry_law A" and "cou_law A"
  shows "untouched (finish A R) s1 \<or> finished A R (finish A R) s1"
proof -
  obtain x s2 where x: "run_state (reconcileCluster A R) s1 = (x, s2)" by (metis surj_pair)
  obtain new where new: "Hist s2 = Hist s1 @ new" "list_all keepsGeneration new"
    using generation.status_reconcileCluster [folded keepsGeneration_def, OF assms] x by (rule emits_run)
  show ?thesis
  proof (cases "x = Inr None")
    case True
    obtain c where "Hist (snd (run_state (setReconcileSuccess A ConditionTrue ''Success'' ''Finish reconciling'') s2)) =
        Hist s2 @ [ReadClock, PatchStatus (Rmq s2) c]" "ObservedGeneration (ClusterStatus c) = Generation (Meta (Rmq s2))"
      using setReconcileSuccess_True by blast
    then show ?thesis using x True new by (auto simp: finished_def split: prod.splits sum.splits)
  next
    case False
    then have "Hist (snd (run_state (finish A R) s1)) = Hist s2" using x by (cases x) (auto split: option.splits)
    then show ?thesis using new by (auto simp: untouched_def)
  qed
qed

lemma run_Reconcile:
  assumes "k_GetCluster A (Hist s) ns n = Inr rmq"
  obtains m where "run_state (Reconcile A R ns n) s = run_state m (s\<lparr>Hist := Hist s @ [GetCluster ns n], Rmq := rmq\<rparr>)"
    and "m = bindS (prepareForDeletion A) (\<lambda>_. returnS 0) \<or> m = bindS (pauseReconciliation A) (\<lambda>_. returnS 0) \<or> m = finish A R"
proof -
  let ?m = "if DeletionTimestamp (Meta rmq) \<noteq> None then bindS (prepareForDeletion A) (\<lambda>_. returnS 0)
     else if mget (Labels (Meta rmq)) pauseReconciliationLabel = Some ''true''
     then bindS (pauseReconciliation A) (\<lambda>_. returnS 0) else finish A R"
  have "run_state (Reconcile A R ns n) s = run_state ?m (s\<lparr>Hist := Hist s @ [GetCluster ns n], Rmq := rmq\<rparr>)"
    using assms unfolding Reconcile_def by (simp only: run_bindS run_tryS run_requestE run_setRmq prod.case sum.case)
  moreover have "?m = bindS (prepareForDeletion A) (\<lambda>_. returnS 0) \<or> ?m = bindS (pauseReconciliation A) (\<lambda>_. returnS 0) \<or> ?m = finish A R"
    by simp
  ultimately show ?thesis by (rule that)
qed

text \<open>
  C6. The observed generation only moves at the very end. Either no status written by a
  reconciliation has another observed generation than before, or all steps have succeeded without
  asking to be run again, no status before the last request moves it, and the last request writes a
  status whose observed generation is that of the cluster in memory.
\<close>

theorem observed_generation_last:
  assumes "retry_law A" and "cou_law A"
  shows "(\<exists>new. Hist (snd (run_state (Reconcile A R ns n) s)) = Hist s @ new \<and> list_all keepsGeneration new) \<or>
    (\<exists>s1 s2 c new. run_state (reconcileCluster A R) s1 = (Inr None, s2) \<and> Hist s1 = Hist s @ [GetCluster ns n] \<and>
       Hist s2 = Hist s1 @ new \<and> list_all keepsGeneration new \<and>
       Hist (snd (run_state (Reconcile A R ns n) s)) = Hist s2 @ [ReadClock, PatchStatus (Rmq s2) c] \<and>
       ObservedGeneration (ClusterStatus c) = Generation (Meta (Rmq s2)))"
proof (cases "k_GetCluster A (Hist s) ns n")
  case (Inl e)
  then show ?thesis by (auto simp: Reconcile_def)
next
  case (Inr rmq)
  let ?s1 = "s\<lparr>Hist := Hist s @ [GetCluster ns n], Rmq := rmq\<rparr>"
  obtain m where run: "run_state (Reconcile A R ns n) s = run_state m ?s1"
    and m: "m = bindS (prepareForDeletion A) (\<lambda>_. returnS 0) \<or> m = bindS (pauseReconciliation A) (\<lambda>_. returnS 0) \<or> m = finish A R"
    using Inr by (rule run_Reconcile)
  have "untouched (bindS (prepareForDeletion A) (\<lambda>_. returnS 0)) ?s1" "untouched (bindS (pauseReconciliation A) (\<lambda>_. returnS 0)) ?s1"
    by (intro emits_untouched emits_rules generation.status_prepareForDeletion [folded keepsGeneration_def]
      generation.status_pauseReconciliation [folded keepsGeneration_def] assms)+
  then have "untouched m ?s1 \<or> finished A R m ?s1" using m finish_ways [OF assms, of R ?s1] by blast
  then show ?thesis
  proof
    assume "untouched m ?s1"
    then obtain new where "Hist (snd (run_state m ?s1)) = Hist ?s1 @ new" "list_all keepsGeneration new"
      unfolding untouched_def by blast
    then show ?thesis unfolding run by (intro disjI1 exI [of _ "GetCluster ns n # new"]) simp
  next
    assume "finished A R m ?s1"
    moreover have "Hist ?s1 = Hist s @ [GetCluster ns n]" by simp
    ultimately show ?thesis unfolding run finished_def by blast
  qed
qed

theorem observed_generation_last_witness:
  "retry_law (exampleApi (exampleServer 1)) \<and>
   (\<exists>h. Hist (snd (run_state (Reconcile (exampleApi (exampleServer 1)) exampleReconciler ''ns'' ''rmq'') (startState emptyCluster))) = h \<and>
     list_all keepsGeneration (butlast h))"
proof -
  let ?A = "exampleApi (exampleServer 1)"
  show ?thesis
    using observed_generation_last [OF exampleApi_good, of "exampleServer 1" exampleReconciler "''ns''" "''rmq''" "startState emptyCluster"]
      exampleApi_good(1)
    by (auto simp: butlast_append list_all_iff dest: in_set_butlastD)
qed


end
