(* ===== verification/Ownership.thy ===== *)
theory Ownership
  imports Status_Writes
begin

text \<open>
  A reconciliation only ever writes children of its own cluster: an invariant over all its steps.
\<close>

section \<open>The invariant\<close>

text \<open>An object that has the type, name and namespace one of the builders gives it.\<close>

definition ownChild :: "RabbitmqCluster \<Rightarrow> childObject \<Rightarrow> bool" where
  "ownChild r y \<longleftrightarrow> (\<exists>k. objectType y = typeOf k \<and> Name (objectMetaOf y) = ChildResourceName r (suffixOf k) \<and>
     Namespace (objectMetaOf y) = cluster_Namespace r)"

fun ownWrite :: "RabbitmqCluster \<Rightarrow> request \<Rightarrow> bool" where
  "ownWrite r (WriteChild y) = ownChild r y"
| "ownWrite r q = True"

definition sameCluster :: "RabbitmqCluster \<Rightarrow> RabbitmqCluster \<Rightarrow> bool" where
  "sameCluster r r' \<longleftrightarrow> cluster_Name r = cluster_Name r' \<and> cluster_Namespace r = cluster_Namespace r'"

text \<open>
  The cluster in memory is the given one, since the history \<open>h0\<close> only its children were written, and
  the object of the current builder has the property \<open>Q\<close>.
\<close>

definition ownSince :: "RabbitmqCluster \<Rightarrow> history \<Rightarrow> history \<Rightarrow> bool" where
  "ownSince r h0 h \<longleftrightarrow> (\<exists>new. h = h0 @ new \<and> list_all (ownWrite r) new)"

definition safe :: "RabbitmqCluster \<Rightarrow> history \<Rightarrow> (childObject option \<Rightarrow> bool) \<Rightarrow> recState \<Rightarrow> bool" where
  "safe r h0 Q s \<longleftrightarrow> sameCluster (Rmq s) r \<and> ownSince r h0 (Hist s) \<and> Q (Obj s)"

lemma ownSince_snoc [simp]: "ownWrite r q \<Longrightarrow> ownSince r h0 h \<Longrightarrow> ownSince r h0 (h @ [q])"
  unfolding ownSince_def by force

text \<open>
  The server answers for the object it is asked for, adding a finalizer does not rename the object
  and setting an owner reference changes nothing else.
\<close>

definition identity_law :: "'f api \<Rightarrow> bool" where
  "identity_law A \<longleftrightarrow>
     (\<forall>h ns n c. k_GetCluster A h ns n = Inr c \<longrightarrow> cluster_Name c = n \<and> cluster_Namespace c = ns) \<and>
     (\<forall>h c c'. k_UpdateCluster A h c = Inr c' \<longrightarrow> sameCluster c' c) \<and>
     (\<forall>h b c c'. k_PatchStatus A h b c = Inr c' \<longrightarrow> sameCluster c' c) \<and>
     (\<forall>m f. Name (k_AddFinalizer A m f) = Name m \<and> Namespace (k_AddFinalizer A m f) = Namespace m) \<and>
     (\<forall>r. reference_only (builderOf A r))"

lemma sameCluster_simps [simp]:
  "sameCluster (x\<lparr>Spec := sp\<rparr>) r = sameCluster x r" "sameCluster (x\<lparr>ClusterStatus := st\<rparr>) r = sameCluster x r"
  "sameCluster (x\<lparr>Meta := withAnnotation k v m\<rparr>) r = sameCluster (x\<lparr>Meta := m\<rparr>) r"
  "sameCluster (x\<lparr>Meta := withoutAnnotation k m\<rparr>) r = sameCluster (x\<lparr>Meta := m\<rparr>) r"
  "sameCluster (x\<lparr>Meta := m\<lparr>Annotations := a\<rparr>\<rparr>) r = sameCluster (x\<lparr>Meta := m\<rparr>) r"
  "sameCluster (x\<lparr>Meta := Meta x\<rparr>) r = sameCluster x r"
  by (simp_all add: sameCluster_def withAnnotation_def withoutAnnotation_def)

lemma sameCluster_names: "sameCluster x r \<Longrightarrow> ChildResourceName x k = ChildResourceName r k"
  by (simp add: sameCluster_def ChildResourceName_def)

lemma safe_set [simp]:
  "safe r h0 Q (s\<lparr>OpResult := p\<rparr>) = safe r h0 Q s"
  "safe r h0 Q (s\<lparr>StsRestart := b\<rparr>) = safe r h0 Q s"
  by (simp_all add: safe_def)

lemma safe_request: "ownWrite r q \<Longrightarrow> safe r h0 Q s \<Longrightarrow> safe r h0 Q (s\<lparr>Hist := Hist s @ [q]\<rparr>)"
  by (simp add: safe_def)

lemma safe_setRmq: "sameCluster x r \<Longrightarrow> safe r h0 Q s \<Longrightarrow> safe r h0 Q (s\<lparr>Rmq := x\<rparr>)"
  by (simp add: safe_def)

lemma safe_getRmq:
  "(\<And>x. sameCluster x r \<Longrightarrow> keeps (safe r h0 Q) (f x)) \<Longrightarrow> keeps (safe r h0 Q) (bindS getRmq f)"
  by (auto simp: keeps_def safe_def)

lemmas safe_rules = keeps_rules safe_request safe_setRmq safe_getRmq

section \<open>The steps\<close>

lemma safe_updateRmq:
  assumes "identity_law A"
  shows "keeps (safe r h0 Q) (updateRmq A)"
  using assms unfolding keeps_def updateRmq_def identity_law_def
  by (auto simp: safe_def sameCluster_def split: sum.splits)

lemma safe_patchStatus:
  assumes "identity_law A"
  shows "keeps (safe r h0 Q) (patchStatus A base)"
  using assms unfolding keeps_def patchStatus_def identity_law_def
  by (auto simp: safe_def sameCluster_def split: sum.splits)

lemma safe_setCondition: "keeps (safe r h0 Q) (setCondition A c st reason msgs)"
  unfolding setCondition_def readClock_def by (auto intro!: safe_rules)

lemma safe_setReconcileSuccess: "identity_law A \<Longrightarrow> keeps (safe r h0 Q) (setReconcileSuccess A c reason msg)"
  unfolding setReconcileSuccess_def by (auto intro!: safe_rules safe_setCondition safe_patchStatus)

lemma safe_annotations:
  assumes "identity_law A"
  shows "keeps (safe r h0 Q) (deleteAnnotationCluster A key)" "keeps (safe r h0 Q) (deleteAnnotationSts A sts key)"
    "keeps (safe r h0 Q) (deleteAnnotationCm A cm key)"
  unfolding deleteAnnotationCluster_def deleteAnnotationSts_def deleteAnnotationCm_def Let_def
  by (auto intro!: safe_rules safe_updateRmq assms)

lemma safe_operatorDefaults: "identity_law A \<Longrightarrow> keeps (safe r h0 Q) (reconcileOperatorDefaults A R)"
  unfolding reconcileOperatorDefaults_def updateRabbitmqCluster_def setUpdaterImage_def
  by (auto intro!: safe_rules safe_updateRmq)

lemma safe_addFinalizer: "retry_law A \<Longrightarrow> identity_law A \<Longrightarrow> keeps (safe r h0 Q) (addFinalizerIfNeeded A)"
proof -
  assume l: "retry_law A" "identity_law A"
  then have "sameCluster (x\<lparr>Meta := k_AddFinalizer A (Meta x) f\<rparr>) r = sameCluster x r" for x f
    unfolding identity_law_def sameCluster_def by simp
  then show ?thesis
    using l unfolding addFinalizerIfNeeded_def by (auto intro!: safe_rules keeps_OnError safe_updateRmq)
qed

lemma safe_updateStatusConditions: "identity_law A \<Longrightarrow> keeps (safe r h0 Q) (updateStatusConditions A)"
  unfolding updateStatusConditions_def getChildResources_def getSts_def readClocks_def readClock_def Let_def
  by (auto intro!: safe_rules safe_patchStatus)


lemma safe_tls: "identity_law A \<Longrightarrow> keeps (safe r h0 Q) (tlsStep A)"
  unfolding tlsStep_def reconcileTLS_def checkTLSSecrets_def readSecret_def recordEvent_def Let_def
  by (auto intro!: safe_rules safe_setReconcileSuccess)

lemma safe_labelSecret: "keeps (safe r h0 Q) (labelDefaultUserSecret A)"
  unfolding labelDefaultUserSecret_def readSecret_def Let_def by (auto intro!: safe_rules)

lemma safe_rebalance: "identity_law A \<Longrightarrow> keeps (safe r h0 Q) (rebalanceStep A)"
  unfolding rebalanceStep_def markForQueueRebalance_def getSts_def readClock_def Let_def
  by (auto intro!: safe_rules safe_updateRmq)

lemma safe_deleteRBAC: "keeps (safe r h0 Q) (deletePeerDiscoveryRBAC A)"
  unfolding deletePeerDiscoveryRBAC_def deleteIgnoringNotFound_def by (auto intro!: safe_rules)

lemma safe_reconcileStatus: "identity_law A \<Longrightarrow> keeps (safe r h0 Q) (reconcileStatus A)"
  unfolding reconcileStatus_def Let_def by (auto intro!: safe_rules safe_patchStatus)

lemma safe_restart: "retry_law A \<Longrightarrow> keeps (safe r h0 Q) (restartStatefulSetIfNeeded A)"
  unfolding restartStatefulSetIfNeeded_def annotateRestart_def requeueIfNotFound_def getSts_def getConfigMap_def
    recordEvent_def readClock_def Let_def
  by (auto intro!: safe_rules keeps_OnError)

lemma safe_version: "identity_law A \<Longrightarrow> keeps (safe r h0 Q) (reconcileRabbitmqVersionAnnotation A)"
  unfolding reconcileRabbitmqVersionAnnotation_def getSts_def Let_def by (auto intro!: safe_rules safe_updateRmq)

lemma safe_execOrFail: "keeps (safe r h0 Q) (execOrFail A msg p cmd)"
  unfolding execOrFail_def exec_def recordEvent_def by (auto intro!: safe_rules)

lemma safe_commands: "identity_law A \<Longrightarrow> keeps (safe r h0 Q) (runRabbitmqCLICommandsIfAnnotated A)"
  unfolding runRabbitmqCLICommandsIfAnnotated_def pluginsConfigUpdatedRecently_def runSetPluginsCommand_def
    runEnableFeatureFlagsCommand_def runQueueRebalanceCommand_def getSts_def getConfigMap_def readClock_def Let_def
  by (auto intro!: safe_rules safe_execOrFail safe_annotations)

lemma safe_quorum: "identity_law A \<Longrightarrow> keeps (safe r h0 Q) (quorumStep A)"
proof -
  assume l: "identity_law A"
  have m: "keeps (safe r h0 Q) (mapS (checkNodeQuorumStatus A) ps)" for ps
    by (induction ps) (auto simp: checkNodeQuorumStatus_def intro!: safe_rules)
  have o': "keeps (safe r h0 Q) (State (\<lambda>s. (Inr (k_QuorumOrder A (Hist s) results), s)) :: (string \<times> string) list step)" for results
    by (simp add: keeps_def)
  have c: "keeps (safe r h0 Q) (checkQuorumStatus A)"
    unfolding checkQuorumStatus_def getPodEndpoints_def by (auto intro!: safe_rules m o' split: list.split)
  show ?thesis
    unfolding quorumStep_def updateQuorumStatus_def by (auto intro!: safe_rules c safe_patchStatus l)
qed


section \<open>The children\<close>

definition isChild :: "RabbitmqCluster \<Rightarrow> builderKind \<Rightarrow> childObject \<Rightarrow> bool" where
  "isChild r k x \<longleftrightarrow> objectType x = typeOf k \<and> Name (objectMetaOf x) = ChildResourceName r (suffixOf k) \<and>
     Namespace (objectMetaOf x) = cluster_Namespace r"

definition childOf :: "RabbitmqCluster \<Rightarrow> builderKind \<Rightarrow> childObject option \<Rightarrow> bool" where
  "childOf r k o' \<longleftrightarrow> (\<exists>x. o' = Some x \<and> isChild r k x)"

lemma isChild_own: "isChild r k x \<Longrightarrow> ownChild r x"
  unfolding isChild_def ownChild_def by blast

lemma isChild_same: "sameIdentity y x \<Longrightarrow> isChild r k x \<Longrightarrow> isChild r k y"
  unfolding isChild_def sameIdentity_def by simp

lemma isChild_built:
  assumes "Build d k (builderOf A x) = Inr y" and "sameCluster x r"
  shows "isChild r k y"
  using Build_type [OF assms(1)] Build_identity [OF assms(1)] sameCluster_names [OF assms(2)] assms(2)
  by (simp add: isChild_def builderOf_def sameCluster_def)

lemma Update_cluster:
  assumes "Update d k b f x = Inr (y, r', f')"
  shows "cluster_Name r' = cluster_Name (Instance b) \<and> cluster_Namespace r' = cluster_Namespace (Instance b)"
  using assms by (cases k) (auto simp: Update_Inr restricted_def simp del: Update.simps elim!: StatefulSet_Update_cases)

lemma isChild_updated:
  assumes "identity_law A" and "isChild r k x" and "Update d k (builderOf A c) f x = Inr (y, r', f')"
  shows "isChild r k y"
proof -
  have "reference_only (builderOf A c)" using assms(1) unfolding identity_law_def by blast
  from Update_identity [OF this assms(3)] Update_type [OF assms(3)] assms(2) show ?thesis
    by (simp add: isChild_def)
qed

lemma safe_updateObj: "keeps (safe r h0 Q) (updateObj A k x)"
  unfolding keeps_def updateObj_def
  by (auto simp: safe_def sameCluster_def builderOf_def simp del: Update.simps dest!: Update_cluster split: sum.splits)

lemma updateObj_child:
  assumes "identity_law A" and "isChild r k x" and "run_state (updateObj A k x) s = (Inr y, s')"
  shows "isChild r k y"
  using assms(3) isChild_updated [OF assms(1,2)]
  by (auto simp: updateObj_def simp del: Update.simps split: sum.splits)

text \<open>The function that is retried keeps the invariant, whatever \<open>CreateOrUpdate\<close> does within its law.\<close>

lemma safe_createOrUpdate:
  assumes "identity_law A" and "retry_law A" and "cou_law A"
  shows "keeps (safe r h0 (childOf r k)) (createOrUpdateObj A k)"
  unfolding createOrUpdateObj_def
proof (rule keeps_OnError [OF assms(2)], unfold keeps_def, intro allI impI)
  fix s
  let ?I = "safe r h0 (childOf r k)"
  let ?f = "\<lambda>x. bindS (k_CreateOrUpdate A (updateObj A k) x) (\<lambda>(operationResult, apiError, y).
        bindS (setObj y) (\<lambda>_. bindS (setOpResult operationResult) (\<lambda>_. checkS apiError)))"
  assume s: "?I s"
  then obtain x where x: "Obj s = Some x" "isChild r k x" by (auto simp: safe_def childOf_def)
  obtain res s1 where res: "run_state (k_CreateOrUpdate A (updateObj A k) x) s = (res, s1)" by (metis surj_pair)
  have out: "couOutcome (updateObj A k) x s (res, s1)" using assms(3) res unfolding cou_law_def by metis
  have upd: "?I s2 \<and> (\<forall>y. c = Inr y \<longrightarrow> isChild r k y)"
    if "run_state (updateObj A k x') s = (c, s2)" "sameIdentity x' x" for x' c s2
    using keepsD [OF safe_updateObj s that(1)] updateObj_child [OF assms(1) isChild_same [OF that(2) x(2)]] that(1) by blast
  have "?I s1 \<and> (\<forall>op err z. res = Inr (op, err, z) \<longrightarrow> isChild r k z)"
    using out unfolding couOutcome_def
  proof (elim disjE exE conjE)
    fix x'
    assume i: "sameIdentity x' x" and c: "case run_state (updateObj A k x') s of
        (Inl e, s2) \<Rightarrow> (res, s1) = (if isPanic e then Inl e else Inr (ResultNone, Some e, x'), s2)
      | (Inr y, s2) \<Rightarrow> (res, s1) = (Inr (ResultNone, None, y), s2) \<and> y = x' \<or>
           (\<exists>op err z. (res, s1) = (Inr (op, err, z), s2\<lparr>Hist := Hist s2 @ [WriteChild y]\<rparr>) \<and>
              sameIdentity z y \<and> (op = ResultNone \<longleftrightarrow> err \<noteq> None))"
    obtain u s2 where u: "run_state (updateObj A k x') s = (u, s2)" by (metis surj_pair)
    note us = upd [OF u i]
    have w: "?I (s2\<lparr>Hist := Hist s2 @ [WriteChild y]\<rparr>)" if "isChild r k y" for y
      using safe_request [of r "WriteChild y"] isChild_own [OF that] us by simp
    show ?thesis
      using c us w i x(2) isChild_same unfolding u by (cases u) (auto split: if_splits)
  qed (use s x in auto)
  then show "?I (snd (run_state (bindS getObj ?f) s))"
    using x res by (cases res) (auto simp: deref_def safe_def childOf_def)
qed


lemma safe_updateAnnotationCluster:
  assumes "identity_law A" and "retry_law A" and "sameCluster x r"
  shows "keeps (safe r h0 Q) (updateAnnotationCluster A (cluster_Namespace x) (cluster_Name x) key v)"
proof -
  let ?get = "requestE (GetCluster (cluster_Namespace x) (cluster_Name x))
      (\<lambda>h. k_GetCluster A h (cluster_Namespace x) (cluster_Name x))"
  have y: "yields (safe r h0 Q) ?get (\<lambda>c s. sameCluster c r)"
    using assms(1,3) unfolding yields_def identity_law_def sameCluster_def by auto
  have "keeps (safe r h0 Q) (bindS ?get (\<lambda>c.
      bindS (setRmq (c\<lparr>Meta := withAnnotation key v (Meta c)\<rparr>)) (\<lambda>_. updateRmq A)))"
  proof (rule keeps_bindS_yields [OF _ y])
    show "keeps (safe r h0 Q) ?get" by (auto intro!: safe_rules)
    fix c s assume c: "safe r h0 Q s" "sameCluster c r"
    have "keeps (safe r h0 Q) (bindS (setRmq (c\<lparr>Meta := withAnnotation key v (Meta c)\<rparr>)) (\<lambda>_. updateRmq A))"
      using c(2) by (auto intro!: safe_rules safe_updateRmq assms(1))
    then show "safe r h0 Q (snd (run_state (bindS (setRmq (c\<lparr>Meta := withAnnotation key v (Meta c)\<rparr>)) (\<lambda>_. updateRmq A)) s))"
      using c(1) unfolding keeps_def by blast
  qed
  then show ?thesis unfolding updateAnnotationCluster_def by (rule keeps_OnError [OF assms(2)])
qed

lemma safe_annotateIfNeeded: "retry_law A \<Longrightarrow> keeps (safe r h0 Q) (annotateIfNeeded A k op restart)"
  unfolding annotateIfNeeded_def annotationTarget_def updateAnnotationCm_def updateAnnotationSts_def
    recordEvent_def readClock_def Let_def
  by (auto intro!: safe_rules keeps_OnError split: builderKind.splits if_splits)

lemma safe_checkScaling: "identity_law A \<Longrightarrow> retry_law A \<Longrightarrow> keeps (safe r h0 Q) (checkScaling A current sts)"
  unfolding checkScaling_def andThen_def proceed_def saveReplicasBeforeZero_def scaleDown_def
    scaleFromZeroToBeforeReplicasConfigured_def refuseScaling_def recordEventsAndSetCondition_def
    removeReplicasBeforeZeroAnnotationIfExists_def recordEvent_def Let_def
  by (auto intro!: safe_rules safe_updateAnnotationCluster safe_setCondition safe_patchStatus safe_annotations)

lemma safe_Scale: "keeps (safe r h0 Q) (Scale A rmq q)"
proof -
  have g: "keeps (safe r h0 Q) (getClaims A rmq is pvcs)" for "is" pvcs
    by (induction A rmq "is" pvcs rule: getClaims.induct) (auto intro!: safe_rules)
  have t: "keeps (safe r h0 Q) (retryWithInterval msg m k i f)" if "keeps (safe r h0 Q) f" for msg m k i f
    using that by (induction msg m k i f rule: retryWithInterval.induct) (auto intro!: safe_rules)
  show ?thesis
    unfolding Scale_def existingCapacity_def scalerGetSts_def getClusterPVCs_def deleteSts_def stsGone_def
      scaleUpPVCs_def scaleUpPVC_def Let_def
    by (auto intro!: safe_rules g t)
qed

lemma safe_reportFailure:
  "identity_law A \<Longrightarrow> keeps (safe r h0 Q) m \<Longrightarrow> keeps (safe r h0 Q) (reportFailure A reason m)"
  unfolding reportFailure_def by (auto intro!: safe_rules safe_setReconcileSuccess)

lemma safe_andThen: "keeps I m \<Longrightarrow> keeps I k \<Longrightarrow> keeps I (andThen m k)"
  unfolding andThen_def by (auto intro!: keeps_rules)

lemma safe_flow: "keeps I m \<Longrightarrow> keeps I (proceed m)" "keeps I d \<Longrightarrow> keeps I (requeueIfPositive d)"
  unfolding proceed_def requeueIfPositive_def by (auto intro!: keeps_rules)

lemma safe_updateInPlace:
  assumes "identity_law A" and "\<And>y. keeps (safe r h0 (childOf r k)) (g y)"
  shows "keeps (safe r h0 (childOf r k)) (bindS getObj (\<lambda>x. bindS (updateObj A k x) (\<lambda>y. bindS (setObj y) (\<lambda>_. g y))))"
  unfolding keeps_def
proof (intro allI impI)
  fix s assume s: "safe r h0 (childOf r k) s"
  then obtain x where x: "Obj s = Some x" "isChild r k x" by (auto simp: safe_def childOf_def)
  obtain u s1 where u: "run_state (updateObj A k x) s = (u, s1)" by (metis surj_pair)
  have s1: "safe r h0 (childOf r k) s1" using keepsD [OF safe_updateObj s u] .
  show "safe r h0 (childOf r k) (snd (run_state (bindS getObj (\<lambda>x. bindS (updateObj A k x) (\<lambda>y. bindS (setObj y) (\<lambda>_. g y)))) s))"
  proof (cases u)
    case (Inl e)
    then show ?thesis using x u s1 by (simp add: deref_def)
  next
    case (Inr y)
    have "safe r h0 (childOf r k) (s1\<lparr>Obj := Some y\<rparr>)"
      using s1 updateObj_child [OF assms(1) x(2) u [unfolded Inr]] by (auto simp: safe_def childOf_def)
    then show ?thesis using x u Inr assms(2) [of y] by (simp add: deref_def keeps_def)
  qed
qed

lemma safe_prepareStatefulSet:
  "identity_law A \<Longrightarrow> retry_law A \<Longrightarrow> keeps (safe r h0 (childOf r k)) (prepareStatefulSet A k)"
  unfolding prepareStatefulSet_def reconcilePVC_def recordEvent_def getSts_def Let_def
  by (auto intro!: safe_rules safe_andThen safe_flow safe_checkScaling safe_Scale safe_reportFailure safe_updateInPlace)


lemma safe_weaken: "safe r h0 Q s \<Longrightarrow> safe r h0 (\<lambda>_. True) s"
  by (simp add: safe_def)

lemma safe_reconcileBuilder:
  assumes "identity_law A" and "retry_law A" and "cou_law A"
  shows "keeps (safe r h0 (\<lambda>_. True)) (reconcileBuilder A k)"
  unfolding keeps_def
proof (intro allI impI)
  fix s assume s: "safe r h0 (\<lambda>_. True) s"
  let ?rest = "andThen (if UpdateMayRequireStsRecreate k then prepareStatefulSet A k else returnS None)
       (bindS (setOpResult ResultNone) (\<lambda>_.
        bindS (tryS (createOrUpdateObj A k)) (\<lambda>res.
        bindS getObj (\<lambda>x.
        bindS getOpResult (\<lambda>operationResult.
        case res of
          Inl err \<Rightarrow>
            bindS (logAndRecordOperationResult A x operationResult (Some err)) (\<lambda>_.
            if errors_Is err ErrInvalidEnvConfig
            then bindS (setReconcileSuccess A ConditionFalse ''InvalidConfiguration'' (Error err)) (\<lambda>_. returnS (Some 0))
            else bindS (setReconcileSuccess A ConditionFalse ''Error'' (Error err)) (\<lambda>_. throwS err))
        | Inr _ \<Rightarrow>
            bindS (logAndRecordOperationResult A x operationResult None) (\<lambda>_.
            bindS getRestart (\<lambda>restart.
            proceed (annotateIfNeeded A k operationResult restart))))))))"
  have rest: "keeps (safe r h0 (childOf r k)) ?rest"
    unfolding logAndRecordOperationResult_def recordEvent_def Let_def
    by (auto intro!: safe_rules safe_andThen safe_flow safe_prepareStatefulSet safe_createOrUpdate safe_setReconcileSuccess
        safe_annotateIfNeeded assms)
  show "safe r h0 (\<lambda>_. True) (snd (run_state (reconcileBuilder A k) s))"
  proof (cases "Build (k_Deps A (Hist s)) k (builderOf A (Rmq s))")
    case (Inl e)
    then show ?thesis using s by (simp add: reconcileBuilder_def buildObj_def del: Build.simps)
  next
    case (Inr x)
    let ?s1 = "s\<lparr>StsRestart := True, Obj := Some x\<rparr>"
    have "isChild r k x" using isChild_built [OF Inr] s by (simp add: safe_def)
    then have "safe r h0 (childOf r k) ?s1" using s by (simp add: safe_def childOf_def)
    then have "safe r h0 (childOf r k) (snd (run_state ?rest ?s1))" using rest unfolding keeps_def by blast
    moreover have "run_state (bindS (setRestart True) (\<lambda>_. bindS (buildObj A k) (\<lambda>_. m))) s = run_state m ?s1" for m :: flow
      using Inr by (simp add: buildObj_def del: Build.simps)
    then have "run_state (reconcileBuilder A k) s = run_state ?rest ?s1" unfolding reconcileBuilder_def .
    ultimately show ?thesis using safe_weaken by metis
  qed
qed

lemma safe_builders:
  assumes "identity_law A" and "retry_law A" and "cou_law A"
  shows "keeps (safe r h0 (\<lambda>_. True)) (buildersStep A)"
proof -
  have "keeps (safe r h0 (\<lambda>_. True)) (reconcileBuilders A ks)" for ks
    by (induction ks) (auto intro!: safe_andThen keeps_rules safe_reconcileBuilder assms)
  then show ?thesis unfolding buildersStep_def by (auto intro!: safe_rules)
qed

lemma safe_reconcileCluster:
  "identity_law A \<Longrightarrow> retry_law A \<Longrightarrow> cou_law A \<Longrightarrow> keeps (safe r h0 (\<lambda>_. True)) (reconcileCluster A R)"
  unfolding reconcileCluster_def
  by (intro safe_andThen safe_flow safe_operatorDefaults safe_addFinalizer safe_updateStatusConditions safe_tls
      safe_labelSecret safe_rebalance safe_deleteRBAC safe_builders safe_restart safe_reconcileStatus safe_quorum
      safe_reportFailure safe_version safe_commands)

lemma safe_prepareForDeletion: "retry_law A \<Longrightarrow> keeps (safe r h0 Q) (prepareForDeletion A)"
proof -
  assume l: "retry_law A"
  have w: "keeps (safe r h0 Q) (waitForLabel A m t)" for m t
    by (induction A m t rule: waitForLabel.induct)
      (auto simp: readClock_def checkIfLabelPropagated_def exec_def intro!: safe_rules)
  have a: "keeps (safe r h0 Q) (addRabbitmqDeletionLabel A)"
    unfolding addRabbitmqDeletionLabel_def labelPod_def Let_def by (auto intro!: safe_rules)
  show ?thesis
    unfolding prepareForDeletion_def removeFinalizer_def readClock_def
    by (auto intro!: safe_rules keeps_OnError l w a)
qed

text \<open>
  C2. A reconciliation writes nothing but children of the cluster it was asked for: every object it
  creates or updates through \<open>CreateOrUpdate\<close> has the type, the name and the namespace that one of
  the builders gives it, whatever the server answers, whatever the overrides say, and however often
  writes are retried.
\<close>

theorem Reconcile_writes_own_children:
  assumes "identity_law A" and "retry_law A" and "cou_law A"
  shows "\<exists>new. Hist (snd (run_state (Reconcile A R ns n) s)) = Hist s @ new \<and>
    (\<forall>y. WriteChild y \<in> set new \<longrightarrow>
       (\<exists>k. objectType y = typeOf k \<and> Namespace (objectMetaOf y) = ns \<and>
          Name (objectMetaOf y) = TrimSuffix (n @ ''-'' @ suffixOf k) ''-''))"
proof (cases "k_GetCluster A (Hist s) ns n")
  case (Inl e)
  then show ?thesis by (auto simp: Reconcile_def)
next
  case (Inr r)
  then have r: "cluster_Name r = n" "cluster_Namespace r = ns" using assms(1) unfolding identity_law_def by blast+
  let ?I = "safe r (Hist s) (\<lambda>_. True)"
  let ?s1 = "s\<lparr>Hist := Hist s @ [GetCluster ns n], Rmq := r\<rparr>"
  let ?m = "if DeletionTimestamp (Meta r) \<noteq> None then bindS (prepareForDeletion A) (\<lambda>_. returnS 0)
     else if mget (Labels (Meta r)) pauseReconciliationLabel = Some ''true''
     then bindS (pauseReconciliation A) (\<lambda>_. returnS 0)
     else bindS (reconcileCluster A R) (\<lambda>res. case res of Some d \<Rightarrow> returnS d
       | None \<Rightarrow> bindS (setReconcileSuccess A ConditionTrue ''Success'' ''Finish reconciling'') (\<lambda>_. returnS 0))"
  have p: "keeps ?I (pauseReconciliation A)"
    unfolding pauseReconciliation_def recordEvent_def
    by (auto intro!: safe_rules safe_setCondition safe_patchStatus assms(1))
  have k: "keeps ?I ?m"
    by (auto intro!: safe_rules safe_prepareForDeletion p safe_reconcileCluster safe_setReconcileSuccess assms)
  have "run_state (Reconcile A R ns n) s = run_state ?m ?s1"
    using Inr unfolding Reconcile_def by (simp only: run_bindS run_tryS run_requestE run_setRmq prod.case sum.case)
  moreover have "ownSince r (Hist s) (Hist s @ [GetCluster ns n])" by (auto simp: ownSince_def)
  then have "?I ?s1" by (simp add: safe_def sameCluster_def)
  ultimately have "?I (snd (run_state (Reconcile A R ns n) s))" using k unfolding keeps_def by metis
  then obtain new where new: "Hist (snd (run_state (Reconcile A R ns n) s)) = Hist s @ new" "list_all (ownWrite r) new"
    unfolding safe_def ownSince_def by blast
  have "\<exists>k. objectType y = typeOf k \<and> Namespace (objectMetaOf y) = ns \<and>
          Name (objectMetaOf y) = TrimSuffix (n @ ''-'' @ suffixOf k) ''-''" if "WriteChild y \<in> set new" for y
  proof -
    have "ownWrite r (WriteChild y)" using that new(2) unfolding list_all_iff by blast
    then show ?thesis using r by (auto simp: ownChild_def ChildResourceName_def)
  qed
  then show ?thesis using new(1) by blast
qed


section \<open>Examples\<close>

text \<open>A server with one cluster, which answers that nothing is found for every other name.\<close>

definition oneCluster :: "(string \<times> string) list api" where
  "oneCluster = (exampleApi (exampleServer 1))\<lparr>k_GetCluster := (\<lambda>h ns n.
     if ns = ''ns'' \<and> n = ''rmq'' then Inr (exampleServer 1) else Inl (StatusError NotFound []))\<rparr>"

lemma oneCluster_laws: "identity_law oneCluster" "retry_law oneCluster" "cou_law oneCluster"
proof -
  have "builderOf oneCluster r = exampleBuilder r" for r
    by (simp add: builderOf_def oneCluster_def exampleApi_def exampleBuilder_def)
  then show "identity_law oneCluster"
    by (auto simp: identity_law_def oneCluster_def exampleApi_def sameCluster_def exampleServer_names exampleBuilder_laws)
  show "retry_law oneCluster" by (rule exampleApi_laws(1)) (simp add: oneCluster_def exampleApi_def)
  show "cou_law oneCluster" by (rule exampleApi_laws(2)) (simp add: oneCluster_def)
qed

theorem Reconcile_writes_own_children_witness:
  "\<exists>new. Hist (snd (run_state (Reconcile oneCluster exampleReconciler ''ns'' ''rmq'') (startState emptyCluster))) = new \<and>
     (\<forall>y. WriteChild y \<in> set new \<longrightarrow>
       (\<exists>k. objectType y = typeOf k \<and> Namespace (objectMetaOf y) = ''ns'' \<and>
          Name (objectMetaOf y) = TrimSuffix (''rmq-'' @ suffixOf k) ''-''))"
  using Reconcile_writes_own_children [OF oneCluster_laws, of exampleReconciler "''ns''" "''rmq''" "startState emptyCluster"]
  by simp

end
