(* ===== verification/Scaling_Machine.thy ===== *)
theory Scaling_Machine
  imports Controller
begin

text \<open>
  The scaling guards of the reconciliation as a state machine. Over many reconciliations the number
  of replicas of the StatefulSet and the number saved in the annotation of the cluster are the two
  variables of an abstract machine, \<open>scaleStep\<close>. A pass of \<^const>\<open>checkScaling\<close> that lets the
  reconciliation go on implements one step of it, where what is saved is read off what the API
  server stores after the requests of the pass. The invariant of the machine then bounds the size of
  the cluster over every sequence of accepted passes. The last section shows what happens to the
  saved number when a pass is accepted and the StatefulSet is not written afterwards.
\<close>

section \<open>The abstract machine\<close>

inductive scaleStep :: "int \<times> int option \<Rightarrow> int \<times> int option \<Rightarrow> bool" where
  grow: "0 < c \<Longrightarrow> c \<le> d \<Longrightarrow> scaleStep (c, v) (d, v)"
| stop: "0 < c \<Longrightarrow> scaleStep (c, v) (0, Some c)"
| rest: "scaleStep (0, v) (0, v)"
| restore: "0 < n \<Longrightarrow> v = None \<or> v = Some n \<Longrightarrow> scaleStep (0, Some n) (n, v)"
| start: "0 < d \<Longrightarrow> scaleStep (0, None) (d, None)"

inductive_cases scaleStepE: "scaleStep (c, v) (d, v')"

text \<open>
  At least \<open>n\<close> nodes: the cluster runs that many, or it is stopped and that many are to be restored.
\<close>

definition atLeast_nodes :: "int \<Rightarrow> int \<times> int option \<Rightarrow> bool" where
  "atLeast_nodes n = (\<lambda>(c, v). if c = 0 then (case v of None \<Rightarrow> False | Some k \<Rightarrow> n \<le> k) else n \<le> c)"

lemma scaleStep_atLeast:
  assumes "scaleStep p q" and "atLeast_nodes n p" and "0 < n"
  shows "atLeast_nodes n q"
  using assms by (induction rule: scaleStep.induct) (auto simp: atLeast_nodes_def)

section \<open>What is stored\<close>

text \<open>The cluster the API server stores after requests \<open>qs\<close> that follow \<open>h\<close>, if it stored \<open>r\<close> before.\<close>

fun storedCluster :: "'f api \<Rightarrow> history \<Rightarrow> history \<Rightarrow> RabbitmqCluster \<Rightarrow> RabbitmqCluster" where
  "storedCluster A h [] r = r"
| "storedCluster A h (q # qs) r = storedCluster A (h @ [q]) qs
     (case q of UpdateCluster x \<Rightarrow> (case k_UpdateCluster A h x of Inr y \<Rightarrow> y | Inl _ \<Rightarrow> r) | _ \<Rightarrow> r)"

lemma storedCluster_append:
  "storedCluster A h (ps @ qs) r = storedCluster A (h @ ps) qs (storedCluster A h ps r)"
  by (induction ps arbitrary: h r) auto

definition savedReplicas :: "RabbitmqCluster \<Rightarrow> int option" where
  "savedReplicas r = Option.bind (mget (Annotations (Meta r)) beforeZeroReplicasConfigured) (ParseInt10 32)"

text \<open>An update is answered with the annotations that were written.\<close>

definition update_law :: "'f api \<Rightarrow> bool" where
  "update_law A \<longleftrightarrow> (\<forall>h x y. k_UpdateCluster A h x = Inr y \<longrightarrow> Annotations (Meta y) = Annotations (Meta x))"

section \<open>The passes\<close>

text \<open>
  A pass over a StatefulSet with \<open>c\<close> replicas and a stored cluster is accepted with \<open>d\<close> replicas and takes
  effect: \<^const>\<open>checkScaling\<close> lets the reconciliation go on, the StatefulSet has \<open>d\<close> replicas afterwards,
  and the cluster is what the requests of the pass have left at the server.
\<close>

inductive acceptedPass :: "'f api \<Rightarrow> int \<times> RabbitmqCluster \<Rightarrow> int \<times> RabbitmqCluster \<Rightarrow> bool" for A where
  accepted: "sts_Replicas current = Some c \<Longrightarrow> sts_Replicas sts = Some d \<Longrightarrow> 0 \<le> d \<Longrightarrow> d < 2 ^ 31 \<Longrightarrow>
     Rmq s = r \<Longrightarrow> run_state (checkScaling A current sts) s = (Inr None, s') \<Longrightarrow> Hist s' = Hist s @ qs \<Longrightarrow>
     acceptedPass A (c, r) (d, storedCluster A (Hist s) qs r)"

lemma OnError_last_attempt:
  assumes "retry_law A" and "emits P f" and "run_state (k_OnError A p f) s = (Inr (), s')"
  obtains s1 n where "Hist s1 = Hist s @ n" and "run_state f s1 = (Inr (), s')"
proof -
  have "attempts p f s (Inr (), s')" using assms(1,3) unfolding retry_law_def by metis
  then have "\<exists>s1 n. Hist s1 = Hist s @ n \<and> run_state f s1 = (Inr (), s')"
  proof (induction s "(Inr () :: goerror + unit, s')" rule: attempts.induct)
    case (last_attempt s)
    then show ?case by (metis append_Nil2)
  next
    case (next_attempt s e s1)
    from assms(2) next_attempt.hyps(1) obtain n where "Hist s1 = Hist s @ n" unfolding emits_def by (metis snd_conv)
    with next_attempt.hyps(4) show ?case by (metis append.assoc)
  qed
  then show thesis using that by blast
qed

lemma saved_is_stored:
  assumes "retry_law A" and "update_law A" and "sts_Replicas current = Some c" and "0 \<le> c" and "c < 2 ^ 31"
    and "run_state (saveReplicasBeforeZero A current) s = (Inr (), s')" and "Hist s' = Hist s @ qs"
  shows "savedReplicas (storedCluster A (Hist s) qs r) = Some c"
proof -
  let ?q = "GetCluster (cluster_Namespace (Rmq s)) (cluster_Name (Rmq s))"
  let ?u = "bindS (requestE ?q (\<lambda>h. k_GetCluster A h (cluster_Namespace (Rmq s)) (cluster_Name (Rmq s)))) (\<lambda>r.
        bindS (setRmq (r\<lparr>Meta := withAnnotation beforeZeroReplicasConfigured (Itoa c) (Meta r)\<rparr>)) (\<lambda>_. updateRmq A))"
  have e: "emits (\<lambda>_. True) ?u" unfolding updateRmq_def by (auto intro!: emits_rules)
  let ?s0 = "s\<lparr>Hist := Hist s @ [RecordEvent ''Normal'' ''ScaleDownToZero'' ''Cluster Scale down to 0 replicas'']\<rparr>"
  have s0: "run_state (k_OnError A errorIsConflictOrNotFound ?u) ?s0 = (Inr (), s')"
    using assms(3,6) unfolding saveReplicasBeforeZero_def updateAnnotationCluster_def
    by (simp add: deref_def recordEvent_def)
  obtain s1 n1 where n1: "Hist s1 = Hist ?s0 @ n1" and u: "run_state ?u s1 = (Inr (), s')"
    by (rule OnError_last_attempt [OF assms(1) e s0])
  then obtain n where n: "Hist s1 = Hist s @ n" by simp
  obtain x y where x: "Hist s' = Hist s1 @ [?q] @ [UpdateCluster x]" "k_UpdateCluster A (Hist s1 @ [?q]) x = Inr y"
      "mget (Annotations (Meta x)) beforeZeroReplicasConfigured = Some (Itoa c)"
    using u by (auto simp: updateRmq_def withAnnotation_def mget_def split: sum.splits)
  have "qs = (n @ [?q]) @ [UpdateCluster x]" using assms(7) x(1) n by simp
  then have "storedCluster A (Hist s) qs r = y" using x(2) n by (simp add: storedCluster_append)
  moreover have "ParseInt10 32 (Itoa c) = Some c" using assms(4,5) by (intro ParseInt10_Itoa) simp_all
  ultimately show ?thesis using x(2,3) assms(2) by (auto simp: savedReplicas_def update_law_def)
qed

lemma removed_or_kept:
  assumes "update_law A" and "run_state (removeReplicasBeforeZeroAnnotationIfExists A) s = (Inr (), s')"
    and "Hist s' = Hist s @ qs"
  shows "savedReplicas (storedCluster A (Hist s) qs (Rmq s)) \<in> {None, savedReplicas (Rmq s)}"
  using assms unfolding removeReplicasBeforeZeroAnnotationIfExists_def deleteAnnotationCluster_def updateRmq_def
  by (auto simp: savedReplicas_def update_law_def withoutAnnotation_def mget_def map_option_case
      split: if_splits sum.splits option.splits)

lemma scaleDown_accepts:
  assumes "sts_Replicas current = Some c" and "sts_Replicas sts = Some d"
    and "run_state (scaleDown A current sts) s = (Inr refused, s')" and "\<not> refused"
  shows "c \<le> d \<and> s' = s"
  using assms by (auto simp: scaleDown_def deref_def Let_def split: if_splits prod.splits sum.splits)

lemma fromZero_accepts:
  assumes "run_state (scaleFromZeroToBeforeReplicasConfigured A sts) s = (Inr refused, s')" and "\<not> refused"
    and "sts_Replicas sts = Some d"
  shows "s' = s \<and> (mget (Annotations (Meta (Rmq s))) beforeZeroReplicasConfigured = None \<or> savedReplicas (Rmq s) = Some d)"
  using assms by (auto simp: scaleFromZeroToBeforeReplicasConfigured_def refuseScaling_def deref_def savedReplicas_def
      split: if_splits option.splits prod.splits sum.splits)

text \<open>What an accepted pass requires of the numbers, and where its requests come from.\<close>

lemma checkScaling_accepts:
  assumes "sts_Replicas current = Some c" and "sts_Replicas sts = Some d"
    and "run_state (checkScaling A current sts) s = (Inr None, s')"
  shows "d = 0 \<and> 0 < c \<and> run_state (saveReplicasBeforeZero A current) s = (Inr (), s') \<or>
    c \<le> d \<and> c \<noteq> 0 \<and> s' = s \<or> c = 0 \<and> d = 0 \<and> s' = s \<or>
    c = 0 \<and> 0 < d \<and> run_state (scaleFromZeroToBeforeReplicasConfigured A sts) s = (Inr False, s) \<and>
      run_state (removeReplicasBeforeZeroAnnotationIfExists A) s = (Inr (), s')"
proof (cases "d = 0 \<and> 0 < c")
  case True
  with assms show ?thesis
    by (auto simp: checkScaling_def andThen_def proceed_def ScaleToZero_def ScaleFromZero_def deref_def
        split: prod.splits sum.splits)
next
  case False
  with assms obtain refused s1 where d: "run_state (scaleDown A current sts) s = (Inr refused, s1)" "\<not> refused"
    by (auto simp: checkScaling_def andThen_def ScaleToZero_def deref_def split: prod.splits sum.splits if_splits)
  then have c: "c \<le> d" "s1 = s" using scaleDown_accepts [OF assms(1,2)] by blast+
  with False d assms have r: "if c = 0 \<and> 0 < d then \<exists>s2. run_state (scaleFromZeroToBeforeReplicasConfigured A sts) s = (Inr False, s2) \<and>
      run_state (removeReplicasBeforeZeroAnnotationIfExists A) s2 = (Inr (), s') else s' = s"
    by (auto simp: checkScaling_def andThen_def proceed_def ScaleToZero_def ScaleFromZero_def deref_def
        split: prod.splits sum.splits if_splits)
  show ?thesis
  proof (cases "c = 0 \<and> 0 < d")
    case True
    with r fromZero_accepts [OF _ _ assms(2)] show ?thesis by (metis (full_types))
  qed (use r c(1) in auto)
qed

lemma acceptedPass_step:
  assumes "retry_law A" and "update_law A" and "acceptedPass A (c, r) (d, r')" and "0 \<le> c" and "c < 2 ^ 31"
  shows "scaleStep (c, savedReplicas r) (d, savedReplicas r')"
  using assms(3)
proof cases
  case (accepted current sts s s' qs)
  from checkScaling_accepts [OF accepted(2,3,7)] show ?thesis
  proof (elim disjE conjE)
    assume "d = 0" "0 < c" "run_state (saveReplicasBeforeZero A current) s = (Inr (), s')"
    then show ?thesis
      using saved_is_stored [OF assms(1,2) accepted(2) assms(4,5) _ accepted(8)] accepted(1)
      by (auto intro: scaleStep.intros)
  next
    assume f: "c = 0" "0 < d" "run_state (scaleFromZeroToBeforeReplicasConfigured A sts) s = (Inr False, s)"
      and "run_state (removeReplicasBeforeZeroAnnotationIfExists A) s = (Inr (), s')"
    then have v: "savedReplicas r' \<in> {None, savedReplicas r}"
      using removed_or_kept [OF assms(2) _ accepted(8)] accepted(1,6) by simp
    have "savedReplicas r = None \<or> savedReplicas r = Some d"
      using fromZero_accepts [OF f(3) _ accepted(3)] accepted(6) by (auto simp: savedReplicas_def)
    with v f(1,2) show ?thesis by (auto intro: scaleStep.intros)
  qed (use accepted assms(4) in \<open>auto intro: scaleStep.intros\<close>)
qed

lemma accepted_passes_atLeast:
  assumes "retry_law A" and "update_law A" and "(acceptedPass A)\<^sup>*\<^sup>* p q"
    and "0 \<le> fst p" and "fst p < 2 ^ 31" and "0 < n" and "atLeast_nodes n (fst p, savedReplicas (snd p))"
  shows "0 \<le> fst q \<and> fst q < 2 ^ 31 \<and> atLeast_nodes n (fst q, savedReplicas (snd q))"
  using assms(3)
proof (induction rule: rtranclp_induct)
  case (step q q')
  obtain c r d r' where q: "q = (c, r)" "q' = (d, r')" by fastforce
  have "0 \<le> d" "d < 2 ^ 31" using step.hyps(2) q by (auto elim: acceptedPass.cases)
  moreover have "scaleStep (c, savedReplicas r) (d, savedReplicas r')"
    using acceptedPass_step [OF assms(1,2)] step.hyps(2) step.IH q by simp
  ultimately show ?case using scaleStep_atLeast step.IH assms(6) q by auto
qed (use assms in simp)

section \<open>The refinement and its consequence\<close>

text \<open>
  C5. The scaling guards implement the abstract machine: if they let the reconciliation go on for a
  StatefulSet with \<open>c\<close> replicas and a desired number \<open>d\<close>, this is a step of the machine from \<open>c\<close>
  and the number saved in the cluster to \<open>d\<close> and the number saved in the cluster that the API
  server stores after the requests of the pass, however often the writes were retried and whether
  or not the removal of the annotation succeeded.
\<close>

theorem checkScaling_refines:
  assumes "retry_law A" and "update_law A" and "sts_Replicas current = Some c" and "sts_Replicas sts = Some d"
    and "c \<in> {0..<2 ^ 31}" and "d \<in> {0..<2 ^ 31}"
    and "run_state (checkScaling A current sts) s = (Inr None, s')" and "Hist s' = Hist s @ qs"
  shows "scaleStep (c, savedReplicas (Rmq s)) (d, savedReplicas (storedCluster A (Hist s) qs (Rmq s)))"
proof (rule acceptedPass_step [OF assms(1,2)])
  show "acceptedPass A (c, Rmq s) (d, storedCluster A (Hist s) qs (Rmq s))"
    by (rule accepted [OF assms(3,4) _ _ refl assms(7,8)]) (use assms(6) in simp_all)
qed (use assms(5) in simp_all)

text \<open>
  C1. A cluster never loses nodes for good: after any sequence of passes that starts with \<open>n\<close>
  replicas, each of them accepted and taking effect, the StatefulSet has at least \<open>n\<close> replicas, or none and a number of at least \<open>n\<close> is
  saved in the cluster, to be restored.
\<close>

theorem accepted_passes_never_shrink:
  assumes "retry_law A" and "update_law A" and "0 < n" and "n < 2 ^ 31"
    and "(acceptedPass A)\<^sup>*\<^sup>* (n, r) (m, r')"
  shows "if m = 0 then \<exists>k\<ge>n. savedReplicas r' = Some k else n \<le> m"
  using accepted_passes_atLeast [OF assms(1,2,5) _ _ assms(3)] assms(3,4)
  by (auto simp: atLeast_nodes_def split: option.splits if_splits)

section \<open>An accepted pass without effect\<close>

text \<open>
  C40. The saved number is given up too early: it is removed from the cluster before the StatefulSet
  is written. Once a pass from zero replicas has been accepted and the removal written, the next
  pass accepts every number of replicas, if the StatefulSet still has none.
\<close>

theorem saved_replicas_lost:
  assumes "update_law A" and "\<And>h x. \<exists>y. k_UpdateCluster A h x = Inr y"
    and "sts_Replicas current = Some 0" and "sts_Replicas sts = Some d" and "0 < d"
    and "run_state (checkScaling A current sts) s = (Inr None, s')"
    and "Rmq t = Rmq s'" and "sts_Replicas sts' = Some d'" and "0 < d'"
  shows "run_state (checkScaling B current sts') t = (Inr None, t)"
proof -
  have "run_state (removeReplicasBeforeZeroAnnotationIfExists A) s = (Inr (), s')"
    using checkScaling_accepts [OF assms(3,4,6)] assms(5) by auto
  moreover obtain f where "\<And>h x. k_UpdateCluster A h x = Inr (f h x)" using assms(2) by metis
  ultimately have "mget (Annotations (Meta (Rmq s'))) beforeZeroReplicasConfigured = None"
    using assms(1)
    by (auto simp: removeReplicasBeforeZeroAnnotationIfExists_def deleteAnnotationCluster_def updateRmq_def update_law_def
        withoutAnnotation_def mget_def split: if_splits sum.splits option.splits)
  with assms(3,7-9) show ?thesis
    by (simp add: checkScaling_def andThen_def proceed_def ScaleToZero_def ScaleFromZero_def scaleDown_def deref_def
        scaleFromZeroToBeforeReplicasConfigured_def removeReplicasBeforeZeroAnnotationIfExists_def)
qed

section \<open>Examples\<close>

definition stoppedServer :: RabbitmqCluster where
  "stoppedServer = (exampleServer 3)\<lparr>Meta := withAnnotation beforeZeroReplicasConfigured ''3'' (namedMeta ''rmq'' ''ns'')\<rparr>"

lemma example_laws: "retry_law (exampleApi r)" "update_law (exampleApi r)"
  by (rule exampleApi_laws(1), simp add: exampleApi_def) (simp add: update_law_def exampleApi_def)

lemma example_replicas: "sts_Replicas (exampleStatefulSet k j) = Some k"
  by (simp add: exampleStatefulSet_def)

lemmas scaling_evals = checkScaling_def andThen_def proceed_def ScaleToZero_def ScaleFromZero_def scaleDown_def deref_def
  saveReplicasBeforeZero_def recordEvent_def updateAnnotationCluster_def updateRmq_def example_replicas

lemma stop_accepted:
  obtains s' qs where "run_state (checkScaling (exampleApi r) (exampleStatefulSet 3 3) (exampleStatefulSet 0 0)) (startState r) = (Inr None, s')"
    and "Hist s' = Hist (startState r) @ qs"
  by (simp add: scaling_evals exampleApi_def)

theorem checkScaling_refines_witness:
  "\<exists>s' qs. run_state (checkScaling (exampleApi (exampleServer 3)) (exampleStatefulSet 3 3) (exampleStatefulSet 0 0))
       (startState (exampleServer 3)) = (Inr None, s') \<and> Hist s' = Hist (startState (exampleServer 3)) @ qs \<and>
     scaleStep (3, savedReplicas (exampleServer 3))
       (0, savedReplicas (storedCluster (exampleApi (exampleServer 3)) [] qs (exampleServer 3)))"
proof -
  let ?s = "startState (exampleServer 3)"
  obtain s' qs where r: "run_state (checkScaling (exampleApi (exampleServer 3)) (exampleStatefulSet 3 3) (exampleStatefulSet 0 0)) ?s = (Inr None, s')"
      "Hist s' = Hist ?s @ qs" by (rule stop_accepted)
  have "scaleStep (3, savedReplicas (Rmq ?s)) (0, savedReplicas (storedCluster (exampleApi (exampleServer 3)) (Hist ?s) qs (Rmq ?s)))"
    by (rule checkScaling_refines [OF example_laws example_replicas example_replicas _ _ r]) simp_all
  with r show ?thesis by auto
qed

theorem accepted_passes_never_shrink_witness:
  "\<exists>r'. (acceptedPass (exampleApi (exampleServer 3)))\<^sup>*\<^sup>* (3, exampleServer 3) (0, r') \<and>
     (\<exists>k\<ge>3. savedReplicas r' = Some k)"
proof -
  let ?A = "exampleApi (exampleServer 3)" and ?s = "startState (exampleServer 3)"
  obtain s' qs where r: "run_state (checkScaling ?A (exampleStatefulSet 3 3) (exampleStatefulSet 0 0)) ?s = (Inr None, s')"
      "Hist s' = Hist ?s @ qs" by (rule stop_accepted)
  have "acceptedPass ?A (3, exampleServer 3) (0, storedCluster ?A (Hist ?s) qs (exampleServer 3))"
    by (rule accepted [OF example_replicas example_replicas _ _ _ r]) simp_all
  then have "(acceptedPass ?A)\<^sup>*\<^sup>* (3, exampleServer 3) (0, storedCluster ?A (Hist ?s) qs (exampleServer 3))" by blast
  with accepted_passes_never_shrink [OF example_laws _ _ this] show ?thesis by auto
qed

theorem saved_replicas_lost_witness:
  "\<exists>s'. run_state (checkScaling (exampleApi stoppedServer) (exampleStatefulSet 0 0) (exampleStatefulSet 3 0))
       (startState stoppedServer) = (Inr None, s') \<and>
     run_state (checkScaling (exampleApi stoppedServer) (exampleStatefulSet 0 0) (exampleStatefulSet 1 0)) s' = (Inr None, s')"
proof -
  have p: "ParseInt10 32 ''3'' = Some 3" by (simp add: ParseInt10_def digit_val_def Let_def)
  have m: "mget (Annotations (Meta stoppedServer)) beforeZeroReplicasConfigured = Some ''3''"
    and a: "Annotations (Meta stoppedServer) \<noteq> None"
    by (simp_all add: stoppedServer_def withAnnotation_def mget_def)
  obtain s' where r: "run_state (checkScaling (exampleApi stoppedServer) (exampleStatefulSet 0 0) (exampleStatefulSet 3 0))
       (startState stoppedServer) = (Inr None, s')"
    by (simp add: scaling_evals p m a scaleFromZeroToBeforeReplicasConfigured_def
        removeReplicasBeforeZeroAnnotationIfExists_def deleteAnnotationCluster_def exampleApi_def)
  have "run_state (checkScaling (exampleApi stoppedServer) (exampleStatefulSet 0 0) (exampleStatefulSet 1 0)) s' = (Inr None, s')"
    by (rule saved_replicas_lost [OF example_laws(2) _ example_replicas example_replicas _ r refl example_replicas])
      (simp_all add: exampleApi_def)
  with r show ?thesis by blast
qed

end
