(* ===== verification/Rabbitmq_Client.thy ===== *)
theory Rabbitmq_Client
  imports Reconcile_Runtime
begin

text \<open>
  \<open>internal/rabbitmqclient/client.go\<close> and \<open>factory.go\<close>: how the operator reaches the management API of
  a cluster, through the service or a single pod. The readers of the API server, the certificate pool of
  \<open>crypto/x509\<close> and the HTTP client of the package rabbit-hole are parameters.
\<close>

section \<open>Clients\<close>

text \<open>The fields of \<open>http.Transport\<close> that are set: the root certificates and the server name of its TLS configuration.\<close>

record 'p transport =
  t_RootCAs :: "'p option"
  t_ServerName :: string

record 'p ClientInfo =
  BaseURL :: string
  Username :: string
  Password :: string
  Transport :: "'p transport option"

record ('p, 'c) clientEnv =
  c_GetSecret :: "string \<Rightarrow> string \<Rightarrow> goerror + secret"
  c_GetService :: "string \<Rightarrow> string \<Rightarrow> goerror + service"
  c_SystemCertPool :: "goerror + 'p"
  c_AppendCertsFromPEM :: "'p \<Rightarrow> string \<Rightarrow> 'p option" \<comment> \<open>None if no certificate was parsed\<close>
  c_NewClient :: "string \<Rightarrow> string \<Rightarrow> string \<Rightarrow> goerror + 'c"
  c_NewTLSClient :: "string \<Rightarrow> string \<Rightarrow> string \<Rightarrow> 'p transport option \<Rightarrow> goerror + 'c"
  c_SetTimeout :: "'c \<Rightarrow> int \<Rightarrow> 'c"

definition servicePortNameManagement :: string where
  "servicePortNameManagement = ''management''"

definition servicePortNameManagementTLS :: string where
  "servicePortNameManagementTLS = ''management-tls''"

definition readDefaultUserCredentials ::
  "('p, 'c) clientEnv \<Rightarrow> RabbitmqCluster \<Rightarrow> goerror + (string \<times> string)" where
  "readDefaultUserCredentials E rmq =
     (let secretName = ChildResourceName rmq ''default-user''
      in case c_GetSecret E (cluster_Namespace rmq) secretName of
           Inl err \<Rightarrow> Inl (WrapError ''failed to get default user secret'' err)
         | Inr secret \<Rightarrow>
             (case mget (sec_Data secret) ''username'' of
                None \<Rightarrow> Inl (PlainError (''username not found in secret '' @ secretName))
              | Some u \<Rightarrow>
                  (case mget (sec_Data secret) ''password'' of
                     None \<Rightarrow> Inl (PlainError (''password not found in secret '' @ secretName))
                   | Some p \<Rightarrow> Inr (u, p))))"

text \<open>The pool of the configured certificate authority, if one is configured.\<close>

definition rootCAs :: "('p, 'c) clientEnv \<Rightarrow> RabbitmqCluster \<Rightarrow> 'p \<Rightarrow> goerror + 'p option" where
  "rootCAs E rmq certPool =
     (let caSecretName = CaSecretName (TLS (Spec rmq))
      in if caSecretName \<noteq> []
         then
           (case c_GetSecret E (cluster_Namespace rmq) caSecretName of
              Inl err \<Rightarrow> Inl (WrapError ''failed to get CA secret'' err)
            | Inr caSecret \<Rightarrow>
                (case mget (sec_Data caSecret) ''ca.crt'' of
                   None \<Rightarrow> Inl (PlainError (''CA certificate not found in secret '' @ caSecretName))
                 | Some caCert \<Rightarrow>
                     (case c_AppendCertsFromPEM E certPool caCert of
                        None \<Rightarrow> Inl (PlainError ''failed to append CA certificate to cert pool'')
                      | Some pool \<Rightarrow> Inr (Some pool))))
         else Inr None)"

definition managementHTTPSTransport ::
  "('p, 'c) clientEnv \<Rightarrow> RabbitmqCluster \<Rightarrow> string \<Rightarrow> goerror + 'p transport option" where
  "managementHTTPSTransport E rmq serverName =
     (if \<not> DisableNonTLS (TLS (Spec rmq)) then Inr None
      else
        (case c_SystemCertPool E of
           Inl err \<Rightarrow> Inl (WrapError ''failed to get system cert pool'' err)
         | Inr certPool \<Rightarrow>
             bindE (rootCAs E rmq certPool) (\<lambda>roots.
             Inr (Some \<lparr>t_RootCAs = roots, t_ServerName = serverName\<rparr>))))"

definition managementPortFromService :: "service \<Rightarrow> bool \<Rightarrow> goerror + int" where
  "managementPortFromService svc tlsOnly =
     (let portName = (if tlsOnly then servicePortNameManagementTLS else servicePortNameManagement)
      in case List.find (\<lambda>p. sp_Name p = portName) (svcs_Ports (svc_Spec svc)) of
           Some p \<Rightarrow> Inr (sp_Port p)
         | None \<Rightarrow> Inl (PlainError (''port '' @ dquote @ portName @ dquote @ '' not found on service '' @ Name (svc_Meta svc))))"

definition podFQDN :: "RabbitmqCluster \<Rightarrow> string \<Rightarrow> string" where
  "podFQDN rmq podName = podName @ ''.'' @ ChildResourceName rmq ''nodes'' @ ''.'' @ cluster_Namespace rmq @ ''.svc''"

definition getClientInfoForPod ::
  "('p, 'c) clientEnv \<Rightarrow> RabbitmqCluster \<Rightarrow> string \<Rightarrow> goerror + 'p ClientInfo" where
  "getClientInfoForPod E rmq podName =
     bindE (readDefaultUserCredentials E rmq) (\<lambda>(username, password).
     let host = podFQDN rmq podName
     in if DisableNonTLS (TLS (Spec rmq))
        then
          bindE (managementHTTPSTransport E rmq host) (\<lambda>transport.
          Inr \<lparr>BaseURL = ''https://'' @ host @ '':'' @ Itoa 15671, Username = username, Password = password,
            Transport = transport\<rparr>)
        else
          Inr \<lparr>BaseURL = ''http://'' @ host @ '':'' @ Itoa 15672, Username = username, Password = password,
            Transport = None\<rparr>)"

definition getClientInfoForService ::
  "('p, 'c) clientEnv \<Rightarrow> RabbitmqCluster \<Rightarrow> goerror + 'p ClientInfo" where
  "getClientInfoForService E rmq =
     bindE (readDefaultUserCredentials E rmq) (\<lambda>(username, password).
     case c_GetService E (cluster_Namespace rmq) (ChildResourceName rmq []) of
       Inl err \<Rightarrow> Inl (WrapError ''failed to get rabbitmq service'' err)
     | Inr svc \<Rightarrow>
         (let tlsOnly = DisableNonTLS (TLS (Spec rmq))
          in bindE (managementPortFromService svc tlsOnly) (\<lambda>svcPort.
             let serviceHost = Name (svc_Meta svc) @ ''.'' @ cluster_Namespace rmq @ ''.svc''
             in bindE (if tlsOnly then managementHTTPSTransport E rmq serviceHost else Inr None) (\<lambda>transport.
                Inr \<lparr>BaseURL = (if tlsOnly then ''https'' else ''http'') @ ''://'' @ serviceHost @ '':'' @ Itoa svcPort,
                  Username = username, Password = password, Transport = transport\<rparr>))))"

section \<open>The factory\<close>

definition newRabbitholeClientFromInfo ::
  "('p, 'c) clientEnv \<Rightarrow> RabbitmqCluster \<Rightarrow> 'p ClientInfo \<Rightarrow> goerror + 'c" where
  "newRabbitholeClientFromInfo E rmq info =
     (if DisableNonTLS (TLS (Spec rmq))
      then bindE (c_NewTLSClient E (BaseURL info) (Username info) (Password info) (Transport info))
             (\<lambda>c. Inr (c_SetTimeout E c 60000))
      else bindE (c_NewClient E (BaseURL info) (Username info) (Password info))
             (\<lambda>c. Inr (c_SetTimeout E c 60000)))"

definition GetClientForPod :: "('p, 'c) clientEnv \<Rightarrow> RabbitmqCluster \<Rightarrow> string \<Rightarrow> goerror + 'c" where
  "GetClientForPod E rmq podName =
     (case getClientInfoForPod E rmq podName of
        Inl err \<Rightarrow> Inl (WrapError ''failed to get client info for pod'' err)
      | Inr info \<Rightarrow> newRabbitholeClientFromInfo E rmq info)"

definition GetClientForService :: "('p, 'c) clientEnv \<Rightarrow> RabbitmqCluster \<Rightarrow> goerror + 'c" where
  "GetClientForService E rmq =
     (case getClientInfoForService E rmq of
        Inl err \<Rightarrow> Inl (WrapError ''failed to get client info for service'' err)
      | Inr info \<Rightarrow> newRabbitholeClientFromInfo E rmq info)"

section \<open>The clients fit what the builders create\<close>

lemma find_mapped: "List.find P (map f xs) = map_option f (List.find (P \<circ> f) xs)"
  by (induction xs) auto

lemma find_distinct_named:
  "distinct (map sp_Name ps) \<Longrightarrow> p \<in> set ps \<Longrightarrow> List.find (\<lambda>q. sp_Name q = sp_Name p) ps = Some p"
  by (induction ps) (auto simp: image_iff)

lemma updatePorts_port:
  assumes "iterates order" and "v \<in> set (generatedPorts r)"
  shows "\<exists>p. List.find (\<lambda>q. sp_Name q = sp_Name v) (updatePorts order r ps) = Some p \<and> sp_Port p = sp_Port v"
proof -
  have g: "generateServicePortsMap r (sp_Name v) = Some v" using assms(2) by (simp add: generateServicePortsMap_iff)
  have "sp_Name v \<in> sp_Name ` set (updatePorts order r ps)"
    using updatePorts_names(2) [OF assms(1)] assms(2) by simp
  then obtain p where p: "p \<in> set (updatePorts order r ps)" "sp_Name p = sp_Name v" by auto
  obtain w where "generateServicePortsMap r (sp_Name p) = Some w" "p = w\<lparr>sp_NodePort := sp_NodePort p\<rparr>"
    using updatePorts_member [OF assms(1) p(1)] by blast
  then have "p = v\<lparr>sp_NodePort := sp_NodePort p\<rparr>" using g p(2) by simp
  from arg_cong [OF this, of sp_Port] have "sp_Port p = sp_Port v" by simp
  then show ?thesis using find_distinct_named [OF updatePorts_names(1) [OF assms(1)] p(1)] p(2) by simp
qed

lemma managementPort_generated:
  assumes "iterates order" and "Service_Update order patch b svc = Inr svc'"
    and "ov_Service (Override (Spec (Instance b))) = None"
    and "DisableNonTLS (TLS (Spec (Instance b))) \<Longrightarrow> TLSEnabled (Instance b)"
  shows "managementPortFromService svc' (DisableNonTLS (TLS (Spec (Instance b)))) =
    Inr (if DisableNonTLS (TLS (Spec (Instance b))) then 15671 else 15672)"
proof -
  let ?r = "Instance b"
  let ?n = "if DisableNonTLS (TLS (Spec ?r)) then ''management-tls'' else ''management''"
  let ?k = "if DisableNonTLS (TLS (Spec ?r)) then 15671 else 15672 :: int"
  let ?ps = "updatePorts order ?r (svcs_Ports (svc_Spec svc))"
  obtain v where v: "v \<in> set (generatedPorts ?r)" "sp_Name v = ?n" "sp_Port v = ?k"
  proof (rule that)
    show "(if DisableNonTLS (TLS (Spec ?r)) then tcpPort ''management-tls'' 15671 (Some ''https'')
        else tcpPort ''management'' 15672 (Some ''http'')) \<in> set (generatedPorts ?r)"
      using assms(4) by (simp add: generatedPorts_def portsWhen_iff DisableNonTLSListeners_def plainPortTable_def tlsPortTable_def)
  qed (simp_all add: tcpPort_def)
  obtain p where f: "List.find (\<lambda>q. sp_Name q = ?n) ?ps = Some p" and port: "sp_Port p = ?k"
    using updatePorts_port [OF assms(1) v(1)] unfolding v(2,3) by blast
  have "svcs_Ports (svc_Spec svc') \<in> {?ps, map (\<lambda>p. p\<lparr>sp_NodePort := 0\<rparr>) ?ps}"
    using assms(2) unfolding Service_Update_plain [OF assms(3)] by (auto simp: generatedServiceSpec_def Let_def)
  then have "\<exists>q. List.find (\<lambda>q. sp_Name q = ?n) (svcs_Ports (svc_Spec svc')) = Some q \<and> sp_Port q = ?k"
  proof
    assume "svcs_Ports (svc_Spec svc') = ?ps"
    then show ?thesis using f port by simp
  next
    assume "svcs_Ports (svc_Spec svc') \<in> {map (\<lambda>p. p\<lparr>sp_NodePort := 0\<rparr>) ?ps}"
    then show ?thesis using f port by (simp add: find_mapped comp_def)
  qed
  then show ?thesis
    by (auto simp: managementPortFromService_def servicePortNameManagement_def servicePortNameManagementTLS_def)
qed

lemma rootService_name: "ChildResourceName r [] = cluster_Name r"
  by (simp add: ChildResourceName_def TrimSuffix_append)


text \<open>
  A client for a single pod uses the name of the pod below the headless service that the
  StatefulSet is governed by, the port that the RabbitMQ container declares under the name of the
  management listener, and TLS exactly if plain listeners are disabled.
\<close>

theorem pod_client_targets:
  assumes "getClientInfoForPod E (Instance b) podName = Inr info"
  shows "\<exists>port \<in> set (updateContainerPorts (Instance b)).
    cp_Name port = (if DisableNonTLSListeners (Instance b) then ''management-tls'' else ''management'') \<and>
    BaseURL info = (if DisableNonTLSListeners (Instance b) then ''https://'' else ''http://'') @ podName @ ''.'' @
      Name (svc_Meta (HeadlessService_Build b)) @ ''.'' @ cluster_Namespace (Instance b) @ ''.svc:'' @ Itoa (cp_ContainerPort port) \<and>
    (Transport info \<noteq> None \<longleftrightarrow> DisableNonTLSListeners (Instance b))"
proof -
  have "\<exists>port \<in> set (updateContainerPorts (Instance b)).
     cp_Name port = (if DisableNonTLSListeners (Instance b) then ''management-tls'' else ''management'') \<and>
     cp_ContainerPort port = (if DisableNonTLSListeners (Instance b) then 15671 else 15672)"
    by (simp add: updateContainerPorts_def updateContainerPortsOnlyTLSListeners_def containerPortsWhen_def)
  moreover have "BaseURL info = (if DisableNonTLSListeners (Instance b) then ''https://'' else ''http://'') @ podName @ ''.'' @
      Name (svc_Meta (HeadlessService_Build b)) @ ''.'' @ cluster_Namespace (Instance b) @ ''.svc:'' @
      Itoa (if DisableNonTLSListeners (Instance b) then 15671 else 15672) \<and>
    (Transport info \<noteq> None \<longleftrightarrow> DisableNonTLSListeners (Instance b))"
    using assms
    by (auto simp: getClientInfoForPod_def bindE_Inr_iff Let_def podFQDN_def HeadlessService_Build_def headlessServiceSuffix_def
        DisableNonTLSListeners_def managementHTTPSTransport_def split: if_splits sum.splits)
  ultimately show ?thesis by fastforce
qed

section \<open>Examples\<close>

definition exampleEnv :: "service \<Rightarrow> secret \<Rightarrow> (string list, string) clientEnv" where
  "exampleEnv svc sec = \<lparr>c_GetSecret = (\<lambda>ns n. Inr sec), c_GetService = (\<lambda>ns n. Inr svc), c_SystemCertPool = Inr [],
     c_AppendCertsFromPEM = (\<lambda>pool cert. Some (cert # pool)), c_NewClient = (\<lambda>url u p. Inr url),
     c_NewTLSClient = (\<lambda>url u p t. Inr url), c_SetTimeout = (\<lambda>c t. c)\<rparr>"


theorem pod_client_targets_witness:
  "\<exists>port \<in> set (updateContainerPorts exampleTLSOnly). cp_Name port = ''management-tls''"
proof -
  let ?b = "exampleBuilder exampleTLSOnly"
  have i: "Instance ?b = exampleTLSOnly" by (simp add: exampleBuilder_def)
  have d: "DisableNonTLSListeners exampleTLSOnly" by (simp add: exampleTLSOnly_def DisableNonTLSListeners_def)
  let ?E = "exampleEnv undefined exampleSecret"
  have "\<exists>info. getClientInfoForPod ?E (Instance ?b) ''pod'' = Inr info"
    unfolding i
    by (simp add: getClientInfoForPod_def readDefaultUserCredentials_def exampleEnv_def exampleSecret_def mget_def
        managementHTTPSTransport_def rootCAs_def exampleTLSOnly_def emptyClusterSpec_def emptyCluster_def Let_def)
  then obtain info where "getClientInfoForPod ?E (Instance ?b) ''pod'' = Inr info" by blast
  from pod_client_targets [OF this] show ?thesis unfolding i using d by auto
qed

end
