(* ===== verification/Deprecated_Features.thy ===== *)
theory Deprecated_Features
  imports Status_Writes Rabbitmq_Client
begin

text \<open>
  \<open>internal/controller/deprecated_feature_controller.go\<close>: the second controller, which writes the
  deprecated features that a cluster uses into its status, and how the status patches of the two
  controllers interleave.
\<close>

section \<open>The controller\<close>

text \<open>The field of \<open>rabbithole.DeprecatedFeature\<close> that is used.\<close>

record deprecatedFeature =
  df_Name :: string

text \<open>
  The client factory is the model of \<open>rabbitmqclient\<close>; its environment and the call
  \<open>ListDeprecatedFeaturesUsed\<close> of a client are parameters that may depend on the history.
\<close>

record ('f, 'p, 'c) DeprecatedFeatureReconciler =
  dr_Client :: "'f api"
  dr_ClientEnv :: "history \<Rightarrow> ('p, 'c) clientEnv"
  dr_ListDeprecatedFeaturesUsed :: "history \<Rightarrow> 'c \<Rightarrow> goerror + deprecatedFeature list"
  Interval :: int

text \<open>Getting a client and calling it are one request, since both failures are treated alike.\<close>

definition deprecatedFeaturesUsed ::
  "('f, 'p, 'c) DeprecatedFeatureReconciler \<Rightarrow> RabbitmqCluster \<Rightarrow> deprecatedFeature list step" where
  "deprecatedFeaturesUsed D rmq =
     requestE (ServiceDeprecatedFeatures (cluster_Namespace rmq) (cluster_Name rmq)) (\<lambda>h.
       bindE (GetClientForService (dr_ClientEnv D h) rmq) (dr_ListDeprecatedFeaturesUsed D h))"

definition DeprecatedFeature_Reconcile ::
  "('f, 'p, 'c) DeprecatedFeatureReconciler \<Rightarrow> string \<Rightarrow> string \<Rightarrow> int step" where
  "DeprecatedFeature_Reconcile D namespace name =
     bindS (tryS (requestE (GetCluster namespace name) (\<lambda>h. k_GetCluster (dr_Client D) h namespace name))) (\<lambda>res.
     case res of
       Inl err \<Rightarrow> if IsNotFound err then returnS 0 else throwS (WrapError ''failed to get RabbitmqCluster'' err)
     | Inr rmq \<Rightarrow>
         bindS (setRmq rmq) (\<lambda>_.
         bindS (tryS (deprecatedFeaturesUsed D rmq)) (\<lambda>listed.
         case listed of
           Inl err \<Rightarrow> returnS (Interval D)
         | Inr deprecatedFeatures \<Rightarrow>
             (let inUse = map df_Name deprecatedFeatures
              in if DeprecatedFeaturesUsed (ClusterStatus rmq) = inUse then returnS (Interval D)
                 else
                   bindS (setRmq (rmq\<lparr>ClusterStatus := (ClusterStatus rmq)\<lparr>DeprecatedFeaturesUsed := inUse\<rparr>\<rparr>)) (\<lambda>_.
                   bindS (tryS (patchStatus (dr_Client D) rmq)) (\<lambda>patched.
                   case patched of
                     Inl err \<Rightarrow>
                       if IsConflict err then returnS (Interval D)
                       else throwS (WrapError ''failed to update deprecated features status'' err)
                   | Inr _ \<Rightarrow> returnS (Interval D)))))))"

section \<open>What it does\<close>

text \<open>The status without the list of deprecated features.\<close>

definition otherStatus :: "RabbitmqClusterStatus \<Rightarrow> RabbitmqClusterStatus" where
  "otherStatus st = st\<lparr>DeprecatedFeaturesUsed := []\<rparr>"

text \<open>
  What one run does for a cluster that exists: if the features cannot be listed, or are the ones
  in the status, it writes nothing; otherwise it writes one patch of the status, which changes only
  the list of features. In each of these cases, a conflict of the write included, the cluster is
  looked at again after the interval.
\<close>

theorem DeprecatedFeature_Reconcile_meaning:
  assumes "k_GetCluster (dr_Client D) (Hist s) ns n = Inr rmq"
    and "bindE (GetClientForService (dr_ClientEnv D (Hist s @ [GetCluster ns n])) rmq)
        (dr_ListDeprecatedFeaturesUsed D (Hist s @ [GetCluster ns n])) = answer"
    and "\<And>e. answer = Inl e \<Longrightarrow> \<not> isPanic e"
  shows "let h = Hist s @ [GetCluster ns n, ServiceDeprecatedFeatures (cluster_Namespace rmq) (cluster_Name rmq)];
             out = run_state (DeprecatedFeature_Reconcile D ns n) s
         in case answer of
              Inl e \<Rightarrow> fst out = Inr (Interval D) \<and> Hist (snd out) = h
            | Inr features \<Rightarrow>
                if DeprecatedFeaturesUsed (ClusterStatus rmq) = map df_Name features
                then fst out = Inr (Interval D) \<and> Hist (snd out) = h
                else
                  let rmq' = rmq\<lparr>ClusterStatus := (ClusterStatus rmq)\<lparr>DeprecatedFeaturesUsed := map df_Name features\<rparr>\<rparr>
                  in Hist (snd out) = h @ [PatchStatus rmq rmq'] \<and>
                     (fst out = Inr (Interval D) \<longleftrightarrow>
                        (\<forall>e. k_PatchStatus (dr_Client D) h rmq rmq' = Inl e \<longrightarrow> IsConflict e))"
  using assms
  by (cases answer)
    (auto simp: DeprecatedFeature_Reconcile_def deprecatedFeaturesUsed_def patchStatus_def Let_def IsConflict_def isPanic_def
      split: sum.splits goerror.splits)

section \<open>Two controllers, one status\<close>

fun patchesOf :: "history \<Rightarrow> (RabbitmqClusterStatus \<times> RabbitmqClusterStatus) list" where
  "patchesOf [] = []"
| "patchesOf (PatchStatus base r # h) = (ClusterStatus base, ClusterStatus r) # patchesOf h"
| "patchesOf (q # h) = patchesOf h"

text \<open>
  What a merge patch promises: the server changes the fields in which the base and the new object
  differ, and what it makes of a field does not depend on the other fields.
\<close>

definition merge_law ::
  "(RabbitmqClusterStatus \<Rightarrow> RabbitmqClusterStatus \<Rightarrow> RabbitmqClusterStatus \<Rightarrow> RabbitmqClusterStatus) \<Rightarrow> bool" where
  "merge_law merge \<longleftrightarrow>
     (\<forall>base new st. DeprecatedFeaturesUsed new = DeprecatedFeaturesUsed base \<longrightarrow>
        DeprecatedFeaturesUsed (merge base new st) = DeprecatedFeaturesUsed st) \<and>
     (\<forall>base new st. otherStatus new = otherStatus base \<longrightarrow> otherStatus (merge base new st) = otherStatus st) \<and>
     (\<forall>base new st st'. DeprecatedFeaturesUsed st = DeprecatedFeaturesUsed st' \<longrightarrow>
        DeprecatedFeaturesUsed (merge base new st) = DeprecatedFeaturesUsed (merge base new st')) \<and>
     (\<forall>base new st st'. otherStatus st = otherStatus st' \<longrightarrow>
        otherStatus (merge base new st) = otherStatus (merge base new st'))"

definition applyPatches ::
  "(RabbitmqClusterStatus \<Rightarrow> RabbitmqClusterStatus \<Rightarrow> RabbitmqClusterStatus \<Rightarrow> RabbitmqClusterStatus) \<Rightarrow>
     RabbitmqClusterStatus \<Rightarrow> (RabbitmqClusterStatus \<times> RabbitmqClusterStatus) list \<Rightarrow> RabbitmqClusterStatus" where
  "applyPatches merge = foldl (\<lambda>st (base, new). merge base new st)"

text \<open>A view of the status that one sequence of patches leaves alone is determined by the other sequence.\<close>

lemma applyPatches_simps [simp]:
  "applyPatches merge st [] = st" "applyPatches merge st (p # ps) = applyPatches merge (merge (fst p) (snd p) st) ps"
  by (simp_all add: applyPatches_def case_prod_beta)

lemma applyPatches_view:
  assumes "\<And>base new st st'. view st = view st' \<Longrightarrow> view (merge base new st) = view (merge base new st')"
  shows "view st = view st' \<Longrightarrow> view (applyPatches merge st ys) = view (applyPatches merge st' ys)"
proof (induction ys arbitrary: st st')
  case (Cons p ys)
  show ?case using Cons.IH [OF assms [OF Cons.prems]] by simp
qed simp

lemma applyPatches_untouched:
  assumes "\<And>base new st. (base, new) \<in> set xs \<Longrightarrow> view (merge base new st) = view st"
  shows "view (applyPatches merge st xs) = view st"
  using assms
proof (induction xs arbitrary: st)
  case (Cons p xs)
  have "view (merge (fst p) (snd p) st) = view st" using Cons.prems [of "fst p" "snd p"] by simp
  moreover have "view (applyPatches merge st' xs) = view st'" for st' by (rule Cons.IH) (use Cons.prems in simp)
  ultimately show ?case by simp
qed simp

lemma interleaved_view:
  assumes "zs \<in> shuffles xs ys" and "view st = view st'"
    and "\<And>base new st. (base, new) \<in> set xs \<Longrightarrow> view (merge base new st) = view st"
    and "\<And>base new st st'. view st = view st' \<Longrightarrow> view (merge base new st) = view (merge base new st')"
  shows "view (applyPatches merge st zs) = view (applyPatches merge st' ys)"
  using assms(1-3)
proof (induction xs ys arbitrary: zs st st' rule: shuffles.induct)
  case (1 ys)
  then have "zs = ys" by simp
  moreover have "view (applyPatches merge st ys) = view (applyPatches merge st' ys)"
    using assms(4) "1.prems"(2) by (rule applyPatches_view)
  ultimately show ?case by simp
next
  case (2 xs)
  then have "zs = xs" by simp
  moreover have "view (applyPatches merge st xs) = view st"
    using "2.prems"(3) by (rule applyPatches_untouched)
  ultimately show ?case using "2.prems"(2) by simp
next
  case (3 x xs y ys)
  from "3.prems"(1) consider zs' where "zs = x # zs'" "zs' \<in> shuffles xs (y # ys)"
    | zs' where "zs = y # zs'" "zs' \<in> shuffles (x # xs) ys" by auto
  then show ?case
  proof cases
    case 1
    have "view (merge (fst x) (snd x) st) = view st'" using "3.prems"(2) "3.prems"(3) [of "fst x" "snd x"] by simp
    from "3.IH"(1) [OF 1(2) this] show ?thesis using "3.prems"(3) unfolding 1(1) by auto
  next
    case 2
    have "view (merge (fst y) (snd y) st) = view (merge (fst y) (snd y) st')" using "3.prems"(2) by (rule assms(4))
    from "3.IH"(2) [OF 2(2) this "3.prems"(3)] show ?thesis unfolding 2(1) by simp
  qed
qed

lemma patchesOf_append: "patchesOf (h @ h') = patchesOf h @ patchesOf h'"
  by (induction h rule: patchesOf.induct) auto

lemma patchesOf_keeps:
  "list_all (writesKeep keep child) h \<Longrightarrow> (base, new) \<in> set (patchesOf h) \<Longrightarrow> keep base new"
  by (induction h rule: patchesOf.induct) auto

definition keepsOthers :: "request \<Rightarrow> bool" where
  "keepsOthers = writesKeep (\<lambda>st st'. otherStatus st' = otherStatus st) (\<lambda>_. True)"

lemma emits_DeprecatedFeature_Reconcile: "emits keepsOthers (DeprecatedFeature_Reconcile D ns n)"
  unfolding emits_def
  by (auto simp: DeprecatedFeature_Reconcile_def deprecatedFeaturesUsed_def patchStatus_def keepsOthers_def otherStatus_def
      Let_def split: sum.splits)

lemma emits_from_start: "emits P m \<Longrightarrow> Hist s = [] \<Longrightarrow> list_all P (Hist (snd (run_state m s)))"
  unfolding emits_def by (metis append_Nil)

lemma appended_shuffle: "xs @ ys \<in> shuffles xs ys"
proof (induction xs ys rule: shuffles.induct)
  case (3 x xs y ys)
  then show ?case by simp
qed simp_all

text \<open>
  C14. The two controllers do not disturb each other. However the status patches of a reconciliation and
  of a run of the deprecated-feature controller interleave at the server, the resulting list of
  deprecated features is the one the second controller alone would have produced, and the rest of the
  status is the one the reconciliation alone would have produced.
\<close>

theorem controllers_independent:
  assumes "retry_law A" and "cou_law A" and "merge_law merge" and "Hist s = []" and "Hist t = []"
    and "xs = patchesOf (Hist (snd (run_state (Reconcile A R ns n) s)))"
    and "ys = patchesOf (Hist (snd (run_state (DeprecatedFeature_Reconcile D ns n) t)))"
    and "zs \<in> shuffles xs ys"
  shows "DeprecatedFeaturesUsed (applyPatches merge st zs) = DeprecatedFeaturesUsed (applyPatches merge st ys) \<and>
    otherStatus (applyPatches merge st zs) = otherStatus (applyPatches merge st xs)"
proof
  have f: "DeprecatedFeaturesUsed new = DeprecatedFeaturesUsed base" if "(base, new) \<in> set xs" for base new
    using patchesOf_keeps [OF emits_from_start [OF features.status_Reconcile [OF assms(1,2)] assms(4)]] that
    unfolding assms(6) .
  have o': "otherStatus new = otherStatus base" if "(base, new) \<in> set ys" for base new
    using patchesOf_keeps [OF emits_from_start [OF emits_DeprecatedFeature_Reconcile assms(5), unfolded keepsOthers_def]] that
    unfolding assms(7) .
  note law = assms(3) [unfolded merge_law_def]
  show "DeprecatedFeaturesUsed (applyPatches merge st zs) = DeprecatedFeaturesUsed (applyPatches merge st ys)"
    by (rule interleaved_view [OF assms(8) refl]) (use law f in blast)+
  have "zs \<in> shuffles ys xs" using assms(8) by (simp add: shuffles_commutes)
  then show "otherStatus (applyPatches merge st zs) = otherStatus (applyPatches merge st xs)"
    by (rule interleaved_view [OF _ refl]) (use law o' in blast)+
qed

section \<open>Examples\<close>

definition exampleService :: service where
  "exampleService = \<lparr>svc_Meta = namedMeta ''rmq'' ''ns'',
     svc_Spec = emptyServiceSpec\<lparr>svcs_Ports := [tcpPort ''management'' 15672 None]\<rparr>\<rparr>"

definition exampleFeatureReconciler :: "((string \<times> string) list, string list, string) DeprecatedFeatureReconciler" where
  "exampleFeatureReconciler = \<lparr>dr_Client = exampleApi (exampleServer 1),
     dr_ClientEnv = (\<lambda>h. exampleEnv exampleService exampleSecret),
     dr_ListDeprecatedFeaturesUsed = (\<lambda>h c. Inr [\<lparr>df_Name = ''ram_node_type''\<rparr>]), Interval = 300000\<rparr>"

theorem DeprecatedFeature_Reconcile_meaning_witness:
  "fst (run_state (DeprecatedFeature_Reconcile exampleFeatureReconciler ''ns'' ''rmq'') (startState emptyCluster)) = Inr 300000"
proof -
  have g: "k_GetCluster (dr_Client exampleFeatureReconciler) (Hist (startState emptyCluster)) ''ns'' ''rmq'' = Inr (exampleServer 1)"
    by (simp add: exampleFeatureReconciler_def exampleApi_def)
  have "GetClientForService (exampleEnv exampleService exampleSecret) (exampleServer 1) = Inr
      (''http://rmq.ns.svc:'' @ Itoa 15672)"
    by (simp add: GetClientForService_def getClientInfoForService_def readDefaultUserCredentials_def exampleEnv_def Let_def
        exampleSecret_def mget_def exampleService_def managementPortFromService_def servicePortNameManagement_def tcpPort_def
        newRabbitholeClientFromInfo_def exampleServer_def emptyClusterSpec_def emptyCluster_def)
  then have a: "bindE (GetClientForService (dr_ClientEnv exampleFeatureReconciler h) (exampleServer 1))
      (dr_ListDeprecatedFeaturesUsed exampleFeatureReconciler h) = Inr [\<lparr>df_Name = ''ram_node_type''\<rparr>]" for h
    by (simp add: exampleFeatureReconciler_def)
  have p: "k_PatchStatus (dr_Client exampleFeatureReconciler) h b c = Inr c" for h b c
    by (simp add: exampleFeatureReconciler_def exampleApi_def)
  have d: "DeprecatedFeaturesUsed (ClusterStatus (exampleServer 1)) = []" "Interval exampleFeatureReconciler = 300000"
    by (simp_all add: exampleServer_def emptyCluster_def exampleFeatureReconciler_def)
  show ?thesis
    using DeprecatedFeature_Reconcile_meaning [OF g a] p d by (simp add: Let_def)
qed

definition exampleMerge :: "RabbitmqClusterStatus \<Rightarrow> RabbitmqClusterStatus \<Rightarrow> RabbitmqClusterStatus \<Rightarrow> RabbitmqClusterStatus" where
  "exampleMerge base new st = (if otherStatus new = otherStatus base then otherStatus st else otherStatus new)
     \<lparr>DeprecatedFeaturesUsed := (if DeprecatedFeaturesUsed new = DeprecatedFeaturesUsed base
        then DeprecatedFeaturesUsed st else DeprecatedFeaturesUsed new)\<rparr>"

lemma exampleMerge_law: "merge_law exampleMerge"
  unfolding merge_law_def exampleMerge_def by (simp add: otherStatus_def)

theorem controllers_independent_witness:
  "\<exists>xs ys. ys @ xs \<in> shuffles xs ys \<and>
     DeprecatedFeaturesUsed (applyPatches exampleMerge (ClusterStatus emptyCluster) (ys @ xs)) =
       DeprecatedFeaturesUsed (applyPatches exampleMerge (ClusterStatus emptyCluster) ys)"
proof -
  let ?xs = "patchesOf (Hist (snd (run_state (Reconcile (exampleApi (exampleServer 1)) exampleReconciler ''ns'' ''rmq'')
    (startState emptyCluster))))"
  let ?ys = "patchesOf (Hist (snd (run_state (DeprecatedFeature_Reconcile exampleFeatureReconciler ''ns'' ''rmq'')
    (startState emptyCluster))))"
  have z: "?ys @ ?xs \<in> shuffles ?xs ?ys" by (subst shuffles_commutes) (rule appended_shuffle)
  show ?thesis
    using controllers_independent [OF exampleApi_good exampleMerge_law _ _ refl refl z] z by fastforce
qed

end
