(* ===== verification/Operator_Main.thy ===== *)
theory Operator_Main
  imports Reconcile_Steps Webhook "HOL-Library.Word"
begin

text \<open>
  \<open>cmd/main.go\<close> and \<open>pkg/profiling\<close>: from the flags and the environment to the options of the manager
  and the order in which the parts of the operator are started. The manager of controller-runtime is a
  parameter: each of its calls may fail. An error ends the process with status 1.
\<close>

section \<open>Durations\<close>

type_synonym environment = "string \<rightharpoonup> string"

definition Getenv :: "environment \<Rightarrow> string \<Rightarrow> string" where
  "Getenv env name = ptr_Deref (env name) []"

text \<open>\<open>time.Duration\<close>, a 64-bit number of nanoseconds.\<close>

type_synonym duration = "64 word"

definition Second :: duration where
  "Second = 1000000000"

definition getEnvInDuration :: "environment \<Rightarrow> string \<Rightarrow> goerror + duration" where
  "getEnvInDuration env envName =
     (let durationStr = Getenv env envName
      in if durationStr \<noteq> []
         then (case ParseInt10 64 durationStr of
                 None \<Rightarrow> Inl (PlainError ''invalid syntax or value out of range'')
               | Some durationInt \<Rightarrow> Inr (word_of_int durationInt * Second))
         else Inr (0 * Second))"

section \<open>The options of the manager\<close>

text \<open>\<open>strconv.ParseBool\<close>.\<close>

definition ParseBool :: "string \<Rightarrow> bool option" where
  "ParseBool s =
     (if s \<in> set [''1'', ''t'', ''T'', ''true'', ''TRUE'', ''True''] then Some True
      else if s \<in> set [''0'', ''f'', ''F'', ''false'', ''FALSE'', ''False''] then Some False
      else None)"

record tlsConfig =
  NextProtos :: "string list"

definition disableHTTP2 :: "tlsConfig \<Rightarrow> tlsConfig" where
  "disableHTTP2 c = c\<lparr>NextProtos := [''http/1.1'']\<rparr>"

text \<open>The values of the flags after \<open>flag.Parse\<close>, and the defaults they are declared with.\<close>

record flags =
  metricsAddr :: string
  probeAddr :: string
  secureMetrics :: bool
  metricsCertPath :: string
  metricsCertName :: string
  metricsCertKey :: string
  enableHTTP2 :: bool

definition defaultFlags :: flags where
  "defaultFlags = \<lparr>metricsAddr = '':8080'', probeAddr = '':8081'', secureMetrics = False, metricsCertPath = [],
     metricsCertName = ''tls.crt'', metricsCertKey = ''tls.key'', enableHTTP2 = False\<rparr>"

record managerOptions =
  BindAddress :: string
  SecureServing :: bool
  CertDir :: string
  CertName :: string
  KeyName :: string
  MetricsTLSOpts :: "(tlsConfig \<Rightarrow> tlsConfig) list"
  FilterProvider :: bool \<comment> \<open>authentication and authorization for the metrics\<close>
  ExtraHandlers :: "string gomap" \<comment> \<open>the name of the handler of a path\<close>
  HealthProbeBindAddress :: string
  LeaderElection :: bool
  LeaderElectionNamespace :: string
  LeaderElectionID :: string
  WebhookTLSOpts :: "(tlsConfig \<Rightarrow> tlsConfig) list"
  DefaultNamespaces :: "string set option" \<comment> \<open>the keys of the map\<close>
  ByObject :: "(string \<times> (string \<times> string) option) list" \<comment> \<open>types, each with the label its objects must have\<close>
  LeaseDuration :: "duration option"
  RenewDeadline :: "duration option"
  RetryPeriod :: "duration option"

definition initialOptions :: "flags \<Rightarrow> string \<Rightarrow> managerOptions" where
  "initialOptions f operatorNamespace =
     (let tlsOpts = (if \<not> enableHTTP2 f then [disableHTTP2] else [])
      in \<lparr>BindAddress = metricsAddr f, SecureServing = secureMetrics f, CertDir = metricsCertPath f,
          CertName = metricsCertName f, KeyName = metricsCertKey f, MetricsTLSOpts = tlsOpts,
          FilterProvider = secureMetrics f, ExtraHandlers = None, HealthProbeBindAddress = probeAddr f,
          LeaderElection = True, LeaderElectionNamespace = operatorNamespace,
          LeaderElectionID = ''rabbitmq-cluster-operator-leader-election'', WebhookTLSOpts = tlsOpts,
          DefaultNamespaces = None, ByObject = [], LeaseDuration = None, RenewDeadline = None, RetryPeriod = None\<rparr>)"

definition watchedNamespaces :: "string \<Rightarrow> string set option" where
  "watchedNamespaces operatorScopeNamespace =
     (if operatorScopeNamespace \<noteq> []
      then (if Contains operatorScopeNamespace '',''
            then Some (foldl (\<lambda>m ns. insert ns m) {} (Split1 operatorScopeNamespace (CHR '','')))
            else Some {operatorScopeNamespace})
      else None)"

text \<open>The types carry the names Go prints for them. Each but the cluster is restricted by the selector \<open>rmqSelector\<close>.\<close>

definition rmqLabel :: "string \<times> string" where
  "rmqLabel = (''app.kubernetes.io/part-of'', ''rabbitmq'')"

definition cachedObjects :: "(string \<times> (string \<times> string) option) list" where
  "cachedObjects = (''*v1beta1.RabbitmqCluster'', None) #
     map (\<lambda>t. (t, Some rmqLabel))
       [''*v1.StatefulSet'', ''*v1.Pod'', ''*v1.Service'', ''*v1.ConfigMap'', ''*v1.Secret'', ''*v1.ServiceAccount'',
        ''*v1.EndpointSlice'', ''*v1.Role'', ''*v1.RoleBinding'']"

definition pprofEndpoints :: "(string \<times> string) list" where
  "pprofEndpoints = [(''/debug/pprof'', ''Index''), (''/debug/pprof/allocs'', ''Index''), (''/debug/pprof/block'', ''Index''),
     (''/debug/pprof/cmdline'', ''Cmdline''), (''/debug/pprof/goroutine'', ''Index''), (''/debug/pprof/heap'', ''Index''),
     (''/debug/pprof/mutex'', ''Index''), (''/debug/pprof/profile'', ''Profile''), (''/debug/pprof/symbol'', ''Symbol''),
     (''/debug/pprof/threadcreate'', ''Index''), (''/debug/pprof/trace'', ''Trace'')]"

definition AddDebugPprofEndpoints :: "managerOptions \<Rightarrow> managerOptions" where
  "AddDebugPprofEndpoints opts = opts\<lparr>ExtraHandlers :=
     Some (foldl (\<lambda>m (path, handler). m(path \<mapsto> handler)) (ptr_Deref (ExtraHandlers opts) Map.empty) pprofEndpoints)\<rparr>"

definition nonZero :: "duration \<Rightarrow> duration option" where
  "nonZero d = (if d \<noteq> 0 then Some d else None)"

definition completeOptions :: "environment \<Rightarrow> managerOptions \<Rightarrow> goerror + managerOptions" where
  "completeOptions env opts =
     (let opts1 = opts\<lparr>DefaultNamespaces := watchedNamespaces (Getenv env ''OPERATOR_SCOPE_NAMESPACE''),
                       ByObject := cachedObjects\<rparr>
      in bindE (getEnvInDuration env ''LEASE_DURATION'') (\<lambda>leaseDuration.
         bindE (getEnvInDuration env ''RENEW_DEADLINE'') (\<lambda>renewDeadline.
         bindE (getEnvInDuration env ''RETRY_PERIOD'') (\<lambda>retryPeriod.
         let opts2 = opts1\<lparr>LeaseDuration := nonZero leaseDuration, RenewDeadline := nonZero renewDeadline,
                           RetryPeriod := nonZero retryPeriod\<rparr>
         in Inr (case env ''ENABLE_DEBUG_PPROF'' of
                   None \<Rightarrow> opts2
                 | Some v \<Rightarrow> if ParseBool v = Some True then AddDebugPprofEndpoints opts2 else opts2)))))"

section \<open>Starting the operator\<close>

text \<open>The settings of the operator itself, overridden by environment variables that are present, even if empty.\<close>

record settings =
  set_RabbitmqImage :: string
  set_UserUpdaterImage :: string
  set_ControlRabbitmqImage :: bool
  set_ImagePullSecrets :: string

definition readSettings :: "environment \<Rightarrow> goerror + settings" where
  "readSettings env =
     bindE (case env ''CONTROL_RABBITMQ_IMAGE'' of
              None \<Rightarrow> Inr False
            | Some v \<Rightarrow> (case ParseBool v of None \<Rightarrow> Inl (PlainError ''unable to start manager'') | Some b \<Rightarrow> Inr b)) (\<lambda>control.
     Inr \<lparr>set_RabbitmqImage = ptr_Deref (env ''DEFAULT_RABBITMQ_IMAGE'') ''rabbitmq:4.3.4-management'',
          set_UserUpdaterImage = ptr_Deref (env ''DEFAULT_USER_UPDATER_IMAGE'')
            ''ghcr.io/rabbitmq/default-user-credential-updater:1.0.14'',
          set_ControlRabbitmqImage = control,
          set_ImagePullSecrets = ptr_Deref (env ''DEFAULT_IMAGE_PULL_SECRETS'') []\<rparr>)"

text \<open>
  The calls on the manager. A controller is completed by the builder of controller-runtime with its
  name, the type it reconciles and the types it owns; the fields of the reconcilers that differ from
  one run to another are kept.
\<close>

datatype reconciler =
    ClusterReconciler string RabbitmqClusterReconciler string \<comment> \<open>namespace, fields, pull secrets\<close>
  | FeatureReconciler duration

record controllerSpec =
  ct_Named :: string
  ct_For :: string
  ct_Owns :: "string list"
  ct_Reconciler :: reconciler

datatype setupCall =
    NewManager managerOptions
  | IndexField string string \<comment> \<open>type and key, with the function \<open>addResourceToIndex\<close>\<close>
  | CompleteController controllerSpec
  | CompleteWebhook string RabbitmqClusterCustomDefaulter \<comment> \<open>with the validator\<close>
  | AddReadyzCheck string
  | AddHealthzCheck string
  | StartManager

definition call :: "(setupCall list \<Rightarrow> setupCall \<Rightarrow> goerror option) \<Rightarrow> setupCall \<Rightarrow> (setupCall list, unit) effect" where
  "call M c = State (\<lambda>h. (case M h c of None \<Rightarrow> Inr () | Some e \<Rightarrow> Inl e, h @ [c]))"

definition ownerKey :: string where
  "ownerKey = ''.metadata.controller''"

definition indexedTypes :: "string list" where
  "indexedTypes = [''*v1.StatefulSet'', ''*v1.ConfigMap'', ''*v1.Service'']"

text \<open>The client factory is not set by \<open>main\<close>, so the default one is used.\<close>

definition clusterController :: "reconciler \<Rightarrow> controllerSpec" where
  "clusterController r = \<lparr>ct_Named = [], ct_For = ''*v1beta1.RabbitmqCluster'',
     ct_Owns = [''*v1.StatefulSet'', ''*v1.ConfigMap'', ''*v1.Service'', ''*v1.Role'', ''*v1.RoleBinding'',
       ''*v1.ServiceAccount'', ''*v1.Secret''], ct_Reconciler = r\<rparr>"

definition RabbitmqCluster_SetupWithManager ::
  "(setupCall list \<Rightarrow> setupCall \<Rightarrow> goerror option) \<Rightarrow> reconciler \<Rightarrow> (setupCall list, unit) effect" where
  "RabbitmqCluster_SetupWithManager M r =
     bindS (forS (\<lambda>t. call M (IndexField t ownerKey)) indexedTypes) (\<lambda>_. call M (CompleteController (clusterController r)))"

definition DeprecatedFeature_SetupWithManager ::
  "(setupCall list \<Rightarrow> setupCall \<Rightarrow> goerror option) \<Rightarrow> reconciler \<Rightarrow> (setupCall list, unit) effect" where
  "DeprecatedFeature_SetupWithManager M r =
     call M (CompleteController \<lparr>ct_Named = ''deprecated-feature-controller'', ct_For = ''*v1beta1.RabbitmqCluster'',
       ct_Owns = [], ct_Reconciler = r\<rparr>)"

definition SetupRabbitmqClusterWebhookWithManager ::
  "(setupCall list \<Rightarrow> setupCall \<Rightarrow> goerror option) \<Rightarrow> RabbitmqClusterCustomDefaulter \<Rightarrow> (setupCall list, unit) effect" where
  "SetupRabbitmqClusterWebhookWithManager M defaulter = call M (CompleteWebhook ''*v1beta1.RabbitmqCluster'' defaulter)"

definition checkInterval :: "environment \<Rightarrow> goerror + duration" where
  "checkInterval env =
     bindE (getEnvInDuration env ''DEPRECATED_FEATURES_CHECK_INTERVAL'') (\<lambda>envInterval.
     Inr (if envInterval \<noteq> 0 then envInterval else 300 * Second))"

definition clusterReconciler :: "string \<Rightarrow> settings \<Rightarrow> reconciler" where
  "clusterReconciler operatorNamespace s = ClusterReconciler operatorNamespace
     \<lparr>rec_DefaultRabbitmqImage = set_RabbitmqImage s, rec_DefaultUserUpdaterImage = set_UserUpdaterImage s,
      rec_ControlRabbitmqImage = set_ControlRabbitmqImage s\<rparr> (set_ImagePullSecrets s)"

definition setupDeprecatedFeatures ::
  "(setupCall list \<Rightarrow> setupCall \<Rightarrow> goerror option) \<Rightarrow> environment \<Rightarrow> (setupCall list, unit) effect" where
  "setupDeprecatedFeatures M env = (case env ''DISABLE_DEPRECATED_FEATURES_CHECK'' of
     Some _ \<Rightarrow> returnS ()
   | None \<Rightarrow> bindS (liftS (checkInterval env)) (\<lambda>d. DeprecatedFeature_SetupWithManager M (FeatureReconciler d)))"

definition clusterDefaulter :: "settings \<Rightarrow> RabbitmqClusterCustomDefaulter" where
  "clusterDefaulter s = \<lparr>DefaultRabbitmqImage = set_RabbitmqImage s, DefaultImagePullSecrets = set_ImagePullSecrets s,
     DefaultUserUpdaterImage = set_UserUpdaterImage s\<rparr>"

definition setupWebhooks ::
  "(setupCall list \<Rightarrow> setupCall \<Rightarrow> goerror option) \<Rightarrow> environment \<Rightarrow> settings \<Rightarrow> (setupCall list, unit) effect" where
  "setupWebhooks M env s =
     (if Getenv env ''ENABLE_WEBHOOKS'' \<noteq> ''false''
      then bindS (SetupRabbitmqClusterWebhookWithManager M (clusterDefaulter s)) (\<lambda>_. call M (AddReadyzCheck ''webhook''))
      else returnS ())"

definition runManager ::
  "(setupCall list \<Rightarrow> setupCall \<Rightarrow> goerror option) \<Rightarrow> environment \<Rightarrow> string \<Rightarrow> settings \<Rightarrow> managerOptions
     \<Rightarrow> (setupCall list, unit) effect" where
  "runManager M env operatorNamespace s options =
     bindS (call M (NewManager options)) (\<lambda>_.
     bindS (RabbitmqCluster_SetupWithManager M (clusterReconciler operatorNamespace s)) (\<lambda>_.
     bindS (setupDeprecatedFeatures M env) (\<lambda>_.
     bindS (setupWebhooks M env s) (\<lambda>_.
     bindS (call M (AddHealthzCheck ''healthz'')) (\<lambda>_.
     bindS (call M (AddReadyzCheck ''readyz'')) (\<lambda>_.
     call M StartManager))))))"

definition operatorMain ::
  "(setupCall list \<Rightarrow> setupCall \<Rightarrow> goerror option) \<Rightarrow> environment \<Rightarrow> flags \<Rightarrow> (setupCall list, unit) effect" where
  "operatorMain M env f =
     (let operatorNamespace = Getenv env ''OPERATOR_NAMESPACE''
      in if operatorNamespace = [] then throwS (PlainError ''unable to find operator namespace'')
         else
           bindS (liftS (readSettings env)) (\<lambda>s.
           bindS (liftS (completeOptions env (initialOptions f operatorNamespace))) (\<lambda>options.
           runManager M env operatorNamespace s options)))"

section \<open>Properties\<close>

lemma run_call [simp]: "run_state (call M c) h = (case M h c of None \<Rightarrow> Inr () | Some e \<Rightarrow> Inl e, h @ [c])"
  by (simp add: call_def)

lemma ParseInt10_range: "ParseInt10 64 v = Some n \<Longrightarrow> - (2 ^ 63) \<le> n \<and> n < 2 ^ 63"
  by (auto simp: ParseInt10_def Let_def split: option.splits if_splits prod.splits list.splits)

lemma sint_seconds: "sint (word_of_int n * Second) = signed_take_bit 63 (n * 1000000000)"
proof -
  have "word_of_int n * Second = word_of_int (n * 1000000000)" by (simp add: Second_def)
  then show ?thesis by (simp only: sint_sbintrunc') simp
qed

text \<open>
  C28. A duration from the environment is a whole number of seconds: for a number that parses, the
  result is that many seconds exactly if the number is at most 9223372036 in absolute value; beyond
  that the multiplication wraps around, and the smallest number that overflows gives a negative
  duration.
\<close>

theorem getEnvInDuration_bounds:
  assumes "Getenv env name \<noteq> []" and "ParseInt10 64 (Getenv env name) = Some n"
  shows "\<exists>d. getEnvInDuration env name = Inr d \<and>
    (sint d = n * 1000000000 \<longleftrightarrow> \<bar>n\<bar> \<le> 9223372036) \<and> (n = 9223372037 \<longrightarrow> sint d < 0)"
proof -
  let ?d = "word_of_int n * Second"
  have "getEnvInDuration env name = Inr ?d" using assms by (simp add: getEnvInDuration_def)
  moreover have "sint ?d = n * 1000000000 \<longleftrightarrow> \<bar>n\<bar> \<le> 9223372036"
  proof
    assume "\<bar>n\<bar> \<le> 9223372036"
    then show "sint ?d = n * 1000000000"
      unfolding sint_seconds by (intro signed_take_bit_int_eq_self) simp_all
  next
    assume e: "sint ?d = n * 1000000000"
    have "- (2 ^ 63) \<le> sint ?d" "sint ?d < 2 ^ 63" using sint_range_size [of ?d] by (simp_all add: word_size)
    then show "\<bar>n\<bar> \<le> 9223372036" using e by simp
  qed
  moreover have "sint ?d < 0" if "n = 9223372037"
    unfolding sint_seconds that by (simp add: signed_take_bit_int_less_eq [of 63])
  ultimately show ?thesis by blast
qed

lemma foldl_insert: "foldl (\<lambda>m x. insert x m) A xs = A \<union> set xs"
  by (induction xs arbitrary: A) auto

lemma Split1_single: "\<not> Contains s [sep] \<Longrightarrow> Split1 s sep = [s]"
  by (induction s) (auto simp: HasPrefix_def)

lemma Split1_trailing: "Split1 (s @ [sep]) sep = Split1 s sep @ [[]]"
proof (induction s)
  case (Cons c s)
  then show ?case by (cases "Split1 s sep") (simp_all add: Split1_ne)
qed simp

text \<open>
  The watched namespaces are the comma-separated parts of the variable, in the branch for one
  namespace as in the one for several, and all namespaces if it is empty. A leading, trailing or
  doubled comma adds the empty name, which stands for all namespaces.
\<close>

theorem watchedNamespaces_meaning:
  "watchedNamespaces scope = (if scope = [] then None else Some (set (Split1 scope (CHR '','')))) \<and>
   (\<forall>ns. \<exists>w. watchedNamespaces (ns @ '','') = Some w \<and> [] \<in> w)"
proof -
  have m: "watchedNamespaces scope = (if scope = [] then None else Some (set (Split1 scope (CHR '',''))))" for scope
    by (auto simp: watchedNamespaces_def foldl_insert Split1_single)
  show ?thesis unfolding m by (simp add: Split1_trailing)
qed

text \<open>The calls after the checks of the environment, as one list.\<close>

lemma effect_eqI: "(\<And>s. run_state m s = run_state m' s) \<Longrightarrow> m = m'"
  by (cases m; cases m') (auto intro: ext)

lemma bindS_laws:
  "bindS (bindS m f) g = bindS m (\<lambda>x. bindS (f x) g)" "bindS (returnS x) f = f x" "bindS (liftS (Inr x)) f = f x"
  "bindS n (\<lambda>_. returnS ()) = n" "bindS m returnS = m"
  by (auto intro!: effect_eqI split: prod.splits sum.splits)

lemma forS_append: "forS f (xs @ ys) = bindS (forS f xs) (\<lambda>_. forS f ys)"
  by (induction xs) (simp_all add: bindS_laws)

lemma run_calls:
  "\<exists>n \<le> length cs. snd (run_state (forS (call M) cs) h) = h @ take n cs \<and>
     (\<forall>i. Suc i < n \<longrightarrow> M (h @ take i cs) (cs ! i) = None)"
proof (induction cs arbitrary: h)
  case (Cons c cs)
  obtain n where n: "n \<le> length cs" "snd (run_state (forS (call M) cs) (h @ [c])) = (h @ [c]) @ take n cs"
      "\<forall>i. Suc i < n \<longrightarrow> M ((h @ [c]) @ take i cs) (cs ! i) = None"
    using Cons.IH by blast
  show ?case
  proof (cases "M h c")
    case None
    have "M (h @ take i (c # cs)) ((c # cs) ! i) = None" if "Suc i < Suc n" for i
      using None n(3) that by (cases i) auto
    then show ?thesis using None n(1,2) by (intro exI [of _ "Suc n"]) simp
  next
    case (Some e)
    then show ?thesis by (intro exI [of _ 1]) simp
  qed
qed simp

lemma run_calls_last:
  assumes "c \<notin> set cs" and "c \<in> set (snd (run_state (forS (call M) (cs @ [c])) []))"
  shows "snd (run_state (forS (call M) (cs @ [c])) []) = cs @ [c] \<and> (\<forall>i < length cs. M (take i cs) (cs ! i) = None)"
proof -
  obtain n where n: "n \<le> length (cs @ [c])" "snd (run_state (forS (call M) (cs @ [c])) []) = take n (cs @ [c])"
      "\<forall>i. Suc i < n \<longrightarrow> M (take i (cs @ [c])) ((cs @ [c]) ! i) = None"
    using run_calls [of "cs @ [c]" M "[]"] by auto
  have "n = Suc (length cs)"
  proof (rule ccontr)
    assume "n \<noteq> Suc (length cs)"
    then have "take n (cs @ [c]) = take n cs" using n(1) by simp
    then show False using assms n(2) by (metis in_set_takeD)
  qed
  moreover have "M (take i cs) (cs ! i) = None" if "i < length cs" for i
    using n(3) that calculation by (simp add: nth_append)
  ultimately show ?thesis using n(2) by simp
qed

text \<open>The calls that follow the creation of the manager; a wrong interval stops after the first ones.\<close>

definition clusterCalls :: "string \<Rightarrow> settings \<Rightarrow> setupCall list" where
  "clusterCalls ns s = map (\<lambda>t. IndexField t ownerKey) indexedTypes @ [CompleteController (clusterController (clusterReconciler ns s))]"

definition deprecatedCalls :: "environment \<Rightarrow> goerror + setupCall list" where
  "deprecatedCalls env = (case env ''DISABLE_DEPRECATED_FEATURES_CHECK'' of
     Some _ \<Rightarrow> Inr []
   | None \<Rightarrow> bindE (checkInterval env) (\<lambda>d. Inr [CompleteController \<lparr>ct_Named = ''deprecated-feature-controller'',
       ct_For = ''*v1beta1.RabbitmqCluster'', ct_Owns = [], ct_Reconciler = FeatureReconciler d\<rparr>]))"

definition webhookCalls :: "environment \<Rightarrow> settings \<Rightarrow> setupCall list" where
  "webhookCalls env s = (if Getenv env ''ENABLE_WEBHOOKS'' \<noteq> ''false''
     then [CompleteWebhook ''*v1beta1.RabbitmqCluster'' (clusterDefaulter s), AddReadyzCheck ''webhook''] else [])"

lemma runManager_calls:
  "runManager M env ns s opts = (case deprecatedCalls env of
      Inl e \<Rightarrow> bindS (forS (call M) (NewManager opts # clusterCalls ns s)) (\<lambda>_. throwS e)
    | Inr ds \<Rightarrow> forS (call M) ((NewManager opts # clusterCalls ns s @ ds @ webhookCalls env s @
        [AddHealthzCheck ''healthz'', AddReadyzCheck ''readyz'']) @ [StartManager]))"
proof -
  have d: "setupDeprecatedFeatures M env = (case deprecatedCalls env of Inl e \<Rightarrow> throwS e | Inr ds \<Rightarrow> forS (call M) ds)"
    by (auto simp: setupDeprecatedFeatures_def DeprecatedFeature_SetupWithManager_def deprecatedCalls_def bindE_def bindS_laws
        intro!: effect_eqI split: option.splits sum.splits)
  have w: "setupWebhooks M env s = forS (call M) (webhookCalls env s)"
    by (simp add: setupWebhooks_def SetupRabbitmqClusterWebhookWithManager_def webhookCalls_def bindS_laws)
  have c: "RabbitmqCluster_SetupWithManager M (clusterReconciler ns s) = forS (call M) (clusterCalls ns s)"
    by (simp add: RabbitmqCluster_SetupWithManager_def clusterCalls_def indexedTypes_def bindS_laws)
  have t: "bindS (throwS e) g = throwS e" for e and g :: "unit \<Rightarrow> (setupCall list, unit) effect" by (rule effect_eqI) simp
  show ?thesis
    unfolding runManager_def d w c
    by (cases "deprecatedCalls env") (simp_all add: bindS_laws forS_append t)
qed

lemma completeOptions_namespace:
  "completeOptions env opts = Inr opts' \<Longrightarrow> LeaderElectionNamespace opts' = LeaderElectionNamespace opts"
  by (auto simp: completeOptions_def Let_def bindE_Inr_iff AddDebugPprofEndpoints_def split: option.splits if_splits)

lemma initialOptions_namespace: "LeaderElectionNamespace (initialOptions f ns) = ns"
  by (simp add: initialOptions_def Let_def)

text \<open>A manager is only started when the whole environment could be read.\<close>

lemma started_settings:
  assumes "StartManager \<in> set (snd (run_state (operatorMain M env f) []))"
  obtains s opts ds where "Getenv env ''OPERATOR_NAMESPACE'' \<noteq> []" and "readSettings env = Inr s"
    and "completeOptions env (initialOptions f (Getenv env ''OPERATOR_NAMESPACE'')) = Inr opts" and "deprecatedCalls env = Inr ds"
    and "operatorMain M env f = runManager M env (Getenv env ''OPERATOR_NAMESPACE'') s opts"
proof -
  let ?ns = "Getenv env ''OPERATOR_NAMESPACE''"
  have ns: "?ns \<noteq> []" using assms by (auto simp: operatorMain_def)
  have "snd (run_state (operatorMain M env f) []) = []" if "readSettings env = Inl e" for e
    using ns that by (simp add: operatorMain_def Let_def)
  then obtain s where s: "readSettings env = Inr s" using assms by (cases "readSettings env") auto
  have "snd (run_state (operatorMain M env f) []) = []" if "completeOptions env (initialOptions f ?ns) = Inl e" for e
    using ns s that by (simp add: operatorMain_def Let_def)
  then obtain opts where o': "completeOptions env (initialOptions f ?ns) = Inr opts"
    using assms by (cases "completeOptions env (initialOptions f ?ns)") auto
  have calls: "operatorMain M env f = runManager M env ?ns s opts"
    using ns unfolding operatorMain_def Let_def s o' bindS_laws(3) by simp
  let ?first = "NewManager opts # clusterCalls ?ns s"
  have f: "StartManager \<notin> set ?first" by (auto simp: clusterCalls_def)
  obtain ds where "deprecatedCalls env = Inr ds"
  proof (cases "deprecatedCalls env")
    case (Inl e)
    have "snd (run_state (operatorMain M env f) []) = snd (run_state (forS (call M) ?first) [])"
      unfolding calls runManager_calls Inl by (auto split: prod.splits sum.splits)
    moreover obtain n where "snd (run_state (forS (call M) ?first) []) = take n ?first"
      using run_calls [of ?first M "[]"] by auto
    ultimately show ?thesis using assms f in_set_takeD by metis
  qed (rule that)
  then show ?thesis using that ns s o' calls by blast
qed

text \<open>
  C27. If the manager is started, it is the last thing done and everything before it succeeded: the
  operator has a namespace, in which it elects its leader, the cluster controller and, unless
  disabled, the webhook were set up, and both use the same default images and pull secrets.
\<close>

theorem operatorMain_order:
  assumes "StartManager \<in> set (snd (run_state (operatorMain M env f) []))"
  shows "\<exists>ns s opts pre. ns = Getenv env ''OPERATOR_NAMESPACE'' \<and> ns \<noteq> [] \<and> readSettings env = Inr s \<and>
    completeOptions env (initialOptions f ns) = Inr opts \<and> LeaderElectionNamespace opts = ns \<and>
    snd (run_state (operatorMain M env f) []) = pre @ [StartManager] \<and> StartManager \<notin> set pre \<and>
    pre ! 0 = NewManager opts \<and>
    CompleteController (clusterController (clusterReconciler ns s)) \<in> set pre \<and>
    {c \<in> set pre. \<exists>t d. c = CompleteWebhook t d} =
      (if Getenv env ''ENABLE_WEBHOOKS'' = ''false'' then {}
       else {CompleteWebhook ''*v1beta1.RabbitmqCluster'' (clusterDefaulter s)}) \<and>
    (\<forall>i < length pre. M (take i pre) (pre ! i) = None)"
proof -
  let ?ns = "Getenv env ''OPERATOR_NAMESPACE''"
  obtain s opts ds where ns: "?ns \<noteq> []" and s: "readSettings env = Inr s"
    and o': "completeOptions env (initialOptions f ?ns) = Inr opts" and ds: "deprecatedCalls env = Inr ds"
    and calls: "operatorMain M env f = runManager M env ?ns s opts"
    using assms by (rule started_settings)
  let ?first = "NewManager opts # clusterCalls ?ns s"
  have f: "StartManager \<notin> set ?first" by (auto simp: clusterCalls_def)
  let ?pre = "?first @ ds @ webhookCalls env s @ [AddHealthzCheck ''healthz'', AddReadyzCheck ''readyz'']"
  have d: "set ds \<subseteq> range CompleteController"
    using ds by (auto simp: deprecatedCalls_def bindE_Inr_iff split: option.splits)
  then have n: "StartManager \<notin> set ?pre" using f by (auto simp: webhookCalls_def)
  have r: "snd (run_state (operatorMain M env f) []) = ?pre @ [StartManager] \<and>
      (\<forall>i < length ?pre. M (take i ?pre) (?pre ! i) = None)"
    using run_calls_last [OF n, of M] assms unfolding calls runManager_calls ds sum.case append_Cons append_assoc by simp
  have w: "{c \<in> set ?pre. \<exists>t d. c = CompleteWebhook t d} =
      (if Getenv env ''ENABLE_WEBHOOKS'' = ''false'' then {} else {CompleteWebhook ''*v1beta1.RabbitmqCluster'' (clusterDefaulter s)})"
    using d by (auto simp: clusterCalls_def webhookCalls_def)
  have l: "LeaderElectionNamespace opts = ?ns"
    using completeOptions_namespace [OF o'] by (simp add: initialOptions_namespace)
  have c: "?pre ! 0 = NewManager opts" "CompleteController (clusterController (clusterReconciler ?ns s)) \<in> set ?pre"
    by (simp_all add: clusterCalls_def)
  show ?thesis
    by (rule exI [of _ ?ns], rule exI [of _ s], rule exI [of _ opts], rule exI [of _ ?pre])
      (use ns s o' l r n c w in blast)
qed

section \<open>Examples\<close>

lemma exampleDuration: "ParseInt10 64 ''9223372037'' = Some 9223372037"
  by (simp add: ParseInt10_def digit_val_def Let_def)

theorem getEnvInDuration_bounds_witness:
  "\<exists>d. getEnvInDuration [''LEASE_DURATION'' \<mapsto> ''9223372037''] ''LEASE_DURATION'' = Inr d \<and> sint d < 0"
  using getEnvInDuration_bounds [of "[''LEASE_DURATION'' \<mapsto> ''9223372037'']" "''LEASE_DURATION''" 9223372037] exampleDuration
  by (auto simp: Getenv_def)

theorem operatorMain_order_witness:
  "\<exists>pre. snd (run_state (operatorMain (\<lambda>h c. None) [''OPERATOR_NAMESPACE'' \<mapsto> ''system''] defaultFlags) []) = pre @ [StartManager] \<and>
     StartManager \<notin> set pre"
proof -
  let ?env = "[''OPERATOR_NAMESPACE'' \<mapsto> ''system'']"
  have "StartManager \<in> set (snd (run_state (operatorMain (\<lambda>h c. None) ?env defaultFlags) []))"
    by (simp add: operatorMain_def Let_def Getenv_def readSettings_def completeOptions_def getEnvInDuration_def checkInterval_def
        runManager_def RabbitmqCluster_SetupWithManager_def indexedTypes_def setupDeprecatedFeatures_def
        DeprecatedFeature_SetupWithManager_def setupWebhooks_def SetupRabbitmqClusterWebhookWithManager_def)
  from operatorMain_order [OF this] show ?thesis by blast
qed

end
