(* ===== verification/Access_Control.thy ===== *)
theory Access_Control
  imports Deprecated_Features Operator_Main
begin

text \<open>
  What the operator is allowed to do: the permissions declared in the \<open>+kubebuilder:rbac\<close> markers of
  the two controllers, the roles that are deployed from \<open>config/rbac\<close>, and the permissions each request
  of the controllers needs. Every request of a reconciliation is permitted by the deployed role, the
  role the operator creates for its clusters included, which Kubernetes only lets an account create
  that holds all permissions of the new role itself.
\<close>

section \<open>Rules and permissions\<close>

text \<open>A permission: the API group, the resource (or subresource) and the verb.\<close>

type_synonym permission = "string \<times> string \<times> string"

definition grants :: "policyRule list \<Rightarrow> permission \<Rightarrow> bool" where
  "grants rules p = (case p of (grp, res, verb) \<Rightarrow>
     list_ex (\<lambda>r. grp \<in> set (rule_APIGroups r) \<and> res \<in> set (rule_Resources r) \<and> verb \<in> set (rule_Verbs r)) rules)"

definition permissionsOf :: "policyRule list \<Rightarrow> permission list" where
  "permissionsOf rules = concat (map (\<lambda>r. List.product (rule_APIGroups r) (List.product (rule_Resources r) (rule_Verbs r))) rules)"

lemma grants_iff: "grants rules p \<longleftrightarrow> p \<in> set (permissionsOf rules)"
  by (cases p) (auto simp: grants_def permissionsOf_def list_ex_iff)

abbreviation rule :: "string \<Rightarrow> string list \<Rightarrow> string list \<Rightarrow> policyRule" where
  "rule grp res verbs \<equiv> \<lparr>rule_APIGroups = [grp], rule_Resources = res, rule_Verbs = verbs\<rparr>"

section \<open>The markers and the deployed roles\<close>

definition clusterControllerMarkers :: "policyRule list" where
  "clusterControllerMarkers =
     [rule '''' [''pods/exec''] [''create''],
      rule '''' [''pods''] [''update'', ''get'', ''list'', ''watch''],
      rule '''' [''services''] [''get'', ''list'', ''watch'', ''create'', ''update''],
      rule ''apps'' [''statefulsets''] [''get'', ''list'', ''watch'', ''create'', ''update'', ''delete''],
      rule '''' [''configmaps''] [''get'', ''list'', ''watch'', ''create'', ''update''],
      rule '''' [''secrets''] [''get'', ''list'', ''watch'', ''create'', ''update''],
      rule ''rabbitmq.com'' [''rabbitmqclusters''] [''get'', ''list'', ''watch'', ''create'', ''update''],
      rule ''rabbitmq.com'' [''rabbitmqclusters/status''] [''get'', ''update''],
      rule ''rabbitmq.com'' [''rabbitmqclusters/finalizers''] [''update''],
      rule '''' [''events''] [''get'', ''create'', ''patch''],
      rule '''' [''serviceaccounts''] [''get'', ''list'', ''watch'', ''create'', ''update''],
      rule '''' [''persistentvolumeclaims''] [''get'', ''list'', ''watch'', ''create'', ''update''],
      rule ''rbac.authorization.k8s.io'' [''roles''] [''get'', ''list'', ''watch'', ''create'', ''update'', ''delete''],
      rule ''discovery.k8s.io'' [''endpointslices''] [''get'', ''list'', ''watch''],
      rule '''' [''endpoints''] [''get'', ''watch'', ''list''],
      rule ''rbac.authorization.k8s.io'' [''rolebindings''] [''get'', ''list'', ''watch'', ''create'', ''update'', ''delete'']]"

definition featureControllerMarkers :: "policyRule list" where
  "featureControllerMarkers =
     [rule ''rabbitmq.com'' [''rabbitmqclusters''] [''get'', ''list'', ''watch''],
      rule ''rabbitmq.com'' [''rabbitmqclusters/status''] [''get'', ''update'', ''patch'']]"

definition operatorRole :: "policyRule list" where
  "operatorRole =
     [rule '''' [''configmaps'', ''persistentvolumeclaims'', ''secrets'', ''serviceaccounts'', ''services'']
        [''create'', ''get'', ''list'', ''update'', ''watch''],
      rule '''' [''endpoints''] [''get'', ''list'', ''watch''],
      rule '''' [''events''] [''create'', ''get'', ''patch''],
      rule '''' [''pods''] [''get'', ''list'', ''update'', ''watch''],
      rule '''' [''pods/exec''] [''create''],
      rule ''apps'' [''statefulsets''] [''create'', ''delete'', ''get'', ''list'', ''update'', ''watch''],
      rule ''discovery.k8s.io'' [''endpointslices''] [''get'', ''list'', ''watch''],
      rule ''rabbitmq.com'' [''rabbitmqclusters''] [''create'', ''get'', ''list'', ''update'', ''watch''],
      rule ''rabbitmq.com'' [''rabbitmqclusters/finalizers''] [''update''],
      rule ''rabbitmq.com'' [''rabbitmqclusters/status''] [''get'', ''patch'', ''update''],
      rule ''rbac.authorization.k8s.io'' [''rolebindings'', ''roles''] [''create'', ''delete'', ''get'', ''list'', ''update'', ''watch'']]"

definition leaderElectionRole :: "policyRule list" where
  "leaderElectionRole =
     [rule '''' [''configmaps''] [''get'', ''list'', ''watch'', ''create'', ''update'', ''patch'', ''delete''],
      rule ''coordination.k8s.io'' [''leases''] [''get'', ''list'', ''watch'', ''create'', ''update'', ''patch'', ''delete''],
      rule '''' [''events''] [''create'', ''patch'']]"

section \<open>What a request needs\<close>

text \<open>
  The API group and resource of a type. Reads through the client of the manager are served from its
  cache, which lists and watches the type; reads through the API reader and the clientset only get.
  Writing a child whose owner reference blocks the deletion of the owner needs the right to update
  the finalizers of the owner.
\<close>

definition resources :: "(string \<times> string \<times> string) list" where
  "resources =
     [(''*v1.StatefulSet'', ''apps'', ''statefulsets''), (''*v1.Pod'', [], ''pods''), (''*v1.Service'', [], ''services''),
      (''*v1.ConfigMap'', [], ''configmaps''), (''*v1.Secret'', [], ''secrets''),
      (''*v1.ServiceAccount'', [], ''serviceaccounts''), (''*v1.EndpointSlice'', ''discovery.k8s.io'', ''endpointslices''),
      (''*v1.Role'', ''rbac.authorization.k8s.io'', ''roles''),
      (''*v1.RoleBinding'', ''rbac.authorization.k8s.io'', ''rolebindings''),
      (''*v1.PersistentVolumeClaim'', [], ''persistentvolumeclaims''),
      (''*v1beta1.RabbitmqCluster'', ''rabbitmq.com'', ''rabbitmqclusters'')]"

definition perms :: "string \<Rightarrow> string list \<Rightarrow> permission list" where
  "perms t verbs = (case map_of resources t of None \<Rightarrow> [] | Some (g, r) \<Rightarrow> map (\<lambda>v. (g, r, v)) verbs)"

definition cachedVerbs :: "string list" where
  "cachedVerbs = [''get'', ''list'', ''watch'']"

text \<open>The rules that a child hands on to those it is bound to.\<close>

definition handsOn :: "childObject \<Rightarrow> policyRule list" where
  "handsOn x = (case x of ChildRole r \<Rightarrow> role_Rules r | _ \<Rightarrow> [])"

fun needs :: "request \<Rightarrow> permission list" where
  "needs (GetCluster _ _) = perms ''*v1beta1.RabbitmqCluster'' cachedVerbs"
| "needs (UpdateCluster _) = perms ''*v1beta1.RabbitmqCluster'' [''update'']"
| "needs (PatchStatus _ _) = [(''rabbitmq.com'', ''rabbitmqclusters/status'', ''patch'')]"
| "needs (GetStatefulSet _ _) = perms ''*v1.StatefulSet'' cachedVerbs"
| "needs (UpdateStatefulSet _) = perms ''*v1.StatefulSet'' [''update'']"
| "needs (GetConfigMap _ _) = perms ''*v1.ConfigMap'' cachedVerbs"
| "needs (UpdateConfigMap _) = perms ''*v1.ConfigMap'' [''update'']"
| "needs (ReadSecret _ _) = perms ''*v1.Secret'' [''get'']"
| "needs (UpdateSecret _) = perms ''*v1.Secret'' [''update'']"
| "needs (ListEndpointSlices _ _) = perms ''*v1.EndpointSlice'' cachedVerbs"
| "needs (ListPods _ _) = perms ''*v1.Pod'' cachedVerbs"
| "needs (UpdatePod _) = perms ''*v1.Pod'' [''update'']"
| "needs (DeleteRole _ _) = perms ''*v1.Role'' [''delete'']"
| "needs (DeleteRoleBinding _ _) = perms ''*v1.RoleBinding'' [''delete'']"
| "needs (WriteChild y) = perms (objectType y) (cachedVerbs @ [''create'', ''update'']) @
     [(''rabbitmq.com'', ''rabbitmqclusters/finalizers'', ''update'')] @ permissionsOf (handsOn y)"
| "needs (RemoveFinalizer _ _) = perms ''*v1beta1.RabbitmqCluster'' (cachedVerbs @ [''update''])"
| "needs (RecordEvent _ _ _) = [([], ''events'', ''create''), ([], ''events'', ''patch'')]"
| "needs (Exec _ _ _ _) = [([], ''pods/exec'', ''create'')]"
| "needs (PodOverview _ _) = perms ''*v1.Secret'' [''get'']"
| "needs (PodQuorumCheck _ _) = perms ''*v1.Secret'' [''get'']"
| "needs (ServiceDeprecatedFeatures _ _) = perms ''*v1.Secret'' [''get''] @ perms ''*v1.Service'' [''get'']"
| "needs (ScalerGetStatefulSet _ _) = perms ''*v1.StatefulSet'' [''get'']"
| "needs (ScalerDeleteStatefulSet _ _) = perms ''*v1.StatefulSet'' [''delete'']"
| "needs (GetClaim _ _) = perms ''*v1.PersistentVolumeClaim'' [''get'']"
| "needs (UpdateClaim _) = perms ''*v1.PersistentVolumeClaim'' [''update'']"
| "needs ReadClock = []"
| "needs (Sleep _) = []"

definition permitted :: "policyRule list \<Rightarrow> request \<Rightarrow> bool" where
  "permitted rules q = list_all (grants rules) (needs q)"

section \<open>The deployed role suffices\<close>

lemma perms_simps:
  "perms ''*v1.StatefulSet'' vs = map (\<lambda>v. (''apps'', ''statefulsets'', v)) vs"
  "perms ''*v1.Pod'' vs = map (\<lambda>v. ([], ''pods'', v)) vs"
  "perms ''*v1.Service'' vs = map (\<lambda>v. ([], ''services'', v)) vs"
  "perms ''*v1.ConfigMap'' vs = map (\<lambda>v. ([], ''configmaps'', v)) vs"
  "perms ''*v1.Secret'' vs = map (\<lambda>v. ([], ''secrets'', v)) vs"
  "perms ''*v1.ServiceAccount'' vs = map (\<lambda>v. ([], ''serviceaccounts'', v)) vs"
  "perms ''*v1.EndpointSlice'' vs = map (\<lambda>v. (''discovery.k8s.io'', ''endpointslices'', v)) vs"
  "perms ''*v1.Role'' vs = map (\<lambda>v. (''rbac.authorization.k8s.io'', ''roles'', v)) vs"
  "perms ''*v1.RoleBinding'' vs = map (\<lambda>v. (''rbac.authorization.k8s.io'', ''rolebindings'', v)) vs"
  "perms ''*v1.PersistentVolumeClaim'' vs = map (\<lambda>v. ([], ''persistentvolumeclaims'', v)) vs"
  "perms ''*v1beta1.RabbitmqCluster'' vs = map (\<lambda>v. (''rabbitmq.com'', ''rabbitmqclusters'', v)) vs"
  by (simp_all add: perms_def resources_def)

lemma operatorRole_grants_peer_discovery: "list_all (grants operatorRole) (permissionsOf peerDiscoveryRules)"
  by (simp add: permissionsOf_def peerDiscoveryRules_def grants_def operatorRole_def)

text \<open>
  The children a reconciliation may write: a role hands on only what the operator has itself, and a
  binding refers to a role in the namespace, not to a cluster-wide one.
\<close>

definition modestChild :: "childObject \<Rightarrow> bool" where
  "modestChild y = (list_all (grants operatorRole) (permissionsOf (handsOn y)) \<and>
     (case y of ChildRoleBinding rb \<Rightarrow> fst (snd (rb_RoleRef rb)) = ''Role'' | _ \<Rightarrow> True))"

lemma permitted_child:
  assumes "modestChild y"
  shows "permitted operatorRole (WriteChild y)"
proof -
  have "list_all (grants operatorRole) (perms (objectType y) (cachedVerbs @ [''create'', ''update'']))"
    by (cases y) (simp_all add: perms_simps cachedVerbs_def grants_def operatorRole_def)
  moreover have "grants operatorRole (''rabbitmq.com'', ''rabbitmqclusters/finalizers'', ''update'')"
    by (simp add: grants_def operatorRole_def)
  ultimately show ?thesis using assms by (simp add: permitted_def modestChild_def)
qed

lemma permitted_request: "writesKeep (\<lambda>_ _. True) modestChild q \<Longrightarrow> permitted operatorRole q"
  by (cases q) (simp_all add: permitted_child, simp_all add: permitted_def perms_simps cachedVerbs_def grants_def operatorRole_def)

interpretation modest: write_policy_all "\<lambda>_ _. True" modestChild
proof unfold_locales
  show "modestChild (ChildRole role')" if "Role_Update rb role = Inr role'" for rb role role'
    using that operatorRole_grants_peer_discovery by (auto simp: Role_Update_def modestChild_def handsOn_def bindE_Inr_iff)
  show "modestChild (ChildRoleBinding binding')" if "RoleBinding_Update rb binding = Inr binding'" for rb binding binding'
    using that by (auto simp: RoleBinding_Update_def modestChild_def handsOn_def permissionsOf_def bindE_Inr_iff)
  show "modestChild y" if "\<And>x. y \<noteq> ChildRole x" "\<And>x. y \<noteq> ChildRoleBinding x" for y
    using that by (cases y) (auto simp: modestChild_def handsOn_def permissionsOf_def)
qed simp_all

lemma features_permitted: "emits (permitted operatorRole) (DeprecatedFeature_Reconcile D ns n)"
  unfolding DeprecatedFeature_Reconcile_def deprecatedFeaturesUsed_def patchStatus_def Let_def
  by (auto intro!: emits_rules permitted_request)

lemma emits_history:
  "emits P m \<Longrightarrow> list_all P (Hist (snd (run_state m (startState r))))"
  unfolding emits_def by (metis append_Nil recState.select_convs(1))

lemma cache_permitted: "list_all (\<lambda>(t, _). list_all (grants operatorRole) (perms t cachedVerbs)) cachedObjects"
  by (simp add: cachedObjects_def perms_simps cachedVerbs_def grants_def operatorRole_def)

text \<open>
  C7. The deployed role is enough: every request of a reconciliation and of the controller of deprecated
  features, whatever the server answers, is permitted by the cluster role of the operator, and so is
  what the cache of the manager does. In particular the role a reconciliation creates for a cluster
  hands on nothing the operator may not do itself, and its binding refers to a role of the namespace.
\<close>

theorem requests_permitted:
  assumes "retry_law A" and "cou_law A"
  shows "list_all (permitted operatorRole) (Hist (snd (run_state (Reconcile A R ns n) (startState r)))) \<and>
    list_all (writesKeep (\<lambda>_ _. True) modestChild) (Hist (snd (run_state (Reconcile A R ns n) (startState r)))) \<and>
    list_all (permitted operatorRole) (Hist (snd (run_state (DeprecatedFeature_Reconcile D ns n) (startState r)))) \<and>
    list_all (\<lambda>(t, _). list_all (grants operatorRole) (perms t cachedVerbs)) cachedObjects"
proof -
  have e: "emits (writesKeep (\<lambda>_ _. True) modestChild) (Reconcile A R ns n)" by (rule modest.status_Reconcile [OF assms])
  show ?thesis
    by (intro conjI emits_history [OF e] emits_history [OF features_permitted] cache_permitted)
      (rule emits_history, rule emits_mono [OF e], rule permitted_request)
qed

section \<open>Markers and deployed role agree\<close>


text \<open>
  The status is patched, which the markers of the cluster controller alone do not grant. With secure
  metrics the manager reviews tokens and accesses, which no deployed role grants.
\<close>

theorem forbidden_permissions:
  "\<not> permitted clusterControllerMarkers (PatchStatus base new) \<and>
   (FilterProvider (initialOptions f ns) \<longleftrightarrow> secureMetrics f) \<and>
   \<not> grants (operatorRole @ leaderElectionRole) (''authentication.k8s.io'', ''tokenreviews'', ''create'') \<and>
   \<not> grants (operatorRole @ leaderElectionRole) (''authorization.k8s.io'', ''subjectaccessreviews'', ''create'')"
  by (simp add: permitted_def grants_def clusterControllerMarkers_def operatorRole_def leaderElectionRole_def
      initialOptions_def Let_def)

section \<open>Example\<close>

theorem requests_permitted_witness:
  "list_all (permitted operatorRole) (Hist (snd (run_state (Reconcile (exampleApi (exampleServer 3)) exampleReconciler ''ns'' ''rmq'')
     (startState (exampleServer 3)))))"
proof -
  have "retry_law (exampleApi (exampleServer 3))" by (rule exampleApi_laws(1)) (simp add: exampleApi_def)
  moreover have "cou_law (exampleApi (exampleServer 3))" by (rule exampleApi_laws(2)) simp
  ultimately show ?thesis using requests_permitted by blast
qed

end
