(* ===== verification/Kubectl_Plugin.thy ===== *)
theory Kubectl_Plugin
  imports Controller Webhook Base64
begin

text \<open>
  \<open>kubectl-rabbitmq\<close>: the plugin for the command line. It builds a cluster from options and runs
  \<open>kubectl\<close>. What the runs of \<open>kubectl\<close> answer, the file system, the YAML encoder and the parser of
  quantities are parameters; an answer may depend on everything that was done before.
\<close>

section \<open>The outside world\<close>

text \<open>A value of \<open>map[string]interface{}\<close> as the jobs are written.\<close>

datatype yamlValue = YString string | YInt int | YList "yamlValue list" | YMap "(string \<times> yamlValue) list"

datatype action =
    Kubectl "string list" \<comment> \<open>streaming its output\<close>
  | KubectlOutput "string list"
  | Background "string list" \<comment> \<open>a goroutine that sleeps two seconds and runs \<open>kubectl\<close>, ignoring errors\<close>
  | CreateTemp string
  | WriteTemp string string
  | CloseTemp string
  | RemoveTemp string
  | Printf string

record pluginLib =
  p_ParseQuantity :: "string \<Rightarrow> goerror + quantity"
  p_ReadFile :: "string \<Rightarrow> goerror + string"
  p_Quote :: "string \<Rightarrow> string" \<comment> \<open>the verb \<open>%q\<close>\<close>
  p_MapOrder :: "(string \<rightharpoonup> string) \<Rightarrow> string list" \<comment> \<open>the order in which a run visits a map\<close>
  p_MarshalCluster :: "RabbitmqCluster \<Rightarrow> goerror + string"
  p_MarshalJob :: "yamlValue \<Rightarrow> goerror + string"
  p_GOOS :: string
  p_Run :: "action list \<Rightarrow> string list \<Rightarrow> goerror option"
  p_Output :: "action list \<Rightarrow> string list \<Rightarrow> goerror + string"
  p_CreateTemp :: "action list \<Rightarrow> string \<Rightarrow> goerror + string" \<comment> \<open>the name of the file\<close>
  p_WriteTemp :: "action list \<Rightarrow> string \<Rightarrow> string \<Rightarrow> goerror option"
  p_CloseTemp :: "action list \<Rightarrow> string \<Rightarrow> goerror option"

type_synonym 'a plugin = "(action list, 'a) effect"

definition act :: "action \<Rightarrow> (action list \<Rightarrow> goerror + 'a) \<Rightarrow> 'a plugin" where
  "act a answer = State (\<lambda>h. (answer h, h @ [a]))"

definition actO :: "action \<Rightarrow> (action list \<Rightarrow> goerror option) \<Rightarrow> unit plugin" where
  "actO a answer = act a (\<lambda>h. case answer h of None \<Rightarrow> Inr () | Some e \<Rightarrow> Inl e)"

lemma run_act [simp]: "run_state (act a f) h = (f h, h @ [a])"
  by (simp add: act_def)

lemma run_actO [simp]: "run_state (actO a f) h = (case f h of None \<Rightarrow> Inr () | Some e \<Rightarrow> Inl e, h @ [a])"
  by (simp add: actO_def)

text \<open>An error wrapped with a message, as \<open>fmt.Errorf("msg: %w", err)\<close>.\<close>

definition wrapping :: "string \<Rightarrow> ('s, 'a) effect \<Rightarrow> ('s, 'a) effect" where
  "wrapping msg m = bindS (tryS m) (\<lambda>r. case r of Inl err \<Rightarrow> throwS (WrapError msg err) | Inr x \<Rightarrow> returnS x)"

section \<open>\<open>kubectl.go\<close>\<close>

record kubectlExecutor =
  namespace :: string
  allNamespaces :: bool

definition newKubectlExecutor :: "string \<Rightarrow> bool \<Rightarrow> kubectlExecutor" where
  "newKubectlExecutor ns all = \<lparr>namespace = ns, allNamespaces = all\<rparr>"

definition buildArgs :: "kubectlExecutor \<Rightarrow> string list \<Rightarrow> string list" where
  "buildArgs k args =
     (case args of
        [] \<Rightarrow> []
      | a # rest \<Rightarrow>
          [a] @ (if allNamespaces k then [''--all-namespaces'']
                 else if namespace k \<noteq> [] then [''-n'', namespace k] else []) @ rest)"

definition Execute :: "pluginLib \<Rightarrow> kubectlExecutor \<Rightarrow> string list \<Rightarrow> unit plugin" where
  "Execute L k args = (let cmdArgs = buildArgs k args in actO (Kubectl cmdArgs) (\<lambda>h. p_Run L h cmdArgs))"

definition ExecuteWithOutput :: "pluginLib \<Rightarrow> kubectlExecutor \<Rightarrow> string list \<Rightarrow> string plugin" where
  "ExecuteWithOutput L k args = (let cmdArgs = buildArgs k args in act (KubectlOutput cmdArgs) (\<lambda>h. p_Output L h cmdArgs))"

section \<open>\<open>cluster.go\<close>\<close>

record clusterOptions =
  o_Replicas :: int
  o_Image :: string
  o_ImagePullSecrets :: "string list"
  o_ServiceType :: string
  o_ServiceAnnotations :: "string gomap"
  o_StorageClassName :: string
  o_StorageSize :: string
  o_UnlimitedResources :: bool
  o_MemoryLimit :: string
  o_MemoryRequest :: string
  o_CPULimit :: string
  o_CPURequest :: string
  o_TLSSecretName :: string
  o_TLSCASecretName :: string
  o_DisableNonTLSListeners :: bool
  o_AdditionalPlugins :: "string list"
  o_EnvConfig :: "string gomap"
  o_AdditionalConfigFile :: string
  o_AdvancedConfigFile :: string
  o_TerminationGracePeriodSeconds :: int
  o_DelayStartSeconds :: int
  o_SkipPostDeploySteps :: bool
  o_AutoEnableAllFeatureFlags :: bool
  o_RabbitmqVersion :: string

text \<open>\<open>len(m) > 0\<close>.\<close>

definition hasEntries :: "'v gomap \<Rightarrow> bool" where
  "hasEntries m = (case m of None \<Rightarrow> False | Some f \<Rightarrow> f \<noteq> Map.empty)"

definition basicConfiguration :: "clusterOptions \<Rightarrow> RabbitmqCluster \<Rightarrow> RabbitmqCluster" where
  "basicConfiguration opts c =
     (let s = Spec c;
          s1 = (if o_Replicas opts > 0 then s\<lparr>Replicas := Some (o_Replicas opts)\<rparr> else s);
          s2 = (if o_Image opts \<noteq> [] then s1\<lparr>Image := o_Image opts\<rparr> else s1);
          m = (if o_RabbitmqVersion opts \<noteq> []
               then (Meta c)\<lparr>Annotations := Some ((case Annotations (Meta c) of None \<Rightarrow> Map.empty | Some a \<Rightarrow> a)
                      (RabbitmqVersionAnnotation \<mapsto> o_RabbitmqVersion opts))\<rparr>
               else Meta c);
          s3 = (if o_RabbitmqVersion opts \<noteq> [] \<and> o_Image opts = []
                then s2\<lparr>Image := ''rabbitmq:'' @ o_RabbitmqVersion opts @ ''-management''\<rparr> else s2);
          s4 = (if o_ImagePullSecrets opts \<noteq> []
                then s3\<lparr>ImagePullSecrets := Some (ptr_Deref (ImagePullSecrets s3) [] @ o_ImagePullSecrets opts)\<rparr> else s3)
      in c\<lparr>Meta := m, Spec := s4\<rparr>)"

definition serviceConfiguration :: "clusterOptions \<Rightarrow> RabbitmqClusterSpec \<Rightarrow> RabbitmqClusterSpec" where
  "serviceConfiguration opts s =
     (let v = ServiceSpec s;
          v1 = (if o_ServiceType opts \<noteq> [] then v\<lparr>ss_Type := o_ServiceType opts\<rparr> else v);
          v2 = (if hasEntries (o_ServiceAnnotations opts) then v1\<lparr>ss_Annotations := o_ServiceAnnotations opts\<rparr> else v1)
      in s\<lparr>ServiceSpec := v2\<rparr>)"

text \<open>\<open>resource.ParseQuantity\<close> on an option, with the message of the error.\<close>

definition parseOption :: "pluginLib \<Rightarrow> string \<Rightarrow> string \<Rightarrow> goerror + quantity" where
  "parseOption L what value =
     (case p_ParseQuantity L value of
        Inl err \<Rightarrow> Inl (WrapError (''invalid '' @ what @ '' '' @ p_Quote L value) err)
      | Inr q \<Rightarrow> Inr q)"

definition persistenceConfiguration :: "pluginLib \<Rightarrow> clusterOptions \<Rightarrow> RabbitmqClusterSpec \<Rightarrow> goerror + RabbitmqClusterSpec" where
  "persistenceConfiguration L opts s =
     (let p = (if o_StorageClassName opts \<noteq> []
               then (Persistence s)\<lparr>StorageClassName := Some (o_StorageClassName opts)\<rparr> else Persistence s)
      in if o_StorageSize opts \<noteq> []
         then bindE (parseOption L ''storage size'' (o_StorageSize opts)) (\<lambda>size.
              Inr (s\<lparr>Persistence := p\<lparr>Storage := Some size\<rparr>\<rparr>))
         else Inr (s\<lparr>Persistence := p\<rparr>))"

text \<open>One of the four resource options: the entries so far, extended if the option is given.\<close>

definition resourceOption ::
  "pluginLib \<Rightarrow> string \<Rightarrow> string \<Rightarrow> string \<Rightarrow> (string \<rightharpoonup> quantity) \<Rightarrow> goerror + (string \<rightharpoonup> quantity)" where
  "resourceOption L what value key m =
     (if value \<noteq> [] then bindE (parseOption L what value) (\<lambda>q. Inr (m(key \<mapsto> q))) else Inr m)"

definition resourcesConfiguration :: "pluginLib \<Rightarrow> clusterOptions \<Rightarrow> RabbitmqClusterSpec \<Rightarrow> goerror + RabbitmqClusterSpec" where
  "resourcesConfiguration L opts s =
     (if o_UnlimitedResources opts
      then Inr (s\<lparr>Resources := Some \<lparr>Limits = Some Map.empty, Requests = Some Map.empty\<rparr>\<rparr>)
      else
        bindE (resourceOption L ''memory request'' (o_MemoryRequest opts) ''memory'' Map.empty) (\<lambda>req1.
        bindE (resourceOption L ''cpu request'' (o_CPURequest opts) ''cpu'' req1) (\<lambda>req.
        bindE (resourceOption L ''memory limit'' (o_MemoryLimit opts) ''memory'' Map.empty) (\<lambda>lim1.
        bindE (resourceOption L ''cpu limit'' (o_CPULimit opts) ''cpu'' lim1) (\<lambda>lim.
        let hasResources = (o_MemoryRequest opts \<noteq> [] \<or> o_CPURequest opts \<noteq> [] \<or> o_MemoryLimit opts \<noteq> [] \<or> o_CPULimit opts \<noteq> [])
        in Inr (if hasResources then s\<lparr>Resources := Some \<lparr>Limits = Some lim, Requests = Some req\<rparr>\<rparr> else s))))))"

definition tlsConfiguration :: "clusterOptions \<Rightarrow> RabbitmqClusterSpec \<Rightarrow> RabbitmqClusterSpec" where
  "tlsConfiguration opts s =
     (let t = TLS s;
          t1 = (if o_TLSSecretName opts \<noteq> [] then t\<lparr>SecretName := o_TLSSecretName opts\<rparr> else t);
          t2 = (if o_TLSCASecretName opts \<noteq> [] then t1\<lparr>CaSecretName := o_TLSCASecretName opts\<rparr> else t1);
          t3 = (if o_DisableNonTLSListeners opts then t2\<lparr>DisableNonTLS := True\<rparr> else t2)
      in s\<lparr>TLS := t3\<rparr>)"

text \<open>The loop of \<open>joinSorted\<close>: it writes the lines in the order given.\<close>

fun joinLoop :: "nat \<Rightarrow> string \<Rightarrow> string list \<Rightarrow> string" where
  "joinLoop i res [] = res"
| "joinLoop i res (line # lines) = joinLoop (i + 1) ((if i > 0 then res @ [CHR 0x0A] else res) @ line) lines"

definition joinSorted :: "string list \<Rightarrow> string" where
  "joinSorted lines = joinLoop 0 [] lines"

definition envLines :: "pluginLib \<Rightarrow> string gomap \<Rightarrow> string list" where
  "envLines L m = map (\<lambda>key. key @ ''='' @ mval m key) (p_MapOrder L (ptr_Deref m Map.empty))"

definition readConfigFile :: "pluginLib \<Rightarrow> string \<Rightarrow> string \<Rightarrow> goerror + string" where
  "readConfigFile L what file =
     (case p_ReadFile L file of
        Inl err \<Rightarrow> Inl (WrapError (''failed to read '' @ what @ '' config file '' @ p_Quote L file) err)
      | Inr content \<Rightarrow> Inr content)"

definition rabbitmqConfiguration :: "pluginLib \<Rightarrow> clusterOptions \<Rightarrow> RabbitmqClusterSpec \<Rightarrow> goerror + RabbitmqClusterSpec" where
  "rabbitmqConfiguration L opts s =
     (let q = Rabbitmq s;
          q1 = q\<lparr>AdditionalPlugins := AdditionalPlugins q @ o_AdditionalPlugins opts\<rparr>;
          q2 = (if hasEntries (o_EnvConfig opts) then q1\<lparr>EnvConfig := joinSorted (envLines L (o_EnvConfig opts))\<rparr> else q1)
      in bindE (if o_AdditionalConfigFile opts \<noteq> []
                then bindE (readConfigFile L ''additional'' (o_AdditionalConfigFile opts)) (\<lambda>x. Inr (q2\<lparr>AdditionalConfig := x\<rparr>))
                else Inr q2) (\<lambda>q3.
         bindE (if o_AdvancedConfigFile opts \<noteq> []
                then bindE (readConfigFile L ''advanced'' (o_AdvancedConfigFile opts)) (\<lambda>x. Inr (q3\<lparr>AdvancedConfig := x\<rparr>))
                else Inr q3) (\<lambda>q4. Inr (s\<lparr>Rabbitmq := q4\<rparr>))))"

definition otherConfiguration :: "clusterOptions \<Rightarrow> RabbitmqClusterSpec \<Rightarrow> RabbitmqClusterSpec" where
  "otherConfiguration opts s =
     (let s1 = (if o_TerminationGracePeriodSeconds opts > 0
                then s\<lparr>TerminationGracePeriodSeconds := Some (o_TerminationGracePeriodSeconds opts)\<rparr> else s);
          s2 = (if o_DelayStartSeconds opts > 0 then s1\<lparr>DelayStartSeconds := Some (o_DelayStartSeconds opts)\<rparr> else s1);
          s3 = (if o_SkipPostDeploySteps opts then s2\<lparr>SkipPostDeploySteps := True\<rparr> else s2)
      in if o_AutoEnableAllFeatureFlags opts then s3\<lparr>AutoEnableAllFeatureFlags := True\<rparr> else s3)"

definition buildRabbitmqCluster :: "pluginLib \<Rightarrow> string \<Rightarrow> clusterOptions \<Rightarrow> goerror + RabbitmqCluster" where
  "buildRabbitmqCluster L name opts =
     (let cluster = basicConfiguration opts (emptyCluster\<lparr>Meta := namedMeta name [], Spec := emptyClusterSpec\<rparr>)
      in bindE (persistenceConfiguration L opts (serviceConfiguration opts (Spec cluster))) (\<lambda>s1.
         bindE (resourcesConfiguration L opts s1) (\<lambda>s2.
         bindE (rabbitmqConfiguration L opts (tlsConfiguration opts s2)) (\<lambda>s3.
         Inr (cluster\<lparr>Spec := otherConfiguration opts s3\<rparr>)))))"

text \<open>
  Writing a marshalled object to a temporary file and applying it. The deferred removal runs on every
  return after the file was created.
\<close>

definition writeAndApply :: "pluginLib \<Rightarrow> kubectlExecutor \<Rightarrow> string \<Rightarrow> string \<Rightarrow> unit plugin" where
  "writeAndApply L k file yamlData =
     bindS (tryS (actO (WriteTemp file yamlData) (\<lambda>h. p_WriteTemp L h file yamlData))) (\<lambda>written.
     case written of
       Inl err \<Rightarrow>
         bindS (tryS (actO (CloseTemp file) (\<lambda>h. p_CloseTemp L h file))) (\<lambda>_.
         throwS (WrapError ''failed to write yaml to temp file'' err))
     | Inr _ \<Rightarrow>
         bindS (wrapping ''failed to close temp file'' (actO (CloseTemp file) (\<lambda>h. p_CloseTemp L h file))) (\<lambda>_.
         Execute L k [''apply'', ''-f'', file]))"

definition applyFile :: "pluginLib \<Rightarrow> kubectlExecutor \<Rightarrow> string \<Rightarrow> string \<Rightarrow> goerror + string \<Rightarrow> unit plugin" where
  "applyFile L k what pattern marshalled =
     bindS (wrapping (''failed to marshal '' @ what @ '' yaml'') (liftS marshalled)) (\<lambda>yamlData.
     bindS (wrapping ''failed to create temp file'' (act (CreateTemp pattern) (\<lambda>h. p_CreateTemp L h pattern))) (\<lambda>file.
     bindS (tryS (writeAndApply L k file yamlData)) (\<lambda>res.
     bindS (act (RemoveTemp file) (\<lambda>h. Inr ())) (\<lambda>_. liftS res))))"

definition applyCluster :: "pluginLib \<Rightarrow> kubectlExecutor \<Rightarrow> RabbitmqCluster \<Rightarrow> unit plugin" where
  "applyCluster L k cluster = applyFile L k ''cluster'' ''rabbitmq-cluster-*.yaml'' (p_MarshalCluster L cluster)"

section \<open>\<open>credentials.go\<close>\<close>

record credentials =
  cr_Username :: string
  cr_Password :: string

text \<open>\<open>base64.StdEncoding.DecodeString\<close>; the text of its error is not modelled.\<close>

definition decodeBase64 :: "string \<Rightarrow> goerror + string" where
  "decodeBase64 s = (case DecodeString s of None \<Rightarrow> Inl (PlainError ''illegal base64 data'') | Some x \<Rightarrow> Inr x)"

definition secretField :: "pluginLib \<Rightarrow> kubectlExecutor \<Rightarrow> string \<Rightarrow> string \<Rightarrow> string plugin" where
  "secretField L k secretName field =
     bindS (wrapping (''failed to get '' @ field @ '' from secret'')
       (ExecuteWithOutput L k [''get'', ''secret'', secretName, ''-o'', ''jsonpath={.data.'' @ field @ ''}''])) (\<lambda>b64.
     wrapping (''failed to decode '' @ field) (liftS (decodeBase64 b64)))"

definition getInstanceCredentials :: "pluginLib \<Rightarrow> kubectlExecutor \<Rightarrow> string \<Rightarrow> credentials plugin" where
  "getInstanceCredentials L k instanceName =
     (let secretName = instanceName @ ''-default-user''
      in bindS (secretField L k secretName ''username'') (\<lambda>username.
         bindS (secretField L k secretName ''password'') (\<lambda>password.
         returnS \<lparr>cr_Username = username, cr_Password = password\<rparr>)))"

section \<open>\<open>jobs.go\<close>\<close>

definition applyJobYAML :: "pluginLib \<Rightarrow> kubectlExecutor \<Rightarrow> yamlValue \<Rightarrow> unit plugin" where
  "applyJobYAML L k job = applyFile L k ''job'' ''perf-test-job-*.yaml'' (p_MarshalJob L job)"

text \<open>The parts that the two jobs share: a job of one container, by the name of the job.\<close>

definition jobOf :: "string \<Rightarrow> (string \<times> yamlValue) list \<Rightarrow> yamlValue" where
  "jobOf name container =
     (let labels = YMap [(''app'', YString name)]
      in YMap
        [(''apiVersion'', YString ''batch/v1''), (''kind'', YString ''Job''),
         (''metadata'', YMap [(''name'', YString name), (''labels'', labels)]),
         (''spec'', YMap
           [(''completions'', YInt 1), (''ttlSecondsAfterFinished'', YInt 300),
            (''template'', YMap
              [(''metadata'', YMap [(''labels'', labels)]),
               (''spec'', YMap
                 [(''restartPolicy'', YString ''Never''), (''containers'', YList [YMap container])])])])])"

definition perfTestArgs :: "string \<Rightarrow> credentials \<Rightarrow> string list \<Rightarrow> string list" where
  "perfTestArgs inst creds args =
     [''--uri'', ''amqp://'' @ cr_Username creds @ '':'' @ cr_Password creds @ ''@'' @ inst, ''--metrics-prometheus''] @ args"

definition createPerfTestJob :: "pluginLib \<Rightarrow> kubectlExecutor \<Rightarrow> string \<Rightarrow> credentials \<Rightarrow> string list \<Rightarrow> unit plugin" where
  "createPerfTestJob L k inst creds args =
     applyJobYAML L k (jobOf ''perf-test''
       [(''name'', YString ''rabbitmq-perf-test''), (''image'', YString ''pivotalrabbitmq/perf-test''),
        (''ports'', YList [YMap [(''name'', YString ''prometheus''), (''containerPort'', YInt 8080)]]),
        (''args'', YList (map YString (perfTestArgs inst creds args)))])"

definition streamPerfTestArgs :: "string \<Rightarrow> credentials \<Rightarrow> string list \<Rightarrow> string list" where
  "streamPerfTestArgs inst creds args =
     [''--uris'', ''rabbitmq-stream://'' @ cr_Username creds @ '':'' @ cr_Password creds @ ''@'' @ inst] @ args"

definition createStreamPerfTestJob :: "pluginLib \<Rightarrow> kubectlExecutor \<Rightarrow> string \<Rightarrow> credentials \<Rightarrow> string list \<Rightarrow> unit plugin" where
  "createStreamPerfTestJob L k inst creds args =
     applyJobYAML L k (jobOf ''stream-perf-test''
       [(''name'', YString ''rabbitmq-stream-perf-test''), (''image'', YString ''pivotalrabbitmq/stream-perf-test''),
        (''args'', YList (map YString (streamPerfTestArgs inst creds args)))])"

section \<open>\<open>commands.go\<close>\<close>

text \<open>The functions \<open>RunE\<close> of the commands, on the executor and the arguments they read.\<close>

definition printf :: "string \<Rightarrow> unit plugin" where
  "printf text = act (Printf text) (\<lambda>h. Inr ())"

definition installClusterOperatorCmd :: "pluginLib \<Rightarrow> kubectlExecutor \<Rightarrow> unit plugin" where
  "installClusterOperatorCmd L k =
     Execute L k [''apply'', ''-f'', ''https://github.com/rabbitmq/cluster-operator/releases/latest/download/cluster-operator-ghcr-io.yml'']"

definition listCmd :: "pluginLib \<Rightarrow> kubectlExecutor \<Rightarrow> unit plugin" where
  "listCmd L k = Execute L k [''get'', ''rabbitmqclusters'', ''--sort-by={.metadata.name}'']"

definition createCmd :: "pluginLib \<Rightarrow> kubectlExecutor \<Rightarrow> clusterOptions \<Rightarrow> string \<Rightarrow> unit plugin" where
  "createCmd L k opts instanceName =
     bindS (wrapping ''failed to build cluster'' (liftS (buildRabbitmqCluster L instanceName opts))) (applyCluster L k)"

text \<open>The values the flags of \<open>create\<close> have when they are not given.\<close>

definition defaultOptions :: clusterOptions where
  "defaultOptions = \<lparr>o_Replicas = 1, o_Image = [], o_ImagePullSecrets = [], o_ServiceType = ''ClusterIP'',
     o_ServiceAnnotations = Some Map.empty, o_StorageClassName = [], o_StorageSize = ''10Gi'',
     o_UnlimitedResources = False, o_MemoryLimit = [], o_MemoryRequest = [], o_CPULimit = [], o_CPURequest = [],
     o_TLSSecretName = [], o_TLSCASecretName = [], o_DisableNonTLSListeners = False, o_AdditionalPlugins = [],
     o_EnvConfig = Some Map.empty, o_AdditionalConfigFile = [], o_AdvancedConfigFile = [],
     o_TerminationGracePeriodSeconds = 0, o_DelayStartSeconds = 0, o_SkipPostDeploySteps = False,
     o_AutoEnableAllFeatureFlags = False, o_RabbitmqVersion = []\<rparr>"

definition deleteCmd :: "pluginLib \<Rightarrow> kubectlExecutor \<Rightarrow> string list \<Rightarrow> unit plugin" where
  "deleteCmd L k args = forS (\<lambda>cluster. Execute L k [''delete'', ''rabbitmqcluster'', cluster]) args"

definition getCmd :: "pluginLib \<Rightarrow> kubectlExecutor \<Rightarrow> string \<Rightarrow> unit plugin" where
  "getCmd L k inst =
     Execute L k [''get'', ''pods,cm,sts,svc,secrets,rs'', ''-l'', ''app.kubernetes.io/name='' @ inst]"

definition debugCmd :: "pluginLib \<Rightarrow> kubectlExecutor \<Rightarrow> string \<Rightarrow> unit plugin" where
  "debugCmd L k inst =
     bindS (ExecuteWithOutput L k [''get'', ''pods'', ''-l'', ''app.kubernetes.io/name='' @ inst, ''-o'',
       ''custom-columns=name:.metadata.name'', ''--no-headers'']) (\<lambda>output.
     forS (\<lambda>pod.
       if pod = [] then returnS ()
       else
         bindS (printf (pod @ '': '')) (\<lambda>_.
         Execute L k [''exec'', pod, ''-c'', ''rabbitmq'', ''--'', ''rabbitmqctl'', ''set_log_level'', ''debug'']))
       (Split1 (TrimSpace output) (CHR 0x0A)))"

definition tailCmd :: "pluginLib \<Rightarrow> kubectlExecutor \<Rightarrow> string \<Rightarrow> unit plugin" where
  "tailCmd L k inst = Execute L k [''tail'', ''--svc'', inst]"

definition observeCmd :: "pluginLib \<Rightarrow> kubectlExecutor \<Rightarrow> string \<Rightarrow> string \<Rightarrow> unit plugin" where
  "observeCmd L k inst node =
     (let podName = inst @ ''-server-'' @ node
      in Execute L k [''exec'', ''-it'', podName, ''-c'', ''rabbitmq'', ''--'', ''rabbitmq-diagnostics'', ''observer''])"

definition secretsCmd :: "pluginLib \<Rightarrow> kubectlExecutor \<Rightarrow> string \<Rightarrow> unit plugin" where
  "secretsCmd L k inst =
     bindS (getInstanceCredentials L k inst) (\<lambda>creds.
     bindS (printf (''username: '' @ cr_Username creds @ [CHR 0x0A])) (\<lambda>_.
     printf (''password: '' @ cr_Password creds @ [CHR 0x0A])))"

definition enableAllFeatureFlagsCmd :: "pluginLib \<Rightarrow> kubectlExecutor \<Rightarrow> string \<Rightarrow> unit plugin" where
  "enableAllFeatureFlagsCmd L k inst =
     (let podName = inst @ ''-server-0''
      in Execute L k [''exec'', podName, ''-c'', ''rabbitmq'', ''--'', ''rabbitmqctl'', ''enable_feature_flag'', ''all''])"

definition pauseReconciliationCmd :: "pluginLib \<Rightarrow> kubectlExecutor \<Rightarrow> string \<Rightarrow> unit plugin" where
  "pauseReconciliationCmd L k inst =
     Execute L k [''label'', ''rabbitmqclusters'', inst, ''rabbitmq.com/pauseReconciliation=true'']"

definition resumeReconciliationCmd :: "pluginLib \<Rightarrow> kubectlExecutor \<Rightarrow> string \<Rightarrow> unit plugin" where
  "resumeReconciliationCmd L k inst =
     Execute L k [''label'', ''rabbitmqclusters'', inst, ''rabbitmq.com/pauseReconciliation-'']"

definition listPauseReconciliationInstancesCmd :: "pluginLib \<Rightarrow> kubectlExecutor \<Rightarrow> unit plugin" where
  "listPauseReconciliationInstancesCmd L k =
     Execute L k [''get'', ''rabbitmqclusters'', ''-l'', ''rabbitmq.com/pauseReconciliation=true'', ''--show-labels'']"

text \<open>The address of the management UI, by whether the service has a TLS port for it.\<close>

definition managementTarget :: "string \<Rightarrow> string \<times> string" where
  "managementTarget output =
     (if length output > 0 then (''15671'', ''https://localhost:15671/'') else (''15672'', ''http://localhost:15672/''))"

definition openCmd :: "string \<Rightarrow> string" where
  "openCmd goos = (if goos = ''darwin'' then ''open'' else if goos = ''linux'' then ''xdg-open'' else [])"

definition manageCmd :: "pluginLib \<Rightarrow> kubectlExecutor \<Rightarrow> string \<Rightarrow> unit plugin" where
  "manageCmd L k serviceName =
     bindS (ExecuteWithOutput L k [''get'', ''service'', serviceName, ''-o'',
       ''jsonpath={.spec.ports[?(@.name=='' @ dquote @ ''management-tls'' @ dquote @ '')]}'']) (\<lambda>output.
     let (mgmtPort, mgmtURL) = managementTarget output; cmd = openCmd (p_GOOS L)
     in bindS (if cmd = [] then printf (''Please open your browser to '' @ mgmtURL @ [CHR 0x0A])
               else act (Background (buildArgs k [cmd, mgmtURL])) (\<lambda>h. Inr ())) (\<lambda>_.
        Execute L k [''port-forward'', ''service/'' @ serviceName, mgmtPort]))"

definition perfTestCmd :: "pluginLib \<Rightarrow> kubectlExecutor \<Rightarrow> string \<Rightarrow> string list \<Rightarrow> unit plugin" where
  "perfTestCmd L k inst args =
     bindS (getInstanceCredentials L k inst) (\<lambda>creds. createPerfTestJob L k inst creds args)"

definition streamPerfTestCmd :: "pluginLib \<Rightarrow> kubectlExecutor \<Rightarrow> string \<Rightarrow> string list \<Rightarrow> unit plugin" where
  "streamPerfTestCmd L k inst args =
     bindS (getInstanceCredentials L k inst) (\<lambda>creds. createStreamPerfTestJob L k inst creds args)"

definition versionCmd :: "string \<Rightarrow> unit plugin" where
  "versionCmd version = printf (''kubectl-rabbitmq '' @ version @ [CHR 0x0A])"

section \<open>\<open>main.go\<close>\<close>

text \<open>The subcommands with the rules of package cobra for the number of their arguments.\<close>

datatype subcommand =
    InstallClusterOperator | ListClusters | Create | Delete | Get | Debug | Tail | Observe | ShowSecrets
  | EnableAllFeatureFlags | PauseReconciliation | ResumeReconciliation | ListPauseReconciliationInstances
  | Manage | PerfTest | StreamPerfTest | Version

datatype argsRule = NoArgs | ExactArgs nat | MinimumNArgs nat

fun acceptsArgs :: "argsRule \<Rightarrow> string list \<Rightarrow> bool" where
  "acceptsArgs NoArgs args = (args = [])"
| "acceptsArgs (ExactArgs n) args = (length args = n)"
| "acceptsArgs (MinimumNArgs n) args = (n \<le> length args)"

fun argsOf :: "subcommand \<Rightarrow> argsRule" where
  "argsOf InstallClusterOperator = NoArgs"
| "argsOf ListClusters = NoArgs"
| "argsOf ListPauseReconciliationInstances = NoArgs"
| "argsOf Version = NoArgs"
| "argsOf Observe = ExactArgs 2"
| "argsOf Delete = MinimumNArgs 1"
| "argsOf PerfTest = MinimumNArgs 1"
| "argsOf StreamPerfTest = MinimumNArgs 1"
| "argsOf c = ExactArgs 1"

text \<open>Reading \<open>args[i]\<close>, which panics out of range.\<close>

definition withArg :: "string list \<Rightarrow> nat \<Rightarrow> (string \<Rightarrow> 'a plugin) \<Rightarrow> 'a plugin" where
  "withArg args i f = (if i < length args then f (args ! i) else throwS (Panic ''index out of range''))"

definition pluginVersion :: string where
  "pluginVersion = ''dev''"

fun RunE :: "pluginLib \<Rightarrow> kubectlExecutor \<Rightarrow> clusterOptions \<Rightarrow> subcommand \<Rightarrow> string list \<Rightarrow> unit plugin" where
  "RunE L k opts InstallClusterOperator args = installClusterOperatorCmd L k"
| "RunE L k opts ListClusters args = listCmd L k"
| "RunE L k opts Create args = withArg args 0 (createCmd L k opts)"
| "RunE L k opts Delete args = deleteCmd L k args"
| "RunE L k opts Get args = withArg args 0 (getCmd L k)"
| "RunE L k opts Debug args = withArg args 0 (debugCmd L k)"
| "RunE L k opts Tail args = withArg args 0 (tailCmd L k)"
| "RunE L k opts Observe args = withArg args 0 (\<lambda>inst. withArg args 1 (observeCmd L k inst))"
| "RunE L k opts ShowSecrets args = withArg args 0 (secretsCmd L k)"
| "RunE L k opts EnableAllFeatureFlags args = withArg args 0 (enableAllFeatureFlagsCmd L k)"
| "RunE L k opts PauseReconciliation args = withArg args 0 (pauseReconciliationCmd L k)"
| "RunE L k opts ResumeReconciliation args = withArg args 0 (resumeReconciliationCmd L k)"
| "RunE L k opts ListPauseReconciliationInstances args = listPauseReconciliationInstancesCmd L k"
| "RunE L k opts Manage args = withArg args 0 (manageCmd L k)"
| "RunE L k opts PerfTest args = withArg args 0 (\<lambda>inst. perfTestCmd L k inst (tl args))"
| "RunE L k opts StreamPerfTest args = withArg args 0 (\<lambda>inst. streamPerfTestCmd L k inst (tl args))"
| "RunE L k opts Version args = versionCmd pluginVersion"

definition runPlugin ::
  "pluginLib \<Rightarrow> string \<Rightarrow> bool \<Rightarrow> clusterOptions \<Rightarrow> subcommand \<Rightarrow> string list \<Rightarrow> unit plugin" where
  "runPlugin L ns all opts c args =
     (if acceptsArgs (argsOf c) args then RunE L (newKubectlExecutor ns all) opts c args
      else throwS (PlainError ''wrong number of arguments''))"

end
