(* ===== verification/Plugin_Properties.thy ===== *)
theory Plugin_Properties
  imports Kubectl_Plugin
begin

text \<open>
  Properties of the command-line plugin: what the commands may do, how the built cluster relates to the
  options, and that the names it uses are those of the operator.
\<close>

section \<open>What commands may do\<close>

text \<open>The libraries and the child processes report errors; they do not panic.\<close>

definition plugin_law :: "pluginLib \<Rightarrow> bool" where
  "plugin_law L \<longleftrightarrow>
     (\<forall>v e. p_ParseQuantity L v = Inl e \<longrightarrow> \<not> isPanic e) \<and> (\<forall>f e. p_ReadFile L f = Inl e \<longrightarrow> \<not> isPanic e) \<and>
     (\<forall>c e. p_MarshalCluster L c = Inl e \<longrightarrow> \<not> isPanic e) \<and> (\<forall>j e. p_MarshalJob L j = Inl e \<longrightarrow> \<not> isPanic e) \<and>
     (\<forall>h a e. p_Run L h a = Some e \<longrightarrow> \<not> isPanic e) \<and> (\<forall>h a e. p_Output L h a = Inl e \<longrightarrow> \<not> isPanic e) \<and>
     (\<forall>h p e. p_CreateTemp L h p = Inl e \<longrightarrow> \<not> isPanic e) \<and>
     (\<forall>h f t e. p_WriteTemp L h f t = Some e \<longrightarrow> \<not> isPanic e) \<and> (\<forall>h f e. p_CloseTemp L h f = Some e \<longrightarrow> \<not> isPanic e)"

text \<open>Every run of \<open>kubectl\<close> has the chosen namespace right behind its subcommand.\<close>

definition namespaceFlags :: "string \<Rightarrow> bool \<Rightarrow> string list" where
  "namespaceFlags ns all = (if all then [''--all-namespaces''] else if ns \<noteq> [] then [''-n'', ns] else [])"

fun scoped :: "string list \<Rightarrow> action \<Rightarrow> bool" where
  "scoped flags (Kubectl args) = (\<exists>sub rest. args = sub # flags @ rest)"
| "scoped flags (KubectlOutput args) = (\<exists>sub rest. args = sub # flags @ rest)"
| "scoped flags (Background args) = (\<exists>sub rest. args = sub # flags @ rest)"
| "scoped flags a = True"

text \<open>A computation that only does what \<open>P\<close> allows.\<close>

named_theorems does_rules

definition does :: "(action \<Rightarrow> bool) \<Rightarrow> 'a plugin \<Rightarrow> bool" where
  "does P m \<longleftrightarrow> (\<forall>h. \<exists>new. snd (run_state m h) = h @ new \<and> list_all P new)"

lemma does_simple [does_rules]:
  "does P (returnS x)" "does P (throwS e)" "does P (liftS r)" "P a \<Longrightarrow> does P (act a f)" "P a \<Longrightarrow> does P (actO a g)"
  by (simp_all add: does_def)

lemma does_bindS [does_rules]:
  assumes "does P m" and "\<And>x. does P (f x)"
  shows "does P (bindS m f)"
  unfolding does_def
proof
  fix h
  obtain r h1 where r: "run_state m h = (r, h1)" by (metis surj_pair)
  obtain n1 where n1: "h1 = h @ n1" "list_all P n1" using assms(1) r unfolding does_def by (metis snd_conv)
  show "\<exists>new. snd (run_state (bindS m f) h) = h @ new \<and> list_all P new"
  proof (cases r)
    case (Inl e)
    then show ?thesis using r n1 by auto
  next
    case (Inr x)
    obtain n2 where "snd (run_state (f x) h1) = h1 @ n2" "list_all P n2" using assms(2) unfolding does_def by blast
    then show ?thesis using r Inr n1 by (intro exI [of _ "n1 @ n2"]) simp
  qed
qed

lemma does_tryS [does_rules]: "does P m \<Longrightarrow> does P (tryS m)"
  unfolding does_def by (auto split: prod.splits sum.splits) (metis snd_conv)+

lemma does_cases [does_rules]:
  "(c \<Longrightarrow> does P m1) \<Longrightarrow> (\<not> c \<Longrightarrow> does P m2) \<Longrightarrow> does P (if c then m1 else m2)"
  "(\<And>x. does P (k1 x)) \<Longrightarrow> (\<And>x. does P (k2 x)) \<Longrightarrow> does P (case u of Inl x \<Rightarrow> k1 x | Inr x \<Rightarrow> k2 x)"
  by (auto split: sum.splits)

lemma does_forS [does_rules]: "(\<And>x. does P (f x)) \<Longrightarrow> does P (forS f xs)"
  by (induction xs) (auto intro!: does_rules)

lemma does_wrapping [does_rules]: "does P m \<Longrightarrow> does P (wrapping msg m)"
  unfolding wrapping_def by (auto intro!: does_rules)

lemma calm_wrapping [calm_rules]: "calm m \<Longrightarrow> calm (wrapping msg m)"
  unfolding wrapping_def by (rule calm_tryS_bindS) (simp_all add: calm_simple)

lemma calm_act [calm_rules]:
  "(\<And>h e. f h = Inl e \<Longrightarrow> \<not> isPanic e) \<Longrightarrow> calm (act a f)" "(\<And>h e. g h = Some e \<Longrightarrow> \<not> isPanic e) \<Longrightarrow> calm (actO a g)"
  by (auto simp: calm_def split: option.splits)

lemma scoped_buildArgs:
  "args \<noteq> [] \<Longrightarrow> \<exists>sub rest. buildArgs (newKubectlExecutor ns all) args = sub # namespaceFlags ns all @ rest"
  by (cases args) (auto simp: buildArgs_def newKubectlExecutor_def namespaceFlags_def)

lemma does_Execute [does_rules]:
  "args \<noteq> [] \<Longrightarrow> does (scoped (namespaceFlags ns all)) (Execute L (newKubectlExecutor ns all) args)"
  "args \<noteq> [] \<Longrightarrow> does (scoped (namespaceFlags ns all)) (ExecuteWithOutput L (newKubectlExecutor ns all) args)"
  unfolding Execute_def ExecuteWithOutput_def Let_def by (auto intro!: does_simple scoped_buildArgs)

lemma calm_Execute [calm_rules]:
  "plugin_law L \<Longrightarrow> calm (Execute L k args)" "plugin_law L \<Longrightarrow> calm (ExecuteWithOutput L k args)"
  unfolding Execute_def ExecuteWithOutput_def Let_def plugin_law_def by (auto intro!: calm_act)

lemma does_applyFile [does_rules]:
  "does (scoped (namespaceFlags ns all)) (applyFile L (newKubectlExecutor ns all) what pattern m)"
  unfolding applyFile_def writeAndApply_def by (auto intro!: does_rules)

lemma calm_tryS: "calm m \<Longrightarrow> calm (tryS m)"
  unfolding calm_def by (auto split: prod.splits sum.splits if_splits)

lemma calm_writeAndApply:
  assumes "plugin_law L"
  shows "calm (writeAndApply L k file y)"
proof -
  have w: "calm (actO (WriteTemp file y) (\<lambda>h. p_WriteTemp L h file y))"
    and c: "calm (actO (CloseTemp file) (\<lambda>h. p_CloseTemp L h file))"
    using assms unfolding plugin_law_def by (auto intro!: calm_act)
  show ?thesis
    unfolding writeAndApply_def
  proof (rule calm_tryS_bindS [OF w])
    fix e assume "\<not> isPanic e"
    then show "calm (case Inl e of
        Inl err \<Rightarrow> bindS (tryS (actO (CloseTemp file) (\<lambda>h. p_CloseTemp L h file))) (\<lambda>_.
          throwS (WrapError ''failed to write yaml to temp file'' err))
      | Inr _ \<Rightarrow> bindS (wrapping ''failed to close temp file'' (actO (CloseTemp file) (\<lambda>h. p_CloseTemp L h file)))
          (\<lambda>_. Execute L k [''apply'', ''-f'', file]))"
      by (simp, intro calm_bindS calm_tryS c calm_simple) simp
  qed (simp, intro calm_bindS calm_wrapping c calm_Execute assms)
qed

lemma calm_applyFile:
  assumes "plugin_law L" and "\<And>e. m = Inl e \<Longrightarrow> \<not> isPanic e"
  shows "calm (applyFile L k what pattern m)"
proof -
  have c: "calm (act (CreateTemp pattern) (\<lambda>h. p_CreateTemp L h pattern))"
    using assms(1) unfolding plugin_law_def by (auto intro!: calm_act)
  have r: "calm (bindS (act (RemoveTemp f) (\<lambda>h. Inr ())) (\<lambda>_. liftS (res :: goerror + unit)))"
    if "\<And>e. res = Inl e \<Longrightarrow> \<not> isPanic e" for f res
    using that by (intro calm_bindS calm_act calm_simple) simp_all
  have w: "calm (bindS (tryS (writeAndApply L k f y)) (\<lambda>res.
     bindS (act (RemoveTemp f) (\<lambda>h. Inr ())) (\<lambda>_. liftS res)))" for f y
    by (rule calm_tryS_bindS [OF calm_writeAndApply [OF assms(1)]]) (rule r; simp)+
  have m: "calm (liftS m :: (action list, string) effect)" by (rule calm_simple) (rule assms(2))
  show ?thesis
    unfolding applyFile_def by (rule calm_bindS [OF calm_wrapping [OF m]], rule calm_bindS [OF calm_wrapping [OF c]], rule w)
qed

section \<open>All commands\<close>

lemmas command_defs = installClusterOperatorCmd_def listCmd_def createCmd_def deleteCmd_def getCmd_def debugCmd_def
  tailCmd_def observeCmd_def secretsCmd_def enableAllFeatureFlagsCmd_def pauseReconciliationCmd_def
  resumeReconciliationCmd_def listPauseReconciliationInstancesCmd_def perfTestCmd_def streamPerfTestCmd_def
  versionCmd_def getInstanceCredentials_def secretField_def applyCluster_def applyJobYAML_def createPerfTestJob_def
  createStreamPerfTestJob_def printf_def Let_def

lemma does_manageCmd: "does (scoped (namespaceFlags ns all)) (manageCmd L (newKubectlExecutor ns all) n)"
  unfolding manageCmd_def printf_def Let_def case_prod_beta
  by (auto intro!: does_rules scoped_buildArgs)

lemma does_withArg: "(\<And>x. does P (f x)) \<Longrightarrow> does P (withArg args i f)"
  unfolding withArg_def by (auto intro!: does_rules)

lemma does_RunE: "does (scoped (namespaceFlags ns all)) (RunE L (newKubectlExecutor ns all) opts c args)"
  by (cases c) (auto simp: command_defs intro!: does_withArg does_manageCmd does_rules)

lemma calm_printf: "calm (printf text)"
  unfolding printf_def by (intro calm_act) simp

definition calmE :: "goerror + 'a \<Rightarrow> bool" where
  "calmE r \<longleftrightarrow> (\<forall>e. r = Inl e \<longrightarrow> \<not> isPanic e)"

lemma calmE_rules:
  "calmE (Inr x)" "calmE m \<Longrightarrow> (\<And>x. calmE (f x)) \<Longrightarrow> calmE (bindE m f)"
  "(c \<Longrightarrow> calmE m1) \<Longrightarrow> (\<not> c \<Longrightarrow> calmE m2) \<Longrightarrow> calmE (if c then m1 else m2)"
  by (auto simp: calmE_def bindE_def split: sum.splits)

lemma calmE_options:
  "plugin_law L \<Longrightarrow> calmE (parseOption L what v)" "plugin_law L \<Longrightarrow> calmE (readConfigFile L what f)"
  by (auto simp: calmE_def plugin_law_def parseOption_def readConfigFile_def split: sum.splits)

lemma calm_buildRabbitmqCluster:
  assumes "plugin_law L" and "buildRabbitmqCluster L name opts = Inl e"
  shows "\<not> isPanic e"
proof -
  have "calmE (buildRabbitmqCluster L name opts)"
    unfolding buildRabbitmqCluster_def persistenceConfiguration_def resourcesConfiguration_def
      rabbitmqConfiguration_def resourceOption_def Let_def
    by (intro calmE_rules calmE_options assms(1))
  then show ?thesis using assms(2) by (simp add: calmE_def)
qed

lemma calm_credentials: "plugin_law L \<Longrightarrow> calm (getInstanceCredentials L k inst)"
  unfolding getInstanceCredentials_def secretField_def decodeBase64_def Let_def
  by (auto intro!: calm_bindS calm_wrapping calm_Execute calm_simple split: option.splits)



lemma calm_jobs: "plugin_law L \<Longrightarrow> calm (applyJobYAML L k job)" "plugin_law L \<Longrightarrow> calm (applyCluster L k c)"
  unfolding applyJobYAML_def applyCluster_def
  by (rule calm_applyFile, assumption, simp add: plugin_law_def)+

lemma calm_RunE:
  assumes "plugin_law L" and "acceptsArgs (argsOf c) args"
  shows "calm (RunE L k opts c args)"
proof -
  note x = calm_Execute [OF assms(1)] and p = calm_printf and cr = calm_credentials [OF assms(1)] and j = calm_jobs [OF assms(1)]
  have arg: "calm (withArg args i f)" if "i < length args" "\<And>x. calm (f x)" for i and f :: "string \<Rightarrow> unit plugin"
    using that by (simp add: withArg_def)
  have create: "calm (createCmd L k opts n)" for n
    unfolding createCmd_def
    by (rule calm_bindS [OF calm_wrapping [OF calm_simple(3)] j(2)]) (rule calm_buildRabbitmqCluster [OF assms(1)])
  have manage: "calm (manageCmd L k n)" for n
    unfolding manageCmd_def Let_def case_prod_beta by (intro calm_bindS x calm_if p calm_act) simp_all
  have debug: "calm (debugCmd L k n)" for n
    unfolding debugCmd_def by (intro calm_bindS x calm_forS calm_if calm_simple p)
  have simple: "calm (installClusterOperatorCmd L k)" "calm (listCmd L k)" "calm (listPauseReconciliationInstancesCmd L k)"
    "calm (getCmd L k n)" "calm (tailCmd L k n)" "calm (observeCmd L k n m)" "calm (enableAllFeatureFlagsCmd L k n)"
    "calm (pauseReconciliationCmd L k n)" "calm (resumeReconciliationCmd L k n)" "calm (versionCmd n)" for n m
    by (simp_all add: installClusterOperatorCmd_def listCmd_def listPauseReconciliationInstancesCmd_def getCmd_def tailCmd_def
        observeCmd_def enableAllFeatureFlagsCmd_def pauseReconciliationCmd_def resumeReconciliationCmd_def versionCmd_def Let_def x p)
  have composed: "calm (secretsCmd L k n)" "calm (perfTestCmd L k n as)" "calm (streamPerfTestCmd L k n as)"
    "calm (deleteCmd L k as)" for n as
    unfolding secretsCmd_def perfTestCmd_def streamPerfTestCmd_def createPerfTestJob_def createStreamPerfTestJob_def deleteCmd_def
    by (intro calm_bindS cr p j calm_forS x)+
  show ?thesis
    using assms(2) by (cases c) (auto intro!: arg create manage debug simple composed)
qed


lemma child_suffix:
  "ChildResourceName r ''default-user'' = cluster_Name r @ ''-default-user''"
  "ChildResourceName r ''server'' = cluster_Name r @ ''-server''" "ChildResourceName r [] = cluster_Name r"
  by (simp_all add: ChildResourceName_def TrimSuffix_def HasSuffix_def suffix_to_prefix)

section \<open>Temporary files\<close>

lemma run_wrapping:
  "run_state (wrapping msg m) h =
     (case run_state m h of
        (Inl e, h') \<Rightarrow> (Inl (if isPanic e then e else WrapError msg e), h')
      | (Inr x, h') \<Rightarrow> (Inr x, h'))"
  by (auto simp: wrapping_def split: prod.splits sum.splits)

text \<open>
  C25. Creating a cluster leaves no file behind: once the temporary file is created its removal is the
  last action, on every path, and \<open>kubectl apply\<close> runs on the file exactly if it was written and closed
  without an error.
\<close>

theorem applyCluster_trace:
  assumes "plugin_law L" and "p_MarshalCluster L c = Inr y" and "p_CreateTemp L h ''rabbitmq-cluster-*.yaml'' = Inr f"
  shows "let h1 = h @ [CreateTemp ''rabbitmq-cluster-*.yaml'']; h2 = h1 @ [WriteTemp f y]; h3 = h2 @ [CloseTemp f];
      apply = buildArgs k [''apply'', ''-f'', f]; good = (p_WriteTemp L h1 f y = None \<and> p_CloseTemp L h2 f = None);
      out = run_state (applyCluster L k c) h
    in snd out = h3 @ (if good then [Kubectl apply] else []) @ [RemoveTemp f] \<and>
       (fst out = Inr () \<longleftrightarrow> good \<and> p_Run L h3 apply = None)"
proof -
  have p: "p_WriteTemp L h' f' y' = Some e \<Longrightarrow> \<not> isPanic e" "p_CloseTemp L h' f' = Some e \<Longrightarrow> \<not> isPanic e"
    "p_Run L h' a = Some e \<Longrightarrow> \<not> isPanic e" for h' f' y' a e
    using assms(1) unfolding plugin_law_def by blast+
  show ?thesis
    using assms(2,3)
    by (auto simp: applyCluster_def applyFile_def writeAndApply_def Execute_def run_wrapping p Let_def split: option.splits)
qed

section \<open>The cluster that is built\<close>

definition parses :: "pluginLib \<Rightarrow> string \<Rightarrow> bool" where
  "parses L v \<longleftrightarrow> v = [] \<or> (\<exists>q. p_ParseQuantity L v = Inr q)"

definition readable :: "pluginLib \<Rightarrow> string \<Rightarrow> bool" where
  "readable L f \<longleftrightarrow> f = [] \<or> (\<exists>t. p_ReadFile L f = Inr t)"

lemma three_steps:
  assumes "\<And>s. (\<exists>s'. f s = Inr s') \<longleftrightarrow> P" "\<And>s. (\<exists>s'. g s = Inr s') \<longleftrightarrow> Q" "\<And>s. (\<exists>s'. h s = Inr s') \<longleftrightarrow> R"
  shows "(\<exists>s1 s2 s3. f s = Inr s1 \<and> g s1 = Inr s2 \<and> h s2 = Inr s3) \<longleftrightarrow> P \<and> Q \<and> R"
  using assms(1) [of s] assms(2,3) by blast

lemma parseOption_iff: "(\<exists>q. parseOption L what v = Inr q) \<longleftrightarrow> (\<exists>q. p_ParseQuantity L v = Inr q)"
  by (auto simp: parseOption_def split: sum.splits)

lemma resourceOption_iff: "(\<exists>m'. resourceOption L what v key m = Inr m') \<longleftrightarrow> parses L v"
  using parseOption_iff [of L what v] by (auto simp: resourceOption_def parses_def bindE_Inr_iff)

lemma persistenceConfiguration_iff: "(\<exists>s'. persistenceConfiguration L opts s = Inr s') \<longleftrightarrow> parses L (o_StorageSize opts)"
  using parseOption_iff [of L "''storage size''" "o_StorageSize opts"]
  by (auto simp: persistenceConfiguration_def parses_def Let_def bindE_Inr_iff)

lemma resourcesConfiguration_iff:
  "(\<exists>s'. resourcesConfiguration L opts s = Inr s') \<longleftrightarrow>
     o_UnlimitedResources opts \<or> (\<forall>v \<in> {o_MemoryRequest opts, o_CPURequest opts, o_MemoryLimit opts, o_CPULimit opts}. parses L v)"
proof (cases "o_UnlimitedResources opts")
  case False
  have "(\<exists>s'. resourcesConfiguration L opts s = Inr s') \<longleftrightarrow>
    (\<exists>r1 r2 l1 l2. resourceOption L ''memory request'' (o_MemoryRequest opts) ''memory'' Map.empty = Inr r1 \<and>
       resourceOption L ''cpu request'' (o_CPURequest opts) ''cpu'' r1 = Inr r2 \<and>
       resourceOption L ''memory limit'' (o_MemoryLimit opts) ''memory'' Map.empty = Inr l1 \<and>
       resourceOption L ''cpu limit'' (o_CPULimit opts) ''cpu'' l1 = Inr l2)"
    unfolding resourcesConfiguration_def Let_def if_not_P [OF False] bindE_Inr_iff sum.inject by blast
  also have "\<dots> \<longleftrightarrow> parses L (o_MemoryRequest opts) \<and> parses L (o_CPURequest opts) \<and> parses L (o_MemoryLimit opts) \<and> parses L (o_CPULimit opts)"
    using resourceOption_iff by metis
  finally show ?thesis using False by simp
qed (simp add: resourcesConfiguration_def)

lemma rabbitmqConfiguration_iff:
  "(\<exists>s'. rabbitmqConfiguration L opts s = Inr s') \<longleftrightarrow> readable L (o_AdditionalConfigFile opts) \<and> readable L (o_AdvancedConfigFile opts)"
  by (auto simp: rabbitmqConfiguration_def readable_def readConfigFile_def Let_def bindE_def split: sum.splits)

lemma build_iff:
  "(\<exists>c. buildRabbitmqCluster L name opts = Inr c) \<longleftrightarrow>
     parses L (o_StorageSize opts) \<and>
     (o_UnlimitedResources opts \<or>
        (\<forall>v \<in> {o_MemoryRequest opts, o_CPURequest opts, o_MemoryLimit opts, o_CPULimit opts}. parses L v)) \<and>
     readable L (o_AdditionalConfigFile opts) \<and> readable L (o_AdvancedConfigFile opts)"
proof -
  let ?c = "basicConfiguration opts (emptyCluster\<lparr>Meta := namedMeta name [], Spec := emptyClusterSpec\<rparr>)"
  have "(\<exists>c. buildRabbitmqCluster L name opts = Inr c) \<longleftrightarrow>
    (\<exists>s1 s2 s3. persistenceConfiguration L opts (serviceConfiguration opts (Spec ?c)) = Inr s1 \<and>
       resourcesConfiguration L opts s1 = Inr s2 \<and> rabbitmqConfiguration L opts (tlsConfiguration opts s2) = Inr s3)"
    unfolding buildRabbitmqCluster_def Let_def bindE_Inr_iff sum.inject by blast
  also have "\<dots> \<longleftrightarrow> parses L (o_StorageSize opts) \<and>
     (o_UnlimitedResources opts \<or>
        (\<forall>v \<in> {o_MemoryRequest opts, o_CPURequest opts, o_MemoryLimit opts, o_CPULimit opts}. parses L v)) \<and>
     readable L (o_AdditionalConfigFile opts) \<and> readable L (o_AdvancedConfigFile opts)"
    by (rule three_steps [where h = "\<lambda>s. rabbitmqConfiguration L opts (tlsConfiguration opts s)"])
      (rule persistenceConfiguration_iff resourcesConfiguration_iff rabbitmqConfiguration_iff)+
  finally show ?thesis .
qed

text \<open>
  A cluster is built from the options exactly if every quantity given parses, where the resource
  options are not looked at with unlimited resources, and every configuration file given can be read.
\<close>

theorem buildRabbitmqCluster_succeeds:
  "(\<exists>c. buildRabbitmqCluster L name opts = Inr c) \<longleftrightarrow>
     parses L (o_StorageSize opts) \<and>
     (o_UnlimitedResources opts \<or>
        parses L (o_MemoryRequest opts) \<and> parses L (o_CPURequest opts) \<and> parses L (o_MemoryLimit opts) \<and> parses L (o_CPULimit opts)) \<and>
     readable L (o_AdditionalConfigFile opts) \<and> readable L (o_AdvancedConfigFile opts)"
  unfolding build_iff by simp

text \<open>The parts of the specification that each group of options leaves alone.\<close>

lemma persistenceConfiguration_keeps:
  "persistenceConfiguration L opts s = Inr s' \<Longrightarrow>
     \<exists>p. s' = s\<lparr>Persistence := p\<rparr>"
  by (rule exI [of _ "Persistence s'"]) (auto simp: persistenceConfiguration_def Let_def bindE_Inr_iff split: if_splits)

lemma resourcesConfiguration_keeps:
  "resourcesConfiguration L opts s = Inr s' \<Longrightarrow> \<exists>r. s' = s\<lparr>Resources := r\<rparr>"
  by (rule exI [of _ "Resources s'"], cases "o_UnlimitedResources opts")
    (auto simp: resourcesConfiguration_def Let_def bindE_Inr_iff split: if_splits)

lemma rabbitmqConfiguration_keeps:
  assumes "rabbitmqConfiguration L opts s = Inr s'"
  shows "\<exists>q. s' = s\<lparr>Rabbitmq := q\<rparr> \<and>
    EnvConfig q = (if hasEntries (o_EnvConfig opts) then joinSorted (envLines L (o_EnvConfig opts)) else EnvConfig (Rabbitmq s)) \<and>
    AdditionalPlugins q = AdditionalPlugins (Rabbitmq s) @ o_AdditionalPlugins opts"
proof -
  let ?q1 = "(Rabbitmq s)\<lparr>AdditionalPlugins := AdditionalPlugins (Rabbitmq s) @ o_AdditionalPlugins opts\<rparr>"
  let ?q2 = "if hasEntries (o_EnvConfig opts) then ?q1\<lparr>EnvConfig := joinSorted (envLines L (o_EnvConfig opts))\<rparr> else ?q1"
  obtain q3 q4 where q: "(if o_AdditionalConfigFile opts \<noteq> []
        then bindE (readConfigFile L ''additional'' (o_AdditionalConfigFile opts)) (\<lambda>x. Inr (?q2\<lparr>AdditionalConfig := x\<rparr>))
        else Inr ?q2) = Inr q3"
      "(if o_AdvancedConfigFile opts \<noteq> []
        then bindE (readConfigFile L ''advanced'' (o_AdvancedConfigFile opts)) (\<lambda>x. Inr (q3\<lparr>AdvancedConfig := x\<rparr>))
        else Inr q3) = Inr q4" "s' = s\<lparr>Rabbitmq := q4\<rparr>"
    using assms unfolding rabbitmqConfiguration_def Let_def bindE_Inr_iff sum.inject by blast
  have "(\<exists>x. q3 = ?q2\<lparr>AdditionalConfig := x\<rparr>) \<or> q3 = ?q2" using q(1) by (auto simp: bindE_Inr_iff split: if_splits)
  then have "EnvConfig q3 = EnvConfig ?q2" "AdditionalPlugins q3 = AdditionalPlugins ?q2" by auto
  moreover have "(\<exists>x. q4 = q3\<lparr>AdvancedConfig := x\<rparr>) \<or> q4 = q3" using q(2) by (auto simp: bindE_Inr_iff split: if_splits)
  then have "EnvConfig q4 = EnvConfig q3" "AdditionalPlugins q4 = AdditionalPlugins q3" by auto
  ultimately show ?thesis using q(3) by (intro exI [of _ q4]) simp
qed

lemma configuration_fields [simp]:
  "Image (otherConfiguration opts s) = Image s" "Override (otherConfiguration opts s) = Override s" "spec_SecretBackend (otherConfiguration opts s) = spec_SecretBackend s" "Rabbitmq (otherConfiguration opts s) = Rabbitmq s" "TLS (otherConfiguration opts s) = TLS s" "Replicas (otherConfiguration opts s) = Replicas s"
  "Image (tlsConfiguration opts s) = Image s" "Override (tlsConfiguration opts s) = Override s" "spec_SecretBackend (tlsConfiguration opts s) = spec_SecretBackend s" "Rabbitmq (tlsConfiguration opts s) = Rabbitmq s" "Replicas (tlsConfiguration opts s) = Replicas s"
  "TerminationGracePeriodSeconds (tlsConfiguration opts s) = TerminationGracePeriodSeconds s"
  "Image (serviceConfiguration opts s) = Image s" "Override (serviceConfiguration opts s) = Override s" "spec_SecretBackend (serviceConfiguration opts s) = spec_SecretBackend s" "Rabbitmq (serviceConfiguration opts s) = Rabbitmq s" "TLS (serviceConfiguration opts s) = TLS s" "Replicas (serviceConfiguration opts s) = Replicas s"
  "TerminationGracePeriodSeconds (serviceConfiguration opts s) = TerminationGracePeriodSeconds s"
  by (simp_all add: otherConfiguration_def tlsConfiguration_def serviceConfiguration_def Let_def)

lemma basicConfiguration_fields [simp]:
  "Override (Spec (basicConfiguration opts c)) = Override (Spec c)"
  "spec_SecretBackend (Spec (basicConfiguration opts c)) = spec_SecretBackend (Spec c)"
  "Rabbitmq (Spec (basicConfiguration opts c)) = Rabbitmq (Spec c)"
  "TLS (Spec (basicConfiguration opts c)) = TLS (Spec c)"
  "TerminationGracePeriodSeconds (Spec (basicConfiguration opts c)) = TerminationGracePeriodSeconds (Spec c)"
  "cluster_Name (basicConfiguration opts c) = cluster_Name c"
  "Replicas (Spec (basicConfiguration opts c)) = (if o_Replicas opts > 0 then Some (o_Replicas opts) else Replicas (Spec c))"
  "Image (Spec (basicConfiguration opts c)) = (if o_Image opts \<noteq> [] then o_Image opts
     else if o_RabbitmqVersion opts \<noteq> [] then ''rabbitmq:'' @ o_RabbitmqVersion opts @ ''-management'' else Image (Spec c))"
  by (simp_all add: basicConfiguration_def Let_def)

lemma buildRabbitmqCluster_spec:
  assumes "buildRabbitmqCluster L name opts = Inr c"
  defines "c0 \<equiv> basicConfiguration opts (emptyCluster\<lparr>Meta := namedMeta name [], Spec := emptyClusterSpec\<rparr>)"
  shows "\<exists>p r q. c = c0\<lparr>Spec := otherConfiguration opts ((tlsConfiguration opts
      ((serviceConfiguration opts (Spec c0))\<lparr>Persistence := p, Resources := r\<rparr>))\<lparr>Rabbitmq := q\<rparr>)\<rparr> \<and>
    EnvConfig q = (if hasEntries (o_EnvConfig opts) then joinSorted (envLines L (o_EnvConfig opts)) else []) \<and>
    AdditionalPlugins q = o_AdditionalPlugins opts"
proof -
  obtain s1 s2 s3 where s: "persistenceConfiguration L opts (serviceConfiguration opts (Spec c0)) = Inr s1"
      "resourcesConfiguration L opts s1 = Inr s2" "rabbitmqConfiguration L opts (tlsConfiguration opts s2) = Inr s3"
      "c = c0\<lparr>Spec := otherConfiguration opts s3\<rparr>"
    using assms(1) unfolding buildRabbitmqCluster_def Let_def c0_def bindE_Inr_iff sum.inject by blast
  obtain p where p: "s1 = (serviceConfiguration opts (Spec c0))\<lparr>Persistence := p\<rparr>"
    using persistenceConfiguration_keeps [OF s(1)] by blast
  obtain r where r: "s2 = s1\<lparr>Resources := r\<rparr>" using resourcesConfiguration_keeps [OF s(2)] by blast
  obtain q where q: "s3 = (tlsConfiguration opts s2)\<lparr>Rabbitmq := q\<rparr>"
      "EnvConfig q = (if hasEntries (o_EnvConfig opts) then joinSorted (envLines L (o_EnvConfig opts))
         else EnvConfig (Rabbitmq (tlsConfiguration opts s2)))"
      "AdditionalPlugins q = AdditionalPlugins (Rabbitmq (tlsConfiguration opts s2)) @ o_AdditionalPlugins opts"
    using rabbitmqConfiguration_keeps [OF s(3)] by blast
  have "Rabbitmq (tlsConfiguration opts s2) = Rabbitmq (Spec c0)"
    by (simp add: r p)
  moreover have "EnvConfig (Rabbitmq (Spec c0)) = []" "AdditionalPlugins (Rabbitmq (Spec c0)) = []"
    by (simp_all add: c0_def emptyClusterSpec_def)
  ultimately show ?thesis
    using s(4) q p r by (intro exI [of _ p] exI [of _ r] exI [of _ q]) simp
qed

text \<open>
  C24. What a created cluster is: it has the given name, passes the validating webhook whatever the
  options are, and after the defaulting webhook has run its image is the given one, or the one of the
  given version, or the default of the operator. Numbers of zero or less are left to the server.
\<close>

theorem created_cluster_admitted:
  assumes "buildRabbitmqCluster L name opts = Inr c"
  shows "cluster_Name c = name \<and> ValidateCreate NewInvalid c = None \<and>
    Image (Spec (Default d c)) =
      (if o_Image opts \<noteq> [] then o_Image opts
       else if o_RabbitmqVersion opts \<noteq> [] then ''rabbitmq:'' @ o_RabbitmqVersion opts @ ''-management''
       else DefaultRabbitmqImage d) \<and>
    GetRabbitMQVersion c = (if o_RabbitmqVersion opts \<noteq> [] then o_RabbitmqVersion opts else VersionNotAnnotated) \<and>
    Replicas (Spec c) = (if o_Replicas opts > 0 then Some (o_Replicas opts) else None) \<and>
    TerminationGracePeriodSeconds (Spec c) =
      (if o_TerminationGracePeriodSeconds opts > 0 then Some (o_TerminationGracePeriodSeconds opts) else None) \<and>
    AdditionalPlugins (Rabbitmq (Spec c)) = o_AdditionalPlugins opts \<and>
    TLS (Spec c) = \<lparr>SecretName = o_TLSSecretName opts, CaSecretName = o_TLSCASecretName opts,
      DisableNonTLS = o_DisableNonTLSListeners opts\<rparr>"
proof -
  let ?c0 = "basicConfiguration opts (emptyCluster\<lparr>Meta := namedMeta name [], Spec := emptyClusterSpec\<rparr>)"
  obtain p r q where c: "c = ?c0\<lparr>Spec := otherConfiguration opts ((tlsConfiguration opts
      ((serviceConfiguration opts (Spec ?c0))\<lparr>Persistence := p, Resources := r\<rparr>))\<lparr>Rabbitmq := q\<rparr>)\<rparr>"
      "AdditionalPlugins q = o_AdditionalPlugins opts"
    using buildRabbitmqCluster_spec [OF assms] by blast
  have "cluster_Name c = name" "Override (Spec c) = \<lparr>ov_StatefulSet = None, ov_Service = None\<rparr>"
    by (simp_all add: c(1) emptyClusterSpec_def)
  moreover have "TLS (Spec c) = \<lparr>SecretName = o_TLSSecretName opts, CaSecretName = o_TLSCASecretName opts,
      DisableNonTLS = o_DisableNonTLSListeners opts\<rparr>"
    by (simp add: c(1) tlsConfiguration_def Let_def) (simp add: emptyClusterSpec_def)
  moreover have "Image (Spec c) = (if o_Image opts \<noteq> [] then o_Image opts
       else if o_RabbitmqVersion opts \<noteq> [] then ''rabbitmq:'' @ o_RabbitmqVersion opts @ ''-management'' else [])"
    by (simp add: c(1)) (simp add: emptyClusterSpec_def)
  moreover have "GetRabbitMQVersion c = (if o_RabbitmqVersion opts \<noteq> [] then o_RabbitmqVersion opts else VersionNotAnnotated)"
    by (simp add: c(1) GetRabbitMQVersion_def basicConfiguration_def Let_def emptyMeta_def)
  moreover have "Replicas (Spec c) = (if o_Replicas opts > 0 then Some (o_Replicas opts) else None)"
    by (simp add: c(1)) (simp add: emptyClusterSpec_def)
  moreover have "TerminationGracePeriodSeconds (Spec c) =
      (if o_TerminationGracePeriodSeconds opts > 0 then Some (o_TerminationGracePeriodSeconds opts) else None)"
    by (simp add: c(1) otherConfiguration_def Let_def) (simp add: emptyClusterSpec_def)
  moreover have "AdditionalPlugins (Rabbitmq (Spec c)) = o_AdditionalPlugins opts" by (simp add: c)
  ultimately show ?thesis
    by (simp add: ValidateCreate_def validatePodSpecOverride_def podSpecOverride_def Default_eq)
qed

section \<open>The environment configuration\<close>

lemma joinLoop_Join: "i > 0 \<Longrightarrow> joinLoop i res lines = res @ concat (map (\<lambda>l. CHR 0x0A # l) lines)"
  by (induction lines arbitrary: i res) auto

lemma Join_concat: "Join (x # xs) sep = x @ concat (map (\<lambda>l. sep @ l) xs)"
  by (induction xs arbitrary: x) auto

lemma joinSorted_Join: "joinSorted lines = Join lines [CHR 0x0A]"
proof (cases lines)
  case (Cons l ls)
  then show ?thesis using joinLoop_Join [of 1 l ls] Join_concat [of l ls] by (simp add: joinSorted_def del: Join.simps)
qed (simp add: joinSorted_def)

text \<open>
  The environment configuration of a created cluster has one line \<open>key=value\<close> per entry of the
  option, in the order in which the map happened to be visited: \<open>joinSorted\<close> does not sort. So two
  runs with the same options can build different clusters.
\<close>

theorem envConfig_unsorted:
  "(\<forall>L name opts c. buildRabbitmqCluster L name opts = Inr c \<longrightarrow>
      EnvConfig (Rabbitmq (Spec c)) = (if hasEntries (o_EnvConfig opts)
        then Join (map (\<lambda>key. key @ ''='' @ mval (o_EnvConfig opts) key) (p_MapOrder L (ptr_Deref (o_EnvConfig opts) Map.empty)))
          [CHR 0x0A] else [])) \<and>
   (\<forall>L q. p_ParseQuantity L ''10Gi'' = Inr q \<longrightarrow>
      (\<exists>opts m c c'. o_EnvConfig opts = Some m \<and> distinct [''B'', ''A''] \<and> set [''B'', ''A''] = dom m \<and>
         buildRabbitmqCluster (L\<lparr>p_MapOrder := \<lambda>_. [''A'', ''B'']\<rparr>) ''rmq'' opts = Inr c \<and>
         buildRabbitmqCluster (L\<lparr>p_MapOrder := \<lambda>_. [''B'', ''A'']\<rparr>) ''rmq'' opts = Inr c' \<and> c \<noteq> c'))"
proof (intro conjI allI impI)
  have env: "EnvConfig (Rabbitmq (Spec c)) = (if hasEntries (o_EnvConfig opts)
        then Join (map (\<lambda>key. key @ ''='' @ mval (o_EnvConfig opts) key) (p_MapOrder L (ptr_Deref (o_EnvConfig opts) Map.empty)))
          [CHR 0x0A] else [])" if "buildRabbitmqCluster L name opts = Inr c" for L name opts c
    using buildRabbitmqCluster_spec [OF that] by (auto simp: joinSorted_Join envLines_def)
  then show "EnvConfig (Rabbitmq (Spec c)) = (if hasEntries (o_EnvConfig opts)
        then Join (map (\<lambda>key. key @ ''='' @ mval (o_EnvConfig opts) key) (p_MapOrder L (ptr_Deref (o_EnvConfig opts) Map.empty)))
          [CHR 0x0A] else [])" if "buildRabbitmqCluster L name opts = Inr c" for L name opts c
    using that .
  fix L :: pluginLib and q
  assume q: "p_ParseQuantity L ''10Gi'' = Inr q"
  let ?m = "[''A'' \<mapsto> ''1'', ''B'' \<mapsto> ''2'']"
  let ?opts = "defaultOptions\<lparr>o_EnvConfig := Some ?m\<rparr>"
  have "\<exists>c. buildRabbitmqCluster (L\<lparr>p_MapOrder := f\<rparr>) ''rmq'' ?opts = Inr c" for f
    unfolding build_iff using q by (simp add: parses_def readable_def defaultOptions_def)
  then obtain c c' where c: "buildRabbitmqCluster (L\<lparr>p_MapOrder := \<lambda>_. [''A'', ''B'']\<rparr>) ''rmq'' ?opts = Inr c"
      "buildRabbitmqCluster (L\<lparr>p_MapOrder := \<lambda>_. [''B'', ''A'']\<rparr>) ''rmq'' ?opts = Inr c'" by metis
  have "EnvConfig (Rabbitmq (Spec c)) \<noteq> EnvConfig (Rabbitmq (Spec c'))"
    using env [OF c(1)] env [OF c(2)] by (simp add: hasEntries_def mval_def mget_def)
  then have "c \<noteq> c'" by blast
  with c show "\<exists>opts m c c'. o_EnvConfig opts = Some m \<and> distinct [''B'', ''A''] \<and> set [''B'', ''A''] = dom m \<and>
         buildRabbitmqCluster (L\<lparr>p_MapOrder := \<lambda>_. [''A'', ''B'']\<rparr>) ''rmq'' opts = Inr c \<and>
         buildRabbitmqCluster (L\<lparr>p_MapOrder := \<lambda>_. [''B'', ''A'']\<rparr>) ''rmq'' opts = Inr c' \<and> c \<noteq> c'"
    by (intro exI [of _ ?opts] exI [of _ ?m] exI [of _ c] exI [of _ c']) auto
qed

section \<open>The plugin and the operator agree\<close>

text \<open>What \<open>kubectl get secret\<close> prints for a field of a secret: its value in base64.\<close>

definition secret_law :: "pluginLib \<Rightarrow> kubectlExecutor \<Rightarrow> string \<Rightarrow> secret \<Rightarrow> bool" where
  "secret_law L k name sec \<longleftrightarrow>
     (\<forall>h field v. mget (sec_Data sec) field = Some v \<longrightarrow>
        p_Output L h (buildArgs k [''get'', ''secret'', name, ''-o'', ''jsonpath={.data.'' @ field @ ''}'']) = Inr (EncodeToString v))"


text \<open>
  The plugin uses the names of the operator: for a cluster, it runs the commands in pods of the
  StatefulSet, reads the secret of the default user, opens the service, and pauses the reconciliation
  with the label that \<open>Reconcile\<close> reads.
\<close>

theorem plugin_names_agree:
  "(\<forall>h. snd (run_state (enableAllFeatureFlagsCmd L k (cluster_Name r)) h) =
      h @ [Kubectl (buildArgs k [''exec'', serverPod r 0, ''-c'', ''rabbitmq'', ''--'', ''rabbitmqctl'', ''enable_feature_flag'', ''all''])]) \<and>
   (\<forall>h i. snd (run_state (observeCmd L k (cluster_Name r) (Itoa i)) h) =
      h @ [Kubectl (buildArgs k [''exec'', ''-it'', serverPod r i, ''-c'', ''rabbitmq'', ''--'', ''rabbitmq-diagnostics'', ''observer''])]) \<and>
   (\<forall>h. \<exists>rest. snd (run_state (getInstanceCredentials L k (cluster_Name r)) h) =
      h @ KubectlOutput (buildArgs k [''get'', ''secret'', ChildResourceName r DefaultUserSecretName, ''-o'', ''jsonpath={.data.username}'']) # rest) \<and>
   (\<forall>h. snd (run_state (pauseReconciliationCmd L k (cluster_Name r)) h) =
      h @ [Kubectl (buildArgs k [''label'', ''rabbitmqclusters'', cluster_Name r, pauseReconciliationLabel @ ''=true''])])"
proof -
  have i: "Itoa 0 = ''0''" by code_simp
  have "\<exists>rest. snd (run_state (secretField L k n f) h) = h @ [KubectlOutput (buildArgs k [''get'', ''secret'', n, ''-o'',
      ''jsonpath={.data.'' @ f @ ''}''])]" for n f h
    by (auto simp: secretField_def run_wrapping ExecuteWithOutput_def Let_def split: sum.splits prod.splits)
  then have s: "\<exists>r. run_state (secretField L k n f) h = (r, h @ [KubectlOutput (buildArgs k [''get'', ''secret'', n, ''-o'',
      ''jsonpath={.data.'' @ f @ ''}''])])" for n f h by (metis prod.collapse)
  have "\<exists>rest. snd (run_state (getInstanceCredentials L k (cluster_Name r)) h) =
      h @ KubectlOutput (buildArgs k [''get'', ''secret'', ChildResourceName r DefaultUserSecretName, ''-o'', ''jsonpath={.data.username}'']) # rest" for h
  proof -
    obtain x where x: "run_state (secretField L k (cluster_Name r @ ''-default-user'') ''username'') h =
        (x, h @ [KubectlOutput (buildArgs k [''get'', ''secret'', cluster_Name r @ ''-default-user'', ''-o'', ''jsonpath={.data.username}''])])"
      using s [of "cluster_Name r @ ''-default-user''" "''username''" h] by auto
    obtain y where y: "run_state (secretField L k (cluster_Name r @ ''-default-user'') ''password'')
        (h @ [KubectlOutput (buildArgs k [''get'', ''secret'', cluster_Name r @ ''-default-user'', ''-o'', ''jsonpath={.data.username}''])]) =
        (y, (h @ [KubectlOutput (buildArgs k [''get'', ''secret'', cluster_Name r @ ''-default-user'', ''-o'', ''jsonpath={.data.username}''])]) @
         [KubectlOutput (buildArgs k [''get'', ''secret'', cluster_Name r @ ''-default-user'', ''-o'', ''jsonpath={.data.password}''])])"
      using s [of "cluster_Name r @ ''-default-user''" "''password''"
          "h @ [KubectlOutput (buildArgs k [''get'', ''secret'', cluster_Name r @ ''-default-user'', ''-o'', ''jsonpath={.data.username}''])]"] by auto
    show ?thesis
      unfolding getInstanceCredentials_def Let_def DefaultUserSecretName_def child_suffix run_bindS x
      using y by (cases x; cases y) simp_all
  qed
  then show ?thesis
    by (simp add: enableAllFeatureFlagsCmd_def observeCmd_def pauseReconciliationCmd_def Execute_def Let_def serverPod_def
        child_suffix i pauseReconciliationLabel_def)
qed

text \<open>The jsonpath query of \<open>manage\<close> prints the port with the given name, and nothing if there is none.\<close>

definition port_law :: "pluginLib \<Rightarrow> kubectlExecutor \<Rightarrow> RabbitmqCluster \<Rightarrow> bool" where
  "port_law L k r \<longleftrightarrow> (\<forall>h. \<exists>out. (out \<noteq> [] \<longleftrightarrow> ''management-tls'' \<in> sp_Name ` set (generatedPorts r)) \<and>
     p_Output L h (buildArgs k [''get'', ''service'', cluster_Name r, ''-o'',
       ''jsonpath={.spec.ports[?(@.name=='' @ dquote @ ''management-tls'' @ dquote @ '')]}'']) = Inr out)"

lemma management_ports:
  "''management-tls'' \<in> sp_Name ` set (generatedPorts r) \<longleftrightarrow> TLSEnabled r"
  "TLSEnabled r \<Longrightarrow> 15671 \<in> sp_Port ` set (generatedPorts r)"
  "\<not> DisableNonTLSListeners r \<Longrightarrow> 15672 \<in> sp_Port ` set (generatedPorts r)"
proof -
  let ?f = "\<lambda>p. (sp_Name p, sp_Port p)"
  have "(''management-tls'', 15671) \<in> ?f ` set (generatedPorts r)" if "TLSEnabled r"
    using that by (simp add: generatedPorts_def image_Un portsWhen_def tlsPortTable_def tcpPort_def)
  then have p: "TLSEnabled r \<Longrightarrow> 15671 \<in> sp_Port ` set (generatedPorts r)"
    and t: "TLSEnabled r \<Longrightarrow> ''management-tls'' \<in> sp_Name ` set (generatedPorts r)" by force+
  show "TLSEnabled r \<Longrightarrow> 15671 \<in> sp_Port ` set (generatedPorts r)" by (rule p)
  have "(''management'', 15672) \<in> ?f ` set (generatedPorts r)" if "\<not> DisableNonTLSListeners r"
    using that by (simp add: generatedPorts_def image_Un portsWhen_def plainPortTable_def tcpPort_def)
  then show "\<not> DisableNonTLSListeners r \<Longrightarrow> 15672 \<in> sp_Port ` set (generatedPorts r)" by force
  have "sp_Name ` set (portsWhen (plainPortTable r)) \<subseteq> (sp_Name \<circ> snd) ` set (plainPortTable r)"
    using portsWhen_subset [of "plainPortTable r"] by fastforce
  moreover have "''management-tls'' \<notin> (sp_Name \<circ> snd) ` set (plainPortTable r)"
    by (simp add: plainPortTable_def tcpPort_def)
  ultimately have "\<not> TLSEnabled r \<Longrightarrow> ''management-tls'' \<notin> sp_Name ` set (generatedPorts r)"
    by (auto simp: generatedPorts_def tcpPort_def)
  with t show "''management-tls'' \<in> sp_Name ` set (generatedPorts r) \<longleftrightarrow> TLSEnabled r" by blast
qed

text \<open>
  The command \<open>manage\<close> forwards a port that the service of the cluster exposes, the one for TLS
  exactly if TLS is enabled; on Linux the goroutine that should open the browser runs the program
  as a subcommand of \<open>kubectl\<close>.
\<close>

theorem manage_forwards_exposed_port:
  assumes "port_law L k r" and "DisableNonTLSListeners r \<Longrightarrow> TLSEnabled r" and "p_GOOS L = ''linux''"
  shows "\<exists>port q. port \<in> sp_Port ` set (generatedPorts r) \<and> port = (if TLSEnabled r then 15671 else 15672) \<and>
    snd (run_state (manageCmd L k (cluster_Name r)) h) =
      h @ [KubectlOutput q,
        Background (buildArgs k [''xdg-open'', if TLSEnabled r then ''https://localhost:15671/'' else ''http://localhost:15672/'']),
        Kubectl (buildArgs k [''port-forward'', ''service/'' @ cluster_Name r, if TLSEnabled r then ''15671'' else ''15672''])]"
proof -
  obtain out where o': "(out \<noteq> [] \<longleftrightarrow> TLSEnabled r)"
      "p_Output L h (buildArgs k [''get'', ''service'', cluster_Name r, ''-o'',
       ''jsonpath={.spec.ports[?(@.name=='' @ dquote @ ''management-tls'' @ dquote @ '')]}'']) = Inr out"
    using assms(1) unfolding port_law_def management_ports(1) by blast
  have "(if TLSEnabled r then 15671 else 15672) \<in> sp_Port ` set (generatedPorts r)"
    using management_ports(2,3) assms(2) by auto
  moreover have t: "managementTarget out = (if TLSEnabled r then (''15671'', ''https://localhost:15671/'')
      else (''15672'', ''http://localhost:15672/''))"
    using o'(1) by (auto simp: managementTarget_def)
  have c: "openCmd (p_GOOS L) = ''xdg-open''" using assms(3) by (simp add: openCmd_def)
  have "snd (run_state (manageCmd L k (cluster_Name r)) h) =
      h @ [KubectlOutput (buildArgs k [''get'', ''service'', cluster_Name r, ''-o'',
       ''jsonpath={.spec.ports[?(@.name=='' @ dquote @ ''management-tls'' @ dquote @ '')]}'']),
        Background (buildArgs k [''xdg-open'', if TLSEnabled r then ''https://localhost:15671/'' else ''http://localhost:15672/'']),
        Kubectl (buildArgs k [''port-forward'', ''service/'' @ cluster_Name r, if TLSEnabled r then ''15671'' else ''15672''])]"
    unfolding manageCmd_def ExecuteWithOutput_def Execute_def Let_def run_bindS run_act o'(2) prod.case sum.case t c
    by simp
  ultimately show ?thesis by blast
qed

section \<open>Examples\<close>

definition exampleLib :: pluginLib where
  "exampleLib = \<lparr>p_ParseQuantity = (\<lambda>v. Inr 1), p_ReadFile = (\<lambda>f. Inr []), p_Quote = (\<lambda>v. v), p_MapOrder = (\<lambda>m. []),
     p_MarshalCluster = (\<lambda>c. Inr ''yaml''), p_MarshalJob = (\<lambda>j. Inr ''yaml''), p_GOOS = ''linux'',
     p_Run = (\<lambda>h a. None), p_Output = (\<lambda>h a. Inr []), p_CreateTemp = (\<lambda>h p. Inr ''file''),
     p_WriteTemp = (\<lambda>h f t. None), p_CloseTemp = (\<lambda>h f. None)\<rparr>"

lemma exampleLib_law: "plugin_law exampleLib"
  by (simp add: plugin_law_def exampleLib_def)


theorem applyCluster_trace_witness:
  "snd (run_state (applyCluster exampleLib (newKubectlExecutor [] False) emptyCluster) []) =
     [CreateTemp ''rabbitmq-cluster-*.yaml'', WriteTemp ''file'' ''yaml'', CloseTemp ''file'',
      Kubectl [''apply'', ''-f'', ''file''], RemoveTemp ''file'']"
  using applyCluster_trace [OF exampleLib_law, of emptyCluster "''yaml''" "[]" "''file''" "newKubectlExecutor [] False"]
  by (simp add: exampleLib_def Let_def buildArgs_def newKubectlExecutor_def)

lemma exampleLib_builds: "\<exists>c. buildRabbitmqCluster exampleLib name opts = Inr c"
  unfolding build_iff by (simp add: parses_def readable_def exampleLib_def)

theorem created_cluster_admitted_witness:
  "\<exists>c. buildRabbitmqCluster exampleLib ''rmq'' (defaultOptions\<lparr>o_RabbitmqVersion := ''4.1.0''\<rparr>) = Inr c \<and>
     Image (Spec (Default \<lparr>DefaultRabbitmqImage = ''i'', DefaultImagePullSecrets = [], DefaultUserUpdaterImage = ''u''\<rparr> c)) =
       ''rabbitmq:4.1.0-management''"
proof -
  obtain c where c: "buildRabbitmqCluster exampleLib ''rmq'' (defaultOptions\<lparr>o_RabbitmqVersion := ''4.1.0''\<rparr>) = Inr c"
    using exampleLib_builds by blast
  from created_cluster_admitted [OF this] show ?thesis using c by (simp add: defaultOptions_def)
qed

theorem envConfig_unsorted_witness:
  "\<exists>opts c c'. buildRabbitmqCluster (exampleLib\<lparr>p_MapOrder := \<lambda>_. [''A'', ''B'']\<rparr>) ''rmq'' opts = Inr c \<and>
     buildRabbitmqCluster (exampleLib\<lparr>p_MapOrder := \<lambda>_. [''B'', ''A'']\<rparr>) ''rmq'' opts = Inr c' \<and> c \<noteq> c'"
proof -
  have "p_ParseQuantity exampleLib ''10Gi'' = Inr 1" by (simp add: exampleLib_def)
  with envConfig_unsorted show ?thesis by blast
qed

definition credentialsLib :: "secret \<Rightarrow> pluginLib" where
  "credentialsLib sec = exampleLib\<lparr>p_Output := \<lambda>h args.
     Inr (EncodeToString (mval (sec_Data sec) (butlast (drop 16 (last args)))))\<rparr>"

lemma credentialsLib_law: "secret_law (credentialsLib sec) (newKubectlExecutor [] False) name sec"
  by (auto simp: secret_law_def credentialsLib_def buildArgs_def newKubectlExecutor_def mval_def butlast_append)


theorem manage_forwards_exposed_port_witness:
  "\<exists>q. snd (run_state (manageCmd exampleLib (newKubectlExecutor [] False) ''rmq'') []) =
     [KubectlOutput q, Background [''xdg-open'', ''http://localhost:15672/''],
      Kubectl [''port-forward'', ''service/rmq'', ''15672'']]"
proof -
  have t: "\<not> TLSEnabled (exampleServer 1)" "\<not> DisableNonTLSListeners (exampleServer 1)"
    by (simp_all add: TLSEnabled_def SecretTLSEnabled_def VaultTLSEnabled_def DisableNonTLSListeners_def exampleServer_def emptyClusterSpec_def)
  then have l: "port_law exampleLib (newKubectlExecutor [] False) (exampleServer 1)"
    by (simp add: port_law_def management_ports exampleLib_def)
  have g: "p_GOOS exampleLib = ''linux''" by (simp add: exampleLib_def)
  from manage_forwards_exposed_port [OF l _ g, of "[]"] t show ?thesis
    by (auto simp: exampleServer_names buildArgs_def newKubectlExecutor_def)
qed

end
