(* ===== verification/Pod_Executor.thy ===== *)
theory Pod_Executor
  imports Controller_Base
begin

text \<open>
  \<open>internal/controller/pod_executor.go\<close>: running a command in a container of a pod. The output is
  collected through a \<open>bufio.Writer\<close> in front of a \<open>bytes.Buffer\<close> for each of the two streams; the writers
  of Go's library are modelled, the remote protocol is a parameter. The writers are never flushed, so
  what the function returns depends on how the protocol delivers the output.
\<close>

section \<open>The writers of Go's library\<close>

definition defaultBufSize :: nat where
  "defaultBufSize = 4096"

text \<open>A \<open>bufio.Writer\<close> on a \<open>bytes.Buffer\<close>: what it has buffered and what has reached the buffer behind it.\<close>

record bufioWriter =
  bw_Buffered :: string
  bw_Sink :: string

definition NewWriter :: bufioWriter where
  "NewWriter = \<lparr>bw_Buffered = [], bw_Sink = []\<rparr>"

definition Available :: "bufioWriter \<Rightarrow> nat" where
  "Available w = defaultBufSize - length (bw_Buffered w)"

definition Flush :: "bufioWriter \<Rightarrow> bufioWriter" where
  "Flush w = \<lparr>bw_Buffered = [], bw_Sink = bw_Sink w @ bw_Buffered w\<rparr>"

text \<open>
  \<open>Write\<close> loops as long as the rest does not fit: with an empty buffer it is written through, otherwise
  the buffer is filled and flushed.
\<close>

function Write :: "string \<Rightarrow> bufioWriter \<Rightarrow> bufioWriter" where
  "Write p w =
     (if length p > Available w
      then (if bw_Buffered w = [] then Write [] (w\<lparr>bw_Sink := bw_Sink w @ p\<rparr>)
            else Write (drop (Available w) p) (Flush (w\<lparr>bw_Buffered := bw_Buffered w @ take (Available w) p\<rparr>)))
      else w\<lparr>bw_Buffered := bw_Buffered w @ p\<rparr>)"
  by auto

termination
  by (relation "measures [\<lambda>(p, w). length (bw_Buffered w), \<lambda>(p, w). length p]")
    (auto simp: Flush_def Available_def)

declare Write.simps [simp del]

text \<open>
  \<open>ReadFrom\<close> hands the reader on to the \<open>bytes.Buffer\<close> as soon as nothing is buffered; before that it
  fills the buffer and flushes it when it is full.
\<close>

definition ReadFrom :: "string \<Rightarrow> bufioWriter \<Rightarrow> bufioWriter" where
  "ReadFrom p w =
     (let w1 = (if Available w = 0 then Flush w else w)
      in if bw_Buffered w1 = [] then w1\<lparr>bw_Sink := bw_Sink w1 @ p\<rparr>
         else if length p < Available w1 then w1\<lparr>bw_Buffered := bw_Buffered w1 @ p\<rparr>
         else (let w2 = Flush (w1\<lparr>bw_Buffered := bw_Buffered w1 @ take (Available w1) p\<rparr>)
               in w2\<lparr>bw_Sink := bw_Sink w2 @ drop (Available w1) p\<rparr>))"

section \<open>The executor\<close>

record podExecOptions =
  po_Container :: string
  po_Command :: "string list"
  po_Stdin :: bool
  po_Stdout :: bool
  po_Stderr :: bool

record execRequest =
  er_Resource :: string
  er_Name :: string
  er_Namespace :: string
  er_SubResource :: string
  er_Options :: podExecOptions

text \<open>What the protocol does with a writer.\<close>

datatype delivery = ByWrite string | ByReadFrom string

fun deliver :: "delivery \<Rightarrow> bufioWriter \<Rightarrow> bufioWriter" where
  "deliver (ByWrite p) w = Write p w"
| "deliver (ByReadFrom p) w = ReadFrom p w"

fun delivered :: "delivery \<Rightarrow> string" where
  "delivered (ByWrite p) = p"
| "delivered (ByReadFrom p) = p"

text \<open>
  The parameters: making an executor for a request, and streaming, which delivers to the two writers
  and may fail afterwards or in between.
\<close>

record 'x remotecommand =
  rc_NewSPDYExecutor :: "string \<Rightarrow> execRequest \<Rightarrow> goerror + 'x"
  rc_Stream :: "'x \<Rightarrow> delivery list \<times> delivery list \<times> goerror option"

definition execRequestFor :: "string \<Rightarrow> string \<Rightarrow> string \<Rightarrow> string list \<Rightarrow> execRequest" where
  "execRequestFor namespace podName containerName command =
     \<lparr>er_Resource = ''pods'', er_Name = podName, er_Namespace = namespace, er_SubResource = ''exec'',
      er_Options = \<lparr>po_Container = containerName, po_Command = command, po_Stdin = False, po_Stdout = True, po_Stderr = True\<rparr>\<rparr>"

text \<open>What the \<open>bytes.Buffer\<close> behind a new writer holds in the end.\<close>

definition collected :: "delivery list \<Rightarrow> string" where
  "collected ds = bw_Sink (fold deliver ds NewWriter)"

definition PodExecutor_Exec ::
  "'x remotecommand \<Rightarrow> string \<Rightarrow> string \<Rightarrow> string \<Rightarrow> string list \<Rightarrow> string \<times> string \<times> goerror option" where
  "PodExecutor_Exec X namespace podName containerName command =
     (case rc_NewSPDYExecutor X ''POST'' (execRequestFor namespace podName containerName command) of
        Inl err \<Rightarrow> ([], [], Some err)
      | Inr executor \<Rightarrow>
          (case rc_Stream X executor of (out, err, e) \<Rightarrow>
             (collected out, collected err, e)))"

section \<open>What is returned\<close>

text \<open>A writer never holds more than its buffer, and passes on what it gets in order.\<close>

definition contentOf :: "bufioWriter \<Rightarrow> string" where
  "contentOf w = bw_Sink w @ bw_Buffered w"

definition fits :: "bufioWriter \<Rightarrow> bool" where
  "fits w \<longleftrightarrow> length (bw_Buffered w) \<le> defaultBufSize"

lemma Write_content: "fits w \<Longrightarrow> fits (Write p w) \<and> contentOf (Write p w) = contentOf w @ p"
proof (induction p w rule: Write.induct)
  case (1 p w)
  consider "length p \<le> Available w" | "length p > Available w" "bw_Buffered w = []"
    | "length p > Available w" "bw_Buffered w \<noteq> []" by linarith
  then show ?case
  proof cases
    case 1
    with \<open>fits w\<close> show ?thesis by (simp add: Write.simps [of p w] fits_def contentOf_def Available_def)
  next
    case 2
    then have "fits (w\<lparr>bw_Sink := bw_Sink w @ p\<rparr>)" by (simp add: fits_def)
    with 1(1) 2 show ?thesis by (simp add: Write.simps [of p w] contentOf_def)
  next
    case 3
    then have "fits (Flush (w\<lparr>bw_Buffered := bw_Buffered w @ take (Available w) p\<rparr>))" by (simp add: fits_def Flush_def)
    with 1(2) 3 show ?thesis by (simp add: Write.simps [of p w] contentOf_def Flush_def)
  qed
qed

lemma deliver_content: "fits w \<Longrightarrow> fits (deliver d w) \<and> contentOf (deliver d w) = contentOf w @ delivered d"
  by (cases d) (simp add: Write_content, auto simp: ReadFrom_def Let_def fits_def contentOf_def Flush_def Available_def)

lemma fold_deliver_content:
  "fits w \<Longrightarrow> fits (fold deliver ds w) \<and> contentOf (fold deliver ds w) = contentOf w @ concat (map delivered ds)"
  by (induction ds arbitrary: w) (simp_all add: deliver_content)

lemma NewWriter_fits: "fits NewWriter" "contentOf NewWriter = []"
  by (simp_all add: fits_def contentOf_def NewWriter_def)

lemma collected_prefix:
  obtains lost where "concat (map delivered ds) = collected ds @ lost" and "length lost \<le> defaultBufSize"
proof -
  let ?w = "fold deliver ds NewWriter"
  have "concat (map delivered ds) = collected ds @ bw_Buffered ?w" "length (bw_Buffered ?w) \<le> defaultBufSize"
    using fold_deliver_content [OF NewWriter_fits(1), of ds] NewWriter_fits(2)
    by (simp_all add: fits_def contentOf_def collected_def)
  then show thesis by (rule that)
qed

lemma collected_ReadFrom: "collected (map ByReadFrom ps) = concat ps"
proof -
  have "fold deliver (map ByReadFrom ps) \<lparr>bw_Buffered = [], bw_Sink = s\<rparr> = \<lparr>bw_Buffered = [], bw_Sink = s @ concat ps\<rparr>" for s
    by (induction ps arbitrary: s) (simp_all add: ReadFrom_def Let_def Available_def defaultBufSize_def)
  then show ?thesis by (simp add: collected_def NewWriter_def)
qed

lemma collected_small:
  assumes "length (concat ps) \<le> defaultBufSize"
  shows "collected (map ByWrite ps) = []"
proof -
  have "bw_Sink (fold deliver (map ByWrite ps) w) = bw_Sink w"
    if "length (bw_Buffered w) + length (concat ps) \<le> defaultBufSize" for w
    using that
  proof (induction ps arbitrary: w)
    case (Cons p ps)
    have "Write p w = w\<lparr>bw_Buffered := bw_Buffered w @ p\<rparr>"
      using Cons.prems by (simp add: Write.simps [of p w] Available_def)
    then show ?case using Cons.IH [of "w\<lparr>bw_Buffered := bw_Buffered w @ p\<rparr>"] Cons.prems by simp
  qed simp
  then show ?thesis using assms by (simp add: collected_def NewWriter_def)
qed

text \<open>
  C33. What running a command returns: if streaming starts, the error is that of the stream, and each
  output is a prefix of what was delivered to its writer that lacks at most 4096 bytes at the end.
  Nothing is missing if the protocol lets the writer read from it; if the protocol writes, an output of
  up to 4096 bytes is missing altogether, since the writers are not flushed.
\<close>

theorem PodExecutor_Exec_output:
  assumes "rc_NewSPDYExecutor X ''POST'' (execRequestFor ns pod ctr cmd) = Inr x" and "rc_Stream X x = (out, err, e)"
  shows "\<exists>stdout stderr. PodExecutor_Exec X ns pod ctr cmd = (stdout, stderr, e) \<and>
    (\<forall>(ds, s) \<in> {(out, stdout), (err, stderr)}.
       (\<exists>lost. concat (map delivered ds) = s @ lost \<and> length lost \<le> 4096) \<and>
       (\<forall>ps. ds = map ByReadFrom ps \<longrightarrow> s = concat ps) \<and>
       (\<forall>ps. ds = map ByWrite ps \<and> length (concat ps) \<le> 4096 \<longrightarrow> s = []))"
proof -
  have b: "(\<exists>lost. concat (map delivered ds) = collected ds @ lost \<and> length lost \<le> 4096) \<and>
      (\<forall>ps. ds = map ByReadFrom ps \<longrightarrow> collected ds = concat ps) \<and>
      (\<forall>ps. ds = map ByWrite ps \<and> length (concat ps) \<le> 4096 \<longrightarrow> collected ds = [])" for ds
    using collected_prefix [of ds] collected_ReadFrom collected_small unfolding defaultBufSize_def by metis
  have "PodExecutor_Exec X ns pod ctr cmd = (collected out, collected err, e)"
    using assms by (simp add: PodExecutor_Exec_def)
  then show ?thesis using b by blast
qed

definition exampleRemote :: "unit remotecommand" where
  "exampleRemote = \<lparr>rc_NewSPDYExecutor = (\<lambda>m r. Inr ()), rc_Stream = (\<lambda>_. ([ByReadFrom ''true''], [ByWrite ''lost''], None))\<rparr>"

theorem PodExecutor_Exec_output_witness:
  "PodExecutor_Exec exampleRemote ''ns'' ''rmq-server-0'' ''rabbitmq'' [''true''] = (''true'', [], None)"
proof -
  have 1: "rc_NewSPDYExecutor exampleRemote ''POST'' (execRequestFor ''ns'' ''rmq-server-0'' ''rabbitmq'' [''true'']) = Inr ()"
    and 2: "rc_Stream exampleRemote () = (map ByReadFrom [''true''], map ByWrite [''lost''], None)"
    by (simp_all add: exampleRemote_def)
  obtain stdout stderr where
    r: "PodExecutor_Exec exampleRemote ''ns'' ''rmq-server-0'' ''rabbitmq'' [''true''] = (stdout, stderr, None)"
    and o': "\<forall>ps. map ByReadFrom [''true''] = map ByReadFrom ps \<longrightarrow> stdout = concat ps"
    and e: "\<forall>ps. map ByWrite [''lost''] = map ByWrite ps \<and> length (concat ps) \<le> 4096 \<longrightarrow> stderr = []"
    using PodExecutor_Exec_output [OF 1 2] unfolding ball_simps prod.case by blast
  have "stdout = ''true''" using o' [rule_format, of "[''true'']"] by simp
  moreover have "stderr = []" using e [rule_format, of "[''lost'']"] by simp
  ultimately show ?thesis using r by simp
qed

end
