(* ===== verification/Deep_Copy.thy ===== *)
theory Deep_Copy
  imports Prelude
begin

text \<open>
  The generated deep copies, \<open>zz_generated.deepcopy.go\<close> of the packages \<open>v1beta1\<close> and \<open>status\<close>. Everywhere
  else in this development values are immutable; here memory is explicit, since what a deep copy
  promises is that the copy shares no memory with the original: the controllers change a cluster after
  copying it and send the difference to the server. The declared types and, for each generated
  function, the fields it treats specially are given as tables; a function is right if it makes a new
  object for every pointer, slice and map of the declared type.
\<close>

section \<open>Memory\<close>

datatype refKind = Pointer | Slice | GoMap

text \<open>
  A value is a scalar without references, nil, a reference or a struct held in place. A cell holds the
  target of a pointer, the elements of a slice or the entries of a map; only for maps the names matter.
\<close>

datatype val = Scalar string | NilRef | Ref nat | Struct "(string \<times> val) list"

type_synonym cell = "refKind \<times> (string \<times> val) list"

record heap =
  cells :: "nat \<Rightarrow> cell option"
  lim :: nat \<comment> \<open>all cells in use are below\<close>

definition wf_heap :: "heap \<Rightarrow> bool" where
  "wf_heap h \<longleftrightarrow> (\<forall>a. cells h a \<noteq> None \<longrightarrow> a < lim h)"

definition alloc :: "cell \<Rightarrow> heap \<Rightarrow> val \<times> heap" where
  "alloc c h = (Ref (lim h), \<lparr>cells = (cells h)(lim h \<mapsto> c), lim = Suc (lim h)\<rparr>)"

text \<open>Heap extension: what was allocated stays as it is.\<close>

definition extends :: "heap \<Rightarrow> heap \<Rightarrow> bool" where
  "extends h h' \<longleftrightarrow> wf_heap h' \<and> lim h \<le> lim h' \<and> (\<forall>a < lim h. cells h' a = cells h a)"

section \<open>Types, copies and what a value represents\<close>

datatype ty = TScalar | TRef refKind ty | TStruct "(string \<times> ty) list" | TExternal string

text \<open>
  What a generated function does with a field: \<open>Plain\<close> is the assignment that begins the function,
  \<open>Fresh\<close> allocates a new object and copies the contents, \<open>Into\<close> is the generated function of a struct in
  place, and \<open>External\<close> the function of another package.
\<close>

datatype copyOp = Plain | Fresh refKind copyOp | Into "(string \<times> copyOp) list" | External string

definition opFor :: "(string \<times> copyOp) list \<Rightarrow> string \<Rightarrow> copyOp" where
  "opFor ops f = (case map_of ops f of None \<Rightarrow> Plain | Some c \<Rightarrow> c)"

lemma size_opFor: "size (opFor ops f) < Suc (size_list (size_prod (\<lambda>_. 0) size) ops)"
proof (cases "map_of ops f")
  case (Some c)
  then have "(f, c) \<in> set ops" by (rule map_of_SomeD)
  then have "size_prod (\<lambda>_. 0) size (f, c) \<le> size_list (size_prod (\<lambda>_. 0) size) ops"
    by (rule size_list_estimation') simp
  then show ?thesis using Some by (simp add: opFor_def)
qed (simp add: opFor_def)

text \<open>A tree without addresses: what a value represents.\<close>

datatype tree = Leaf string | Absent | Node refKind "(string \<times> tree) list" | Record "(string \<times> tree) list"

text \<open>
  The types of other packages are parameters: how their values are read, with the addresses in use,
  and their deep copy.
\<close>

record external =
  e_read :: "string \<Rightarrow> heap \<Rightarrow> val \<Rightarrow> (tree \<times> nat list) option"
  e_copy :: "string \<Rightarrow> val \<Rightarrow> heap \<Rightarrow> val \<times> heap"

fun sequence :: "(string \<times> (tree \<times> nat list) option) list \<Rightarrow> ((string \<times> tree) list \<times> nat list) option" where
  "sequence [] = Some ([], [])"
| "sequence ((f, r) # rs) = (case (r, sequence rs) of
     (Some (t, as), Some (ts, bs)) \<Rightarrow> Some ((f, t) # ts, as @ bs) | _ \<Rightarrow> None)"

lemma size_field: "(f, t) \<in> set ts \<Longrightarrow> size t < Suc (size_list (size_prod (\<lambda>_. 0) size) ts)"
  using size_list_estimation' [of "(f, t)" ts "size t" "size_prod (\<lambda>_. 0) size"] by simp

text \<open>Reading a value of a type: the tree it represents and the addresses it uses, or nothing if it does not conform.\<close>

function (sequential) read :: "external \<Rightarrow> ty \<Rightarrow> heap \<Rightarrow> val \<Rightarrow> (tree \<times> nat list) option" where
  "read E TScalar h (Scalar s) = Some (Leaf s, [])"
| "read E (TRef k t) h NilRef = Some (Absent, [])"
| "read E (TRef k t) h (Ref a) = (case cells h a of
     Some (k', es) \<Rightarrow> if k' = k
       then map_option (\<lambda>(ts, as). (Node k ts, a # as)) (sequence (map (\<lambda>(f, v). (f, read E t h v)) es))
       else None
   | None \<Rightarrow> None)"
| "read E (TStruct ts) h (Struct fs) = (if map fst fs = map fst ts
     then map_option (\<lambda>(rs, as). (Record rs, as))
       (sequence (map (\<lambda>(f, v). (f, case map_of ts f of None \<Rightarrow> None | Some t \<Rightarrow> read E t h v)) fs))
     else None)"
| "read E (TExternal e) h v = e_read E e h v"
| "read E _ h _ = None"
  by pat_completeness auto

termination
proof (relation "measure (\<lambda>(E, t, h, v). size t)")
  fix E :: external and ts :: "(string \<times> ty) list" and h :: heap and f :: string and v :: val and t :: ty and fs p
  assume "map_of ts f = Some t"
  then show "((E, t, h, v), (E, TStruct ts, h, Struct fs)) \<in> measure (\<lambda>(E, t, h, v). size t)"
    using size_field [OF map_of_SomeD] by simp
qed auto

section \<open>Running a copy\<close>

fun copyEach :: "(string \<Rightarrow> val \<Rightarrow> heap \<Rightarrow> val \<times> heap) \<Rightarrow> (string \<times> val) list \<Rightarrow> heap \<Rightarrow> (string \<times> val) list \<times> heap" where
  "copyEach g [] h = ([], h)"
| "copyEach g ((f, v) # xs) h =
     (let (v', h1) = g f v h; (xs', h2) = copyEach g xs h1 in ((f, v') # xs', h2))"

lemma copyEach_cong [fundef_cong]:
  assumes "xs = ys" and "h = h'" and "\<And>f v h. (f, v) \<in> set ys \<Longrightarrow> g f v h = g' f v h"
  shows "copyEach g xs h = copyEach g' ys h'"
proof -
  have "copyEach g ys h' = copyEach g' ys h'"
    using assms(3) by (induction ys arbitrary: h') (auto split: prod.splits)
  then show ?thesis using assms(1,2) by simp
qed

function (sequential) copyVal :: "external \<Rightarrow> copyOp \<Rightarrow> val \<Rightarrow> heap \<Rightarrow> val \<times> heap" where
  "copyVal E Plain v h = (v, h)"
| "copyVal E (Fresh k c) (Ref a) h = (case cells h a of
     Some (k', es) \<Rightarrow> (let (es', h1) = copyEach (\<lambda>_ v h. copyVal E c v h) es h in alloc (k, es') h1)
   | None \<Rightarrow> (Ref a, h))"
| "copyVal E (Into ops) (Struct fs) h =
     (let (fs', h1) = copyEach (\<lambda>f v h. copyVal E (opFor ops f) v h) fs h in (Struct fs', h1))"
| "copyVal E (External e) v h = e_copy E e v h"
| "copyVal E _ v h = (v, h)"
  by pat_completeness auto

termination
  by (relation "measure (\<lambda>(E, c, v, h). size c)") (auto simp: size_opFor)

section \<open>The declared types\<close>

text \<open>
  A \<open>TScalar\<close> is a type without references: numbers, booleans, strings and the structs of strings
  \<open>TypeMeta\<close>, \<open>LocalObjectReference\<close> and \<open>StatefulSetPersistentVolumeClaimRetentionPolicy\<close>.
\<close>

definition EmbeddedLabelsAnnotations_ty :: ty where
  "EmbeddedLabelsAnnotations_ty = TStruct [
    (''Labels'', TRef GoMap TScalar), (''Annotations'', TRef GoMap TScalar)]"

definition EmbeddedObjectMeta_ty :: ty where
  "EmbeddedObjectMeta_ty = TStruct [
    (''Name'', TScalar), (''Namespace'', TScalar), (''Labels'', TRef GoMap TScalar),
    (''Annotations'', TRef GoMap TScalar)]"

definition PodTemplateSpec_ty :: ty where
  "PodTemplateSpec_ty = TStruct [
    (''EmbeddedObjectMeta'', TRef Pointer EmbeddedObjectMeta_ty),
    (''Spec'', TRef Pointer (TExternal ''PodSpec''))]"

definition PersistentVolumeClaim_ty :: ty where
  "PersistentVolumeClaim_ty = TStruct [
    (''TypeMeta'', TScalar), (''EmbeddedObjectMeta'', EmbeddedObjectMeta_ty),
    (''Spec'', TExternal ''PersistentVolumeClaimSpec'')]"

definition StatefulSetSpec_ty :: ty where
  "StatefulSetSpec_ty = TStruct [
    (''Replicas'', TRef Pointer TScalar), (''Selector'', TRef Pointer (TExternal ''LabelSelector'')),
    (''Template'', TRef Pointer PodTemplateSpec_ty),
    (''VolumeClaimTemplates'', TRef Slice PersistentVolumeClaim_ty), (''ServiceName'', TScalar),
    (''PodManagementPolicy'', TScalar),
    (''UpdateStrategy'', TRef Pointer (TExternal ''StatefulSetUpdateStrategy'')),
    (''MinReadySeconds'', TScalar), (''PersistentVolumeClaimRetentionPolicy'', TRef Pointer TScalar)]"

definition StatefulSet_ty :: ty where
  "StatefulSet_ty = TStruct [
    (''EmbeddedLabelsAnnotations'', TRef Pointer EmbeddedLabelsAnnotations_ty),
    (''Spec'', TRef Pointer StatefulSetSpec_ty)]"

definition Service_ty :: ty where
  "Service_ty = TStruct [
    (''EmbeddedLabelsAnnotations'', TRef Pointer EmbeddedLabelsAnnotations_ty),
    (''Spec'', TRef Pointer (TExternal ''ServiceSpec''))]"

definition RabbitmqClusterOverrideSpec_ty :: ty where
  "RabbitmqClusterOverrideSpec_ty = TStruct [
    (''StatefulSet'', TRef Pointer StatefulSet_ty), (''Service'', TRef Pointer Service_ty)]"

definition VaultTLSSpec_ty :: ty where
  "VaultTLSSpec_ty = TStruct [
    (''PKIIssuerPath'', TScalar), (''CommonName'', TScalar), (''AltNames'', TScalar),
    (''IpSans'', TScalar), (''PKIRootPath'', TScalar)]"

definition VaultSpec_ty :: ty where
  "VaultSpec_ty = TStruct [
    (''Role'', TScalar), (''Annotations'', TRef GoMap TScalar), (''DefaultUserPath'', TScalar),
    (''DefaultUserUpdaterImage'', TRef Pointer TScalar), (''TLS'', VaultTLSSpec_ty)]"

definition SecretBackend_ty :: ty where
  "SecretBackend_ty = TStruct [
    (''Vault'', TRef Pointer VaultSpec_ty), (''ExternalSecret'', TScalar)]"

definition TLSSpec_ty :: ty where
  "TLSSpec_ty = TStruct [
    (''SecretName'', TScalar), (''CaSecretName'', TScalar), (''DisableNonTLSListeners'', TScalar)]"

definition RabbitmqClusterConfigurationSpec_ty :: ty where
  "RabbitmqClusterConfigurationSpec_ty = TStruct [
    (''AdditionalPlugins'', TRef Slice TScalar), (''AdditionalConfig'', TScalar),
    (''AdvancedConfig'', TScalar), (''EnvConfig'', TScalar), (''ErlangInetConfig'', TScalar)]"

definition RabbitmqClusterEmptyDirSpec_ty :: ty where
  "RabbitmqClusterEmptyDirSpec_ty = TStruct [
    (''Medium'', TScalar), (''SizeLimit'', TRef Pointer (TExternal ''Quantity''))]"

definition RabbitmqClusterPersistenceSpec_ty :: ty where
  "RabbitmqClusterPersistenceSpec_ty = TStruct [
    (''StorageClassName'', TRef Pointer TScalar), (''Storage'', TRef Pointer (TExternal ''Quantity'')),
    (''EmptyDir'', TRef Pointer RabbitmqClusterEmptyDirSpec_ty)]"

definition RabbitmqClusterServiceSpec_ty :: ty where
  "RabbitmqClusterServiceSpec_ty = TStruct [
    (''Type'', TScalar), (''Annotations'', TRef GoMap TScalar), (''IPFamilyPolicy'', TRef Pointer TScalar),
    (''Labels'', TRef GoMap TScalar)]"

definition RabbitmqClusterSpec_ty :: ty where
  "RabbitmqClusterSpec_ty = TStruct [
    (''Replicas'', TRef Pointer TScalar), (''Image'', TScalar), (''ImagePullSecrets'', TRef Slice TScalar),
    (''Service'', RabbitmqClusterServiceSpec_ty), (''Persistence'', RabbitmqClusterPersistenceSpec_ty),
    (''Resources'', TRef Pointer (TExternal ''ResourceRequirements'')),
    (''Affinity'', TRef Pointer (TExternal ''Affinity'')),
    (''Tolerations'', TRef Slice (TExternal ''Toleration'')),
    (''Rabbitmq'', RabbitmqClusterConfigurationSpec_ty), (''TLS'', TLSSpec_ty),
    (''Override'', RabbitmqClusterOverrideSpec_ty), (''SkipPostDeploySteps'', TScalar),
    (''AutoEnableAllFeatureFlags'', TScalar), (''TerminationGracePeriodSeconds'', TRef Pointer TScalar),
    (''DelayStartSeconds'', TRef Pointer TScalar), (''SecretBackend'', SecretBackend_ty)]"

definition RabbitmqClusterSecretReference_ty :: ty where
  "RabbitmqClusterSecretReference_ty = TStruct [
    (''Name'', TScalar), (''Namespace'', TScalar), (''Keys'', TRef GoMap TScalar)]"

definition RabbitmqClusterServiceReference_ty :: ty where
  "RabbitmqClusterServiceReference_ty = TStruct [
    (''Name'', TScalar), (''Namespace'', TScalar)]"

definition RabbitmqClusterDefaultUser_ty :: ty where
  "RabbitmqClusterDefaultUser_ty = TStruct [
    (''SecretReference'', TRef Pointer RabbitmqClusterSecretReference_ty),
    (''ServiceReference'', TRef Pointer RabbitmqClusterServiceReference_ty)]"

definition RabbitmqClusterCondition_ty :: ty where
  "RabbitmqClusterCondition_ty = TStruct [
    (''Type'', TScalar), (''Status'', TScalar), (''LastTransitionTime'', TExternal ''Time''),
    (''Reason'', TScalar), (''Message'', TScalar)]"

definition RabbitmqClusterStatus_ty :: ty where
  "RabbitmqClusterStatus_ty = TStruct [
    (''Conditions'', TRef Slice RabbitmqClusterCondition_ty),
    (''DefaultUser'', TRef Pointer RabbitmqClusterDefaultUser_ty), (''Binding'', TRef Pointer TScalar),
    (''ObservedGeneration'', TScalar), (''QuorumStatus'', TScalar),
    (''DeprecatedFeaturesUsed'', TRef Slice TScalar)]"

definition RabbitmqCluster_ty :: ty where
  "RabbitmqCluster_ty = TStruct [
    (''TypeMeta'', TScalar), (''ObjectMeta'', TExternal ''ObjectMeta''),
    (''Spec'', RabbitmqClusterSpec_ty), (''Status'', RabbitmqClusterStatus_ty)]"

definition RabbitmqClusterList_ty :: ty where
  "RabbitmqClusterList_ty = TStruct [
    (''TypeMeta'', TScalar), (''ListMeta'', TExternal ''ListMeta''),
    (''Items'', TRef Slice RabbitmqCluster_ty)]"

definition ClusterAvailableConditionManager_ty :: ty where
  "ClusterAvailableConditionManager_ty = TStruct [
    (''condition'', RabbitmqClusterCondition_ty),
    (''endpointslice'', TRef Pointer (TExternal ''EndpointSlice''))]"

section \<open>The generated functions\<close>

text \<open>Fields that are not listed are copied by the assignment \<open>*out = *in\<close>.\<close>

definition EmbeddedLabelsAnnotations_DeepCopyInto :: copyOp where
  "EmbeddedLabelsAnnotations_DeepCopyInto = Into [
    (''Labels'', Fresh GoMap Plain), (''Annotations'', Fresh GoMap Plain)]"

definition EmbeddedLabelsAnnotations_DeepCopy :: "external \<Rightarrow> val \<Rightarrow> heap \<Rightarrow> val \<times> heap" where
  "EmbeddedLabelsAnnotations_DeepCopy E = copyVal E (Fresh Pointer EmbeddedLabelsAnnotations_DeepCopyInto)"

definition EmbeddedObjectMeta_DeepCopyInto :: copyOp where
  "EmbeddedObjectMeta_DeepCopyInto = Into [
    (''Labels'', Fresh GoMap Plain), (''Annotations'', Fresh GoMap Plain)]"

definition EmbeddedObjectMeta_DeepCopy :: "external \<Rightarrow> val \<Rightarrow> heap \<Rightarrow> val \<times> heap" where
  "EmbeddedObjectMeta_DeepCopy E = copyVal E (Fresh Pointer EmbeddedObjectMeta_DeepCopyInto)"

definition PodTemplateSpec_DeepCopyInto :: copyOp where
  "PodTemplateSpec_DeepCopyInto = Into [
    (''EmbeddedObjectMeta'', Fresh Pointer EmbeddedObjectMeta_DeepCopyInto),
    (''Spec'', Fresh Pointer (External ''PodSpec''))]"

definition PodTemplateSpec_DeepCopy :: "external \<Rightarrow> val \<Rightarrow> heap \<Rightarrow> val \<times> heap" where
  "PodTemplateSpec_DeepCopy E = copyVal E (Fresh Pointer PodTemplateSpec_DeepCopyInto)"

definition PersistentVolumeClaim_DeepCopyInto :: copyOp where
  "PersistentVolumeClaim_DeepCopyInto = Into [
    (''EmbeddedObjectMeta'', EmbeddedObjectMeta_DeepCopyInto),
    (''Spec'', External ''PersistentVolumeClaimSpec'')]"

definition PersistentVolumeClaim_DeepCopy :: "external \<Rightarrow> val \<Rightarrow> heap \<Rightarrow> val \<times> heap" where
  "PersistentVolumeClaim_DeepCopy E = copyVal E (Fresh Pointer PersistentVolumeClaim_DeepCopyInto)"

definition StatefulSetSpec_DeepCopyInto :: copyOp where
  "StatefulSetSpec_DeepCopyInto = Into [
    (''Replicas'', Fresh Pointer Plain), (''Selector'', Fresh Pointer (External ''LabelSelector'')),
    (''Template'', Fresh Pointer PodTemplateSpec_DeepCopyInto),
    (''VolumeClaimTemplates'', Fresh Slice PersistentVolumeClaim_DeepCopyInto),
    (''UpdateStrategy'', Fresh Pointer (External ''StatefulSetUpdateStrategy'')),
    (''PersistentVolumeClaimRetentionPolicy'', Fresh Pointer Plain)]"

definition StatefulSetSpec_DeepCopy :: "external \<Rightarrow> val \<Rightarrow> heap \<Rightarrow> val \<times> heap" where
  "StatefulSetSpec_DeepCopy E = copyVal E (Fresh Pointer StatefulSetSpec_DeepCopyInto)"

definition StatefulSet_DeepCopyInto :: copyOp where
  "StatefulSet_DeepCopyInto = Into [
    (''EmbeddedLabelsAnnotations'', Fresh Pointer EmbeddedLabelsAnnotations_DeepCopyInto),
    (''Spec'', Fresh Pointer StatefulSetSpec_DeepCopyInto)]"

definition StatefulSet_DeepCopy :: "external \<Rightarrow> val \<Rightarrow> heap \<Rightarrow> val \<times> heap" where
  "StatefulSet_DeepCopy E = copyVal E (Fresh Pointer StatefulSet_DeepCopyInto)"

definition Service_DeepCopyInto :: copyOp where
  "Service_DeepCopyInto = Into [
    (''EmbeddedLabelsAnnotations'', Fresh Pointer EmbeddedLabelsAnnotations_DeepCopyInto),
    (''Spec'', Fresh Pointer (External ''ServiceSpec''))]"

definition Service_DeepCopy :: "external \<Rightarrow> val \<Rightarrow> heap \<Rightarrow> val \<times> heap" where
  "Service_DeepCopy E = copyVal E (Fresh Pointer Service_DeepCopyInto)"

definition RabbitmqClusterOverrideSpec_DeepCopyInto :: copyOp where
  "RabbitmqClusterOverrideSpec_DeepCopyInto = Into [
    (''StatefulSet'', Fresh Pointer StatefulSet_DeepCopyInto),
    (''Service'', Fresh Pointer Service_DeepCopyInto)]"

definition RabbitmqClusterOverrideSpec_DeepCopy :: "external \<Rightarrow> val \<Rightarrow> heap \<Rightarrow> val \<times> heap" where
  "RabbitmqClusterOverrideSpec_DeepCopy E = copyVal E (Fresh Pointer RabbitmqClusterOverrideSpec_DeepCopyInto)"

definition VaultTLSSpec_DeepCopyInto :: copyOp where
  "VaultTLSSpec_DeepCopyInto = Into []"

definition VaultTLSSpec_DeepCopy :: "external \<Rightarrow> val \<Rightarrow> heap \<Rightarrow> val \<times> heap" where
  "VaultTLSSpec_DeepCopy E = copyVal E (Fresh Pointer VaultTLSSpec_DeepCopyInto)"

definition VaultSpec_DeepCopyInto :: copyOp where
  "VaultSpec_DeepCopyInto = Into [
    (''Annotations'', Fresh GoMap Plain), (''DefaultUserUpdaterImage'', Fresh Pointer Plain)]"

definition VaultSpec_DeepCopy :: "external \<Rightarrow> val \<Rightarrow> heap \<Rightarrow> val \<times> heap" where
  "VaultSpec_DeepCopy E = copyVal E (Fresh Pointer VaultSpec_DeepCopyInto)"

definition SecretBackend_DeepCopyInto :: copyOp where
  "SecretBackend_DeepCopyInto = Into [
    (''Vault'', Fresh Pointer VaultSpec_DeepCopyInto)]"

definition SecretBackend_DeepCopy :: "external \<Rightarrow> val \<Rightarrow> heap \<Rightarrow> val \<times> heap" where
  "SecretBackend_DeepCopy E = copyVal E (Fresh Pointer SecretBackend_DeepCopyInto)"

definition TLSSpec_DeepCopyInto :: copyOp where
  "TLSSpec_DeepCopyInto = Into []"

definition TLSSpec_DeepCopy :: "external \<Rightarrow> val \<Rightarrow> heap \<Rightarrow> val \<times> heap" where
  "TLSSpec_DeepCopy E = copyVal E (Fresh Pointer TLSSpec_DeepCopyInto)"

definition RabbitmqClusterConfigurationSpec_DeepCopyInto :: copyOp where
  "RabbitmqClusterConfigurationSpec_DeepCopyInto = Into [
    (''AdditionalPlugins'', Fresh Slice Plain)]"

definition RabbitmqClusterConfigurationSpec_DeepCopy :: "external \<Rightarrow> val \<Rightarrow> heap \<Rightarrow> val \<times> heap" where
  "RabbitmqClusterConfigurationSpec_DeepCopy E = copyVal E (Fresh Pointer RabbitmqClusterConfigurationSpec_DeepCopyInto)"

definition RabbitmqClusterEmptyDirSpec_DeepCopyInto :: copyOp where
  "RabbitmqClusterEmptyDirSpec_DeepCopyInto = Into [
    (''SizeLimit'', Fresh Pointer (External ''Quantity''))]"

definition RabbitmqClusterEmptyDirSpec_DeepCopy :: "external \<Rightarrow> val \<Rightarrow> heap \<Rightarrow> val \<times> heap" where
  "RabbitmqClusterEmptyDirSpec_DeepCopy E = copyVal E (Fresh Pointer RabbitmqClusterEmptyDirSpec_DeepCopyInto)"

definition RabbitmqClusterPersistenceSpec_DeepCopyInto :: copyOp where
  "RabbitmqClusterPersistenceSpec_DeepCopyInto = Into [
    (''StorageClassName'', Fresh Pointer Plain), (''Storage'', Fresh Pointer (External ''Quantity'')),
    (''EmptyDir'', Fresh Pointer RabbitmqClusterEmptyDirSpec_DeepCopyInto)]"

definition RabbitmqClusterPersistenceSpec_DeepCopy :: "external \<Rightarrow> val \<Rightarrow> heap \<Rightarrow> val \<times> heap" where
  "RabbitmqClusterPersistenceSpec_DeepCopy E = copyVal E (Fresh Pointer RabbitmqClusterPersistenceSpec_DeepCopyInto)"

definition RabbitmqClusterServiceSpec_DeepCopyInto :: copyOp where
  "RabbitmqClusterServiceSpec_DeepCopyInto = Into [
    (''Annotations'', Fresh GoMap Plain), (''IPFamilyPolicy'', Fresh Pointer Plain),
    (''Labels'', Fresh GoMap Plain)]"

definition RabbitmqClusterServiceSpec_DeepCopy :: "external \<Rightarrow> val \<Rightarrow> heap \<Rightarrow> val \<times> heap" where
  "RabbitmqClusterServiceSpec_DeepCopy E = copyVal E (Fresh Pointer RabbitmqClusterServiceSpec_DeepCopyInto)"

definition RabbitmqClusterSpec_DeepCopyInto :: copyOp where
  "RabbitmqClusterSpec_DeepCopyInto = Into [
    (''Replicas'', Fresh Pointer Plain), (''ImagePullSecrets'', Fresh Slice Plain),
    (''Service'', RabbitmqClusterServiceSpec_DeepCopyInto),
    (''Persistence'', RabbitmqClusterPersistenceSpec_DeepCopyInto),
    (''Resources'', Fresh Pointer (External ''ResourceRequirements'')),
    (''Affinity'', Fresh Pointer (External ''Affinity'')),
    (''Tolerations'', Fresh Slice (External ''Toleration'')),
    (''Rabbitmq'', RabbitmqClusterConfigurationSpec_DeepCopyInto),
    (''Override'', RabbitmqClusterOverrideSpec_DeepCopyInto),
    (''TerminationGracePeriodSeconds'', Fresh Pointer Plain), (''DelayStartSeconds'', Fresh Pointer Plain),
    (''SecretBackend'', SecretBackend_DeepCopyInto)]"

definition RabbitmqClusterSpec_DeepCopy :: "external \<Rightarrow> val \<Rightarrow> heap \<Rightarrow> val \<times> heap" where
  "RabbitmqClusterSpec_DeepCopy E = copyVal E (Fresh Pointer RabbitmqClusterSpec_DeepCopyInto)"

definition RabbitmqClusterSecretReference_DeepCopyInto :: copyOp where
  "RabbitmqClusterSecretReference_DeepCopyInto = Into [
    (''Keys'', Fresh GoMap Plain)]"

definition RabbitmqClusterSecretReference_DeepCopy :: "external \<Rightarrow> val \<Rightarrow> heap \<Rightarrow> val \<times> heap" where
  "RabbitmqClusterSecretReference_DeepCopy E = copyVal E (Fresh Pointer RabbitmqClusterSecretReference_DeepCopyInto)"

definition RabbitmqClusterServiceReference_DeepCopyInto :: copyOp where
  "RabbitmqClusterServiceReference_DeepCopyInto = Into []"

definition RabbitmqClusterServiceReference_DeepCopy :: "external \<Rightarrow> val \<Rightarrow> heap \<Rightarrow> val \<times> heap" where
  "RabbitmqClusterServiceReference_DeepCopy E = copyVal E (Fresh Pointer RabbitmqClusterServiceReference_DeepCopyInto)"

definition RabbitmqClusterDefaultUser_DeepCopyInto :: copyOp where
  "RabbitmqClusterDefaultUser_DeepCopyInto = Into [
    (''SecretReference'', Fresh Pointer RabbitmqClusterSecretReference_DeepCopyInto),
    (''ServiceReference'', Fresh Pointer Plain)]"

definition RabbitmqClusterDefaultUser_DeepCopy :: "external \<Rightarrow> val \<Rightarrow> heap \<Rightarrow> val \<times> heap" where
  "RabbitmqClusterDefaultUser_DeepCopy E = copyVal E (Fresh Pointer RabbitmqClusterDefaultUser_DeepCopyInto)"

definition RabbitmqClusterCondition_DeepCopyInto :: copyOp where
  "RabbitmqClusterCondition_DeepCopyInto = Into [
    (''LastTransitionTime'', External ''Time'')]"

definition RabbitmqClusterCondition_DeepCopy :: "external \<Rightarrow> val \<Rightarrow> heap \<Rightarrow> val \<times> heap" where
  "RabbitmqClusterCondition_DeepCopy E = copyVal E (Fresh Pointer RabbitmqClusterCondition_DeepCopyInto)"

definition RabbitmqClusterStatus_DeepCopyInto :: copyOp where
  "RabbitmqClusterStatus_DeepCopyInto = Into [
    (''Conditions'', Fresh Slice RabbitmqClusterCondition_DeepCopyInto),
    (''DefaultUser'', Fresh Pointer RabbitmqClusterDefaultUser_DeepCopyInto),
    (''Binding'', Fresh Pointer Plain), (''DeprecatedFeaturesUsed'', Fresh Slice Plain)]"

definition RabbitmqClusterStatus_DeepCopy :: "external \<Rightarrow> val \<Rightarrow> heap \<Rightarrow> val \<times> heap" where
  "RabbitmqClusterStatus_DeepCopy E = copyVal E (Fresh Pointer RabbitmqClusterStatus_DeepCopyInto)"

definition RabbitmqCluster_DeepCopyInto :: copyOp where
  "RabbitmqCluster_DeepCopyInto = Into [
    (''ObjectMeta'', External ''ObjectMeta''), (''Spec'', RabbitmqClusterSpec_DeepCopyInto),
    (''Status'', RabbitmqClusterStatus_DeepCopyInto)]"

definition RabbitmqCluster_DeepCopy :: "external \<Rightarrow> val \<Rightarrow> heap \<Rightarrow> val \<times> heap" where
  "RabbitmqCluster_DeepCopy E = copyVal E (Fresh Pointer RabbitmqCluster_DeepCopyInto)"

definition RabbitmqCluster_DeepCopyObject :: "external \<Rightarrow> val \<Rightarrow> heap \<Rightarrow> val \<times> heap" where
  "RabbitmqCluster_DeepCopyObject E p h = (case RabbitmqCluster_DeepCopy E p h of (NilRef, h1) \<Rightarrow> (NilRef, h1) | (c, h1) \<Rightarrow> (c, h1))"

definition RabbitmqClusterList_DeepCopyInto :: copyOp where
  "RabbitmqClusterList_DeepCopyInto = Into [
    (''ListMeta'', External ''ListMeta''), (''Items'', Fresh Slice RabbitmqCluster_DeepCopyInto)]"

definition RabbitmqClusterList_DeepCopy :: "external \<Rightarrow> val \<Rightarrow> heap \<Rightarrow> val \<times> heap" where
  "RabbitmqClusterList_DeepCopy E = copyVal E (Fresh Pointer RabbitmqClusterList_DeepCopyInto)"

definition RabbitmqClusterList_DeepCopyObject :: "external \<Rightarrow> val \<Rightarrow> heap \<Rightarrow> val \<times> heap" where
  "RabbitmqClusterList_DeepCopyObject E p h = (case RabbitmqClusterList_DeepCopy E p h of (NilRef, h1) \<Rightarrow> (NilRef, h1) | (c, h1) \<Rightarrow> (c, h1))"

definition ClusterAvailableConditionManager_DeepCopyInto :: copyOp where
  "ClusterAvailableConditionManager_DeepCopyInto = Into [
    (''condition'', RabbitmqClusterCondition_DeepCopyInto),
    (''endpointslice'', Fresh Pointer (External ''EndpointSlice''))]"

definition ClusterAvailableConditionManager_DeepCopy :: "external \<Rightarrow> val \<Rightarrow> heap \<Rightarrow> val \<times> heap" where
  "ClusterAvailableConditionManager_DeepCopy E = copyVal E (Fresh Pointer ClusterAvailableConditionManager_DeepCopyInto)"

text \<open>Every generated copy, with the type it copies.\<close>

definition generatedCopies :: "external \<Rightarrow> (ty \<times> (val \<Rightarrow> heap \<Rightarrow> val \<times> heap)) list" where
  "generatedCopies E = [
    (EmbeddedLabelsAnnotations_ty, EmbeddedLabelsAnnotations_DeepCopy E),
    (EmbeddedObjectMeta_ty, EmbeddedObjectMeta_DeepCopy E),
    (PodTemplateSpec_ty, PodTemplateSpec_DeepCopy E),
    (PersistentVolumeClaim_ty, PersistentVolumeClaim_DeepCopy E),
    (StatefulSetSpec_ty, StatefulSetSpec_DeepCopy E), (StatefulSet_ty, StatefulSet_DeepCopy E),
    (Service_ty, Service_DeepCopy E),
    (RabbitmqClusterOverrideSpec_ty, RabbitmqClusterOverrideSpec_DeepCopy E),
    (VaultTLSSpec_ty, VaultTLSSpec_DeepCopy E), (VaultSpec_ty, VaultSpec_DeepCopy E),
    (SecretBackend_ty, SecretBackend_DeepCopy E), (TLSSpec_ty, TLSSpec_DeepCopy E),
    (RabbitmqClusterConfigurationSpec_ty, RabbitmqClusterConfigurationSpec_DeepCopy E),
    (RabbitmqClusterEmptyDirSpec_ty, RabbitmqClusterEmptyDirSpec_DeepCopy E),
    (RabbitmqClusterPersistenceSpec_ty, RabbitmqClusterPersistenceSpec_DeepCopy E),
    (RabbitmqClusterServiceSpec_ty, RabbitmqClusterServiceSpec_DeepCopy E),
    (RabbitmqClusterSpec_ty, RabbitmqClusterSpec_DeepCopy E),
    (RabbitmqClusterSecretReference_ty, RabbitmqClusterSecretReference_DeepCopy E),
    (RabbitmqClusterServiceReference_ty, RabbitmqClusterServiceReference_DeepCopy E),
    (RabbitmqClusterDefaultUser_ty, RabbitmqClusterDefaultUser_DeepCopy E),
    (RabbitmqClusterCondition_ty, RabbitmqClusterCondition_DeepCopy E),
    (RabbitmqClusterStatus_ty, RabbitmqClusterStatus_DeepCopy E),
    (RabbitmqCluster_ty, RabbitmqCluster_DeepCopy E),
    (RabbitmqCluster_ty, RabbitmqCluster_DeepCopyObject E),
    (RabbitmqClusterList_ty, RabbitmqClusterList_DeepCopy E),
    (RabbitmqClusterList_ty, RabbitmqClusterList_DeepCopyObject E),
    (ClusterAvailableConditionManager_ty, ClusterAvailableConditionManager_DeepCopy E)]"

lemmas declared_types =
  EmbeddedLabelsAnnotations_ty_def EmbeddedObjectMeta_ty_def PodTemplateSpec_ty_def
  PersistentVolumeClaim_ty_def StatefulSetSpec_ty_def StatefulSet_ty_def Service_ty_def
  RabbitmqClusterOverrideSpec_ty_def VaultTLSSpec_ty_def VaultSpec_ty_def SecretBackend_ty_def
  TLSSpec_ty_def RabbitmqClusterConfigurationSpec_ty_def RabbitmqClusterEmptyDirSpec_ty_def
  RabbitmqClusterPersistenceSpec_ty_def RabbitmqClusterServiceSpec_ty_def RabbitmqClusterSpec_ty_def
  RabbitmqClusterSecretReference_ty_def RabbitmqClusterServiceReference_ty_def
  RabbitmqClusterDefaultUser_ty_def RabbitmqClusterCondition_ty_def RabbitmqClusterStatus_ty_def
  RabbitmqCluster_ty_def RabbitmqClusterList_ty_def ClusterAvailableConditionManager_ty_def

lemmas generated_functions =
  EmbeddedLabelsAnnotations_DeepCopyInto_def EmbeddedObjectMeta_DeepCopyInto_def
  PodTemplateSpec_DeepCopyInto_def PersistentVolumeClaim_DeepCopyInto_def
  StatefulSetSpec_DeepCopyInto_def StatefulSet_DeepCopyInto_def Service_DeepCopyInto_def
  RabbitmqClusterOverrideSpec_DeepCopyInto_def VaultTLSSpec_DeepCopyInto_def VaultSpec_DeepCopyInto_def
  SecretBackend_DeepCopyInto_def TLSSpec_DeepCopyInto_def
  RabbitmqClusterConfigurationSpec_DeepCopyInto_def RabbitmqClusterEmptyDirSpec_DeepCopyInto_def
  RabbitmqClusterPersistenceSpec_DeepCopyInto_def RabbitmqClusterServiceSpec_DeepCopyInto_def
  RabbitmqClusterSpec_DeepCopyInto_def RabbitmqClusterSecretReference_DeepCopyInto_def
  RabbitmqClusterServiceReference_DeepCopyInto_def RabbitmqClusterDefaultUser_DeepCopyInto_def
  RabbitmqClusterCondition_DeepCopyInto_def RabbitmqClusterStatus_DeepCopyInto_def
  RabbitmqCluster_DeepCopyInto_def RabbitmqClusterList_DeepCopyInto_def
  ClusterAvailableConditionManager_DeepCopyInto_def

section \<open>Correctness\<close>

text \<open>A function makes new objects for all references of a declared type.\<close>

function (sequential) complete :: "ty \<Rightarrow> copyOp \<Rightarrow> bool" where
  "complete TScalar Plain = True"
| "complete (TRef k t) (Fresh k' c) = (k' = k \<and> complete t c)"
| "complete (TStruct ts) Plain = list_all (\<lambda>(f, t). complete t Plain) ts"
| "complete (TStruct ts) (Into ops) =
     (list_all (\<lambda>(f, c). map_of ts f \<noteq> None) ops \<and> list_all (\<lambda>(f, t). complete t (opFor ops f)) ts)"
| "complete (TExternal e) (External e') = (e' = e)"
| "complete _ _ = False"
  by pat_completeness auto

termination
  by (relation "measure (\<lambda>(t, c). size t)") (auto simp: size_field)

text \<open>
  A reader depends only on the cells it visits, all of them allocated, and a copy of a value read as
  a tree reads as the same tree, out of new cells only.
\<close>

definition framed :: "(heap \<Rightarrow> val \<Rightarrow> (tree \<times> nat list) option) \<Rightarrow> bool" where
  "framed r \<longleftrightarrow> (\<forall>h v tr as. r h v = Some (tr, as) \<longrightarrow> set as \<subseteq> dom (cells h) \<and>
     (\<forall>h'. (\<forall>a \<in> set as. cells h' a = cells h a) \<longrightarrow> r h' v = Some (tr, as)))"

definition fresh_copy :: "(heap \<Rightarrow> val \<Rightarrow> (tree \<times> nat list) option) \<Rightarrow> (val \<Rightarrow> heap \<Rightarrow> val \<times> heap) \<Rightarrow> bool" where
  "fresh_copy r g \<longleftrightarrow> (\<forall>h v tr as v' h'. wf_heap h \<longrightarrow> r h v = Some (tr, as) \<longrightarrow> g v h = (v', h') \<longrightarrow>
     extends h h' \<and> (\<exists>bs. r h' v' = Some (tr, bs) \<and> set bs \<subseteq> {lim h..<lim h'}))"

text \<open>The deep copies of the other packages are right: documented of every generated copy.\<close>

definition external_law :: "external \<Rightarrow> bool" where
  "external_law E \<longleftrightarrow> (\<forall>e. framed (e_read E e) \<and> fresh_copy (e_read E e) (e_copy E e))"

abbreviation readEach :: "(string \<Rightarrow> heap \<Rightarrow> val \<Rightarrow> (tree \<times> nat list) option) \<Rightarrow> heap \<Rightarrow> (string \<times> val) list
    \<Rightarrow> ((string \<times> tree) list \<times> nat list) option" where
  "readEach r h xs \<equiv> sequence (map (\<lambda>(f, v). (f, r f h v)) xs)"

lemma framedD:
  assumes "framed r" and "r h v = Some (tr, as)"
  shows "set as \<subseteq> dom (cells h)" and "(\<And>a. a \<in> set as \<Longrightarrow> cells h' a = cells h a) \<Longrightarrow> r h' v = Some (tr, as)"
  using assms unfolding framed_def by blast+

lemma extendsD:
  assumes "extends h h'" and "wf_heap h" and "set as \<subseteq> dom (cells h)" and "a \<in> set as"
  shows "cells h' a = cells h a"
  using assms unfolding extends_def wf_heap_def by blast

lemma extends_trans: "extends h h1 \<Longrightarrow> extends h1 h2 \<Longrightarrow> extends h h2"
  unfolding extends_def by auto

lemma readEach_framed:
  assumes "\<And>f v. (f, v) \<in> set xs \<Longrightarrow> framed (r f)" and "readEach r h xs = Some (ts, as)"
  shows "set as \<subseteq> dom (cells h)" and "(\<And>a. a \<in> set as \<Longrightarrow> cells h' a = cells h a) \<Longrightarrow> readEach r h' xs = Some (ts, as)"
proof -
  have "set as \<subseteq> dom (cells h) \<and> ((\<forall>a \<in> set as. cells h' a = cells h a) \<longrightarrow> readEach r h' xs = Some (ts, as))"
    using assms
  proof (induction xs arbitrary: ts as)
    case (Cons x xs)
    obtain f v where x: "x = (f, v)" by force
    obtain t a1 ts1 a2 where 1: "r f h v = Some (t, a1)" and 2: "readEach r h xs = Some (ts1, a2)"
      and 3: "ts = (f, t) # ts1" "as = a1 @ a2"
      using Cons.prems(2) by (auto simp: x split: option.splits)
    have "framed (r f)" using Cons.prems(1) [of f v] x by simp
    moreover have "framed (r f)" if "(f, v) \<in> set xs" for f v using Cons.prems(1) [of f v] that by simp
    ultimately show ?case using Cons.IH [OF _ 2] framedD [of "r f" h v t a1, OF _ 1] 3 x by auto
  qed simp
  then show "set as \<subseteq> dom (cells h)" and "(\<And>a. a \<in> set as \<Longrightarrow> cells h' a = cells h a) \<Longrightarrow> readEach r h' xs = Some (ts, as)"
    by blast+
qed

lemma copyEach_fresh:
  assumes "\<And>f v. (f, v) \<in> set xs \<Longrightarrow> framed (r f) \<and> fresh_copy (r f) (g f)"
    and "wf_heap h" and "readEach r h xs = Some (ts, as)" and "copyEach g xs h = (xs', h')"
  shows "extends h h' \<and> map fst xs' = map fst xs
    \<and> (\<exists>bs. readEach r h' xs' = Some (ts, bs) \<and> set bs \<subseteq> {lim h..<lim h'})"
  using assms
proof (induction xs arbitrary: ts as xs' h)
  case Nil
  then show ?case by (auto simp: extends_def)
next
  case (Cons x xs)
  obtain f v where x: "x = (f, v)" by force
  obtain t a1 ts1 a2 where 1: "r f h v = Some (t, a1)" and 2: "readEach r h xs = Some (ts1, a2)"
    and ts: "ts = (f, t) # ts1"
    using Cons.prems(3) by (auto simp: x split: option.splits)
  obtain v' h1 ys where g: "g f v h = (v', h1)" and ys: "copyEach g xs h1 = (ys, h')" and xs': "xs' = (f, v') # ys"
    using Cons.prems(4) by (auto simp: x split: prod.splits)
  have law: "framed (r f)" "fresh_copy (r f) (g f)" using Cons.prems(1) [of f v] x by simp_all
  obtain b1 where e1: "extends h h1" and b1: "r f h1 v' = Some (t, b1)" "set b1 \<subseteq> {lim h..<lim h1}"
    using law(2) Cons.prems(2) 1 g unfolding fresh_copy_def by blast
  have rest: "readEach r h1 xs = Some (ts1, a2)"
  proof (rule readEach_framed(2) [of xs r h ts1 a2 h1, OF _ 2])
    show framed: "framed (r f)" if "(f, v) \<in> set xs" for f v using Cons.prems(1) [of f v] that by simp
    show "cells h1 a = cells h a" if "a \<in> set a2" for a
      using extendsD [OF e1 Cons.prems(2) readEach_framed(1) [of xs r, OF framed 2] that] .
  qed
  have "extends h1 h' \<and> map fst ys = map fst xs \<and> (\<exists>bs. readEach r h' ys = Some (ts1, bs) \<and> set bs \<subseteq> {lim h1..<lim h'})"
  proof (rule Cons.IH [OF _ _ rest ys])
    show "framed (r f) \<and> fresh_copy (r f) (g f)" if "(f, v) \<in> set xs" for f v
      using Cons.prems(1) [of f v] that by simp
  qed (use e1 in \<open>simp add: extends_def\<close>)
  then obtain b2 where e2: "extends h1 h'" and m: "map fst ys = map fst xs"
    and b2: "readEach r h' ys = Some (ts1, b2)" "set b2 \<subseteq> {lim h1..<lim h'}" by blast
  have "r f h' v' = Some (t, b1)"
    using framedD(2) [OF law(1) b1(1)] b1(2) e2 unfolding extends_def by (meson atLeastLessThan_iff subsetD)
  moreover have "set (b1 @ b2) \<subseteq> {lim h..<lim h'}"
    using b1(2) b2(2) e1 e2 unfolding extends_def by fastforce
  ultimately show ?case using b2(1) m extends_trans [OF e1 e2] by (auto simp: ts x xs')
qed

text \<open>Reading depends only on the cells visited.\<close>

lemma read_framed: "external_law E \<Longrightarrow> framed (read E t)"
proof (induction t rule: measure_induct_rule [of size])
  case (less t)
  show ?case
  proof (cases t)
    case (TExternal e)
    then have "read E t = e_read E e" by (intro ext) simp
    then show ?thesis using less.prems by (simp add: external_law_def)
  next
    case TScalar
    have "read E t h v = Some (tr, as) \<Longrightarrow> as = [] \<and> read E t h' v = Some (tr, as)" for h h' v tr as
      unfolding TScalar by (cases v) auto
    then show ?thesis unfolding framed_def by (metis empty_iff empty_set subsetI)
  next
    case (TRef k t')
    have ih: "framed (read E t')" using less.IH [of t'] less.prems TRef by simp
    show ?thesis unfolding framed_def
    proof (intro allI impI)
      fix h v tr as
      assume r: "read E t h v = Some (tr, as)"
      show "set as \<subseteq> dom (cells h) \<and> (\<forall>h'. (\<forall>a \<in> set as. cells h' a = cells h a) \<longrightarrow> read E t h' v = Some (tr, as))"
      proof (cases v)
        case (Ref a)
        obtain es ts bs where c: "cells h a = Some (k, es)" and e: "readEach (\<lambda>_. read E t') h es = Some (ts, bs)"
          and q: "tr = Node k ts" "as = a # bs"
          using r unfolding TRef Ref by (auto split: option.splits if_splits)
        show ?thesis using readEach_framed [of es "\<lambda>_. read E t'", OF ih e] c e q by (auto simp: TRef Ref)
      qed (use r TRef in auto)
    qed
  next
    case (TStruct ts)
    let ?r = "\<lambda>f h v. case map_of ts f of None \<Rightarrow> None | Some t \<Rightarrow> read E t h v"
    have ih: "framed (?r f)" for f
    proof (cases "map_of ts f")
      case (Some u)
      then show ?thesis using less.IH [of u] less.prems size_field [OF map_of_SomeD [OF Some]] TStruct by simp
    qed (simp add: framed_def)
    show ?thesis unfolding framed_def
    proof (intro allI impI)
      fix h v tr as
      assume r: "read E t h v = Some (tr, as)"
      show "set as \<subseteq> dom (cells h) \<and> (\<forall>h'. (\<forall>a \<in> set as. cells h' a = cells h a) \<longrightarrow> read E t h' v = Some (tr, as))"
      proof (cases v)
        case (Struct fs)
        then obtain rs where m: "map fst fs = map fst ts" and q: "tr = Record rs"
          and e: "readEach ?r h fs = Some (rs, as)"
          using r unfolding TStruct by (auto split: if_splits)
        show ?thesis using readEach_framed [of fs ?r, OF ih e] m q by (auto simp: TStruct Struct)
      qed (use r TStruct in auto)
    qed
  qed
qed

text \<open>Without references nothing needs copying.\<close>

lemma readEach_no_refs:
  assumes "\<And>f v tr as. (f, v) \<in> set xs \<Longrightarrow> r f h v = Some (tr, as) \<Longrightarrow> as = []" and "readEach r h xs = Some (ts, as)"
  shows "as = []"
  using assms
proof (induction xs arbitrary: ts as)
  case (Cons x xs)
  obtain f v where x: "x = (f, v)" by force
  obtain t a1 ts1 a2 where 1: "r f h v = Some (t, a1)" and 2: "readEach r h xs = Some (ts1, a2)" and 3: "as = a1 @ a2"
    using Cons.prems(2) by (auto simp: x split: option.splits)
  have "a1 = []" using Cons.prems(1) [of f v t a1] 1 x by simp
  moreover have "a2 = []"
  proof (rule Cons.IH [OF _ 2])
    show "as = []" if "(f, v) \<in> set xs" and "r f h v = Some (tr, as)" for f v tr as
      using Cons.prems(1) [of f v tr as] that by simp
  qed
  ultimately show ?case using 3 by simp
qed simp

lemma plain_no_refs: "complete t Plain \<Longrightarrow> read E t h v = Some (tr, as) \<Longrightarrow> as = []"
proof (induction t arbitrary: v tr as rule: measure_induct_rule [of size])
  case (less t)
  show ?case
  proof (cases t)
    case TScalar
    then show ?thesis using less.prems by (cases v) auto
  next
    case (TStruct ts)
    let ?r = "\<lambda>f h v. case map_of ts f of None \<Rightarrow> None | Some t \<Rightarrow> read E t h v"
    obtain fs rs where "v = Struct fs" and e: "readEach ?r h fs = Some (rs, as)"
      using less.prems(2) TStruct by (cases v) (auto split: if_splits)
    show ?thesis
    proof (rule readEach_no_refs [of fs ?r h, OF _ e])
      fix f v tr as
      assume "?r f h v = Some (tr, as)"
      then obtain u where u: "map_of ts f = Some u" and ru: "read E u h v = Some (tr, as)"
        by (auto split: option.splits)
      have "complete u Plain" using less.prems(1) map_of_SomeD [OF u] TStruct by (auto simp: list_all_iff)
      then show "as = []" using less.IH [OF _ _ ru] size_field [OF map_of_SomeD [OF u]] TStruct by simp
    qed
  qed (use less.prems in auto)
qed

lemma extends_refl: "wf_heap h \<Longrightarrow> extends h h"
  by (simp add: extends_def)

lemma fresh_copyI:
  assumes "\<And>h v tr as v' h'. wf_heap h \<Longrightarrow> r h v = Some (tr, as) \<Longrightarrow> g v h = (v', h') \<Longrightarrow>
     extends h h' \<and> (\<exists>bs. r h' v' = Some (tr, bs) \<and> set bs \<subseteq> {lim h..<lim h'})"
  shows "fresh_copy r g"
  using assms unfolding fresh_copy_def by blast

lemma plain_fresh: "complete t Plain \<Longrightarrow> fresh_copy (read E t) (copyVal E Plain)"
  using plain_no_refs by (intro fresh_copyI) (force simp: extends_refl)

text \<open>A new object for the copied contents.\<close>

lemma ref_fresh:
  assumes "framed (read E t)" and "fresh_copy (read E t) (copyVal E c)"
  shows "fresh_copy (read E (TRef k t)) (copyVal E (Fresh k c))"
proof (rule fresh_copyI)
  fix h v tr as v' h'
  assume wf: "wf_heap h" and r: "read E (TRef k t) h v = Some (tr, as)" and c: "copyVal E (Fresh k c) v h = (v', h')"
  show "extends h h' \<and> (\<exists>bs. read E (TRef k t) h' v' = Some (tr, bs) \<and> set bs \<subseteq> {lim h..<lim h'})"
  proof (cases v)
    case (Ref a)
    obtain es ts xs where a: "cells h a = Some (k, es)" and e: "readEach (\<lambda>_. read E t) h es = Some (ts, xs)"
      and tr: "tr = Node k ts"
      using r unfolding Ref by (auto split: option.splits if_splits)
    obtain es' h1 where ce: "copyEach (\<lambda>_. copyVal E c) es h = (es', h1)" and al: "alloc (k, es') h1 = (v', h')"
      using c a unfolding Ref by (auto split: prod.splits)
    obtain bs where e1: "extends h h1" and e2: "readEach (\<lambda>_. read E t) h1 es' = Some (ts, bs)"
      and bs: "set bs \<subseteq> {lim h..<lim h1}"
      using copyEach_fresh [of es "\<lambda>_. read E t" "\<lambda>_. copyVal E c", OF _ wf e ce] assms by blast
    have h': "v' = Ref (lim h1)" "h' = \<lparr>cells = (cells h1)(lim h1 \<mapsto> (k, es')), lim = Suc (lim h1)\<rparr>"
      using al by (simp_all add: alloc_def)
    have "readEach (\<lambda>_. read E t) h' es' = Some (ts, bs)"
      using bs by (intro readEach_framed(2) [of es' "\<lambda>_. read E t", OF assms(1) e2]) (auto simp: h')
    then have "read E (TRef k t) h' v' = Some (tr, lim h1 # bs)" by (simp add: h' tr)
    moreover have "extends h h'" using e1 by (auto simp: h' extends_def wf_heap_def less_Suc_eq)
    ultimately show ?thesis using bs e1 by (fastforce simp: h' extends_def)
  qed (use r c wf in \<open>auto simp: extends_refl\<close>)
qed

text \<open>A complete function copies.\<close>

lemma complete_fresh:
  assumes "external_law E" and "complete t c"
  shows "fresh_copy (read E t) (copyVal E c)"
  using assms(2)
proof (induction t arbitrary: c rule: measure_induct_rule [of size])
  case (less t)
  show ?case
  proof (cases c)
    case Plain
    show ?thesis using less.prems unfolding Plain by (rule plain_fresh)
  next
    case (External e)
    then have "t = TExternal e" using less.prems by (cases t) auto
    then have "read E t = e_read E e" and "copyVal E c = e_copy E e" using External by (intro ext, simp)+
    then show ?thesis using assms(1) by (simp add: external_law_def)
  next
    case (Fresh k c')
    then obtain t' where "t = TRef k t'" and "complete t' c'" using less.prems by (cases t) auto
    then show ?thesis using ref_fresh [OF read_framed [OF assms(1)]] less.IH [of t' c'] Fresh by simp
  next
    case (Into ops)
    then obtain ts where t: "t = TStruct ts" using less.prems by (cases t) auto
    let ?r = "\<lambda>f h v. case map_of ts f of None \<Rightarrow> None | Some t \<Rightarrow> read E t h v"
    have each: "framed (?r f) \<and> fresh_copy (?r f) (copyVal E (opFor ops f))" for f
    proof (cases "map_of ts f")
      case (Some u)
      have "complete u (opFor ops f)" using less.prems map_of_SomeD [OF Some] t Into by (auto simp: list_all_iff)
      then show ?thesis
        using less.IH [of u] read_framed [OF assms(1), of u] size_field [OF map_of_SomeD [OF Some]] Some t by simp
    qed (simp add: framed_def fresh_copy_def)
    show ?thesis
    proof (rule fresh_copyI)
      fix h v tr as v' h'
      assume wf: "wf_heap h" and r: "read E t h v = Some (tr, as)" and cv: "copyVal E c v h = (v', h')"
      obtain fs rs where v: "v = Struct fs" and m: "map fst fs = map fst ts" and tr: "tr = Record rs"
        and e: "readEach ?r h fs = Some (rs, as)"
        using r unfolding t by (cases v) (auto split: if_splits)
      obtain fs' where ce: "copyEach (\<lambda>f. copyVal E (opFor ops f)) fs h = (fs', h')" and v': "v' = Struct fs'"
        using cv unfolding Into v by (auto split: prod.splits)
      show "extends h h' \<and> (\<exists>bs. read E t h' v' = Some (tr, bs) \<and> set bs \<subseteq> {lim h..<lim h'})"
        using copyEach_fresh [of fs ?r "\<lambda>f. copyVal E (opFor ops f)", OF each wf e ce] m by (auto simp: t v' tr)
    qed
  qed
qed

section \<open>The generated functions are complete\<close>

lemma generated_complete:
  shows "complete EmbeddedLabelsAnnotations_ty EmbeddedLabelsAnnotations_DeepCopyInto"
    and "complete EmbeddedObjectMeta_ty EmbeddedObjectMeta_DeepCopyInto"
    and "complete PodTemplateSpec_ty PodTemplateSpec_DeepCopyInto"
    and "complete PersistentVolumeClaim_ty PersistentVolumeClaim_DeepCopyInto"
    and "complete StatefulSetSpec_ty StatefulSetSpec_DeepCopyInto"
    and "complete StatefulSet_ty StatefulSet_DeepCopyInto"
    and "complete Service_ty Service_DeepCopyInto"
    and "complete RabbitmqClusterOverrideSpec_ty RabbitmqClusterOverrideSpec_DeepCopyInto"
    and "complete VaultTLSSpec_ty VaultTLSSpec_DeepCopyInto"
    and "complete VaultSpec_ty VaultSpec_DeepCopyInto"
    and "complete SecretBackend_ty SecretBackend_DeepCopyInto"
    and "complete TLSSpec_ty TLSSpec_DeepCopyInto"
    and "complete RabbitmqClusterConfigurationSpec_ty RabbitmqClusterConfigurationSpec_DeepCopyInto"
    and "complete RabbitmqClusterEmptyDirSpec_ty RabbitmqClusterEmptyDirSpec_DeepCopyInto"
    and "complete RabbitmqClusterPersistenceSpec_ty RabbitmqClusterPersistenceSpec_DeepCopyInto"
    and "complete RabbitmqClusterServiceSpec_ty RabbitmqClusterServiceSpec_DeepCopyInto"
    and "complete RabbitmqClusterSpec_ty RabbitmqClusterSpec_DeepCopyInto"
    and "complete RabbitmqClusterSecretReference_ty RabbitmqClusterSecretReference_DeepCopyInto"
    and "complete RabbitmqClusterServiceReference_ty RabbitmqClusterServiceReference_DeepCopyInto"
    and "complete RabbitmqClusterDefaultUser_ty RabbitmqClusterDefaultUser_DeepCopyInto"
    and "complete RabbitmqClusterCondition_ty RabbitmqClusterCondition_DeepCopyInto"
    and "complete RabbitmqClusterStatus_ty RabbitmqClusterStatus_DeepCopyInto"
    and "complete RabbitmqCluster_ty RabbitmqCluster_DeepCopyInto"
    and "complete RabbitmqClusterList_ty RabbitmqClusterList_DeepCopyInto"
    and "complete ClusterAvailableConditionManager_ty ClusterAvailableConditionManager_DeepCopyInto"
  by (simp_all add: declared_types generated_functions opFor_def)

lemmas generated_copies =
  EmbeddedLabelsAnnotations_DeepCopy_def EmbeddedObjectMeta_DeepCopy_def
  PodTemplateSpec_DeepCopy_def PersistentVolumeClaim_DeepCopy_def StatefulSetSpec_DeepCopy_def
  StatefulSet_DeepCopy_def Service_DeepCopy_def RabbitmqClusterOverrideSpec_DeepCopy_def
  VaultTLSSpec_DeepCopy_def VaultSpec_DeepCopy_def SecretBackend_DeepCopy_def TLSSpec_DeepCopy_def
  RabbitmqClusterConfigurationSpec_DeepCopy_def RabbitmqClusterEmptyDirSpec_DeepCopy_def
  RabbitmqClusterPersistenceSpec_DeepCopy_def RabbitmqClusterServiceSpec_DeepCopy_def
  RabbitmqClusterSpec_DeepCopy_def RabbitmqClusterSecretReference_DeepCopy_def
  RabbitmqClusterServiceReference_DeepCopy_def RabbitmqClusterDefaultUser_DeepCopy_def
  RabbitmqClusterCondition_DeepCopy_def RabbitmqClusterStatus_DeepCopy_def
  RabbitmqCluster_DeepCopy_def RabbitmqClusterList_DeepCopy_def
  ClusterAvailableConditionManager_DeepCopy_def

lemma DeepCopyObject_DeepCopy:
  "RabbitmqCluster_DeepCopyObject E = RabbitmqCluster_DeepCopy E"
  "RabbitmqClusterList_DeepCopyObject E = RabbitmqClusterList_DeepCopy E"
  by (intro ext, simp add: RabbitmqCluster_DeepCopyObject_def RabbitmqClusterList_DeepCopyObject_def split: prod.split val.split)+

lemma generatedCopies_complete:
  assumes "(t, copy) \<in> set (generatedCopies E)"
  obtains c where "complete t c" and "copy = copyVal E (Fresh Pointer c)"
  using assms generated_complete
  by (simp add: generatedCopies_def DeepCopyObject_DeepCopy generated_copies) blast

lemma generatedCopies_fresh:
  assumes "external_law E" and "(t, copy) \<in> set (generatedCopies E)"
  shows "fresh_copy (read E (TRef Pointer t)) copy"
  using assms(2)
proof (rule generatedCopies_complete)
  fix c
  assume "complete t c" and copy: "copy = copyVal E (Fresh Pointer c)"
  then have "complete (TRef Pointer t) (Fresh Pointer c)" by simp
  then show ?thesis unfolding copy by (rule complete_fresh [OF assms(1)])
qed

text \<open>
  C12. Every generated \<open>DeepCopy\<close> and \<open>DeepCopyObject\<close> returns a copy that represents the same value as
  the original and shares no memory with it: whatever is written to the cells of the original leaves
  the copy as it was, and whatever is written to the cells of the copy leaves the original as it was.
  This is what the patches of the controllers rely on: they copy the cluster, change it and send the
  difference. It holds because the functions make a new object for every pointer, slice and map of
  the declared types, given that the deep copies of the Kubernetes types do.
\<close>

theorem DeepCopy_isolated:
  assumes "external_law E" and "(t, copy) \<in> set (generatedCopies E)"
    and "wf_heap h" and "read E (TRef Pointer t) h p = Some (tr, as)" and "copy p h = (q, h')"
  shows "\<exists>bs. read E (TRef Pointer t) h' q = Some (tr, bs) \<and> read E (TRef Pointer t) h' p = Some (tr, as)
    \<and> (\<forall>h2. (\<forall>a. a \<notin> set as \<longrightarrow> cells h2 a = cells h' a) \<longrightarrow> read E (TRef Pointer t) h2 q = Some (tr, bs))
    \<and> (\<forall>h2. (\<forall>a. a \<notin> set bs \<longrightarrow> cells h2 a = cells h' a) \<longrightarrow> read E (TRef Pointer t) h2 p = Some (tr, as))"
proof -
  note framed = framedD [OF read_framed [OF assms(1), of "TRef Pointer t"]]
  obtain bs where ext: "extends h h'" and q: "read E (TRef Pointer t) h' q = Some (tr, bs)"
    and bs: "set bs \<subseteq> {lim h..<lim h'}"
    using generatedCopies_fresh [OF assms(1,2)] assms(3-5) unfolding fresh_copy_def by blast
  have p: "read E (TRef Pointer t) h' p = Some (tr, as)"
    using framed(2) [OF assms(4)] extendsD [OF ext assms(3) framed(1) [OF assms(4)]] .
  have "a < lim h" if "a \<in> set as" for a
    using framed(1) [OF assms(4)] that assms(3) unfolding wf_heap_def by blast
  then have disjoint: "a \<notin> set bs" if "a \<in> set as" for a using that bs by fastforce
  have "read E (TRef Pointer t) h2 q = Some (tr, bs)" if "\<forall>a. a \<notin> set as \<longrightarrow> cells h2 a = cells h' a" for h2
    using framed(2) [OF q, of h2] that disjoint by blast
  moreover have "read E (TRef Pointer t) h2 p = Some (tr, as)" if "\<forall>a. a \<notin> set bs \<longrightarrow> cells h2 a = cells h' a" for h2
    using framed(2) [OF p, of h2] that disjoint by blast
  ultimately show ?thesis using p q by blast
qed

text \<open>A reference to the default user's secret, with the types of other packages without references.\<close>

definition flatExternal :: external where
  "flatExternal = \<lparr>e_read = (\<lambda>_ _ v. case v of Scalar s \<Rightarrow> Some (Leaf s, []) | _ \<Rightarrow> None), e_copy = (\<lambda>_ v h. (v, h))\<rparr>"

definition exampleMemory :: heap where
  "exampleMemory = \<lparr>cells = [
     0 \<mapsto> (Pointer, [('''', Struct [(''Name'', Scalar ''r-default-user''), (''Namespace'', Scalar ''ns''), (''Keys'', Ref 1)])]),
     1 \<mapsto> (GoMap, [(''username'', Scalar ''username''), (''password'', Scalar ''password'')])], lim = 2\<rparr>"

lemma flatExternal_law: "external_law flatExternal"
  by (auto simp: external_law_def flatExternal_def framed_def fresh_copy_def extends_refl split: val.splits)

theorem DeepCopy_isolated_witness:
  "\<exists>tr h' bs. RabbitmqClusterSecretReference_DeepCopy flatExternal (Ref 0) exampleMemory = (Ref 3, h')
    \<and> read flatExternal (TRef Pointer RabbitmqClusterSecretReference_ty) h' (Ref 3) = Some (tr, bs)
    \<and> read flatExternal (TRef Pointer RabbitmqClusterSecretReference_ty) (h'\<lparr>cells := (cells h')(1 := None)\<rparr>) (Ref 3) = Some (tr, bs)"
proof -
  let ?t = RabbitmqClusterSecretReference_ty
  obtain tr as where r: "read flatExternal (TRef Pointer ?t) exampleMemory (Ref 0) = Some (tr, as)" and as: "1 \<in> set as"
    by (simp add: RabbitmqClusterSecretReference_ty_def exampleMemory_def)
  obtain h' where c: "RabbitmqClusterSecretReference_DeepCopy flatExternal (Ref 0) exampleMemory = (Ref 3, h')"
    by (simp add: generated_copies generated_functions opFor_def exampleMemory_def alloc_def)
  have wf: "wf_heap exampleMemory" by (simp add: wf_heap_def exampleMemory_def)
  have m: "(?t, RabbitmqClusterSecretReference_DeepCopy flatExternal) \<in> set (generatedCopies flatExternal)"
    by (simp add: generatedCopies_def)
  obtain bs where q: "read flatExternal (TRef Pointer ?t) h' (Ref 3) = Some (tr, bs)"
    and k: "\<And>h2. \<forall>a. a \<notin> set as \<longrightarrow> cells h2 a = cells h' a \<Longrightarrow> read flatExternal (TRef Pointer ?t) h2 (Ref 3) = Some (tr, bs)"
    using DeepCopy_isolated [OF flatExternal_law m wf r c] by blast
  have "\<forall>a. a \<notin> set as \<longrightarrow> cells (h'\<lparr>cells := (cells h')(1 := None)\<rparr>) a = cells h' a" using as by auto
  from k [OF this] show ?thesis using q c by blast
qed

end
