(* ===== verification/Spec2Isabelle.thy ===== *)
theory Spec2Isabelle
  imports Pod_Consistency Ownership Scaling_Machine Access_Control Plugin_Properties Pod_Executor Deep_Copy
begin

text \<open>
  \<^bold>\<open>The RabbitMQ cluster operator.\<close> The operator runs in Kubernetes and keeps, for every resource of
  kind \<open>RabbitmqCluster\<close>, a set of child resources: two services, two config maps, two secrets, a
  service account with role and binding, and the StatefulSet whose pods are the RabbitMQ nodes. The
  repository also holds a plugin for \<open>kubectl\<close>. This development models the Go code under \<open>src/\<close> as
  HOL functions, part by part, and proves what each part promises and how the parts fit together.

  \<^bold>\<open>Parts of the program.\<close> \<open>cmd/main.go\<close> reads flags and environment and starts a manager with two
  controllers and a webhook. The webhook (\<open>internal/webhook\<close>) fills in defaults and refuses dangerous
  overrides. The main controller (\<open>internal/controller\<close>) reads a cluster, runs a fixed list of steps
  and, for each builder of \<open>internal/resource\<close>, builds the child, updates it from the cluster and
  writes it; it scales volumes through \<open>internal/scaling\<close>, runs commands in pods, asks the nodes through
  \<open>internal/rabbitmqclient\<close>, and writes conditions computed by \<open>internal/status\<close> into the status. The
  second controller only maintains the list of deprecated features in the status.

  \<^bold>\<open>How Go is modelled.\<close> Strings are \<open>string\<close>, pointers \<open>option\<close>, structs records, maps optional partial
  functions (a nil map is \<open>None\<close>), errors the datatype \<open>goerror\<close>; a dereference of nil, an assignment to a
  nil map, a failed type assertion or an index out of range is the error \<open>Panic\<close>. 64-bit arithmetic
  that can overflow is done in \<open>64 word\<close>. Code with effects is a state monad with errors (\<open>Effects\<close>): in
  the controllers the state is the history of requests, the cluster in memory and the variables of the
  loop over the builders; in the plugin and in \<open>main\<close> it is the list of actions. Where Go visits a map,
  the order is a parameter that the theorems quantify over. Logging is left out.

  \<^bold>\<open>Theories and sources.\<close>
  \<^item> \<open>Prelude\<close>, \<open>Effects\<close>: Go's strings, numbers and maps; the monad, with a calculus for code that does not panic.
  \<^item> \<open>K8s_Types\<close>: the fields of Kubernetes types the code uses.
  \<^item> \<open>Status\<close>, \<open>Cluster_Types\<close>: \<open>internal/status\<close>, \<open>api/v1beta1\<close>. Every computed condition is an instance of the
    locale \<open>condition_function\<close>.
  \<^item> \<open>Metadata\<close>, \<open>Resource_Builder\<close>, \<open>Base64\<close>, \<open>Ini_File\<close>, \<open>Secrets\<close>, \<open>Service_Builder\<close>, \<open>Server_Config\<close>,
    \<open>Pod_Template\<close>, \<open>StatefulSet_Builder\<close>: \<open>internal/metadata\<close> and \<open>internal/resource\<close>. The locales
    \<open>resource_builder\<close> and \<open>stable_builder\<close> are the contract of a builder (identity kept, updates settle);
    each builder interprets them.
  \<^item> \<open>Webhook\<close>: \<open>internal/webhook\<close>. \<open>Pod_Consistency\<close>, \<open>Child_Resources\<close>: what the builders promise together.
  \<^item> \<open>Controller_Base\<close>, \<open>Reconcile_Steps\<close>, \<open>Reconcile_Runtime\<close>, \<open>Controller\<close>: \<open>internal/controller\<close>, a definition
    per function, and for \<open>Reconcile\<close> one per block of its body. \<open>Scaling\<close>: \<open>internal/scaling\<close>.
  \<^item> \<open>Scaling_Machine\<close>: the abstract machine of replica numbers that the scaling guards refine.
  \<^item> \<open>Status_Writes\<close>, \<open>Ownership\<close>: what a whole reconciliation writes. The locales \<open>write_policy\<close> and
    \<open>write_policy_all\<close> lift a policy from the single write of a status or a child to the reconciliation.
  \<^item> \<open>Rabbitmq_Client\<close>, \<open>Deprecated_Features\<close>: \<open>internal/rabbitmqclient\<close> and the second controller.
  \<^item> \<open>Kubectl_Plugin\<close>, \<open>Plugin_Properties\<close>: \<open>kubectl-rabbitmq\<close>.
  \<^item> \<open>Operator_Main\<close>: \<open>cmd/main.go\<close>, \<open>pkg/profiling\<close> and the functions that register controllers and webhook.
    This theory relates the cache and the watches set up there to the children.
  \<^item> \<open>Access_Control\<close>: the roles in \<open>config/rbac\<close>, the markers in the code they are generated from, and the
    permission each request needs; an instance of \<open>write_policy_all\<close>.
  \<^item> \<open>Pod_Executor\<close>: \<open>internal/controller/pod_executor.go\<close>, with Go's buffered writer.
  \<^item> \<open>Deep_Copy\<close>: both files \<open>zz_generated.deepcopy.go\<close>, over an explicit memory with addresses: the only
    place where sharing matters.

  \<^bold>\<open>What is shown.\<close> Of the builders: updates keep the identity of a child and settle; a pod mounts only
  what exists; services, containers, secrets and clients agree on ports, with the exceptions stated;
  scaling needs no restart; overrides cannot change the service account of the pods, and validator and
  restriction agree. Of the reconciliation: whatever the server answers, it writes only its own
  children; the observed generation moves last; clusters do not shrink; a deletion comes to its end; an
  invalid configuration stops it; volumes are resized only when the StatefulSet is gone, in a bounded
  number of requests, and the resize succeeds if the server cooperates; the two controllers do not
  disturb each other; every request of both is permitted by the roles. Of the set-up: the cache holds
  every child and its changes are routed back to its cluster. Of the generated copies: they share no
  memory with the original. Of the plugin and \<open>main\<close>: no panic, namespaces passed on, no file left behind,
  credentials read back, the order of the set-up. Some theorems record where code and intention differ.

  \<^bold>\<open>Parameters and laws.\<close> Code outside the repository is a parameter. The API server and libraries of
  the controllers are the record \<open>api\<close>, whose answers are functions of the history of requests. Laws name
  what is relied on, each with an instance in an example: \<open>retry_law\<close> (\<open>RetryOnConflict\<close> runs its function
  again on retriable errors), \<open>cou_law\<close> (\<open>CreateOrUpdate\<close> runs its callback at most once and writes what it
  returns), \<open>clock_law\<close>, \<open>pods_law\<close>, \<open>order_law\<close>, \<open>identity_law\<close>, \<open>update_law\<close>, \<open>merge_law\<close> for the server, \<open>reference_only\<close>
  and \<open>reference_idem\<close> for owner references, the laws of the ini library, \<open>random_law\<close>, \<open>iterates\<close> for the order
  of a map, \<open>plugin_law\<close>, \<open>secret_law\<close>, \<open>port_law\<close> for \<open>kubectl\<close>, \<open>cooperating\<close> for the resize,
  \<open>controller_law\<close> for the reference to the controlling owner, \<open>external_law\<close> for the deep copies of Kubernetes
  types. The remote call of the pod executor is the record \<open>remotecommand\<close>.

  \<^bold>\<open>Bounds.\<close> The wait before a deletion polls every 200 ms for three seconds; the model has fuel for
  \<open>waitIterations\<close> = 16 polls, which is enough since the clock advances by at least the time slept, so running
  out of fuel is impossible (\<open>waitForLabel_ends\<close>). The wait for the deletion of a StatefulSet has ten
  rounds as in the code. All other loops run over lists. Numbers of replicas are below \<open>2 ^ 31\<close> where
  they are written to an annotation and read back.

  \<^bold>\<open>Not modelled.\<close> The registration of the API group (\<open>groupversion_info.go\<close>) and of the schemes in \<open>init\<close>,
  which only call a library; flag parsing, done by libraries (the parsed values are arguments); the
  constructors of the builders, which wrap a pointer; logging, debug output and the texts of events;
  fields of Kubernetes types that the code passes through unread; the end-to-end test helpers. What is
  left of the Go code outside these is modelled.
\<close>

section \<open>The children and the cache\<close>

text \<open>
  The manager serves reads of its client from a cache, whose options say which objects of a type it
  holds: those with a given label, or all.
\<close>

definition inCache :: "managerOptions \<Rightarrow> childObject \<Rightarrow> bool" where
  "inCache opts x = (case map_of (ByObject opts) (objectType x) of
     Some (Some (key, value)) \<Rightarrow> mget (Labels (objectMetaOf x)) key = Some value
   | _ \<Rightarrow> True)"

text \<open>The label an override of the cluster gives a child.\<close>

fun overriddenLabel :: "builderKind \<Rightarrow> RabbitmqCluster \<Rightarrow> string \<Rightarrow> string option" where
  "overriddenLabel ServiceBuilder r key = Option.bind (ov_Service (Override (Spec r))) (\<lambda>o'.
     Option.bind (osv_Meta o') (\<lambda>e. mget (el_Labels e) key))"
| "overriddenLabel StatefulSetBuilder r key = Option.bind (ov_StatefulSet (Override (Spec r))) (\<lambda>o'.
     Option.bind (ost_Meta o') (\<lambda>e. mget (el_Labels e) key))"
| "overriddenLabel _ r key = None"

lemma copied_label:
  "mget (Labels (copyLabelsAnnotations m e)) key =
     (case mget (el_Labels e) key of None \<Rightarrow> mget (Labels m) key | Some v \<Rightarrow> Some v)"
  by (auto simp: copyLabelsAnnotations_def mergeMap_def mget_def Let_def map_add_def split: option.splits)

lemma part_of_label:
  "mget (clusterLabels b) (fst rmqLabel) = Some (snd rmqLabel)"
  "mget (serviceLabels b) (fst rmqLabel) = Some (snd rmqLabel)"
proof -
  show 1: "mget (clusterLabels b) (fst rmqLabel) = Some (snd rmqLabel)"
    unfolding clusterLabels_def rmqLabel_def fst_conv snd_conv
    by (subst GetLabels_operator) (simp_all add: HasPrefix_def Label_def)
  then show "mget (serviceLabels b) (fst rmqLabel) = Some (snd rmqLabel)"
    by (auto simp: serviceLabels_def mget_def Let_def split: option.splits)
qed

lemma applyStsOverride_label:
  assumes "applyStsOverride patch b s o' = Inr s'"
  shows "mget (Labels (sts_Meta s')) key =
    (case Option.bind (ost_Meta o') (\<lambda>e. mget (el_Labels e) key) of None \<Rightarrow> mget (Labels (sts_Meta s)) key | Some v \<Rightarrow> Some v)"
  using assms by (auto simp: applyStsOverride_def Let_def bindE_Inr_iff copied_label
      dest!: overrideClaims_meta overrideTemplate_meta split: option.splits if_splits)

lemma childMeta_label: "mget (Labels (childMeta b m)) (fst rmqLabel) = Some (snd rmqLabel)"
  by (simp add: childMeta_def part_of_label)

lemma Service_Update_label:
  assumes "reference_only b" and "Service_Update order patch b u = Inr v"
  shows "mget (Labels (svc_Meta v)) (fst rmqLabel) =
    (case overriddenLabel ServiceBuilder (Instance b) (fst rmqLabel) of None \<Rightarrow> Some (snd rmqLabel) | Some l \<Rightarrow> Some l)"
  using assms(2)
  by (auto simp: Service_Update_def Let_def bindE_Inr_iff applySvcOverride_def reference_names [OF assms(1)]
      part_of_label copied_label split: option.splits sum.splits)

lemma StatefulSet_Update_label:
  assumes "reference_only b" and "StatefulSet_Update patch b u = Inr (v, r')"
  shows "mget (Labels (sts_Meta v)) (fst rmqLabel) =
    (case overriddenLabel StatefulSetBuilder (Instance b) (fst rmqLabel) of None \<Rightarrow> Some (snd rmqLabel) | Some l \<Rightarrow> Some l)"
proof (rule StatefulSet_Update_cases [OF assms(2)])
  fix pvcs tm ts s3 m
  assume 1: "(case ov_StatefulSet (Override (Spec (Instance b))) of
        None \<Rightarrow> s3 = generatedSts b pvcs tm ts u
      | Some o' \<Rightarrow> applyStsOverride patch b (generatedSts b pvcs tm ts u) o' = Inr s3)"
    and m: "SetControllerReference b (sts_Meta s3) = Inr m" and v: "v = s3\<lparr>sts_Meta := m\<rparr>"
  have "mget (Labels (sts_Meta (generatedSts b pvcs tm ts u))) (fst rmqLabel) = Some (snd rmqLabel)"
    by (simp add: generatedSts_def childMeta_label)
  with 1 show ?thesis
    using reference_names(3) [OF assms(1) m] v
    by (cases "ov_StatefulSet (Override (Spec (Instance b)))") (auto dest!: applyStsOverride_label [where key = "fst rmqLabel"] split: option.splits)
qed

lemma updated_label:
  assumes "reference_only b" and "Build d k b = Inr x" and "Update d' k b f x = Inr (y, r', f')"
  shows "mget (Labels (objectMetaOf y)) (fst rmqLabel) =
    (case overriddenLabel k (Instance b) (fst rmqLabel) of None \<Rightarrow> Some (snd rmqLabel) | Some v \<Rightarrow> Some v)"
proof (cases k)
  case ServiceBuilder
  then show ?thesis using assms(3) Service_Update_label [OF assms(1)] by (auto simp: Update_Inr simp del: Update.simps overriddenLabel.simps)
next
  case StatefulSetBuilder
  then show ?thesis using assms(3) StatefulSet_Update_label [OF assms(1)] by (auto simp: Update_Inr simp del: Update.simps overriddenLabel.simps)
next
  case RabbitmqPluginsConfigMapBuilder
  then show ?thesis using assms(2,3)
    by (auto simp: Update_Inr PluginsConfigMap_Build_def PluginsConfigMap_Update_def Let_def bindE_Inr_iff
        reference_names [OF assms(1)] part_of_label simp del: Update.simps)
next
  case ServerConfigMapBuilder
  then show ?thesis using assms(2,3)
    by (auto simp: Update_Inr ServerConfigMap_Build_def ServerConfigMap_Update_def Let_def bindE_Inr_iff
        reference_names [OF assms(1)] part_of_label simp del: Update.simps split: option.splits)
next
  case DefaultUserSecretBuilder
  then show ?thesis using assms(3)
    by (auto simp: Update_Inr DefaultUserSecret_Update_def bindE_Inr_iff reference_names [OF assms(1)] childMeta_label
        simp del: Update.simps split: option.splits)
qed (use assms(3) in \<open>auto simp: Update_Inr HeadlessService_Update_def ErlangCookie_Update_def ServiceAccount_Update_def
      Role_Update_def RoleBinding_Update_def bindE_Inr_iff reference_names [OF assms(1)] childMeta_label simp del: Update.simps\<close>)



section \<open>The way back to the cluster\<close>

text \<open>
  \<open>SetControllerReference\<close> makes the cluster the controller of the object, as \<open>GetControllerOf\<close> finds it.
\<close>

definition controller_law :: "RabbitmqResourceBuilder \<Rightarrow> (objectMeta \<Rightarrow> ownerReference option) \<Rightarrow> bool" where
  "controller_law b controllerOf \<longleftrightarrow> (\<forall>m m'. Scheme b (Instance b) m = Inr m' \<longrightarrow>
     (\<exists>o'. controllerOf m' = Some o' \<and> or_APIVersion o' = ''rabbitmq.com/v1beta1'' \<and> or_Kind o' = ''RabbitmqCluster'' \<and>
        or_Name o' = cluster_Name (Instance b)))"

text \<open>Setting the reference is the last change of the metadata in every update.\<close>

lemma referenced_last:
  assumes "Update d k b f x = Inr (y, r', f')"
  shows "\<exists>m. SetControllerReference b m = Inr (objectMetaOf y)"
proof (cases k)
  case StatefulSetBuilder
  then obtain u v where "y = ChildStatefulSet v" "StatefulSet_Update (d_PodPatch d) b u = Inr (v, r')"
    using assms by (auto simp: Update_Inr simp del: Update.simps)
  then show ?thesis by (auto elim!: StatefulSet_Update_cases)
next
  case DefaultUserSecretBuilder
  then show ?thesis using assms
    by (fastforce simp: Update_Inr DefaultUserSecret_Update_def bindE_Inr_iff simp del: Update.simps split: option.splits)
next
  case ServerConfigMapBuilder
  then show ?thesis using assms
    by (fastforce simp: Update_Inr ServerConfigMap_Update_def Let_def bindE_Inr_iff simp del: Update.simps split: option.splits)
qed (use assms in \<open>force simp: Update_Inr HeadlessService_Update_def Service_Update_def ErlangCookie_Update_def
      PluginsConfigMap_Update_def ServiceAccount_Update_def Role_Update_def RoleBinding_Update_def bindE_Inr_iff Let_def
      simp del: Update.simps\<close>)+

text \<open>
  C17. A change of a child comes back to its cluster: the type of every child is among those the
  controller is set up to own, and once it has been updated its controller is the cluster, under
  whose name the field index files it.
\<close>

theorem children_routed:
  assumes "controller_law b controllerOf" and "Update d k b f x = Inr (y, r', f')"
  shows "objectType y \<in> set (ct_Owns (clusterController rec)) \<and> addResourceToIndex controllerOf y = [cluster_Name (Instance b)] \<and>
    set indexedTypes \<subseteq> set (ct_Owns (clusterController rec))"
proof -
  have "typeOf k \<in> set (ct_Owns (clusterController rec))" by (cases k) (simp_all add: clusterController_def)
  moreover obtain m where "SetControllerReference b m = Inr (objectMetaOf y)" using referenced_last [OF assms(2)] by blast
  then have "Scheme b (Instance b) m = Inr (objectMetaOf y)" by (simp add: SetControllerReference_def split: sum.splits)
  then have "addResourceToIndex controllerOf y = [cluster_Name (Instance b)]"
    using assms(1) unfolding controller_law_def addResourceToIndex_def validateAndGetOwner_def apiGVStr_def ownerKind_def by fastforce
  ultimately show ?thesis
    using Update_type [OF assms(2)] by (simp add: clusterController_def indexedTypes_def)
qed

theorem children_routed_witness:
  "\<exists>y. Update exampleDeps RoleBuilder (exampleBuilder (exampleServer 3)) True
       (ChildRole (Role_Build (exampleBuilder (exampleServer 3)))) = Inr (y, exampleServer 3, True) \<and>
     addResourceToIndex (\<lambda>m. List.find or_Controller (OwnerReferences m)) y = [''rmq'']"
proof -
  let ?b = "exampleBuilder (exampleServer 3)" and ?c = "\<lambda>m. List.find or_Controller (OwnerReferences m)"
  obtain y where y: "Update exampleDeps RoleBuilder ?b True (ChildRole (Role_Build ?b)) = Inr (y, exampleServer 3, True)"
    using exampleRole_updates by blast
  have l: "controller_law ?b ?c"
    by (auto simp: controller_law_def exampleBuilder_def exampleReference_def)
  have "cluster_Name (Instance ?b) = ''rmq''" by (simp add: exampleBuilder_def exampleServer_def)
  with children_routed [OF l y] y show ?thesis by auto
qed

end
